(* ===== verification/Stp_Prelude.thy ===== *)
theory Stp_Prelude
  imports Main "HOL-Library.Word" "HOL-Library.List_Lexorder"
begin

text \<open>
  Shared vocabulary of the development: the Go integer types as fixed-width
  words, the named collections the component proofs draw on, and generic
  facts about association lists, words and iterated steps.
\<close>

unbundle bit_operations_syntax

section \<open>Go integer types\<close>

type_synonym uint8 = "8 word"
type_synonym uint16 = "16 word"
type_synonym uint32 = "32 word"
type_synonym uint64 = "64 word"
type_synonym int32 = "32 word"

text \<open>\<open>i32\<close> is Go's conversion \<open>int32(x)\<close> of a \<open>uint16\<close>; it is
  exact because every 16 bit value is representable.\<close>

definition i32 :: "uint16 \<Rightarrow> int32" where
  "i32 x = ucast x"

text \<open>Signed comparison of \<open>int32\<close> values, Go's \<open>a < b\<close>.\<close>

definition lt32 :: "int32 \<Rightarrow> int32 \<Rightarrow> bool" where
  "lt32 a b \<longleftrightarrow> sint a < sint b"

section \<open>Collections\<close>

named_theorems stp_state "field access after the state updates of the handlers"
named_theorems stp_frame "what a handler leaves unchanged"
named_theorems stp_table "the entries of the rule tables"

section \<open>Words\<close>

lemma unat_i32 [simp]: "unat (i32 x) = unat x"
proof -
  have "unat x < 2 ^ 16"
    using unsigned_less [where ?'a = nat and w = x] by simp
  then have "unat x < 2 ^ 32"
    by simp
  then show ?thesis
    by (simp add: i32_def unsigned_ucast_eq take_bit_nat_eq_self)
qed

lemma i32_inj [simp]: "i32 x = i32 y \<longleftrightarrow> x = y"
  by (metis unat_i32 word_unat_eq_iff)

lemma i32_eq_0_iff [simp]: "i32 x = 0 \<longleftrightarrow> x = 0"
  by (metis unat_i32 unat_eq_zero)

lemma i32_0 [simp]: "i32 0 = 0"
  by (simp add: i32_def)

lemma word_bits_eqI:
  fixes x y :: "'a::len word"
  assumes "list_all (\<lambda>n. bit x n \<longleftrightarrow> bit y n) [0..<LENGTH('a)]"
  shows "x = y"
  using assms by (intro bit_word_eqI) (auto simp: list_all_iff)

lemmas bits_eval = bit_simps upt_rec

section \<open>What a step keeps\<close>

text \<open>\<open>keeps v f\<close>: the view \<open>v\<close> of the state is the same after \<open>f\<close>.\<close>

definition keeps :: "('c \<Rightarrow> 'v) \<Rightarrow> ('c \<Rightarrow> 'c) \<Rightarrow> bool" where
  "keeps v f \<longleftrightarrow> (\<forall>c. v (f c) = v c)"

lemma keepsI: "(\<And>c. v (f c) = v c) \<Longrightarrow> keeps v f"
  by (simp add: keeps_def)

lemma keepsD: "keeps v f \<Longrightarrow> v (f c) = v c"
  by (simp add: keeps_def)

lemma keeps_fold: "(\<And>x. x \<in> set xs \<Longrightarrow> keeps v (f x)) \<Longrightarrow> keeps v (fold f xs)"
  by (induction xs) (simp_all add: keeps_def)

lemma keeps_view: "keeps v f \<Longrightarrow> (\<And>c. w c = g (v c)) \<Longrightarrow> keeps w f"
  by (simp add: keeps_def)

lemma fold_inv: "P c \<Longrightarrow> (\<And>x c. x \<in> set xs \<Longrightarrow> P c \<Longrightarrow> P (f x c)) \<Longrightarrow> P (fold f xs c)"
  by (induction xs arbitrary: c) simp_all

end
