(* ===== verification/Fsm.thy ===== *)
theory Fsm
  imports Stp_Prelude
begin

text \<open>
  The table driven state machine of \<open>utils/fsm/fsm.go\<close> together with the
  \<open>StpStateEvent\<close> subject of \<open>l2/stp/protocol/def.go\<close>.  A machine lives in a
  component of a larger state \<open>'c\<close> (the port, the bridge), so \<open>ProcessEvent\<close>
  takes the accessor pair of that component; the locale \<open>machine_slot\<close> states
  the two laws such a pair obeys and proves the behaviour of \<open>ProcessEvent\<close>
  once for every machine of the protocol.
\<close>

section \<open>States, events, rules\<close>

type_synonym State = int
type_synonym Event = int

datatype FsmError =
    ErrorMachineNotStarted
  | InvalidStateEvent
  | ErrorMachineStateEventExists

type_synonym 'c Callback = "'c \<Rightarrow> State \<times> 'c"
type_synonym 'f Ruleset = "State \<times> Event \<Rightarrow> 'f option"

text \<open>\<open>AddRule\<close> keeps the first callback of a state/event pair.\<close>

definition AddRule :: "'f Ruleset \<Rightarrow> State \<Rightarrow> Event \<Rightarrow> 'f \<Rightarrow> FsmError option \<times> 'f Ruleset" where
  "AddRule r s e cb =
     (case r (s, e) of
        Some _ \<Rightarrow> (Some ErrorMachineStateEventExists, r)
      | None \<Rightarrow> (None, r((s, e) \<mapsto> cb)))"

text \<open>The machine builders call \<open>AddRule\<close> once per line and ignore its result.\<close>

definition AddRules :: "((State \<times> Event) \<times> 'f) list \<Rightarrow> 'f Ruleset \<Rightarrow> 'f Ruleset" where
  "AddRules rs r = fold (\<lambda>((s, e), cb) r. snd (AddRule r s e cb)) rs r"

section \<open>The machine\<close>

text \<open>
  \<open>mlive\<close> says that the owner's pointer to the machine is not nil, \<open>mBegin\<close> is
  \<open>Machine.Begin\<close>, the other fields are those of \<open>StpStateEvent\<close>.
\<close>

record FsmMachine =
  mlive :: bool
  mBegin :: bool
  cur_s :: State
  prev_s :: State
  cur_e :: Event
  prev_e :: Event

text \<open>The machine of an owner whose pointer is nil, and a freshly built one.\<close>

definition nil_machine :: FsmMachine where
  "nil_machine = \<lparr>mlive = False, mBegin = False, cur_s = 0, prev_s = 0, cur_e = 0, prev_e = 0\<rparr>"

definition new_machine :: "State \<Rightarrow> FsmMachine" where
  "new_machine s = \<lparr>mlive = True, mBegin = False, cur_s = s, prev_s = s, cur_e = 0, prev_e = 0\<rparr>"

definition SetEvent :: "Event \<Rightarrow> FsmMachine \<Rightarrow> FsmMachine" where
  "SetEvent e m = m\<lparr>prev_e := cur_e m, cur_e := e\<rparr>"

definition SetState :: "State \<Rightarrow> FsmMachine \<Rightarrow> FsmMachine" where
  "SetState s m = m\<lparr>prev_s := cur_s m, cur_s := s\<rparr>"

definition Start :: "State \<Rightarrow> FsmMachine \<Rightarrow> FsmMachine" where
  "Start s m = (SetState s m)\<lparr>mBegin := True\<rparr>"

definition ProcessEvent ::
  "('c \<Rightarrow> FsmMachine) \<Rightarrow> ((FsmMachine \<Rightarrow> FsmMachine) \<Rightarrow> 'c \<Rightarrow> 'c) \<Rightarrow> 'c Callback Ruleset
     \<Rightarrow> Event \<Rightarrow> 'c \<Rightarrow> FsmError option \<times> 'c" where
  "ProcessEvent get upd r e c =
     (if \<not> mBegin (get c) then (Some ErrorMachineNotStarted, c)
      else case r (cur_s (get c), e) of
             Some f \<Rightarrow>
               (let (s', c') = f (upd (SetEvent e) c)
                in (None, upd (SetState s') c'))
           | None \<Rightarrow> (Some InvalidStateEvent, c))"

lemma SetEvent_fields [simp]:
  "mlive (SetEvent e m) = mlive m" "mBegin (SetEvent e m) = mBegin m"
  "cur_s (SetEvent e m) = cur_s m" "prev_s (SetEvent e m) = prev_s m"
  "cur_e (SetEvent e m) = e" "prev_e (SetEvent e m) = cur_e m"
  by (simp_all add: SetEvent_def)

lemma SetState_fields [simp]:
  "mlive (SetState s m) = mlive m" "mBegin (SetState s m) = mBegin m"
  "cur_s (SetState s m) = s" "prev_s (SetState s m) = cur_s m"
  "cur_e (SetState s m) = cur_e m" "prev_e (SetState s m) = prev_e m"
  by (simp_all add: SetState_def)

lemma Start_fields [simp]:
  "mlive (Start s m) = mlive m" "mBegin (Start s m)" "cur_s (Start s m) = s"
  by (simp_all add: Start_def)

lemma process_accepts:
  "fst (ProcessEvent get upd r e c) = None \<longleftrightarrow> mBegin (get c) \<and> r (cur_s (get c), e) \<noteq> None"
  by (auto simp: ProcessEvent_def case_prod_beta Let_def split: option.splits)

lemma process_refuses:
  "fst (ProcessEvent get upd r e c) = Some err \<longleftrightarrow>
     (\<not> mBegin (get c) \<and> err = ErrorMachineNotStarted)
     \<or> (mBegin (get c) \<and> r (cur_s (get c), e) = None \<and> err = InvalidStateEvent)"
  by (auto simp: ProcessEvent_def case_prod_beta Let_def split: option.splits)

section \<open>Rule tables\<close>

lemma AddRule_lookup:
  "snd (AddRule r s e cb) k =
     (case r k of Some f \<Rightarrow> Some f | None \<Rightarrow> if k = (s, e) then Some cb else None)"
  by (auto simp: AddRule_def split: option.splits)

text \<open>A table built by \<open>AddRules\<close> answers with the first entry of the list.\<close>

lemma AddRules_lookup:
  "AddRules rs r k = (case r k of Some f \<Rightarrow> Some f | None \<Rightarrow> map_of rs k)"
proof (induction rs arbitrary: r)
  case Nil
  then show ?case by (simp add: AddRules_def split: option.splits)
next
  case (Cons x rs)
  obtain s e cb where x: "x = ((s, e), cb)"
    by (metis prod.exhaust)
  have "AddRules (x # rs) r k = AddRules rs (snd (AddRule r s e cb)) k"
    by (simp add: AddRules_def x)
  then show ?case
    by (auto simp: Cons.IH AddRule_lookup x split: option.splits)
qed

lemma AddRules_empty: "AddRules rs Map.empty = map_of rs"
  by (rule ext) (simp add: AddRules_lookup)

text \<open>Every property of all rules of a table is a property of the rule found.\<close>

lemma table_all:
  assumes "map_of rs k = Some f" and "list_all (\<lambda>(k, f). P k f) rs"
  shows "P k f"
  using assms by (metis (mono_tags, lifting) case_prod_conv list.pred_set map_of_SomeD)

section \<open>Machines inside a larger state\<close>

locale machine_slot =
  fixes get :: "'c \<Rightarrow> FsmMachine"
    and upd :: "(FsmMachine \<Rightarrow> FsmMachine) \<Rightarrow> 'c \<Rightarrow> 'c"
  assumes get_upd: "get (upd f c) = f (get c)"
    and upd_upd: "upd f (upd g c) = upd (f \<circ> g) c"
begin

lemma not_started:
  "\<not> mBegin (get c) \<Longrightarrow> ProcessEvent get upd r e c = (Some ErrorMachineNotStarted, c)"
  by (simp add: ProcessEvent_def)

lemma invalid:
  "mBegin (get c) \<Longrightarrow> r (cur_s (get c), e) = None
     \<Longrightarrow> ProcessEvent get upd r e c = (Some InvalidStateEvent, c)"
  by (simp add: ProcessEvent_def)

lemma fires:
  assumes "mBegin (get c)" and "r (cur_s (get c), e) = Some f"
    and "f (upd (SetEvent e) c) = (s', c')"
  shows "ProcessEvent get upd r e c = (None, upd (SetState s') c')"
  using assms by (simp add: ProcessEvent_def)

lemma fired_state:
  assumes "ProcessEvent get upd r e c = (None, c')"
  shows "\<exists>f s' c''. r (cur_s (get c), e) = Some f \<and> f (upd (SetEvent e) c) = (s', c'')
           \<and> c' = upd (SetState s') c'' \<and> cur_s (get c') = s'"
  using assms
  by (auto simp: ProcessEvent_def get_upd split: if_splits option.splits prod.splits)

lemma accepted:
  assumes "ProcessEvent get upd r e c = (None, c')"
  obtains f where "mBegin (get c)" and "r (cur_s (get c), e) = Some f"
    and "c' = upd (SetState (fst (f (upd (SetEvent e) c)))) (snd (f (upd (SetEvent e) c)))"
  using assms by (auto simp: ProcessEvent_def case_prod_beta split: if_splits option.splits)

lemma error_unchanged:
  "ProcessEvent get upd r e c = (Some err, c') \<Longrightarrow> c' = c \<and> err \<noteq> ErrorMachineStateEventExists"
  by (auto simp: ProcessEvent_def split: if_splits option.splits prod.splits)

text \<open>A view that ignores the machine and that every callback keeps is kept.\<close>

lemma process_keeps:
  assumes "\<And>g c. v (upd g c) = v c"
    and "\<And>k f c. r k = Some f \<Longrightarrow> v (snd (f c)) = v c"
  shows "keeps v (\<lambda>c. snd (ProcessEvent get upd r e c))"
proof (rule keepsI)
  fix c
  have "v c' = v c" if "r k = Some f" and "f (upd g c) = (s, c')" for k f g s c'
    using assms(1) [of g c] assms(2) [OF that(1), of "upd g c"] that(2) by simp
  then show "v (snd (ProcessEvent get upd r e c)) = v c"
    using assms(1) by (auto simp: ProcessEvent_def split: option.splits prod.splits)
qed

text \<open>An invariant of the larger state that every callback keeps is kept by
  \<open>ProcessEvent\<close>, whether or not a rule exists.\<close>

lemma invariant:
  assumes "I c"
    and "\<And>f. r (cur_s (get c), e) = Some f \<Longrightarrow>
           I (upd (SetState (fst (f (upd (SetEvent e) c)))) (snd (f (upd (SetEvent e) c))))"
  shows "I (snd (ProcessEvent get upd r e c))"
  using assms by (auto simp: ProcessEvent_def case_prod_beta Let_def split: option.splits)

end

section \<open>Processing after a transition\<close>

text \<open>
  After every accepted event the machines of the protocol look whether the new
  state already enables another transition (\<open>ProcessPostStateProcessing\<close>).  Each
  \<open>ProcessPostState*\<close> function of the source picks at most one event in the
  current state and, if \<open>ProcessEvent\<close> accepts it, calls
  \<open>ProcessPostStateProcessing\<close> recursively before the next function runs.  A
  function is its choice \<open>'c \<Rightarrow> Event option\<close>; the recursion carries fuel and
  yields \<open>None\<close> when it is used up.
\<close>

type_synonym 'c Process = "Event \<Rightarrow> 'c \<Rightarrow> FsmError option \<times> 'c"
type_synonym 'c Post = "'c \<Rightarrow> Event option"

primrec post_seq :: "('c \<Rightarrow> 'c option) \<Rightarrow> 'c Process \<Rightarrow> 'c Post list \<Rightarrow> 'c \<Rightarrow> 'c option" where
  "post_seq rec pe [] c = Some c"
| "post_seq rec pe (h # hs) c =
     (case h c of
        None \<Rightarrow> post_seq rec pe hs c
      | Some e \<Rightarrow>
          (case pe e c of
             (Some _, c') \<Rightarrow> post_seq rec pe hs c'
           | (None, c') \<Rightarrow> (case rec c' of None \<Rightarrow> None | Some c'' \<Rightarrow> post_seq rec pe hs c'')))"

primrec ProcessPost :: "'c Process \<Rightarrow> 'c Post list \<Rightarrow> nat \<Rightarrow> 'c \<Rightarrow> 'c option" where
  "ProcessPost pe hs 0 c = None"
| "ProcessPost pe hs (Suc n) c = post_seq (ProcessPost pe hs n) pe hs c"

text \<open>The body of a machine's event loop: process the event and, unless it was
  refused, run the post processing.\<close>

definition ProcessAndPost :: "'c Process \<Rightarrow> 'c Post list \<Rightarrow> nat \<Rightarrow> Event \<Rightarrow> 'c \<Rightarrow> 'c option" where
  "ProcessAndPost pe hs n e c =
     (case pe e c of (Some _, c') \<Rightarrow> Some c' | (None, c') \<Rightarrow> ProcessPost pe hs n c')"

lemma post_seq_mono:
  assumes "post_seq r pe hs c = Some d" and "\<And>c d. r c = Some d \<Longrightarrow> r' c = Some d"
  shows "post_seq r' pe hs c = Some d"
  using assms(1)
  by (induction hs arbitrary: c) (auto split: option.splits prod.splits dest: assms(2))

lemma ProcessPost_mono:
  "ProcessPost pe hs n c = Some d \<Longrightarrow> n \<le> m \<Longrightarrow> ProcessPost pe hs m c = Some d"
proof (induction n arbitrary: m c d)
  case 0
  then show ?case by simp
next
  case (Suc n)
  then obtain k where m: "m = Suc k" and k: "n \<le> k"
    by (metis Suc_le_D Suc_le_mono)
  show ?case
    using Suc.prems(1) Suc.IH [OF _ k] unfolding m by (auto intro: post_seq_mono)
qed

lemma post_seq_inv:
  assumes "post_seq r pe hs c = Some d" and "I c"
    and "\<And>c d. r c = Some d \<Longrightarrow> I c \<Longrightarrow> I d"
    and "\<And>h e c. h \<in> set hs \<Longrightarrow> h c = Some e \<Longrightarrow> I c \<Longrightarrow> I (snd (pe e c))"
  shows "I d"
  using assms(1,2,4)
proof (induction hs arbitrary: c)
  case Nil
  then show ?case by simp
next
  case (Cons h hs)
  have IH: "post_seq r pe hs c' = Some d \<Longrightarrow> I c' \<Longrightarrow> I d" for c'
    by (rule Cons.IH) (use Cons.prems(3) in auto)
  show ?case
  proof (cases "h c")
    case None
    then show ?thesis using Cons.prems IH by auto
  next
    case (Some e)
    have "I (snd (pe e c))"
      using Cons.prems(2) Cons.prems(3) [of h c e] Some by simp
    then show ?thesis
      using Cons.prems(1) Some IH assms(3)
      by (auto split: prod.splits option.splits)
  qed
qed

text \<open>What every transition of the post processing keeps holds of its result.\<close>

lemma ProcessPost_inv:
  assumes "ProcessPost pe hs n c = Some d" and "I c"
    and "\<And>h e c. h \<in> set hs \<Longrightarrow> h c = Some e \<Longrightarrow> I c \<Longrightarrow> I (snd (pe e c))"
  shows "I d"
  using assms(1,2)
proof (induction n arbitrary: c d)
  case 0
  then show ?case by simp
next
  case (Suc n)
  then show ?case
    using post_seq_inv [where r = "ProcessPost pe hs n" and I = I] assms(3) by auto
qed

lemma ProcessAndPost_inv:
  assumes "ProcessAndPost pe hs n e c = Some d" and "I (snd (pe e c))"
    and "\<And>h e c. h \<in> set hs \<Longrightarrow> h c = Some e \<Longrightarrow> I c \<Longrightarrow> I (snd (pe e c))"
  shows "I d"
  using assms(1,2) ProcessPost_inv [where I = I, OF _ _ assms(3)]
  by (auto simp: ProcessAndPost_def split: prod.splits option.splits)

text \<open>\<open>settled\<close>: no function picks an event that the machine would accept.\<close>

definition settled :: "'c Process \<Rightarrow> 'c Post list \<Rightarrow> 'c \<Rightarrow> bool" where
  "settled pe hs c \<longleftrightarrow>
     (\<forall>h \<in> set hs. case h c of None \<Rightarrow> True | Some e \<Rightarrow> fst (pe e c) \<noteq> None)"

text \<open>A ranking function that every accepted transition decreases bounds the fuel;
  the result is settled.\<close>

locale post_terminates =
  fixes pe :: "'c Process" and hs :: "'c Post list" and I :: "'c \<Rightarrow> bool" and rank :: "'c \<Rightarrow> nat"
  assumes step: "h \<in> set hs \<Longrightarrow> h c = Some e \<Longrightarrow> I c \<Longrightarrow> pe e c = (None, c')
       \<Longrightarrow> I c' \<and> rank c' < rank c"
    and refused: "pe e c = (Some err, c') \<Longrightarrow> c' = c"
begin

lemma post_seq_settled:
  "settled pe hs c \<Longrightarrow> set gs \<subseteq> set hs \<Longrightarrow> post_seq r pe gs c = Some c"
  by (induction gs) (auto simp: settled_def split: option.splits prod.splits dest: refused)

lemma post_seq_returns:
  assumes "I c" and "rank c \<le> m" and "set gs \<subseteq> set hs"
    and r: "\<And>c. I c \<Longrightarrow> rank c < m \<Longrightarrow> \<exists>d. r c = Some d \<and> I d \<and> settled pe hs d \<and> rank d \<le> rank c"
  shows "\<exists>d. post_seq r pe gs c = Some d \<and> I d \<and> rank d \<le> rank c
           \<and> (d = c \<and> settled pe gs c \<or> settled pe hs d)"
  using assms(1,3)
proof (induction gs)
  case Nil
  then show ?case by (simp add: settled_def)
next
  case (Cons h gs)
  show ?case
  proof (cases "h c")
    case None
    then show ?thesis using Cons by (auto simp: settled_def)
  next
    case (Some e)
    show ?thesis
    proof (cases "fst (pe e c)")
      case None
      then obtain c' where c': "pe e c = (None, c')"
        by (metis prod.collapse)
      have dec: "I c'" "rank c' < rank c"
        using step [of h c e c'] Some Cons.prems c' by auto
      obtain d where d: "r c' = Some d" "I d" "settled pe hs d" "rank d \<le> rank c'"
        using r [of c'] dec \<open>rank c \<le> m\<close> by auto
      then show ?thesis
        using Some c' dec post_seq_settled [of d gs r] Cons.prems by auto
    next
      case (Some err)
      then have "pe e c = (Some err, c)"
        by (metis prod.collapse refused)
      then show ?thesis
        using \<open>h c = Some e\<close> Cons by (auto simp: settled_def)
    qed
  qed
qed

lemma returns:
  "I c \<Longrightarrow> rank c < n \<Longrightarrow>
     \<exists>d. ProcessPost pe hs n c = Some d \<and> I d \<and> settled pe hs d \<and> rank d \<le> rank c"
proof (induction n arbitrary: c)
  case 0
  then show ?case by simp
next
  case (Suc n)
  have "\<exists>d. post_seq (ProcessPost pe hs n) pe hs c = Some d \<and> I d \<and> rank d \<le> rank c
           \<and> (d = c \<and> settled pe hs c \<or> settled pe hs d)"
    by (rule post_seq_returns [of c n]) (use Suc in auto)
  then show ?case
    by auto
qed

text \<open>One round: the first function that picks an event decides it.\<close>

lemma run_step:
  assumes "hs = gs @ h # ks" and "\<forall>g \<in> set gs. g c = None" and "h c = Some e"
    and "pe e c = (None, c')" and "I c'" and "rank c' < n"
  shows "ProcessPost pe hs (Suc n) c = ProcessPost pe hs n c'"
proof -
  have skip: "(\<forall>g \<in> set gs. g c = None) \<Longrightarrow> post_seq r pe (gs @ ks) c = post_seq r pe ks c" for gs ks r
    by (induction gs) auto
  obtain d where d: "ProcessPost pe hs n c' = Some d" "settled pe hs d"
    using returns [OF assms(5,6)] by blast
  have "post_seq (ProcessPost pe hs n) pe ks d = Some d"
    by (rule post_seq_settled [OF d(2)]) (auto simp: assms(1))
  then show ?thesis
    using skip [OF assms(2), of "ProcessPost pe hs n" "h # ks"] assms(1,3,4) d by simp
qed

lemma run_stop: "settled pe hs c \<Longrightarrow> ProcessPost pe hs (Suc n) c = Some c"
  using post_seq_settled [of c hs] by simp

lemma process_and_post:
  assumes "fst (pe e c) = None \<Longrightarrow> I (snd (pe e c)) \<and> rank (snd (pe e c)) < n"
  shows "\<exists>d. ProcessAndPost pe hs n e c = Some d
           \<and> (fst (pe e c) = None \<longrightarrow> I d \<and> settled pe hs d)
           \<and> (fst (pe e c) \<noteq> None \<longrightarrow> d = c)"
proof -
  obtain err c1 where r: "pe e c = (err, c1)"
    by fastforce
  show ?thesis
  proof (cases err)
    case None
    then show ?thesis
      using returns [of c1 n] assms r by (auto simp: ProcessAndPost_def)
  next
    case (Some x)
    then show ?thesis
      using refused [of e c x c1] r by (simp add: ProcessAndPost_def)
  qed
qed

end

text \<open>A view kept by the machine's transitions is kept by the whole iteration.\<close>

lemma ProcessAndPost_keeps:
  assumes "\<And>e. keeps v (\<lambda>c. snd (pe e c))" and "ProcessAndPost pe hs n e c = Some d"
  shows "v d = v c"
proof -
  obtain err c1 where r: "pe e c = (err, c1)"
    by fastforce
  have c1: "v c1 = v c"
    using keepsD [OF assms(1), of e c] r by simp
  have "ProcessPost pe hs n c1 = Some d \<Longrightarrow> v d = v c1"
    by (erule ProcessPost_inv [where I = "\<lambda>d. v d = v c1"]) (auto simp: keepsD [OF assms(1)])
  then show ?thesis
    using assms(2) r c1 by (cases err) (auto simp: ProcessAndPost_def)
qed

text \<open>A set of states that the first enabled function never leaves makes the
  recursion endless.\<close>

lemma ProcessPost_diverges:
  assumes "S c"
    and "\<And>c. S c \<Longrightarrow> \<exists>h e c' gs ks. hs = gs @ h # ks \<and> (\<forall>g \<in> set gs. g c = None)
             \<and> h c = Some e \<and> pe e c = (None, c') \<and> S c'"
  shows "ProcessPost pe hs n c = None"
  using assms(1)
proof (induction n arbitrary: c)
  case 0
  then show ?case by simp
next
  case (Suc n)
  have skip: "(\<forall>g \<in> set gs. g c = None) \<Longrightarrow> post_seq r pe (gs @ ks) c = post_seq r pe ks c" for gs ks r
    by (induction gs) auto
  show ?case
    using assms(2) [OF Suc.prems] Suc.IH skip by fastforce
qed

end
