(* ===== verification/Stp_Bridge.thy ===== *)
theory Stp_Bridge
  imports Fsm "HOL-Library.Product_Lexorder"
begin

text \<open>
  \<open>l2/stp/protocol/bridge.go\<close>: bridge identifiers, priority vectors, timer
  parameter values and the bridge record, with the comparison routines of
  17.6.  Bridge identifiers get a \<open>linorder\<close> instance (lexicographic on the
  eight bytes) which the comparison cascades of the source are shown to
  implement.
\<close>

section \<open>Data\<close>

datatype BridgeId =
  BridgeId (bid0: uint8) (bid1: uint8) (bid2: uint8) (bid3: uint8)
           (bid4: uint8) (bid5: uint8) (bid6: uint8) (bid7: uint8)

text \<open>\<open>[6]uint8\<close>, a MAC address.\<close>

datatype Mac =
  Mac (mac0: uint8) (mac1: uint8) (mac2: uint8) (mac3: uint8) (mac4: uint8) (mac5: uint8)

record PriorityVector =
  RootBridgeId :: BridgeId
  RootPathCost :: uint32
  DesignatedBridgeId :: BridgeId
  DesignatedPortId :: uint16
  BridgePortId :: uint16

record Times =
  ForwardingDelay :: uint16
  HelloTime :: uint16
  MaxAge :: uint16
  MessageAge :: uint16

record Bridge =
  Begin :: bool
  BridgeIdentifier :: BridgeId
  BridgePriority :: PriorityVector
  BridgeTimes :: Times
  RootPortId :: int32
  RootTimes :: Times
  StpPorts :: "int32 list"
  ForceVersion :: int32
  TxHoldCount :: uint64
  Vlan :: uint16
  PrsMachineFsm :: FsmMachine
  OldRootBridgeIdentifier :: BridgeId
  BrgIfIndex :: int32
  StgId :: int32
  DebugLevel :: int

text \<open>Go's zero values of these types.\<close>

definition zero_bid :: BridgeId where
  "zero_bid = BridgeId 0 0 0 0 0 0 0 0"

definition zero_pv :: PriorityVector where
  "zero_pv = \<lparr>RootBridgeId = zero_bid, RootPathCost = 0, DesignatedBridgeId = zero_bid,
     DesignatedPortId = 0, BridgePortId = 0\<rparr>"

definition zero_times :: Times where
  "zero_times = \<lparr>ForwardingDelay = 0, HelloTime = 0, MaxAge = 0, MessageAge = 0\<rparr>"

definition zero_bridge :: Bridge where
  "zero_bridge = \<lparr>Begin = False, BridgeIdentifier = zero_bid, BridgePriority = zero_pv,
     BridgeTimes = zero_times, RootPortId = 0, RootTimes = zero_times, StpPorts = [],
     ForceVersion = 0, TxHoldCount = 0, Vlan = 0, PrsMachineFsm = nil_machine,
     OldRootBridgeIdentifier = zero_bid, BrgIfIndex = 0, StgId = 0, DebugLevel = 0\<rparr>"

section \<open>Identifiers\<close>

text \<open>Go gives \<open>&\<close> and \<open>>>\<close> the same precedence, so \<open>bridgePriority&0xf000>>8\<close> is
  \<open>(bridgePriority&0xf000)>>8\<close>.\<close>

definition CreateBridgeId :: "Mac \<Rightarrow> uint16 \<Rightarrow> uint16 \<Rightarrow> BridgeId" where
  "CreateBridgeId bridgeAddress bridgePriority vlan =
     BridgeId (ucast (drop_bit 8 (bridgePriority AND 0xf000)) OR ucast (drop_bit 8 (vlan AND 0xf00)))
       (ucast (vlan AND 0xff))
       (mac0 bridgeAddress) (mac1 bridgeAddress) (mac2 bridgeAddress)
       (mac3 bridgeAddress) (mac4 bridgeAddress) (mac5 bridgeAddress)"

definition GetBridgeAddrFromBridgeId :: "BridgeId \<Rightarrow> Mac" where
  "GetBridgeAddrFromBridgeId b = Mac (bid2 b) (bid3 b) (bid4 b) (bid5 b) (bid6 b) (bid7 b)"

definition GetBridgeVlanFromBridgeId :: "BridgeId \<Rightarrow> uint16" where
  "GetBridgeVlanFromBridgeId b = (push_bit 8 (ucast (bid0 b) AND 0xF)) OR ucast (bid1 b)"

definition GetBridgePriorityFromBridgeId :: "BridgeId \<Rightarrow> uint16" where
  "GetBridgePriorityFromBridgeId b = push_bit 8 (ucast (bid0 b)) OR ucast (bid1 b)"

definition CompareBridgeId :: "BridgeId \<Rightarrow> BridgeId \<Rightarrow> int" where
  "CompareBridgeId b1 b2 =
     (if b1 = b2 then 0
      else if bid0 b1 < bid0 b2
        \<or> (bid0 b1 = bid0 b2 \<and> bid1 b1 < bid1 b2)
        \<or> (bid0 b1 = bid0 b2 \<and> bid1 b1 = bid1 b2 \<and> bid2 b1 < bid2 b2)
        \<or> (bid0 b1 = bid0 b2 \<and> bid1 b1 = bid1 b2 \<and> bid2 b1 = bid2 b2 \<and> bid3 b1 < bid3 b2)
        \<or> (bid0 b1 = bid0 b2 \<and> bid1 b1 = bid1 b2 \<and> bid2 b1 = bid2 b2 \<and> bid3 b1 = bid3 b2
            \<and> bid4 b1 < bid4 b2)
        \<or> (bid0 b1 = bid0 b2 \<and> bid1 b1 = bid1 b2 \<and> bid2 b1 = bid2 b2 \<and> bid3 b1 = bid3 b2
            \<and> bid4 b1 = bid4 b2 \<and> bid5 b1 < bid5 b2)
        \<or> (bid0 b1 = bid0 b2 \<and> bid1 b1 = bid1 b2 \<and> bid2 b1 = bid2 b2 \<and> bid3 b1 = bid3 b2
            \<and> bid4 b1 = bid4 b2 \<and> bid5 b1 = bid5 b2 \<and> bid6 b1 < bid6 b2)
        \<or> (bid0 b1 = bid0 b2 \<and> bid1 b1 = bid1 b2 \<and> bid2 b1 = bid2 b2 \<and> bid3 b1 = bid3 b2
            \<and> bid4 b1 = bid4 b2 \<and> bid5 b1 = bid5 b2 \<and> bid6 b1 = bid6 b2 \<and> bid7 b1 < bid7 b2)
        then -1
      else 1)"

definition CompareBridgeAddr :: "Mac \<Rightarrow> Mac \<Rightarrow> int" where
  "CompareBridgeAddr b1 b2 =
     (if mac0 b1 < mac0 b2
        \<or> (mac0 b1 = mac0 b2 \<and> mac1 b1 < mac1 b2)
        \<or> (mac0 b1 = mac0 b2 \<and> mac1 b1 = mac1 b2 \<and> mac2 b1 < mac2 b2)
        \<or> (mac0 b1 = mac0 b2 \<and> mac1 b1 = mac1 b2 \<and> mac2 b1 = mac2 b2 \<and> mac3 b1 < mac3 b2)
        \<or> (mac0 b1 = mac0 b2 \<and> mac1 b1 = mac1 b2 \<and> mac2 b1 = mac2 b2 \<and> mac3 b1 = mac3 b2
            \<and> mac4 b1 < mac4 b2)
        \<or> (mac0 b1 = mac0 b2 \<and> mac1 b1 = mac1 b2 \<and> mac2 b1 = mac2 b2 \<and> mac3 b1 = mac3 b2
            \<and> mac4 b1 = mac4 b2 \<and> mac5 b1 < mac5 b2)
        then -1
      else if b1 = b2 then 0
      else 1)"

section \<open>Priority vectors\<close>

definition IsMsgPriorityVectorSuperiorThanPortPriorityVector ::
  "PriorityVector \<Rightarrow> PriorityVector \<Rightarrow> bool" where
  "IsMsgPriorityVectorSuperiorThanPortPriorityVector msg port =
     (if CompareBridgeId (RootBridgeId msg) (RootBridgeId port) < 0 then True
      else if CompareBridgeId (RootBridgeId msg) (RootBridgeId port) = 0
           \<and> RootPathCost msg < RootPathCost port then True
      else if CompareBridgeId (RootBridgeId msg) (RootBridgeId port) = 0
           \<and> RootPathCost msg = RootPathCost port
           \<and> CompareBridgeId (DesignatedBridgeId msg) (DesignatedBridgeId port) < 0 then True
      else if CompareBridgeId (RootBridgeId msg) (RootBridgeId port) = 0
           \<and> RootPathCost msg = RootPathCost port
           \<and> CompareBridgeId (DesignatedBridgeId msg) (DesignatedBridgeId port) = 0
           \<and> DesignatedPortId msg < DesignatedPortId port then True
      else if CompareBridgeAddr (GetBridgeAddrFromBridgeId (DesignatedBridgeId msg))
                (GetBridgeAddrFromBridgeId (DesignatedBridgeId port)) = 0
           \<and> DesignatedPortId msg = DesignatedPortId port then True
      else False)"

definition IsMsgPriorityVectorSuperiorOrSameThanPortPriorityVector ::
  "PriorityVector \<Rightarrow> PriorityVector \<Rightarrow> bool" where
  "IsMsgPriorityVectorSuperiorOrSameThanPortPriorityVector msg port =
     IsMsgPriorityVectorSuperiorThanPortPriorityVector msg port"

text \<open>The source compares the two pointers; \<open>samePtr\<close> is the outcome of that
  comparison.\<close>

definition IsMsgPriorityVectorTheSameOrWorseThanPortPriorityVector ::
  "bool \<Rightarrow> PriorityVector \<Rightarrow> PriorityVector \<Rightarrow> bool" where
  "IsMsgPriorityVectorTheSameOrWorseThanPortPriorityVector samePtr msg port =
     (samePtr \<or> IsMsgPriorityVectorSuperiorThanPortPriorityVector port msg)"

definition IsMsgPriorityVectorWorseThanPortPriorityVector ::
  "PriorityVector \<Rightarrow> PriorityVector \<Rightarrow> bool" where
  "IsMsgPriorityVectorWorseThanPortPriorityVector msg port =
     (CompareBridgeId (RootBridgeId msg) (RootBridgeId port) > 0
      \<or> ((CompareBridgeId (RootBridgeId msg) (RootBridgeId port) = 0
            \<and> RootPathCost msg > RootPathCost port)
          \<or> (CompareBridgeId (RootBridgeId msg) (RootBridgeId port) = 0
            \<and> RootPathCost msg = RootPathCost port
            \<and> CompareBridgeId (DesignatedBridgeId msg) (DesignatedBridgeId port) > 0))
      \<or> (CompareBridgeId (RootBridgeId msg) (RootBridgeId port) = 0
          \<and> RootPathCost msg = RootPathCost port
          \<and> CompareBridgeId (DesignatedBridgeId msg) (DesignatedBridgeId port) = 0
          \<and> DesignatedPortId msg > DesignatedPortId port))"

definition IsDesignatedPriorytVectorNotHigherThanPortPriorityVector ::
  "bool \<Rightarrow> PriorityVector \<Rightarrow> PriorityVector \<Rightarrow> bool" where
  "IsDesignatedPriorytVectorNotHigherThanPortPriorityVector samePtr d p =
     IsMsgPriorityVectorTheSameOrWorseThanPortPriorityVector samePtr d p"

section \<open>The order on bridge identifiers\<close>

primrec bid_bytes :: "BridgeId \<Rightarrow> uint8 list" where
  "bid_bytes (BridgeId a b c d e f g h) = [a, b, c, d, e, f, g, h]"

lemma bid_bytes_inj: "bid_bytes x = bid_bytes y \<Longrightarrow> x = y"
  by (cases x; cases y) simp

instantiation BridgeId :: linorder
begin

definition less_eq_BridgeId :: "BridgeId \<Rightarrow> BridgeId \<Rightarrow> bool" where
  "less_eq_BridgeId x y \<longleftrightarrow> bid_bytes x \<le> bid_bytes y"

definition less_BridgeId :: "BridgeId \<Rightarrow> BridgeId \<Rightarrow> bool" where
  "less_BridgeId x y \<longleftrightarrow> bid_bytes x < bid_bytes y"

instance
proof
  fix x y z :: BridgeId
  show "x < y \<longleftrightarrow> x \<le> y \<and> \<not> y \<le> x"
    by (auto simp: less_eq_BridgeId_def less_BridgeId_def)
  show "x \<le> x"
    by (simp add: less_eq_BridgeId_def)
  show "x \<le> y \<Longrightarrow> y \<le> z \<Longrightarrow> x \<le> z"
    by (simp add: less_eq_BridgeId_def)
  show "x \<le> y \<Longrightarrow> y \<le> x \<Longrightarrow> x = y"
    by (simp add: less_eq_BridgeId_def bid_bytes_inj)
  show "x \<le> y \<or> y \<le> x"
    by (auto simp: less_eq_BridgeId_def)
qed

end

lemma CompareBridgeId_order:
  "CompareBridgeId x y = (if x = y then 0 else if x < y then -1 else 1)"
  by (cases x; cases y) (simp add: CompareBridgeId_def less_BridgeId_def Cons_less_Cons; blast)

lemma CompareBridgeId_simps [simp]:
  "CompareBridgeId x y = 0 \<longleftrightarrow> x = y"
  "CompareBridgeId x y < 0 \<longleftrightarrow> x < y"
  "CompareBridgeId x y > 0 \<longleftrightarrow> y < x"
  by (auto simp: CompareBridgeId_order)

lemma CompareBridgeAddr_eq_0 [simp]: "CompareBridgeAddr x y = 0 \<longleftrightarrow> x = y"
  by (cases x; cases y) (auto simp: CompareBridgeAddr_def)

text \<open>C1: \<open>CompareBridgeId\<close> decides the lexicographic order on the eight
  identifier bytes: it returns 0 exactly for equal identifiers, -1 exactly when
  the first is smaller, 1 exactly when it is larger, and nothing else.\<close>

theorem CompareBridgeId_correct:
  "CompareBridgeId x y =
     (if bid_bytes x = bid_bytes y then 0 else if bid_bytes x < bid_bytes y then -1 else 1)"
  using CompareBridgeId_order [of x y] bid_bytes_inj [of x y] by (auto simp: less_BridgeId_def)

section \<open>The order on priority vectors\<close>

type_synonym pv_key = "BridgeId \<times> uint32 \<times> BridgeId \<times> uint16"

definition pv_key :: "PriorityVector \<Rightarrow> pv_key" where
  "pv_key v = (RootBridgeId v, RootPathCost v, DesignatedBridgeId v, DesignatedPortId v)"

definition pv_same_designated :: "PriorityVector \<Rightarrow> PriorityVector \<Rightarrow> bool" where
  "pv_same_designated v w \<longleftrightarrow>
     GetBridgeAddrFromBridgeId (DesignatedBridgeId v) = GetBridgeAddrFromBridgeId (DesignatedBridgeId w)
     \<and> DesignatedPortId v = DesignatedPortId w"

lemma superior_iff:
  "IsMsgPriorityVectorSuperiorThanPortPriorityVector msg port
     \<longleftrightarrow> pv_key msg < pv_key port \<or> pv_same_designated msg port"
  unfolding IsMsgPriorityVectorSuperiorThanPortPriorityVector_def pv_key_def pv_same_designated_def
  by (auto simp: le_less)

lemma worse_iff:
  "IsMsgPriorityVectorWorseThanPortPriorityVector msg port \<longleftrightarrow> pv_key port < pv_key msg"
  unfolding IsMsgPriorityVectorWorseThanPortPriorityVector_def pv_key_def
  by (auto simp: le_less)

lemma pv_same_designated_refl [simp]: "pv_same_designated v v"
  by (simp add: pv_same_designated_def)

lemma pv_key_eq_designated: "pv_key v = pv_key w \<Longrightarrow> pv_same_designated v w"
  by (simp add: pv_key_def pv_same_designated_def)

text \<open>C2: The superiority test of 17.6 is the strict lexicographic order on
  (root bridge, root path cost, designated bridge, designated port), extended by
  "sent by the same designated port"; the worse test is the converse of that order.
  Consequently every received vector is superior or worse, and it is both only
  when the port's own designated bridge and port announce a worse vector.\<close>

theorem priority_vector_dichotomy:
  "(IsMsgPriorityVectorSuperiorThanPortPriorityVector msg port
      \<longleftrightarrow> pv_key msg < pv_key port \<or> pv_same_designated msg port)
   \<and> (IsMsgPriorityVectorWorseThanPortPriorityVector msg port \<longleftrightarrow> pv_key port < pv_key msg)
   \<and> (IsMsgPriorityVectorSuperiorThanPortPriorityVector msg port
       \<or> IsMsgPriorityVectorWorseThanPortPriorityVector msg port)
   \<and> (IsMsgPriorityVectorSuperiorThanPortPriorityVector msg port
       \<and> IsMsgPriorityVectorWorseThanPortPriorityVector msg port
      \<longleftrightarrow> pv_same_designated msg port \<and> pv_key port < pv_key msg)"
  using pv_key_eq_designated [of msg port] unfolding superior_iff worse_iff
  by (cases "pv_key msg" "pv_key port" rule: linorder_cases) auto

section \<open>Round trips of identifiers\<close>

lemma CreateBridgeId_addr [simp]:
  "GetBridgeAddrFromBridgeId (CreateBridgeId a prio vlan) = a"
  by (simp add: GetBridgeAddrFromBridgeId_def CreateBridgeId_def)

text \<open>C3: Creating a bridge identifier and reading it back gives the address,
  the low twelve bits of the VLAN, and the priority's top four bits combined with
  that VLAN; so for a VLAN below 4096 the VLAN is recovered exactly, and for the
  default bridge (VLAN 0) a priority that is a multiple of 4096 is recovered
  exactly.\<close>

theorem CreateBridgeId_roundtrip:
  "GetBridgeAddrFromBridgeId (CreateBridgeId a prio vlan) = a
   \<and> GetBridgeVlanFromBridgeId (CreateBridgeId a prio vlan) = vlan AND 0xfff
   \<and> GetBridgePriorityFromBridgeId (CreateBridgeId a prio vlan)
       = (prio AND 0xf000) OR (vlan AND 0xfff)"
proof (intro conjI)
  show "GetBridgeVlanFromBridgeId (CreateBridgeId a prio vlan) = vlan AND 0xfff"
    by (simp add: GetBridgeVlanFromBridgeId_def CreateBridgeId_def, rule word_bits_eqI)
      (simp add: bits_eval, simp add: eval_nat_numeral)
  show "GetBridgePriorityFromBridgeId (CreateBridgeId a prio vlan) = (prio AND 0xf000) OR (vlan AND 0xfff)"
    by (simp add: GetBridgePriorityFromBridgeId_def CreateBridgeId_def, rule word_bits_eqI)
      (simp add: bits_eval, simp add: eval_nat_numeral)
qed simp

end
