(* ===== verification/Stp_Bpdu.thy ===== *)
theory Stp_Bpdu
  imports Stp_Bridge
begin

text \<open>
  BPDU flags of \<open>l2/stp/protocol/def.go\<close> and the enumerations of \<open>enum.go\<close>.
  The numeric port roles of the wire format belong to the packet library and
  enter as the parameter record \<open>Layers\<close>; what the protocol relies on is the
  predicate \<open>roles_ok\<close>.
\<close>

section \<open>Enumerations\<close>

datatype PortInfoState =
  PortInfoStateMine | PortInfoStateAged | PortInfoStateReceived | PortInfoStateDisabled

datatype PortDesignatedRcvInfo =
  SuperiorDesignatedInfo | RepeatedDesignatedInfo | InferiorDesignatedInfo
  | InferiorRootAlternateInfo | OtherInfo

datatype PortRole =
  PortRoleInvalid | PortRoleBridgePort | PortRoleRootPort | PortRoleDesignatedPort
  | PortRoleAlternatePort | PortRoleBackupPort | PortRoleDisabledPort

text \<open>An \<open>int\<close> in the code, with the constants 0 (force true), 1 (force false) and 2 (auto); any
  configured value is stored.\<close>

type_synonym PointToPointMac = int

datatype BPDURxType =
  BPDURxTypeUnknown | BPDURxTypeUnknownBPDU | BPDURxTypeSTP | BPDURxTypeRSTP
  | BPDURxTypeTopo | BPDURxTypeTopoAck | BPDURxTypePVST

section \<open>Constants of the packet library\<close>

record Layers =
  RoleMasterPort :: uint8
  RoleAlternateBackupPort :: uint8
  RoleRootPort :: uint8
  RoleDesignatedPort :: uint8
  STPProtocolVersion :: uint8
  RSTPProtocolVersion :: uint8
  TCNProtocolVersion :: uint8
  BPDUTypeSTP :: uint8
  BPDUTypeRSTP :: uint8
  BPDUTypeTopoChange :: uint8

text \<open>The four role codes are distinct two bit values.\<close>

definition roles_ok :: "Layers \<Rightarrow> bool" where
  "roles_ok L \<longleftrightarrow>
     distinct [RoleMasterPort L, RoleAlternateBackupPort L, RoleRootPort L, RoleDesignatedPort L]
     \<and> RoleMasterPort L < 4 \<and> RoleAlternateBackupPort L < 4
     \<and> RoleRootPort L < 4 \<and> RoleDesignatedPort L < 4"

text \<open>The values of IEEE 802.1D-2004, Table 9.3.3, an instance of \<open>roles_ok\<close>.\<close>

definition ieee_layers :: Layers where
  "ieee_layers = \<lparr>RoleMasterPort = 0, RoleAlternateBackupPort = 1, RoleRootPort = 2,
     RoleDesignatedPort = 3, STPProtocolVersion = 0, RSTPProtocolVersion = 2,
     TCNProtocolVersion = 0, BPDUTypeSTP = 0, BPDUTypeRSTP = 2, BPDUTypeTopoChange = 0x80\<rparr>"

lemma ieee_roles_ok [simp]: "roles_ok ieee_layers"
  by (simp add: roles_ok_def ieee_layers_def)

section \<open>Flags\<close>

definition StpSetBpduFlags ::
  "uint8 \<Rightarrow> uint8 \<Rightarrow> uint8 \<Rightarrow> uint8 \<Rightarrow> uint8 \<Rightarrow> uint8 \<Rightarrow> uint8 \<Rightarrow> uint8 \<Rightarrow> uint8" where
  "StpSetBpduFlags topochangeack agreement forwarding learning role proposal topochange flags =
     (let flags = flags OR push_bit 7 topochangeack;
          flags = flags OR push_bit 6 agreement;
          flags = flags OR push_bit 5 forwarding;
          flags = flags OR push_bit 4 learning;
          flags = flags OR push_bit 2 role;
          flags = flags OR push_bit 1 proposal;
          flags = flags OR push_bit 0 topochange
      in flags)"

definition StpGetBpduRole :: "Layers \<Rightarrow> uint8 \<Rightarrow> PortRole" where
  "StpGetBpduRole L flags =
     (let r = drop_bit 2 flags AND 0x3 in
      if r = RoleAlternateBackupPort L then PortRoleAlternatePort
      else if r = RoleRootPort L then PortRoleRootPort
      else if r = RoleDesignatedPort L then PortRoleDesignatedPort
      else PortRoleInvalid)"

definition StpGetBpduProposal :: "uint8 \<Rightarrow> bool" where
  "StpGetBpduProposal flags \<longleftrightarrow> drop_bit 1 flags AND 0x1 = 1"

definition StpGetBpduTopoChangeAck :: "uint8 \<Rightarrow> bool" where
  "StpGetBpduTopoChangeAck flags \<longleftrightarrow> drop_bit 7 flags AND 0x1 = 1"

definition StpGetBpduTopoChange :: "uint8 \<Rightarrow> bool" where
  "StpGetBpduTopoChange flags \<longleftrightarrow> drop_bit 0 flags AND 0x1 = 1"

definition StpGetBpduLearning :: "uint8 \<Rightarrow> bool" where
  "StpGetBpduLearning flags \<longleftrightarrow> drop_bit 4 flags AND 0x1 = 1"

definition StpGetBpduForwarding :: "uint8 \<Rightarrow> bool" where
  "StpGetBpduForwarding flags \<longleftrightarrow> drop_bit 5 flags AND 0x1 = 1"

definition StpGetBpduAgreement :: "uint8 \<Rightarrow> bool" where
  "StpGetBpduAgreement flags \<longleftrightarrow> drop_bit 6 flags AND 0x1 = 1"

definition ConvertBoolToUint8 :: "bool \<Rightarrow> uint8" where
  "ConvertBoolToUint8 v = (if v then 1 else 0)"

definition ConvertRoleToPktRole :: "Layers \<Rightarrow> PortRole \<Rightarrow> uint8" where
  "ConvertRoleToPktRole L r =
     (case r of
        PortRoleAlternatePort \<Rightarrow> RoleAlternateBackupPort L
      | PortRoleBackupPort \<Rightarrow> RoleAlternateBackupPort L
      | PortRoleRootPort \<Rightarrow> RoleRootPort L
      | PortRoleDesignatedPort \<Rightarrow> RoleDesignatedPort L
      | _ \<Rightarrow> RoleMasterPort L)"

section \<open>Decoded frames\<close>

text \<open>The fields of a decoded configuration BPDU the protocol reads, and the four
  layer types it distinguishes; a PVST frame also carries its originating VLAN.\<close>

record Bpdu =
  ProtocolVersionId :: uint8
  BPDUType :: uint8
  Flags :: uint8
  bpduRootId :: BridgeId
  bpduRootPathCost :: uint32
  bpduBridgeId :: BridgeId
  bpduPortId :: uint16
  bpduMsgAge :: uint16
  bpduMaxAge :: uint16
  bpduHelloTime :: uint16
  bpduFwdDelay :: uint16

datatype Pdu =
    STP Bpdu
  | RSTP Bpdu
  | PVST Bpdu uint16
  | BPDUTopology uint8 uint8

section \<open>Reading back what was set\<close>

lemma word1_and: "(drop_bit n (w::uint8) AND 1 = 1) = bit w n"
  by (simp add: and_one_eq bit_iff_odd_drop_bit odd_iff_mod_2_eq_one)

lemma bit_ConvertBool [simp]: "bit (ConvertBoolToUint8 v) n \<longleftrightarrow> v \<and> n = 0"
  by (simp add: ConvertBoolToUint8_def bit_1_iff)


definition bpdu_flags :: "Layers \<Rightarrow> bool \<Rightarrow> bool \<Rightarrow> bool \<Rightarrow> bool \<Rightarrow> PortRole \<Rightarrow> bool \<Rightarrow> bool \<Rightarrow> uint8" where
  "bpdu_flags L tcack agree fwd lrn role propl tc =
     StpSetBpduFlags (ConvertBoolToUint8 tcack) (ConvertBoolToUint8 agree) (ConvertBoolToUint8 fwd)
       (ConvertBoolToUint8 lrn) (ConvertRoleToPktRole L role) (ConvertBoolToUint8 propl)
       (ConvertBoolToUint8 tc) 0"

definition wire_role :: "PortRole \<Rightarrow> PortRole" where
  "wire_role r = (case r of
       PortRoleAlternatePort \<Rightarrow> PortRoleAlternatePort | PortRoleBackupPort \<Rightarrow> PortRoleAlternatePort
     | PortRoleRootPort \<Rightarrow> PortRoleRootPort | PortRoleDesignatedPort \<Rightarrow> PortRoleDesignatedPort
     | _ \<Rightarrow> PortRoleInvalid)"

lemma lt4_bits:
  assumes "(w::uint8) < 4" shows "w AND 3 = w" and "2 \<le> n \<Longrightarrow> \<not> bit w n"
proof -
  have m: "w AND mask 2 = w"
    using assms less_mask_eq [of w 2] by simp
  show "w AND 3 = w"
    using m by (simp add: mask_eq_exp_minus_1)
  show "2 \<le> n \<Longrightarrow> \<not> bit w n"
    by (metis m bit_and_iff bit_mask_iff not_le)
qed

lemma ConvertRole_lt4: "roles_ok L \<Longrightarrow> ConvertRoleToPktRole L r < 4"
  by (cases r) (auto simp: ConvertRoleToPktRole_def roles_ok_def)

lemma bit_times_2: "bit ((x::uint8) * 2) n \<longleftrightarrow> n \<noteq> 0 \<and> n < 8 \<and> bit x (n - 1)"
  by (simp add: mult.commute [of x] bit_double_iff) blast

lemma bpdu_flags_role:
  assumes "roles_ok L"
  shows "drop_bit 2 (bpdu_flags L tcack agree fwd lrn r propl tc) AND 3 = ConvertRoleToPktRole L r"
  using lt4_bits(2) [OF ConvertRole_lt4 [OF assms]]
  by (intro word_bits_eqI)
    (simp add: bpdu_flags_def StpSetBpduFlags_def bits_eval, simp add: eval_nat_numeral bit_times_2)

lemma bpdu_flags_bits:
  assumes "roles_ok L"
  shows "bit (bpdu_flags L tcack agree fwd lrn r propl tc) 7 = tcack"
    and "bit (bpdu_flags L tcack agree fwd lrn r propl tc) 6 = agree"
    and "bit (bpdu_flags L tcack agree fwd lrn r propl tc) 5 = fwd"
    and "bit (bpdu_flags L tcack agree fwd lrn r propl tc) 4 = lrn"
    and "bit (bpdu_flags L tcack agree fwd lrn r propl tc) 1 = propl"
    and "bit (bpdu_flags L tcack agree fwd lrn r propl tc) 0 = tc"
  using lt4_bits(2) [OF ConvertRole_lt4 [OF assms]]
  by (simp_all add: bpdu_flags_def StpSetBpduFlags_def bits_eval, simp_all add: bit_times_2)

lemma bpdu_flags_get_role:
  assumes "roles_ok L"
  shows "StpGetBpduRole L (bpdu_flags L tcack agree fwd lrn r propl tc) = wire_role r"
  using assms bpdu_flags_role [OF assms, of tcack agree fwd lrn r propl tc]
  by (cases r) (auto simp: StpGetBpduRole_def ConvertRoleToPktRole_def wire_role_def roles_ok_def)

text \<open>C4: The flags octet a port builds for a BPDU is read back field by field by
  the receiver: topology change acknowledge, agreement, forwarding, learning,
  proposal and topology change are recovered exactly, and the role comes back as
  sent, with Backup reported as Alternate and every role that has no code of its
  own reported as invalid.\<close>

theorem bpdu_flags_roundtrip:
  assumes "roles_ok L"
  shows "StpGetBpduTopoChangeAck (bpdu_flags L tcack agree fwd lrn r propl tc) = tcack
    \<and> StpGetBpduAgreement (bpdu_flags L tcack agree fwd lrn r propl tc) = agree
    \<and> StpGetBpduForwarding (bpdu_flags L tcack agree fwd lrn r propl tc) = fwd
    \<and> StpGetBpduLearning (bpdu_flags L tcack agree fwd lrn r propl tc) = lrn
    \<and> StpGetBpduRole L (bpdu_flags L tcack agree fwd lrn r propl tc) = wire_role r
    \<and> StpGetBpduProposal (bpdu_flags L tcack agree fwd lrn r propl tc) = propl
    \<and> StpGetBpduTopoChange (bpdu_flags L tcack agree fwd lrn r propl tc) = tc"
  using bpdu_flags_bits [OF assms, of tcack agree fwd lrn r propl tc]
    bpdu_flags_get_role [OF assms, of tcack agree fwd lrn r propl tc]
  by (simp add: StpGetBpduTopoChangeAck_def StpGetBpduAgreement_def StpGetBpduForwarding_def
      StpGetBpduLearning_def StpGetBpduProposal_def StpGetBpduTopoChange_def word1_and
      del: drop_bit_0)

theorem bpdu_flags_roundtrip_witness:
  "roles_ok ieee_layers
   \<and> StpGetBpduRole ieee_layers (bpdu_flags ieee_layers False True True True PortRoleRootPort False True)
       = PortRoleRootPort
   \<and> StpGetBpduAgreement (bpdu_flags ieee_layers False True True True PortRoleRootPort False True)"
  using bpdu_flags_roundtrip [OF ieee_roles_ok, of False True True True PortRoleRootPort False True]
  by (simp add: wire_role_def)

end
