(* ===== verification/Stp_Events.thy ===== *)
theory Stp_Events
  imports Fsm
begin

text \<open>
  The state and event numbers of the ten machines of \<open>l2/stp/protocol\<close>.
  \<open>fsm.State\<close> and \<open>fsm.Event\<close> are Go \<open>int\<close>s and every machine numbers its own
  constants from 1 by \<open>iota + 1\<close>, so that a number means different things to
  different machines; the names below are input abbreviations of these numbers.
  The module names used as event sources are the constructors of \<open>Src\<close>.
\<close>

datatype Src =
    PrxmMachineModuleStr | PtmMachineModuleStr | PpmmMachineModuleStr | PtxmMachineModuleStr
  | PimMachineModuleStr | BdmMachineModuleStr | PrtMachineModuleStr | TcMachineModuleStr
  | PstMachineModuleStr | PrsMachineModuleStr | RxModuleStr | PortConfigModuleStr
  | BridgeConfigModuleStr

section \<open>Port receive: \<open>prxfsm.go\<close>\<close>

abbreviation (input) PrxmStateNone :: State where "PrxmStateNone \<equiv> 1"
abbreviation (input) PrxmStateDiscard :: State where "PrxmStateDiscard \<equiv> 2"
abbreviation (input) PrxmStateReceive :: State where "PrxmStateReceive \<equiv> 3"
abbreviation (input) PrxmEventBegin :: Event where "PrxmEventBegin \<equiv> 1"
abbreviation (input) PrxmEventRcvdBpduAndNotPortEnabled :: Event where "PrxmEventRcvdBpduAndNotPortEnabled \<equiv> 2"
abbreviation (input) PrxmEventEdgeDelayWhileNotEqualMigrateTimeAndNotPortEnabled :: Event where "PrxmEventEdgeDelayWhileNotEqualMigrateTimeAndNotPortEnabled \<equiv> 3"
abbreviation (input) PrxmEventRcvdBpduAndPortEnabled :: Event where "PrxmEventRcvdBpduAndPortEnabled \<equiv> 4"
abbreviation (input) PrxmEventRcvdBpduAndPortEnabledAndNotRcvdMsg :: Event where "PrxmEventRcvdBpduAndPortEnabledAndNotRcvdMsg \<equiv> 5"

section \<open>Port timers: \<open>ptifsm.go\<close>\<close>

abbreviation (input) PtmStateNone :: State where "PtmStateNone \<equiv> 1"
abbreviation (input) PtmStateOneSecond :: State where "PtmStateOneSecond \<equiv> 2"
abbreviation (input) PtmStateTick :: State where "PtmStateTick \<equiv> 3"
abbreviation (input) PtmEventBegin :: Event where "PtmEventBegin \<equiv> 1"
abbreviation (input) PtmEventTickEqualsTrue :: Event where "PtmEventTickEqualsTrue \<equiv> 2"
abbreviation (input) PtmEventUnconditionalFallthrough :: Event where "PtmEventUnconditionalFallthrough \<equiv> 3"

section \<open>Port protocol migration: \<open>ppmfsm.go\<close>\<close>

abbreviation (input) PpmmStateNone :: State where "PpmmStateNone \<equiv> 1"
abbreviation (input) PpmmStateCheckingRSTP :: State where "PpmmStateCheckingRSTP \<equiv> 2"
abbreviation (input) PpmmStateSelectingSTP :: State where "PpmmStateSelectingSTP \<equiv> 3"
abbreviation (input) PpmmStateSensing :: State where "PpmmStateSensing \<equiv> 4"
abbreviation (input) PpmmEventBegin :: Event where "PpmmEventBegin \<equiv> 1"
abbreviation (input) PpmmEventMdelayNotEqualMigrateTimeAndNotPortEnabled :: Event where "PpmmEventMdelayNotEqualMigrateTimeAndNotPortEnabled \<equiv> 2"
abbreviation (input) PpmmEventNotPortEnabled :: Event where "PpmmEventNotPortEnabled \<equiv> 3"
abbreviation (input) PpmmEventMcheck :: Event where "PpmmEventMcheck \<equiv> 4"
abbreviation (input) PpmmEventRstpVersionAndNotSendRSTPAndRcvdRSTP :: Event where "PpmmEventRstpVersionAndNotSendRSTPAndRcvdRSTP \<equiv> 5"
abbreviation (input) PpmmEventMdelayWhileEqualZero :: Event where "PpmmEventMdelayWhileEqualZero \<equiv> 6"
abbreviation (input) PpmmEventSendRSTPAndRcvdSTP :: Event where "PpmmEventSendRSTPAndRcvdSTP \<equiv> 7"

section \<open>Port transmit: \<open>ptxfsm.go\<close>\<close>

abbreviation (input) PtxmStateNone :: State where "PtxmStateNone \<equiv> 1"
abbreviation (input) PtxmStateTransmitInit :: State where "PtxmStateTransmitInit \<equiv> 2"
abbreviation (input) PtxmStateTransmitConfig :: State where "PtxmStateTransmitConfig \<equiv> 3"
abbreviation (input) PtxmStateTransmitTCN :: State where "PtxmStateTransmitTCN \<equiv> 4"
abbreviation (input) PtxmStateTransmitPeriodic :: State where "PtxmStateTransmitPeriodic \<equiv> 5"
abbreviation (input) PtxmStateTransmitRSTP :: State where "PtxmStateTransmitRSTP \<equiv> 6"
abbreviation (input) PtxmStateIdle :: State where "PtxmStateIdle \<equiv> 7"
abbreviation (input) PtxmEventBegin :: Event where "PtxmEventBegin \<equiv> 1"
abbreviation (input) PtxmEventUnconditionalFallThrough :: Event where "PtxmEventUnconditionalFallThrough \<equiv> 2"
abbreviation (input) PtxmEventSendRSTPAndNewInfoAndTxCountLessThanTxHoldCoundAndHelloWhenNotEqualZeroAndSelectedAndNotUpdtInfo :: Event where "PtxmEventSendRSTPAndNewInfoAndTxCountLessThanTxHoldCoundAndHelloWhenNotEqualZeroAndSelectedAndNotUpdtInfo \<equiv> 3"
abbreviation (input) PtxmEventNotSendRSTPAndNewInfoAndRootPortAndTxCountLessThanTxHoldCountAndHellWhenNotEqualZeroAndSelectedAndNotUpdtInfo :: Event where "PtxmEventNotSendRSTPAndNewInfoAndRootPortAndTxCountLessThanTxHoldCountAndHellWhenNotEqualZeroAndSelectedAndNotUpdtInfo \<equiv> 4"
abbreviation (input) PtxmEventNotSendRSTPAndNewInfoAndDesignatedPortAndTxCountLessThanTxHoldCountAndHellWhenNotEqualZeroAndSelectedAndNotUpdtInfo :: Event where "PtxmEventNotSendRSTPAndNewInfoAndDesignatedPortAndTxCountLessThanTxHoldCountAndHellWhenNotEqualZeroAndSelectedAndNotUpdtInfo \<equiv> 5"
abbreviation (input) PtxmEventHelloWhenEqualsZeroAndSelectedAndNotUpdtInfo :: Event where "PtxmEventHelloWhenEqualsZeroAndSelectedAndNotUpdtInfo \<equiv> 6"

section \<open>Port information: \<open>pimfsm.go\<close>\<close>

abbreviation (input) PimStateNone :: State where "PimStateNone \<equiv> 1"
abbreviation (input) PimStateDisabled :: State where "PimStateDisabled \<equiv> 2"
abbreviation (input) PimStateAged :: State where "PimStateAged \<equiv> 3"
abbreviation (input) PimStateUpdate :: State where "PimStateUpdate \<equiv> 4"
abbreviation (input) PimStateSuperiorDesignated :: State where "PimStateSuperiorDesignated \<equiv> 5"
abbreviation (input) PimStateRepeatedDesignated :: State where "PimStateRepeatedDesignated \<equiv> 6"
abbreviation (input) PimStateInferiorDesignated :: State where "PimStateInferiorDesignated \<equiv> 7"
abbreviation (input) PimStateNotDesignated :: State where "PimStateNotDesignated \<equiv> 8"
abbreviation (input) PimStateOther :: State where "PimStateOther \<equiv> 9"
abbreviation (input) PimStateCurrent :: State where "PimStateCurrent \<equiv> 10"
abbreviation (input) PimStateReceive :: State where "PimStateReceive \<equiv> 11"
abbreviation (input) PimEventBegin :: Event where "PimEventBegin \<equiv> 1"
abbreviation (input) PimEventNotPortEnabledInfoIsNotEqualDisabled :: Event where "PimEventNotPortEnabledInfoIsNotEqualDisabled \<equiv> 2"
abbreviation (input) PimEventRcvdMsg :: Event where "PimEventRcvdMsg \<equiv> 3"
abbreviation (input) PimEventRcvdMsgAndNotUpdtInfo :: Event where "PimEventRcvdMsgAndNotUpdtInfo \<equiv> 4"
abbreviation (input) PimEventPortEnabled :: Event where "PimEventPortEnabled \<equiv> 5"
abbreviation (input) PimEventSelectedAndUpdtInfo :: Event where "PimEventSelectedAndUpdtInfo \<equiv> 6"
abbreviation (input) PimEventUnconditionalFallThrough :: Event where "PimEventUnconditionalFallThrough \<equiv> 7"
abbreviation (input) PimEventInflsEqualReceivedAndRcvdInfoWhileEqualZeroAndNotUpdtInfoAndNotRcvdMsg :: Event where "PimEventInflsEqualReceivedAndRcvdInfoWhileEqualZeroAndNotUpdtInfoAndNotRcvdMsg \<equiv> 8"
abbreviation (input) PimEventRcvdInfoEqualSuperiorDesignatedInfo :: Event where "PimEventRcvdInfoEqualSuperiorDesignatedInfo \<equiv> 9"
abbreviation (input) PimEventRcvdInfoEqualRepeatedDesignatedInfo :: Event where "PimEventRcvdInfoEqualRepeatedDesignatedInfo \<equiv> 10"
abbreviation (input) PimEventRcvdInfoEqualInferiorDesignatedInfo :: Event where "PimEventRcvdInfoEqualInferiorDesignatedInfo \<equiv> 11"
abbreviation (input) PimEventRcvdInfoEqualInferiorRootAlternateInfo :: Event where "PimEventRcvdInfoEqualInferiorRootAlternateInfo \<equiv> 12"
abbreviation (input) PimEventRcvdInfoEqualOtherInfo :: Event where "PimEventRcvdInfoEqualOtherInfo \<equiv> 13"

section \<open>Bridge detection: \<open>bdmfsm.go\<close>\<close>

abbreviation (input) BdmStateNone :: State where "BdmStateNone \<equiv> 1"
abbreviation (input) BdmStateEdge :: State where "BdmStateEdge \<equiv> 2"
abbreviation (input) BdmStateNotEdge :: State where "BdmStateNotEdge \<equiv> 3"
abbreviation (input) BdmEventBeginAdminEdge :: Event where "BdmEventBeginAdminEdge \<equiv> 1"
abbreviation (input) BdmEventBeginNotAdminEdge :: Event where "BdmEventBeginNotAdminEdge \<equiv> 2"
abbreviation (input) BdmEventNotPortEnabledAndAdminEdge :: Event where "BdmEventNotPortEnabledAndAdminEdge \<equiv> 3"
abbreviation (input) BdmEventEdgeDelayWhileEqualZeroAndAutoEdgeAndSendRSTPAndProposing :: Event where "BdmEventEdgeDelayWhileEqualZeroAndAutoEdgeAndSendRSTPAndProposing \<equiv> 4"
abbreviation (input) BdmEventNotPortEnabledAndNotAdminEdge :: Event where "BdmEventNotPortEnabledAndNotAdminEdge \<equiv> 5"
abbreviation (input) BdmEventNotOperEdge :: Event where "BdmEventNotOperEdge \<equiv> 6"

section \<open>Port role transitions: \<open>prtfsm.go\<close>\<close>

abbreviation (input) PrtStateNone :: State where "PrtStateNone \<equiv> 1"
abbreviation (input) PrtStateInitPort :: State where "PrtStateInitPort \<equiv> 2"
abbreviation (input) PrtStateDisablePort :: State where "PrtStateDisablePort \<equiv> 3"
abbreviation (input) PrtStateDisabledPort :: State where "PrtStateDisabledPort \<equiv> 4"
abbreviation (input) PrtStateRootPort :: State where "PrtStateRootPort \<equiv> 5"
abbreviation (input) PrtStateReRoot :: State where "PrtStateReRoot \<equiv> 6"
abbreviation (input) PrtStateRootAgreed :: State where "PrtStateRootAgreed \<equiv> 7"
abbreviation (input) PrtStateRootProposed :: State where "PrtStateRootProposed \<equiv> 8"
abbreviation (input) PrtStateRootForward :: State where "PrtStateRootForward \<equiv> 9"
abbreviation (input) PrtStateRootLearn :: State where "PrtStateRootLearn \<equiv> 10"
abbreviation (input) PrtStateReRooted :: State where "PrtStateReRooted \<equiv> 11"
abbreviation (input) PrtStateDesignatedPort :: State where "PrtStateDesignatedPort \<equiv> 12"
abbreviation (input) PrtStateDesignatedRetired :: State where "PrtStateDesignatedRetired \<equiv> 13"
abbreviation (input) PrtStateDesignatedSynced :: State where "PrtStateDesignatedSynced \<equiv> 14"
abbreviation (input) PrtStateDesignatedPropose :: State where "PrtStateDesignatedPropose \<equiv> 15"
abbreviation (input) PrtStateDesignatedForward :: State where "PrtStateDesignatedForward \<equiv> 16"
abbreviation (input) PrtStateDesignatedLearn :: State where "PrtStateDesignatedLearn \<equiv> 17"
abbreviation (input) PrtStateDesignatedDiscard :: State where "PrtStateDesignatedDiscard \<equiv> 18"
abbreviation (input) PrtStateAlternatePort :: State where "PrtStateAlternatePort \<equiv> 19"
abbreviation (input) PrtStateAlternateAgreed :: State where "PrtStateAlternateAgreed \<equiv> 20"
abbreviation (input) PrtStateAlternateProposed :: State where "PrtStateAlternateProposed \<equiv> 21"
abbreviation (input) PrtStateBlockPort :: State where "PrtStateBlockPort \<equiv> 22"
abbreviation (input) PrtStateBackupPort :: State where "PrtStateBackupPort \<equiv> 23"
abbreviation (input) PrtEventBegin :: Event where "PrtEventBegin \<equiv> 1"
abbreviation (input) PrtEventUnconditionallFallThrough :: Event where "PrtEventUnconditionallFallThrough \<equiv> 2"
abbreviation (input) PrtEventSelectedRoleEqualDisabledPortAndRoleNotEqualSelectedRoleAndSelectedAndNotUpdtInfo :: Event where "PrtEventSelectedRoleEqualDisabledPortAndRoleNotEqualSelectedRoleAndSelectedAndNotUpdtInfo \<equiv> 3"
abbreviation (input) PrtEventNotLearningAndNotForwardingAndSelectedAndNotUpdtInfo :: Event where "PrtEventNotLearningAndNotForwardingAndSelectedAndNotUpdtInfo \<equiv> 4"
abbreviation (input) PrtEventFdWhileNotEqualMaxAgeAndSelectedAndNotUpdtInfo :: Event where "PrtEventFdWhileNotEqualMaxAgeAndSelectedAndNotUpdtInfo \<equiv> 5"
abbreviation (input) PrtEventSyncAndSelectedAndNotUpdtInfo :: Event where "PrtEventSyncAndSelectedAndNotUpdtInfo \<equiv> 6"
abbreviation (input) PrtEventReRootAndSelectedAndNotUpdtInfo :: Event where "PrtEventReRootAndSelectedAndNotUpdtInfo \<equiv> 7"
abbreviation (input) PrtEventNotSyncedAndSelectedAndNotUpdtInfo :: Event where "PrtEventNotSyncedAndSelectedAndNotUpdtInfo \<equiv> 8"
abbreviation (input) PrtEventSelectedRoleEqualRootPortAndRoleNotEqualSelectedRoleAndSelectedAndNotUpdtInfo :: Event where "PrtEventSelectedRoleEqualRootPortAndRoleNotEqualSelectedRoleAndSelectedAndNotUpdtInfo \<equiv> 9"
abbreviation (input) PrtEventProposedAndNotAgreeAndSelectedAndNotUpdtInfo :: Event where "PrtEventProposedAndNotAgreeAndSelectedAndNotUpdtInfo \<equiv> 10"
abbreviation (input) PrtEventAllSyncedAndNotAgreeAndSelectedAndNotUpdtInfo :: Event where "PrtEventAllSyncedAndNotAgreeAndSelectedAndNotUpdtInfo \<equiv> 11"
abbreviation (input) PrtEventProposedAndAgreeAndSelectedAndNotUpdtInfo :: Event where "PrtEventProposedAndAgreeAndSelectedAndNotUpdtInfo \<equiv> 12"
abbreviation (input) PrtEventNotForwardAndNotReRootAndSelectedAndNotUpdtInfo :: Event where "PrtEventNotForwardAndNotReRootAndSelectedAndNotUpdtInfo \<equiv> 13"
abbreviation (input) PrtEventRrWhileNotEqualFwdDelayAndSelectedAndNotUpdtInfo :: Event where "PrtEventRrWhileNotEqualFwdDelayAndSelectedAndNotUpdtInfo \<equiv> 14"
abbreviation (input) PrtEventReRootAndForwardAndSelectedAndNotUpdtInfo :: Event where "PrtEventReRootAndForwardAndSelectedAndNotUpdtInfo \<equiv> 15"
abbreviation (input) PrtEventFdWhileEqualZeroAndRstpVersionAndNotLearnAndSelectedAndNotUpdtInfo :: Event where "PrtEventFdWhileEqualZeroAndRstpVersionAndNotLearnAndSelectedAndNotUpdtInfo \<equiv> 16"
abbreviation (input) PrtEventReRootedAndRbWhileEqualZeroAndRstpVersionAndNotLearnAndSelectedAndNotUpdtInfo :: Event where "PrtEventReRootedAndRbWhileEqualZeroAndRstpVersionAndNotLearnAndSelectedAndNotUpdtInfo \<equiv> 17"
abbreviation (input) PrtEventFdWhileEqualZeroAndRstpVersionAndLearnAndNotForwardAndSelectedAndNotUpdtInfo :: Event where "PrtEventFdWhileEqualZeroAndRstpVersionAndLearnAndNotForwardAndSelectedAndNotUpdtInfo \<equiv> 18"
abbreviation (input) PrtEventReRootedAndRbWhileEqualZeroAndRstpVersionAndLearnAndNotForwardAndSelectedAndNotUpdtInfo :: Event where "PrtEventReRootedAndRbWhileEqualZeroAndRstpVersionAndLearnAndNotForwardAndSelectedAndNotUpdtInfo \<equiv> 19"
abbreviation (input) PrtEventSelectedRoleEqualDesignatedPortAndRoleNotEqualSelectedRoleAndSelectedAndNotUpdtInfo :: Event where "PrtEventSelectedRoleEqualDesignatedPortAndRoleNotEqualSelectedRoleAndSelectedAndNotUpdtInfo \<equiv> 20"
abbreviation (input) PrtEventNotForwardAndNotAgreedAndNotProposingAndNotOperEdgeAndSelectedAndNotUpdtInfo :: Event where "PrtEventNotForwardAndNotAgreedAndNotProposingAndNotOperEdgeAndSelectedAndNotUpdtInfo \<equiv> 21"
abbreviation (input) PrtEventNotLearningAndNotForwardingAndNotSyncedAndSelectedAndNotUpdtInfo :: Event where "PrtEventNotLearningAndNotForwardingAndNotSyncedAndSelectedAndNotUpdtInfo \<equiv> 22"
abbreviation (input) PrtEventAgreedAndNotSyncedAndSelectedAndNotUpdtInfo :: Event where "PrtEventAgreedAndNotSyncedAndSelectedAndNotUpdtInfo \<equiv> 23"
abbreviation (input) PrtEventOperEdgeAndNotSyncedAndSelectedAndNotUpdtInfo :: Event where "PrtEventOperEdgeAndNotSyncedAndSelectedAndNotUpdtInfo \<equiv> 24"
abbreviation (input) PrtEventSyncAndSyncedAndSelectedAndNotUpdtInfo :: Event where "PrtEventSyncAndSyncedAndSelectedAndNotUpdtInfo \<equiv> 25"
abbreviation (input) PrtEventRrWhileEqualZeroAndReRootAndSelectedAndNotUpdtInfo :: Event where "PrtEventRrWhileEqualZeroAndReRootAndSelectedAndNotUpdtInfo \<equiv> 26"
abbreviation (input) PrtEventSyncAndNotSyncedAndNotOperEdgeAndLearnAndSelectedAndNotUpdtInfo :: Event where "PrtEventSyncAndNotSyncedAndNotOperEdgeAndLearnAndSelectedAndNotUpdtInfo \<equiv> 27"
abbreviation (input) PrtEventSyncAndNotSyncedAndNotOperEdgeAndForwardAndSelectedAndNotUpdtInfo :: Event where "PrtEventSyncAndNotSyncedAndNotOperEdgeAndForwardAndSelectedAndNotUpdtInfo \<equiv> 28"
abbreviation (input) PrtEventReRootAndRrWhileNotEqualZeroAndNotOperEdgeAndLearnAndSelectedAndNotUpdtInfo :: Event where "PrtEventReRootAndRrWhileNotEqualZeroAndNotOperEdgeAndLearnAndSelectedAndNotUpdtInfo \<equiv> 29"
abbreviation (input) PrtEventReRootAndRrWhileNotEqualZeroAndNotOperEdgeAndForwardAndSelectedAndNotUpdtInfo :: Event where "PrtEventReRootAndRrWhileNotEqualZeroAndNotOperEdgeAndForwardAndSelectedAndNotUpdtInfo \<equiv> 30"
abbreviation (input) PrtEventDisputedAndNotOperEdgeAndLearnAndSelectedAndNotUpdtInfo :: Event where "PrtEventDisputedAndNotOperEdgeAndLearnAndSelectedAndNotUpdtInfo \<equiv> 31"
abbreviation (input) PrtEventDisputedAndNotOperEdgeAndForwardAndSelectedAndNotUpdtInfo :: Event where "PrtEventDisputedAndNotOperEdgeAndForwardAndSelectedAndNotUpdtInfo \<equiv> 32"
abbreviation (input) PrtEventFdWhileEqualZeroAndRrWhileEqualZeroAndNotSyncAndNotLearnAndSelectedAndNotUpdtInfo :: Event where "PrtEventFdWhileEqualZeroAndRrWhileEqualZeroAndNotSyncAndNotLearnAndSelectedAndNotUpdtInfo \<equiv> 33"
abbreviation (input) PrtEventFdWhileEqualZeroAndNotReRootAndNotSyncAndNotLearnSelectedAndNotUpdtInfo :: Event where "PrtEventFdWhileEqualZeroAndNotReRootAndNotSyncAndNotLearnSelectedAndNotUpdtInfo \<equiv> 34"
abbreviation (input) PrtEventAgreedAndRrWhileEqualZeroAndNotSyncAndNotLearnAndSelectedAndNotUpdtInfo :: Event where "PrtEventAgreedAndRrWhileEqualZeroAndNotSyncAndNotLearnAndSelectedAndNotUpdtInfo \<equiv> 35"
abbreviation (input) PrtEventAgreedAndNotReRootAndNotSyncAndNotLearnAndSelectedAndNotUpdtInfo :: Event where "PrtEventAgreedAndNotReRootAndNotSyncAndNotLearnAndSelectedAndNotUpdtInfo \<equiv> 36"
abbreviation (input) PrtEventOperEdgeAndRrWhileEqualZeroAndNotSyncAndNotLearnAndSelectedAndNotUpdtInfo :: Event where "PrtEventOperEdgeAndRrWhileEqualZeroAndNotSyncAndNotLearnAndSelectedAndNotUpdtInfo \<equiv> 37"
abbreviation (input) PrtEventOperEdgeAndNotReRootAndNotSyncAndNotLearnAndSelectedAndNotUpdtInfo :: Event where "PrtEventOperEdgeAndNotReRootAndNotSyncAndNotLearnAndSelectedAndNotUpdtInfo \<equiv> 38"
abbreviation (input) PrtEventNotReRootAndNotSyncAndNotLearnAndSelectedAndNotUpdtInfo :: Event where "PrtEventNotReRootAndNotSyncAndNotLearnAndSelectedAndNotUpdtInfo \<equiv> 39"
abbreviation (input) PrtEventFdWhileEqualZeroAndRrWhileEqualZeroAndNotSyncAndLearnAndNotForwardSelectedAndNotUpdtInfo :: Event where "PrtEventFdWhileEqualZeroAndRrWhileEqualZeroAndNotSyncAndLearnAndNotForwardSelectedAndNotUpdtInfo \<equiv> 40"
abbreviation (input) PrtEventFdWhileEqualZeroAndNotReRootAndNotSyncAndLearnAndNotForwardSelectedAndNotUpdtInfo :: Event where "PrtEventFdWhileEqualZeroAndNotReRootAndNotSyncAndLearnAndNotForwardSelectedAndNotUpdtInfo \<equiv> 41"
abbreviation (input) PrtEventAgreedAndRrWhileEqualZeroAndNotSyncAndLearnAndNotForwardAndSelectedAndNotUpdtInfo :: Event where "PrtEventAgreedAndRrWhileEqualZeroAndNotSyncAndLearnAndNotForwardAndSelectedAndNotUpdtInfo \<equiv> 42"
abbreviation (input) PrtEventAgreedAndNotReRootAndNotSyncAndLearnAndNotForwardAndSelectedAndNotUpdtInfo :: Event where "PrtEventAgreedAndNotReRootAndNotSyncAndLearnAndNotForwardAndSelectedAndNotUpdtInfo \<equiv> 43"
abbreviation (input) PrtEventOperEdgeAndRrWhileEqualZeroAndNotSyncAndLearnAndNotForwardAndSelectedAndNotUpdtInfo :: Event where "PrtEventOperEdgeAndRrWhileEqualZeroAndNotSyncAndLearnAndNotForwardAndSelectedAndNotUpdtInfo \<equiv> 44"
abbreviation (input) PrtEventOperEdgeAndNotReRootAndNotSyncAndLearnAndNotForwardAndSelectedAndNotUpdtInfo :: Event where "PrtEventOperEdgeAndNotReRootAndNotSyncAndLearnAndNotForwardAndSelectedAndNotUpdtInfo \<equiv> 45"
abbreviation (input) PrtEventNotReRootAndNotSyncAndLearnAndNotForwardAndSelectedAndNotUpdtInfo :: Event where "PrtEventNotReRootAndNotSyncAndLearnAndNotForwardAndSelectedAndNotUpdtInfo \<equiv> 46"
abbreviation (input) PrtEventSelectedRoleEqualAlternateAndRoleNotEqualSelectedRoleAndSelectedAndNotUpdtInfo :: Event where "PrtEventSelectedRoleEqualAlternateAndRoleNotEqualSelectedRoleAndSelectedAndNotUpdtInfo \<equiv> 47"
abbreviation (input) PrtEventSelectedRoleEqualBackupPortAndRoleNotEqualSelectedRoleAndSelectedAndNotUpdtInfo :: Event where "PrtEventSelectedRoleEqualBackupPortAndRoleNotEqualSelectedRoleAndSelectedAndNotUpdtInfo \<equiv> 48"
abbreviation (input) PrtEventRbWhileNotEqualTwoTimesHelloTimeAndRoleEqualsBackupPortAndSelectedAndNotUpdtInfo :: Event where "PrtEventRbWhileNotEqualTwoTimesHelloTimeAndRoleEqualsBackupPortAndSelectedAndNotUpdtInfo \<equiv> 49"
abbreviation (input) PrtEventFdWhileNotEqualForwardDelayAndSelectedAndNotUpdtInfo :: Event where "PrtEventFdWhileNotEqualForwardDelayAndSelectedAndNotUpdtInfo \<equiv> 50"

section \<open>Topology change: \<open>tcmfsm.go\<close>\<close>

abbreviation (input) TcStateNone :: State where "TcStateNone \<equiv> 1"
abbreviation (input) TcStateInactive :: State where "TcStateInactive \<equiv> 2"
abbreviation (input) TcStateLearning :: State where "TcStateLearning \<equiv> 3"
abbreviation (input) TcStateDetected :: State where "TcStateDetected \<equiv> 4"
abbreviation (input) TcStateActive :: State where "TcStateActive \<equiv> 5"
abbreviation (input) TcStateNotifiedTcn :: State where "TcStateNotifiedTcn \<equiv> 6"
abbreviation (input) TcStateNotifiedTc :: State where "TcStateNotifiedTc \<equiv> 7"
abbreviation (input) TcStatePropagating :: State where "TcStatePropagating \<equiv> 8"
abbreviation (input) TcStateAcknowledged :: State where "TcStateAcknowledged \<equiv> 9"
abbreviation (input) TcEventBegin :: Event where "TcEventBegin \<equiv> 1"
abbreviation (input) TcEventUnconditionalFallThrough :: Event where "TcEventUnconditionalFallThrough \<equiv> 2"
abbreviation (input) TcEventRoleNotEqualRootPortAndRoleNotEqualDesignatedPortAndNotLearnAndNotLearningAndNotRcvdTcAndNotRcvdTcnAndNotRcvdTcAckAndNotTcProp :: Event where "TcEventRoleNotEqualRootPortAndRoleNotEqualDesignatedPortAndNotLearnAndNotLearningAndNotRcvdTcAndNotRcvdTcnAndNotRcvdTcAckAndNotTcProp \<equiv> 3"
abbreviation (input) TcEventLearnAndNotFdbFlush :: Event where "TcEventLearnAndNotFdbFlush \<equiv> 4"
abbreviation (input) TcEventRcvdTc :: Event where "TcEventRcvdTc \<equiv> 5"
abbreviation (input) TcEventRcvdTcn :: Event where "TcEventRcvdTcn \<equiv> 6"
abbreviation (input) TcEventRcvdTcAck :: Event where "TcEventRcvdTcAck \<equiv> 7"
abbreviation (input) TcEventTcProp :: Event where "TcEventTcProp \<equiv> 8"
abbreviation (input) TcEventRoleEqualRootPortAndForwardAndNotOperEdge :: Event where "TcEventRoleEqualRootPortAndForwardAndNotOperEdge \<equiv> 9"
abbreviation (input) TcEventRoleEqualDesignatedPortAndForwardAndNotOperEdge :: Event where "TcEventRoleEqualDesignatedPortAndForwardAndNotOperEdge \<equiv> 10"
abbreviation (input) TcEventTcPropAndNotOperEdge :: Event where "TcEventTcPropAndNotOperEdge \<equiv> 11"
abbreviation (input) TcEventRoleNotEqualRootPortAndRoleNotEqualDesignatedPort :: Event where "TcEventRoleNotEqualRootPortAndRoleNotEqualDesignatedPort \<equiv> 12"
abbreviation (input) TcEventOperEdge :: Event where "TcEventOperEdge \<equiv> 13"

section \<open>Port state transition: \<open>pstfsm.go\<close>\<close>

abbreviation (input) PstStateNone :: State where "PstStateNone \<equiv> 1"
abbreviation (input) PstStateDiscarding :: State where "PstStateDiscarding \<equiv> 2"
abbreviation (input) PstStateLearning :: State where "PstStateLearning \<equiv> 3"
abbreviation (input) PstStateForwarding :: State where "PstStateForwarding \<equiv> 4"
abbreviation (input) PstEventBegin :: Event where "PstEventBegin \<equiv> 1"
abbreviation (input) PstEventLearn :: Event where "PstEventLearn \<equiv> 2"
abbreviation (input) PstEventNotLearn :: Event where "PstEventNotLearn \<equiv> 3"
abbreviation (input) PstEventForward :: Event where "PstEventForward \<equiv> 4"
abbreviation (input) PstEventNotForward :: Event where "PstEventNotForward \<equiv> 5"

section \<open>Port role selection: \<open>prsfsm.go\<close>\<close>

abbreviation (input) PrsStateNone :: State where "PrsStateNone \<equiv> 1"
abbreviation (input) PrsStateInitBridge :: State where "PrsStateInitBridge \<equiv> 2"
abbreviation (input) PrsStateRoleSelection :: State where "PrsStateRoleSelection \<equiv> 3"
abbreviation (input) PrsEventBegin :: Event where "PrsEventBegin \<equiv> 1"
abbreviation (input) PrsEventUnconditionallFallThrough :: Event where "PrsEventUnconditionallFallThrough \<equiv> 2"
abbreviation (input) PrsEventReselect :: Event where "PrsEventReselect \<equiv> 3"

end
