(* ===== verification/Stp_Port.thy ===== *)
theory Stp_Port
  imports Stp_Bpdu Stp_Events
begin

text \<open>
  The port record of \<open>l2/stp/protocol/port.go\<close> and the state every per-port
  handler works on.  A handler of port \<open>p\<close> reads and writes \<open>p\<close>, its bridge
  \<open>p.b\<close> and, through \<open>StpFindPortByIfIndex\<close>, the other ports of that bridge; it
  sends events on the channels of other machines.  \<open>Ctx\<close> holds exactly these:
  the bridge, the port itself, the other ports of the bridge by interface index,
  and the list of what was sent, in order.  A \<open>PortTimer\<close> is its \<open>count\<close>;
  \<open>PtmTick\<close> is the \<open>Tick\<close> flag of the port timer machine.  A handler runs to
  its end before the next one starts; data races between the machines'
  goroutines are not modelled.
\<close>

section \<open>The port\<close>

record StpPort =
  IfIndex :: int32
  Agree :: bool
  Agreed :: bool
  AdminEdge :: bool
  AutoEdgePort :: bool
  AdminPathCost :: int32
  BpduGuard :: bool
  BpduGuardInterval :: int32
  BridgeAssurance :: bool
  BridgeAssuranceInconsistant :: bool
  Disputed :: bool
  FdbFlush :: bool
  Forward :: bool
  Forwarding :: bool
  InfoIs :: PortInfoState
  Learn :: bool
  Learning :: bool
  Mcheck :: bool
  MsgPriority :: PriorityVector
  MsgTimes :: Times
  NewInfo :: bool
  OperEdge :: bool
  PortEnabled :: bool
  PortId :: uint16
  PortPathCost :: uint32
  PortPriority :: PriorityVector
  PortTimes :: Times
  Priority :: uint16
  Proposed :: bool
  Proposing :: bool
  RcvdBPDU :: bool
  RcvdInfo :: PortDesignatedRcvInfo
  RcvdMsg :: bool
  RcvdRSTP :: bool
  RcvdSTP :: bool
  RcvdTc :: bool
  RcvdTcAck :: bool
  RcvdTcn :: bool
  RstpVersion :: bool
  ReRoot :: bool
  Reselect :: bool
  Role :: PortRole
  Selected :: bool
  SelectedRole :: PortRole
  SendRSTP :: bool
  Sync :: bool
  Synced :: bool
  TcAck :: bool
  TcProp :: bool
  PtmTick :: bool
  TxCount :: uint64
  UpdtInfo :: bool
  OperPointToPointMAC :: bool
  AdminPointToPointMAC :: PointToPointMac
  AdminPortEnabled :: bool
  PortBridgeId :: BridgeId
  PortBrgIfIndex :: int32
  BpduRx :: uint64
  BpduTx :: uint64
  StpRx :: uint64
  StpTx :: uint64
  TcRx :: uint64
  TcTx :: uint64
  TcAckRx :: uint64
  TcAckTx :: uint64
  RstpRx :: uint64
  RstpTx :: uint64
  PvstRx :: uint64
  PvstTx :: uint64
  ForwardingTransitions :: uint64
  EdgeDelayWhileTimer :: int32
  FdWhileTimer :: int32
  HelloWhenTimer :: int32
  MdelayWhiletimer :: int32
  RbWhileTimer :: int32
  RcvdInfoWhiletimer :: int32
  RrWhileTimer :: int32
  TcWhileTimer :: int32
  BAWhileTimer :: int32
  BPDUGuardTimer :: int32
  PrxmMachineFsm :: FsmMachine
  PtmMachineFsm :: FsmMachine
  PpmmMachineFsm :: FsmMachine
  PtxmMachineFsm :: FsmMachine
  PimMachineFsm :: FsmMachine
  BdmMachineFsm :: FsmMachine
  PrtMachineFsm :: FsmMachine
  TcMachineFsm :: FsmMachine
  PstMachineFsm :: FsmMachine
  portHandle :: bool

text \<open>Go's zero value of the struct: what \<open>&StpPort{}\<close> holds before any field is set.\<close>

definition zero_port :: StpPort where
  "zero_port = \<lparr>
     IfIndex = 0, Agree = False, Agreed = False, AdminEdge = False, AutoEdgePort = False,
     AdminPathCost = 0, BpduGuard = False, BpduGuardInterval = 0, BridgeAssurance = False,
     BridgeAssuranceInconsistant = False, Disputed = False, FdbFlush = False, Forward = False,
     Forwarding = False, InfoIs = PortInfoStateMine, Learn = False, Learning = False,
     Mcheck = False, MsgPriority = zero_pv, MsgTimes = zero_times, NewInfo = False,
     OperEdge = False, PortEnabled = False, PortId = 0, PortPathCost = 0, PortPriority = zero_pv,
     PortTimes = zero_times, Priority = 0, Proposed = False, Proposing = False, RcvdBPDU = False,
     RcvdInfo = SuperiorDesignatedInfo, RcvdMsg = False, RcvdRSTP = False, RcvdSTP = False,
     RcvdTc = False, RcvdTcAck = False, RcvdTcn = False, RstpVersion = False, ReRoot = False,
     Reselect = False, Role = PortRoleInvalid, Selected = False, SelectedRole = PortRoleInvalid,
     SendRSTP = False, Sync = False, Synced = False, TcAck = False, TcProp = False,
     PtmTick = False, TxCount = 0, UpdtInfo = False, OperPointToPointMAC = False,
     AdminPointToPointMAC = 0, AdminPortEnabled = False,
     PortBridgeId = zero_bid, PortBrgIfIndex = 0, BpduRx = 0, BpduTx = 0, StpRx = 0, StpTx = 0,
     TcRx = 0, TcTx = 0, TcAckRx = 0, TcAckTx = 0, RstpRx = 0, RstpTx = 0, PvstRx = 0, PvstTx = 0,
     ForwardingTransitions = 0, EdgeDelayWhileTimer = 0, FdWhileTimer = 0, HelloWhenTimer = 0,
     MdelayWhiletimer = 0, RbWhileTimer = 0, RcvdInfoWhiletimer = 0, RrWhileTimer = 0,
     TcWhileTimer = 0, BAWhileTimer = 0, BPDUGuardTimer = 0, PrxmMachineFsm = nil_machine,
     PtmMachineFsm = nil_machine, PpmmMachineFsm = nil_machine, PtxmMachineFsm = nil_machine,
     PimMachineFsm = nil_machine, BdmMachineFsm = nil_machine, PrtMachineFsm = nil_machine,
     TcMachineFsm = nil_machine, PstMachineFsm = nil_machine, portHandle = False\<rparr>"

section \<open>What a handler sends\<close>

text \<open>The channels of the machines.  An event goes to the machine of the port with
  the given interface index; \<open>PrsEvents\<close> is the channel of the bridge.\<close>

datatype Chan =
    PrxmEvents | PtmEvents | PpmmEvents | PtxmEvents | PimEvents | BdmEvents
  | PrtEvents | TcEvents | PstEvents | PrsEvents

text \<open>Port states of the forwarding hardware, \<open>pluginCommon.STP_PORT_STATE_*\<close>.\<close>

datatype HwState = STP_PORT_STATE_BLOCKING | STP_PORT_STATE_LEARNING | STP_PORT_STATE_FORWARDING

text \<open>Besides events a handler programs the hardware, transmits frames and starts the
  goroutine \<open>FlushFdb\<close> of a port (\<open>GoFlushFdb\<close>).  The calls for the hardware are made in loops over
  the list of \<open>asicd\<close> plugins, with the same arguments for every plugin: one output stands for
  one such loop, so the outputs are the calls that each plugin of the list gets.\<close>

datatype StpOut =
    Send Chan int32 Event "Pdu option"
  | SetStgPortState int32 int32 HwState
  | FlushStgFdb int32 int32
  | GoFlushFdb int32
  | BPDUGuardDetected int32 bool
  | TxFrame int32 Pdu

record Ctx =
  brg :: Bridge
  self :: StpPort
  peers :: "int32 \<Rightarrow> StpPort option"
  out :: "StpOut list"
  panicked :: bool

text \<open>\<open>panicked\<close> records a run time panic of the handler (a failed type assertion
  or nil dereference).  The process ends there: once the flag is set, the other
  components are no state of the program, and a theorem about a run that panics
  speaks of the flag alone.\<close>

text \<open>A context with the given bridge and port and no other port.\<close>

definition solo :: "Bridge \<Rightarrow> StpPort \<Rightarrow> Ctx" where
  "solo b p = \<lparr>brg = b, self = p, peers = Map.empty, out = [], panicked = False\<rparr>"

definition emit :: "StpOut list \<Rightarrow> Ctx \<Rightarrow> Ctx" where
  "emit xs c = c\<lparr>out := out c @ xs\<rparr>"

definition panic :: "Ctx \<Rightarrow> Ctx" where
  "panic c = c\<lparr>panicked := True\<rparr>"

definition to_prt :: "StpPort \<Rightarrow> Event \<Rightarrow> StpOut list" where
  "to_prt p e = [Send PrtEvents (IfIndex p) e None]"

definition to_pim :: "StpPort \<Rightarrow> Event \<Rightarrow> Pdu option \<Rightarrow> StpOut list" where
  "to_pim p e d = [Send PimEvents (IfIndex p) e d]"

definition to_bdm :: "StpPort \<Rightarrow> Event \<Rightarrow> StpOut list" where
  "to_bdm p e = [Send BdmEvents (IfIndex p) e None]"

definition to_tc :: "StpPort \<Rightarrow> Event \<Rightarrow> StpOut list" where
  "to_tc p e = [Send TcEvents (IfIndex p) e None]"

definition to_pst :: "StpPort \<Rightarrow> Event \<Rightarrow> StpOut list" where
  "to_pst p e = [Send PstEvents (IfIndex p) e None]"

definition to_ptx :: "StpPort \<Rightarrow> Event \<Rightarrow> StpOut list" where
  "to_ptx p e = [Send PtxmEvents (IfIndex p) e None]"

section \<open>Lookup in the bridge\<close>

definition StpFindPortByIfIndex :: "Ctx \<Rightarrow> int32 \<Rightarrow> StpPort option" where
  "StpFindPortByIfIndex c pId = (if pId = IfIndex (self c) then Some (self c) else peers c pId)"

definition bridge_ports :: "Ctx \<Rightarrow> StpPort list" where
  "bridge_ports c = List.map_filter (StpFindPortByIfIndex c) (StpPorts (brg c))"

fun all_synced_loop :: "StpPort list \<Rightarrow> bool \<Rightarrow> bool" where
  "all_synced_loop [] allsynced = allsynced"
| "all_synced_loop (p # ps) allsynced =
     (if Selected p \<and> Role p = SelectedRole p \<and> (Synced p \<or> SelectedRole p = PortRoleRootPort)
      then all_synced_loop ps True
      else False)"

definition AllSynced :: "Ctx \<Rightarrow> bool" where
  "AllSynced c = all_synced_loop (bridge_ports c) False"

fun rerooted_loop :: "Ctx \<Rightarrow> int32 \<Rightarrow> int32 list \<Rightarrow> bool \<Rightarrow> bool" where
  "rerooted_loop c i [] r = r"
| "rerooted_loop c i (pId # ids) r =
     (if pId = i then rerooted_loop c i ids r
      else case StpFindPortByIfIndex c pId of
             Some op \<Rightarrow> rerooted_loop c i ids (if RrWhileTimer op \<noteq> 0 then False else r)
           | None \<Rightarrow> rerooted_loop c i ids r)"

definition ReRooted :: "Ctx \<Rightarrow> StpPort \<Rightarrow> bool" where
  "ReRooted c p =
     (if RrWhileTimer p = 0 then False
      else rerooted_loop c (IfIndex p) (StpPorts (brg c)) True)"

section \<open>The machines of a port as slots of the state\<close>

definition prx_get :: "Ctx \<Rightarrow> FsmMachine" where "prx_get c = PrxmMachineFsm (self c)"
definition prx_upd :: "(FsmMachine \<Rightarrow> FsmMachine) \<Rightarrow> Ctx \<Rightarrow> Ctx" where
  "prx_upd f c = c\<lparr>self := (self c)\<lparr>PrxmMachineFsm := f (PrxmMachineFsm (self c))\<rparr>\<rparr>"
definition ptm_get :: "Ctx \<Rightarrow> FsmMachine" where "ptm_get c = PtmMachineFsm (self c)"
definition ptm_upd :: "(FsmMachine \<Rightarrow> FsmMachine) \<Rightarrow> Ctx \<Rightarrow> Ctx" where
  "ptm_upd f c = c\<lparr>self := (self c)\<lparr>PtmMachineFsm := f (PtmMachineFsm (self c))\<rparr>\<rparr>"
definition ppmm_get :: "Ctx \<Rightarrow> FsmMachine" where "ppmm_get c = PpmmMachineFsm (self c)"
definition ppmm_upd :: "(FsmMachine \<Rightarrow> FsmMachine) \<Rightarrow> Ctx \<Rightarrow> Ctx" where
  "ppmm_upd f c = c\<lparr>self := (self c)\<lparr>PpmmMachineFsm := f (PpmmMachineFsm (self c))\<rparr>\<rparr>"
definition ptx_get :: "Ctx \<Rightarrow> FsmMachine" where "ptx_get c = PtxmMachineFsm (self c)"
definition ptx_upd :: "(FsmMachine \<Rightarrow> FsmMachine) \<Rightarrow> Ctx \<Rightarrow> Ctx" where
  "ptx_upd f c = c\<lparr>self := (self c)\<lparr>PtxmMachineFsm := f (PtxmMachineFsm (self c))\<rparr>\<rparr>"
definition pim_get :: "Ctx \<Rightarrow> FsmMachine" where "pim_get c = PimMachineFsm (self c)"
definition pim_upd :: "(FsmMachine \<Rightarrow> FsmMachine) \<Rightarrow> Ctx \<Rightarrow> Ctx" where
  "pim_upd f c = c\<lparr>self := (self c)\<lparr>PimMachineFsm := f (PimMachineFsm (self c))\<rparr>\<rparr>"
definition bdm_get :: "Ctx \<Rightarrow> FsmMachine" where "bdm_get c = BdmMachineFsm (self c)"
definition bdm_upd :: "(FsmMachine \<Rightarrow> FsmMachine) \<Rightarrow> Ctx \<Rightarrow> Ctx" where
  "bdm_upd f c = c\<lparr>self := (self c)\<lparr>BdmMachineFsm := f (BdmMachineFsm (self c))\<rparr>\<rparr>"
definition prt_get :: "Ctx \<Rightarrow> FsmMachine" where "prt_get c = PrtMachineFsm (self c)"
definition prt_upd :: "(FsmMachine \<Rightarrow> FsmMachine) \<Rightarrow> Ctx \<Rightarrow> Ctx" where
  "prt_upd f c = c\<lparr>self := (self c)\<lparr>PrtMachineFsm := f (PrtMachineFsm (self c))\<rparr>\<rparr>"
definition tc_get :: "Ctx \<Rightarrow> FsmMachine" where "tc_get c = TcMachineFsm (self c)"
definition tc_upd :: "(FsmMachine \<Rightarrow> FsmMachine) \<Rightarrow> Ctx \<Rightarrow> Ctx" where
  "tc_upd f c = c\<lparr>self := (self c)\<lparr>TcMachineFsm := f (TcMachineFsm (self c))\<rparr>\<rparr>"
definition pst_get :: "Ctx \<Rightarrow> FsmMachine" where "pst_get c = PstMachineFsm (self c)"
definition pst_upd :: "(FsmMachine \<Rightarrow> FsmMachine) \<Rightarrow> Ctx \<Rightarrow> Ctx" where
  "pst_upd f c = c\<lparr>self := (self c)\<lparr>PstMachineFsm := f (PstMachineFsm (self c))\<rparr>\<rparr>"

lemmas slot_defs [stp_state] =
  prx_get_def prx_upd_def ptm_get_def ptm_upd_def ppmm_get_def ppmm_upd_def ptx_get_def ptx_upd_def
  pim_get_def pim_upd_def bdm_get_def bdm_upd_def prt_get_def prt_upd_def tc_get_def tc_upd_def
  pst_get_def pst_upd_def

lemmas ctx_defs [stp_state] = emit_def panic_def

interpretation prx_slot: machine_slot prx_get prx_upd
  by unfold_locales (simp_all add: prx_get_def prx_upd_def)

interpretation ptm_slot: machine_slot ptm_get ptm_upd
  by unfold_locales (simp_all add: ptm_get_def ptm_upd_def)

interpretation ppmm_slot: machine_slot ppmm_get ppmm_upd
  by unfold_locales (simp_all add: ppmm_get_def ppmm_upd_def)

interpretation ptx_slot: machine_slot ptx_get ptx_upd
  by unfold_locales (simp_all add: ptx_get_def ptx_upd_def)

interpretation pim_slot: machine_slot pim_get pim_upd
  by unfold_locales (simp_all add: pim_get_def pim_upd_def)

interpretation bdm_slot: machine_slot bdm_get bdm_upd
  by unfold_locales (simp_all add: bdm_get_def bdm_upd_def)

interpretation prt_slot: machine_slot prt_get prt_upd
  by unfold_locales (simp_all add: prt_get_def prt_upd_def)

interpretation tc_slot: machine_slot tc_get tc_upd
  by unfold_locales (simp_all add: tc_get_def tc_upd_def)

interpretation pst_slot: machine_slot pst_get pst_upd
  by unfold_locales (simp_all add: pst_get_def pst_upd_def)

section \<open>Synchronisation and re-rooting over the bridge\<close>

definition rr_quiet :: "Ctx \<Rightarrow> int32 \<Rightarrow> int32 \<Rightarrow> bool" where
  "rr_quiet c i j \<longleftrightarrow>
     j = i \<or> (case StpFindPortByIfIndex c j of None \<Rightarrow> True | Some q \<Rightarrow> RrWhileTimer q = 0)"

lemma rerooted_loop_iff: "rerooted_loop c i ids r \<longleftrightarrow> r \<and> list_all (rr_quiet c i) ids"
  by (induction ids arbitrary: r) (auto simp: rr_quiet_def split: option.splits)

end
