(* ===== verification/Stp_Notify.thy ===== *)
theory Stp_Notify
  imports Stp_Port
begin

text \<open>
  The change notifications of \<open>l2/stp/protocol/port.go\<close>.  Each function looks at
  the port after a variable was written and returns the events it sends to the
  other machines, in order.  \<open>c\<close> is the state the handler runs in, needed where
  the source asks the bridge (\<open>AllSynced\<close>, \<open>ReRooted\<close>).
\<close>

abbreviation prt_live :: "StpPort \<Rightarrow> bool" where "prt_live p \<equiv> mlive (PrtMachineFsm p)"
abbreviation prt_state :: "StpPort \<Rightarrow> State" where "prt_state p \<equiv> cur_s (PrtMachineFsm p)"
abbreviation pim_live :: "StpPort \<Rightarrow> bool" where "pim_live p \<equiv> mlive (PimMachineFsm p)"
abbreviation pim_state :: "StpPort \<Rightarrow> State" where "pim_state p \<equiv> cur_s (PimMachineFsm p)"
abbreviation bdm_live :: "StpPort \<Rightarrow> bool" where "bdm_live p \<equiv> mlive (BdmMachineFsm p)"
abbreviation bdm_state :: "StpPort \<Rightarrow> State" where "bdm_state p \<equiv> cur_s (BdmMachineFsm p)"
abbreviation tc_live :: "StpPort \<Rightarrow> bool" where "tc_live p \<equiv> mlive (TcMachineFsm p)"
abbreviation tc_state :: "StpPort \<Rightarrow> State" where "tc_state p \<equiv> cur_s (TcMachineFsm p)"
abbreviation ptx_live :: "StpPort \<Rightarrow> bool" where "ptx_live p \<equiv> mlive (PtxmMachineFsm p)"
abbreviation ptx_state :: "StpPort \<Rightarrow> State" where "ptx_state p \<equiv> cur_s (PtxmMachineFsm p)"
abbreviation pst_live :: "StpPort \<Rightarrow> bool" where "pst_live p \<equiv> mlive (PstMachineFsm p)"
abbreviation pst_state :: "StpPort \<Rightarrow> State" where "pst_state p \<equiv> cur_s (PstMachineFsm p)"
abbreviation ppmm_live :: "StpPort \<Rightarrow> bool" where "ppmm_live p \<equiv> mlive (PpmmMachineFsm p)"
abbreviation ppmm_state :: "StpPort \<Rightarrow> State" where "ppmm_state p \<equiv> cur_s (PpmmMachineFsm p)"
abbreviation prx_live :: "StpPort \<Rightarrow> bool" where "prx_live p \<equiv> mlive (PrxmMachineFsm p)"

text \<open>\<open>MigrateTimeDefault\<close> of \<open>def.go\<close>.\<close>

abbreviation (input) MigrateTimeDefault :: int32 where "MigrateTimeDefault \<equiv> 3"

section \<open>Enabling and disabling\<close>

definition NotifyPortEnabled :: "Times \<Rightarrow> StpPort \<Rightarrow> bool \<Rightarrow> bool \<Rightarrow> StpPort \<times> StpOut list" where
  "NotifyPortEnabled rootTimes p oldportenabled newportenabled =
     (if oldportenabled \<noteq> newportenabled then
        if \<not> newportenabled then
          (p,
           (if EdgeDelayWhileTimer p \<noteq> MigrateTimeDefault \<and> prx_live p
            then [Send PrxmEvents (IfIndex p)
                    PrxmEventEdgeDelayWhileNotEqualMigrateTimeAndNotPortEnabled None]
            else [])
           @ (if ppmm_live p then
                if ppmm_state p = PpmmStateCheckingRSTP then
                  if MdelayWhiletimer p \<noteq> MigrateTimeDefault
                  then [Send PpmmEvents (IfIndex p)
                          PpmmEventMdelayNotEqualMigrateTimeAndNotPortEnabled None]
                  else []
                else [Send PpmmEvents (IfIndex p) PpmmEventNotPortEnabled None]
              else [])
           @ (if bdm_live p then
                if \<not> AdminEdge p then
                  if bdm_state p = BdmStateEdge
                  then to_bdm p BdmEventNotPortEnabledAndNotAdminEdge else []
                else
                  if bdm_state p = BdmStateNotEdge
                  then to_bdm p BdmEventNotPortEnabledAndAdminEdge else []
              else [])
           @ (if pim_live p \<and> InfoIs p \<noteq> PortInfoStateDisabled
              then to_pim p PimEventNotPortEnabledInfoIsNotEqualDisabled None else []))
        else
          (let p = (if BridgeAssurance p
                    then p\<lparr>BAWhileTimer := i32 (HelloTime rootTimes * 3)\<rparr> else p)
           in (p, if pim_live p \<and> pim_state p = PimStateDisabled
                  then to_pim p PimEventPortEnabled None else []))
      else (p, []))"

section \<open>Received messages and information\<close>

text \<open>The notification asserts that \<open>data\<close> holds an \<open>RxBpduPdu\<close>; with \<open>data\<close> nil the
  assertion panics, which the first component reports.\<close>

definition NotifyRcvdMsgChanged ::
  "Src \<Rightarrow> StpPort \<Rightarrow> bool \<Rightarrow> bool \<Rightarrow> Pdu option \<Rightarrow> bool \<times> StpOut list" where
  "NotifyRcvdMsgChanged src p oldrcvdmsg newrcvdmsg data =
     (if oldrcvdmsg \<noteq> newrcvdmsg \<and> src \<noteq> PimMachineModuleStr then
        case data of
          None \<Rightarrow> (True, [])
        | Some pdu \<Rightarrow>
            (False,
             if pim_live p then
               if pim_state p = PimStateDisabled then
                 if RcvdMsg p then to_pim p PimEventRcvdMsg data else []
               else if pim_state p = PimStateCurrent then
                 if RcvdMsg p \<and> \<not> UpdtInfo p then to_pim p PimEventRcvdMsgAndNotUpdtInfo data
                 else if InfoIs p = PortInfoStateReceived \<and> RcvdInfoWhiletimer p = 0
                      \<and> \<not> UpdtInfo p \<and> \<not> RcvdMsg p
                 then to_pim p PimEventInflsEqualReceivedAndRcvdInfoWhileEqualZeroAndNotUpdtInfoAndNotRcvdMsg data
                 else []
               else []
             else [])
      else (False, []))"

definition NotifyUpdtInfoChanged :: "Src \<Rightarrow> StpPort \<Rightarrow> bool \<Rightarrow> bool \<Rightarrow> StpOut list" where
  "NotifyUpdtInfoChanged src p oldupdtinfo newupdtinfo =
     (if oldupdtinfo \<noteq> newupdtinfo then
        if UpdtInfo p then
          if src \<noteq> PimMachineModuleStr \<and> pim_live p
             \<and> (pim_state p = PimStateAged \<or> pim_state p = PimStateCurrent) then
            if Selected p then to_pim p PimEventSelectedAndUpdtInfo None else []
          else []
        else
          if pim_live p \<and> src \<noteq> PimMachineModuleStr \<and> pim_state p = PimStateCurrent then
            if RcvdMsg p then to_pim p PimEventRcvdMsgAndNotUpdtInfo None
            else if InfoIs p = PortInfoStateReceived \<and> RcvdInfoWhiletimer p = 0 \<and> \<not> RcvdMsg p
            then to_pim p PimEventInflsEqualReceivedAndRcvdInfoWhileEqualZeroAndNotUpdtInfoAndNotRcvdMsg None
            else []
          else []
      else [])"

section \<open>Synchronisation\<close>

definition NotifySyncedChanged :: "Ctx \<Rightarrow> Src \<Rightarrow> StpPort \<Rightarrow> bool \<Rightarrow> bool \<Rightarrow> StpOut list" where
  "NotifySyncedChanged c src p oldsynced newsynced =
    (if oldsynced \<noteq> newsynced
     then if src \<noteq> PrtMachineModuleStr
          then if prt_live p
               then if prt_state p = PrtStateDisabledPort
                    then if \<not> Synced p \<and> Selected p \<and> \<not> UpdtInfo p
                         then to_prt p PrtEventNotSyncedAndSelectedAndNotUpdtInfo
                         else []
                    else if prt_state p = PrtStateRootPort
                    then if AllSynced c \<and> \<not> Agree p \<and> Selected p \<and> \<not> UpdtInfo p
                         then to_prt p PrtEventAllSyncedAndNotAgreeAndSelectedAndNotUpdtInfo
                         else []
                    else if prt_state p = PrtStateDesignatedPort
                    then if \<not> Learning p \<and> \<not> Forwarding p \<and> \<not> Synced p \<and> Selected p \<and> \<not> UpdtInfo p
                         then to_prt p PrtEventNotLearningAndNotForwardingAndNotSyncedAndSelectedAndNotUpdtInfo
                         else if Agreed p \<and> \<not> Synced p \<and> Selected p \<and> \<not> UpdtInfo p
                         then to_prt p PrtEventAgreedAndNotSyncedAndSelectedAndNotUpdtInfo
                         else if OperEdge p \<and> \<not> Synced p \<and> Selected p \<and> \<not> UpdtInfo p
                         then to_prt p PrtEventOperEdgeAndNotSyncedAndSelectedAndNotUpdtInfo
                         else if Sync p \<and> Synced p \<and> Selected p \<and> \<not> UpdtInfo p
                         then to_prt p PrtEventSyncAndSyncedAndSelectedAndNotUpdtInfo
                         else if Sync p \<and> \<not> Synced p \<and> \<not> OperEdge p \<and> Learn p \<and> Selected p \<and> \<not> UpdtInfo p
                         then to_prt p PrtEventSyncAndNotSyncedAndNotOperEdgeAndLearnAndSelectedAndNotUpdtInfo
                         else if Sync p \<and> \<not> Synced p \<and> \<not> OperEdge p \<and> Forward p \<and> Selected p \<and> \<not> UpdtInfo p
                         then to_prt p PrtEventSyncAndNotSyncedAndNotOperEdgeAndForwardAndSelectedAndNotUpdtInfo
                         else []
                    else if prt_state p = PrtStateAlternatePort
                    then if AllSynced c \<and> \<not> Agree p \<and> Selected p \<and> \<not> UpdtInfo p
                         then to_prt p PrtEventAllSyncedAndNotAgreeAndSelectedAndNotUpdtInfo
                         else if \<not> Synced p \<and> Selected p \<and> \<not> UpdtInfo p
                         then to_prt p PrtEventNotSyncedAndSelectedAndNotUpdtInfo
                         else []
                    else []
               else []
          else []
     else [])"

section \<open>Selection\<close>

text \<open>\<open>NotifySelectedChanged\<close>, one definition per role transition state it looks at.\<close>

definition selected_DisablePort :: "StpPort \<Rightarrow> StpOut list" where
  "selected_DisablePort p =
    (if prt_state p = PrtStateDisablePort \<and> \<not> Learning p \<and> \<not> Forwarding p
     then to_prt p PrtEventNotLearningAndNotForwardingAndSelectedAndNotUpdtInfo
     else [])"

definition selected_DisabledPort :: "StpPort \<Rightarrow> StpOut list" where
  "selected_DisabledPort p =
    (if prt_state p = PrtStateDisabledPort
     then if FdWhileTimer p \<noteq> i32 (MaxAge (PortTimes p))
          then to_prt p PrtEventFdWhileNotEqualMaxAgeAndSelectedAndNotUpdtInfo
          else if Sync p
          then to_prt p PrtEventSyncAndSelectedAndNotUpdtInfo
          else if ReRoot p
          then to_prt p PrtEventReRootAndSelectedAndNotUpdtInfo
          else if \<not> Synced p
          then to_prt p PrtEventNotSyncedAndSelectedAndNotUpdtInfo
          else []
     else if SelectedRole p = PortRoleDisabledPort \<and> Role p \<noteq> SelectedRole p
     then to_prt p PrtEventSelectedRoleEqualDisabledPortAndRoleNotEqualSelectedRoleAndSelectedAndNotUpdtInfo
     else [])"

definition selected_RootPort :: "Ctx \<Rightarrow> StpPort \<Rightarrow> StpOut list" where
  "selected_RootPort c p =
    (if prt_state p = PrtStateRootPort
     then if Proposed p \<and> \<not> Agree p
          then to_prt p PrtEventProposedAndNotAgreeAndSelectedAndNotUpdtInfo
          else if AllSynced c \<and> \<not> Agree p
          then to_prt p PrtEventAllSyncedAndNotAgreeAndSelectedAndNotUpdtInfo
          else if Proposed p \<and> Agree p
          then to_prt p PrtEventProposedAndAgreeAndSelectedAndNotUpdtInfo
          else if \<not> Forward p \<and> \<not> ReRoot p
          then to_prt p PrtEventNotForwardAndNotReRootAndSelectedAndNotUpdtInfo
          else if RrWhileTimer p \<noteq> i32 (ForwardingDelay (PortTimes p))
          then to_prt p PrtEventRrWhileNotEqualFwdDelayAndSelectedAndNotUpdtInfo
          else if ReRoot p \<and> Forward p
          then to_prt p PrtEventReRootAndForwardAndSelectedAndNotUpdtInfo
          else if FdWhileTimer p = 0 \<and> RstpVersion p \<and> \<not> Learn p
          then to_prt p PrtEventFdWhileEqualZeroAndRstpVersionAndNotLearnAndSelectedAndNotUpdtInfo
          else if ReRooted c p \<and> RbWhileTimer p = 0 \<and> RstpVersion p \<and> \<not> Learn p
          then to_prt p PrtEventReRootedAndRbWhileEqualZeroAndRstpVersionAndNotLearnAndSelectedAndNotUpdtInfo
          else if FdWhileTimer p = 0 \<and> RstpVersion p \<and> Learn p \<and> \<not> Forward p
          then to_prt p PrtEventFdWhileEqualZeroAndRstpVersionAndLearnAndNotForwardAndSelectedAndNotUpdtInfo
          else if ReRooted c p \<and> RbWhileTimer p = 0 \<and> RstpVersion p \<and> Learn p \<and> \<not> Forward p
          then to_prt p PrtEventReRootedAndRbWhileEqualZeroAndRstpVersionAndLearnAndNotForwardAndSelectedAndNotUpdtInfo
          else []
     else [])"

definition selected_DesignatedPort_forward :: "StpPort \<Rightarrow> StpOut list" where
  "selected_DesignatedPort_forward p =
    (if FdWhileTimer p = 0 \<and> RrWhileTimer p = 0 \<and> \<not> Sync p \<and> \<not> Learn p
     then to_prt p PrtEventFdWhileEqualZeroAndRrWhileEqualZeroAndNotSyncAndNotLearnAndSelectedAndNotUpdtInfo
     else if FdWhileTimer p = 0 \<and> \<not> ReRoot p \<and> \<not> Sync p \<and> \<not> Learn p
     then to_prt p PrtEventFdWhileEqualZeroAndNotReRootAndNotSyncAndNotLearnSelectedAndNotUpdtInfo
     else if Agreed p \<and> RrWhileTimer p = 0 \<and> \<not> Sync p \<and> \<not> Learn p
     then to_prt p PrtEventAgreedAndRrWhileEqualZeroAndNotSyncAndNotLearnAndSelectedAndNotUpdtInfo
     else if Agreed p \<and> \<not> ReRoot p \<and> \<not> Sync p \<and> \<not> Learn p
     then to_prt p PrtEventAgreedAndNotReRootAndNotSyncAndNotLearnAndSelectedAndNotUpdtInfo
     else if OperEdge p \<and> RrWhileTimer p = 0 \<and> \<not> Sync p \<and> \<not> Learn p
     then to_prt p PrtEventOperEdgeAndRrWhileEqualZeroAndNotSyncAndNotLearnAndSelectedAndNotUpdtInfo
     else if OperEdge p \<and> \<not> ReRoot p \<and> \<not> Sync p \<and> \<not> Learn p
     then to_prt p PrtEventOperEdgeAndNotReRootAndNotSyncAndNotLearnAndSelectedAndNotUpdtInfo
     else if FdWhileTimer p = 0 \<and> RrWhileTimer p = 0 \<and> \<not> Sync p \<and> Learn p \<and> \<not> Forward p
     then to_prt p PrtEventFdWhileEqualZeroAndRrWhileEqualZeroAndNotSyncAndLearnAndNotForwardSelectedAndNotUpdtInfo
     else if FdWhileTimer p = 0 \<and> \<not> ReRoot p \<and> \<not> Sync p \<and> Learn p \<and> \<not> Forward p
     then to_prt p PrtEventFdWhileEqualZeroAndNotReRootAndNotSyncAndLearnAndNotForwardSelectedAndNotUpdtInfo
     else if Agreed p \<and> RrWhileTimer p = 0 \<and> \<not> Sync p \<and> Learn p \<and> \<not> Forward p
     then to_prt p PrtEventAgreedAndRrWhileEqualZeroAndNotSyncAndLearnAndNotForwardAndSelectedAndNotUpdtInfo
     else if Agreed p \<and> \<not> ReRoot p \<and> \<not> Sync p \<and> Learn p \<and> \<not> Forward p
     then to_prt p PrtEventAgreedAndNotReRootAndNotSyncAndLearnAndNotForwardAndSelectedAndNotUpdtInfo
     else if OperEdge p \<and> RrWhileTimer p = 0 \<and> \<not> Sync p \<and> Learn p \<and> \<not> Forward p
     then to_prt p PrtEventOperEdgeAndRrWhileEqualZeroAndNotSyncAndLearnAndNotForwardAndSelectedAndNotUpdtInfo
     else if OperEdge p \<and> \<not> ReRoot p \<and> \<not> Sync p \<and> Learn p \<and> \<not> Forward p
     then to_prt p PrtEventOperEdgeAndNotReRootAndNotSyncAndLearnAndNotForwardAndSelectedAndNotUpdtInfo
     else [])"

definition selected_DesignatedPort :: "StpPort \<Rightarrow> StpOut list" where
  "selected_DesignatedPort p =
    (if prt_state p = PrtStateDesignatedPort
     then if \<not> Forward p \<and> \<not> Agreed p \<and> \<not> Proposing p \<and> \<not> OperEdge p
          then to_prt p PrtEventNotForwardAndNotAgreedAndNotProposingAndNotOperEdgeAndSelectedAndNotUpdtInfo
          else if \<not> Learning p \<and> \<not> Forwarding p \<and> \<not> Synced p
          then to_prt p PrtEventNotLearningAndNotForwardingAndNotSyncedAndSelectedAndNotUpdtInfo
          else if Agreed p \<and> \<not> Synced p
          then to_prt p PrtEventAgreedAndNotSyncedAndSelectedAndNotUpdtInfo
          else if OperEdge p \<and> \<not> Synced p
          then to_prt p PrtEventOperEdgeAndNotSyncedAndSelectedAndNotUpdtInfo
          else if Sync p \<and> Synced p
          then to_prt p PrtEventSyncAndSyncedAndSelectedAndNotUpdtInfo
          else if RrWhileTimer p = 0 \<and> ReRoot p
          then to_prt p PrtEventRrWhileEqualZeroAndReRootAndSelectedAndNotUpdtInfo
          else if Sync p \<and> \<not> Synced p \<and> \<not> OperEdge p \<and> Learn p
          then to_prt p PrtEventSyncAndNotSyncedAndNotOperEdgeAndLearnAndSelectedAndNotUpdtInfo
          else if Sync p \<and> \<not> Synced p \<and> \<not> OperEdge p \<and> Forward p
          then to_prt p PrtEventSyncAndNotSyncedAndNotOperEdgeAndForwardAndSelectedAndNotUpdtInfo
          else if ReRoot p \<and> RrWhileTimer p \<noteq> 0 \<and> \<not> OperEdge p \<and> Learn p
          then to_prt p PrtEventReRootAndRrWhileNotEqualZeroAndNotOperEdgeAndLearnAndSelectedAndNotUpdtInfo
          else if ReRoot p \<and> RrWhileTimer p \<noteq> 0 \<and> \<not> OperEdge p \<and> Learn p
          then to_prt p PrtEventReRootAndRrWhileNotEqualZeroAndNotOperEdgeAndForwardAndSelectedAndNotUpdtInfo
          else if Disputed p \<and> \<not> OperEdge p \<and> Learn p
          then to_prt p PrtEventDisputedAndNotOperEdgeAndLearnAndSelectedAndNotUpdtInfo
          else if Disputed p \<and> \<not> OperEdge p \<and> Forward p
          then to_prt p PrtEventDisputedAndNotOperEdgeAndForwardAndSelectedAndNotUpdtInfo
          else selected_DesignatedPort_forward p
     else [])"

definition selected_AlternatePort :: "Ctx \<Rightarrow> StpPort \<Rightarrow> StpOut list" where
  "selected_AlternatePort c p =
    (if prt_state p = PrtStateAlternatePort
     then if Proposed p \<and> \<not> Agree p
          then to_prt p PrtEventProposedAndNotAgreeAndSelectedAndNotUpdtInfo
          else if AllSynced c \<and> \<not> Agree p
          then to_prt p PrtEventAllSyncedAndNotAgreeAndSelectedAndNotUpdtInfo
          else if Proposed p \<and> Agree p
          then to_prt p PrtEventProposedAndAgreeAndSelectedAndNotUpdtInfo
          else if FdWhileTimer p \<noteq> i32 (ForwardingDelay (PortTimes p))
          then to_prt p PrtEventFdWhileNotEqualForwardDelayAndSelectedAndNotUpdtInfo
          else if Sync p
          then to_prt p PrtEventSyncAndSelectedAndNotUpdtInfo
          else if ReRoot p
          then to_prt p PrtEventReRootAndSelectedAndNotUpdtInfo
          else if \<not> Synced p
          then to_prt p PrtEventNotSyncedAndSelectedAndNotUpdtInfo
          else if RbWhileTimer p \<noteq> i32 (2 * HelloTime (PortTimes p)) \<and> Role p = PortRoleBackupPort
          then to_prt p PrtEventRbWhileNotEqualTwoTimesHelloTimeAndRoleEqualsBackupPortAndSelectedAndNotUpdtInfo
          else []
     else [])"

definition selected_BlockPort :: "StpPort \<Rightarrow> StpOut list" where
  "selected_BlockPort p =
    (if prt_state p = PrtStateBlockPort
     then if \<not> Learning p \<and> \<not> Forwarding p
          then to_prt p PrtEventNotLearningAndNotForwardingAndSelectedAndNotUpdtInfo
          else []
     else [])"

definition NotifySelectedChanged :: "Ctx \<Rightarrow> Src \<Rightarrow> StpPort \<Rightarrow> bool \<Rightarrow> bool \<Rightarrow> StpOut list" where
  "NotifySelectedChanged c src p oldselected newselected =
    (if oldselected \<noteq> newselected \<and> Selected p \<and> src = PrsMachineModuleStr \<and> prt_live p
     then if \<not> UpdtInfo p
          then selected_DisablePort p @ selected_DisabledPort p @ selected_RootPort c p
               @ selected_DesignatedPort p @ selected_AlternatePort c p @ selected_BlockPort p
          else if pim_live p
          then if pim_state p = PimStateAged \<or> pim_state p = PimStateCurrent
               then if UpdtInfo p then to_pim p PimEventSelectedAndUpdtInfo None else []
               else []
          else []
     else [])"

definition NotifySelectedRoleChanged :: "StpPort \<Rightarrow> PortRole \<Rightarrow> PortRole \<Rightarrow> StpOut list" where
  "NotifySelectedRoleChanged p oldselectedrole newselectedrole =
    (if oldselectedrole \<noteq> newselectedrole \<and> prt_live p
     then if newselectedrole = PortRoleDisabledPort
          then to_prt p PrtEventSelectedRoleEqualDisabledPortAndRoleNotEqualSelectedRoleAndSelectedAndNotUpdtInfo
          else if newselectedrole = PortRoleRootPort
          then to_prt p PrtEventSelectedRoleEqualRootPortAndRoleNotEqualSelectedRoleAndSelectedAndNotUpdtInfo
          else if newselectedrole = PortRoleDesignatedPort
          then to_prt p PrtEventSelectedRoleEqualDesignatedPortAndRoleNotEqualSelectedRoleAndSelectedAndNotUpdtInfo
          else if newselectedrole = PortRoleAlternatePort
          then to_prt p PrtEventSelectedRoleEqualAlternateAndRoleNotEqualSelectedRoleAndSelectedAndNotUpdtInfo
          else if newselectedrole = PortRoleBackupPort
          then to_prt p PrtEventSelectedRoleEqualBackupPortAndRoleNotEqualSelectedRoleAndSelectedAndNotUpdtInfo
          else []
     else [])"

section \<open>Edge, proposing, topology change\<close>

definition NotifyOperEdgeChanged_Prt :: "Src \<Rightarrow> StpPort \<Rightarrow> StpOut list" where
  "NotifyOperEdgeChanged_Prt src p =
    (if prt_live p \<and> prt_state p = PrtStateDesignatedPort \<and> src \<noteq> PrtMachineModuleStr
     then if \<not> Forward p \<and> \<not> Agreed p \<and> \<not> Proposing p \<and> \<not> OperEdge p \<and> Selected p \<and> \<not> UpdtInfo p
          then to_prt p PrtEventNotForwardAndNotAgreedAndNotProposingAndNotOperEdgeAndSelectedAndNotUpdtInfo
          else if OperEdge p \<and> \<not> Synced p \<and> Selected p \<and> \<not> UpdtInfo p
          then to_prt p PrtEventOperEdgeAndNotSyncedAndSelectedAndNotUpdtInfo
          else if Sync p \<and> \<not> Synced p \<and> \<not> OperEdge p \<and> Learn p \<and> Selected p \<and> \<not> UpdtInfo p
          then to_prt p PrtEventSyncAndNotSyncedAndNotOperEdgeAndLearnAndSelectedAndNotUpdtInfo
          else if Sync p \<and> \<not> Synced p \<and> \<not> OperEdge p \<and> Forward p \<and> Selected p \<and> \<not> UpdtInfo p
          then to_prt p PrtEventSyncAndNotSyncedAndNotOperEdgeAndForwardAndSelectedAndNotUpdtInfo
          else if ReRoot p \<and> RrWhileTimer p \<noteq> 0 \<and> \<not> OperEdge p \<and> Learn p \<and> Selected p \<and> \<not> UpdtInfo p
          then to_prt p PrtEventReRootAndRrWhileNotEqualZeroAndNotOperEdgeAndLearnAndSelectedAndNotUpdtInfo
          else if ReRoot p \<and> RrWhileTimer p \<noteq> 0 \<and> \<not> OperEdge p \<and> Forward p \<and> Selected p \<and> \<not> UpdtInfo p
          then to_prt p PrtEventReRootAndRrWhileNotEqualZeroAndNotOperEdgeAndForwardAndSelectedAndNotUpdtInfo
          else if Disputed p \<and> \<not> OperEdge p \<and> Learn p \<and> Selected p \<and> \<not> UpdtInfo p
          then to_prt p PrtEventDisputedAndNotOperEdgeAndLearnAndSelectedAndNotUpdtInfo
          else if Disputed p \<and> \<not> OperEdge p \<and> Forward p \<and> Selected p \<and> \<not> UpdtInfo p
          then to_prt p PrtEventDisputedAndNotOperEdgeAndForwardAndSelectedAndNotUpdtInfo
          else if OperEdge p \<and> RrWhileTimer p = 0 \<and> \<not> Sync p \<and> \<not> Learn p \<and> Selected p \<and> \<not> UpdtInfo p
          then to_prt p PrtEventOperEdgeAndRrWhileEqualZeroAndNotSyncAndNotLearnAndSelectedAndNotUpdtInfo
          else if OperEdge p \<and> \<not> ReRoot p \<and> \<not> Sync p \<and> \<not> Learn p \<and> Selected p \<and> \<not> UpdtInfo p
          then to_prt p PrtEventOperEdgeAndNotReRootAndNotSyncAndNotLearnAndSelectedAndNotUpdtInfo
          else if OperEdge p \<and> RrWhileTimer p = 0 \<and> \<not> Sync p \<and> Learn p \<and> \<not> Forward p \<and> Selected p \<and> \<not> UpdtInfo p
          then to_prt p PrtEventOperEdgeAndRrWhileEqualZeroAndNotSyncAndLearnAndNotForwardAndSelectedAndNotUpdtInfo
          else if OperEdge p \<and> \<not> ReRoot p \<and> \<not> Sync p \<and> Learn p \<and> \<not> Forward p \<and> Selected p \<and> \<not> UpdtInfo p
          then to_prt p PrtEventOperEdgeAndNotReRootAndNotSyncAndLearnAndNotForwardAndSelectedAndNotUpdtInfo
          else []
     else [])"

definition NotifyOperEdgeChanged :: "Src \<Rightarrow> StpPort \<Rightarrow> bool \<Rightarrow> bool \<Rightarrow> StpOut list" where
  "NotifyOperEdgeChanged src p oldoperedge newoperedge =
    (if oldoperedge \<noteq> newoperedge \<and> prt_live p
     then NotifyOperEdgeChanged_Prt src p
          @ (if bdm_live p
            then if bdm_state p = BdmStateEdge \<and> src \<noteq> BdmMachineModuleStr
                 then if \<not> OperEdge p
                      then to_bdm p BdmEventNotOperEdge
                      else []
                 else []
            else [])
     else [])"

definition NotifyProposingChanged :: "Src \<Rightarrow> StpPort \<Rightarrow> bool \<Rightarrow> bool \<Rightarrow> StpOut list" where
  "NotifyProposingChanged src p oldproposing newproposing =
    (if oldproposing \<noteq> newproposing
     then (if src \<noteq> BdmMachineModuleStr \<and> bdm_live p
           then if bdm_state p = BdmStateNotEdge
                then if EdgeDelayWhileTimer p = 0 \<and> AutoEdgePort p \<and> SendRSTP p \<and> Proposing p
                     then to_bdm p BdmEventEdgeDelayWhileEqualZeroAndAutoEdgeAndSendRSTPAndProposing
                     else []
                else []
           else [])
          @ (if src \<noteq> PrsMachineModuleStr \<and> prt_live p
             then if prt_state p = PrtStateDesignatedPort
                  then if \<not> Forward p \<and> \<not> Agreed p \<and> \<not> Proposing p \<and> \<not> OperEdge p \<and> Selected p \<and> \<not> UpdtInfo p
                       then to_prt p PrtEventNotForwardAndNotAgreedAndNotProposingAndNotOperEdgeAndSelectedAndNotUpdtInfo
                       else []
                  else []
             else [])
     else [])"

definition NotifyRcvdTcRcvdTcnRcvdTcAck :: "StpPort \<Rightarrow> StpOut list" where
  "NotifyRcvdTcRcvdTcnRcvdTcAck p =
    (if tc_live p
     then (if RcvdTc p \<and> (tc_state p = TcStateLearning \<or> tc_state p = TcStateActive)
           then to_tc p TcEventRcvdTc
           else [])
          @ (if RcvdTcn p \<and> (tc_state p = TcStateLearning \<or> tc_state p = TcStateActive)
             then to_tc p TcEventRcvdTcn
             else [])
          @ (if RcvdTcAck p \<and> (tc_state p = TcStateLearning \<or> tc_state p = TcStateActive)
             then to_tc p TcEventRcvdTcAck
             else [])
          @ (if tc_state p = TcStateLearning \<and> Role p \<noteq> PortRoleRootPort \<and> Role p \<noteq> PortRoleDesignatedPort \<and> \<not> (Learn p \<or> Learning p) \<and> \<not> (RcvdTc p \<or> RcvdTcn p \<or> RcvdTcAck p \<or> TcProp p)
             then to_tc p TcEventRoleNotEqualRootPortAndRoleNotEqualDesignatedPortAndNotLearnAndNotLearningAndNotRcvdTcAndNotRcvdTcnAndNotRcvdTcAckAndNotTcProp
             else [])
     else [])"

text \<open>\<open>EdgeDelay\<close> of the port, from the bridge's root times.\<close>

definition EdgeDelay :: "Ctx \<Rightarrow> StpPort \<Rightarrow> uint16" where
  "EdgeDelay c p = (if OperPointToPointMAC p then 3 else MaxAge (RootTimes (brg c)))"

end
