(* ===== verification/Stp_Bdm.thy ===== *)
theory Stp_Bdm
  imports Stp_Notify
begin

text \<open>
  The bridge detection machine, \<open>l2/stp/protocol/bdmfsm.go\<close> (17.25).  Its post
  processing is empty in the source.
\<close>

section \<open>Machine\<close>

definition BdmMachineEdge :: "Ctx Callback" where
  "BdmMachineEdge c =
     (let oldoperedge = OperEdge (self c);
          c = c\<lparr>self := (self c)\<lparr>OperEdge := True\<rparr>\<rparr>
      in (BdmStateEdge,
          emit (NotifyOperEdgeChanged BdmMachineModuleStr (self c) oldoperedge True) c))"

definition BdmMachineNotEdge :: "Ctx Callback" where
  "BdmMachineNotEdge c =
     (let oldoperedge = OperEdge (self c);
          c = c\<lparr>self := (self c)\<lparr>OperEdge := False\<rparr>\<rparr>
      in (BdmStateNotEdge,
          emit (NotifyOperEdgeChanged BdmMachineModuleStr (self c) oldoperedge False) c))"

definition BdmRules :: "((State \<times> Event) \<times> Ctx Callback) list" where
  "BdmRules =
     [ ((BdmStateNone, BdmEventBeginAdminEdge), BdmMachineEdge),
       ((BdmStateEdge, BdmEventBeginAdminEdge), BdmMachineEdge),
       ((BdmStateNotEdge, BdmEventBeginAdminEdge), BdmMachineEdge),
       ((BdmStateNone, BdmEventBeginNotAdminEdge), BdmMachineNotEdge),
       ((BdmStateNotEdge, BdmEventBeginNotAdminEdge), BdmMachineNotEdge),
       ((BdmStateEdge, BdmEventBeginNotAdminEdge), BdmMachineNotEdge),
       ((BdmStateEdge, BdmEventNotPortEnabledAndNotAdminEdge), BdmMachineNotEdge),
       ((BdmStateEdge, BdmEventNotOperEdge), BdmMachineNotEdge),
       ((BdmStateNotEdge, BdmEventNotPortEnabledAndAdminEdge), BdmMachineEdge),
       ((BdmStateNotEdge, BdmEventEdgeDelayWhileEqualZeroAndAutoEdgeAndSendRSTPAndProposing), BdmMachineEdge) ]"

definition BdmProcess :: "Ctx Process" where
  "BdmProcess = ProcessEvent bdm_get bdm_upd (AddRules BdmRules Map.empty)"

text \<open>One iteration of the event loop.  Before the machine has seen its begin event
  every other event is put back into the channel.\<close>

definition BdmMachineMain :: "Event \<Rightarrow> Ctx \<Rightarrow> Ctx" where
  "BdmMachineMain e c =
     (if bdm_state (self c) = BdmStateNone
         \<and> e \<noteq> BdmEventBeginAdminEdge \<and> e \<noteq> BdmEventBeginNotAdminEdge
      then emit (to_bdm (self c) e) c
      else snd (BdmProcess e c))"

section \<open>Edge state and \<open>OperEdge\<close>\<close>

lemma BdmRules_cases:
  "map_of BdmRules k = Some f \<Longrightarrow> f = BdmMachineEdge \<or> f = BdmMachineNotEdge"
  by (drule table_all [where P = "\<lambda>k f. f = BdmMachineEdge \<or> f = BdmMachineNotEdge"])
    (simp_all add: BdmRules_def)

text \<open>Everything of the state except \<open>OperEdge\<close>, the machine itself and the output.\<close>

definition bdm_view :: "Ctx \<Rightarrow> Bridge \<times> StpPort \<times> (int32 \<Rightarrow> StpPort option) \<times> bool" where
  "bdm_view c =
     (brg c, (self c)\<lparr>OperEdge := False, BdmMachineFsm := nil_machine\<rparr>, peers c, panicked c)"

lemma BdmProcess_keeps: "keeps bdm_view (\<lambda>c. snd (BdmProcess e c))"
  unfolding BdmProcess_def AddRules_empty
  by (rule bdm_slot.process_keeps)
    (auto dest!: BdmRules_cases
       simp: bdm_view_def bdm_upd_def BdmMachineEdge_def BdmMachineNotEdge_def emit_def Let_def)

lemma BdmMachineMain_keeps [stp_frame]: "keeps bdm_view (BdmMachineMain e)"
  using BdmProcess_keeps [of e] by (simp add: keeps_def BdmMachineMain_def) (simp add: bdm_view_def emit_def)

definition bdm_ok :: "Ctx \<Rightarrow> bool" where
  "bdm_ok c \<longleftrightarrow>
     bdm_state (self c) = BdmStateNone
     \<or> bdm_state (self c) = BdmStateEdge \<and> OperEdge (self c)
     \<or> bdm_state (self c) = BdmStateNotEdge \<and> \<not> OperEdge (self c)"

lemma BdmProcess_ok: "bdm_ok c \<Longrightarrow> bdm_ok (snd (BdmProcess e c))"
  unfolding BdmProcess_def AddRules_empty
  by (rule bdm_slot.invariant)
    (auto dest!: BdmRules_cases
       simp: bdm_ok_def bdm_upd_def BdmMachineEdge_def BdmMachineNotEdge_def emit_def Let_def)

lemma BdmMachineMain_ok: "bdm_ok c \<Longrightarrow> bdm_ok (BdmMachineMain e c)"
  using BdmProcess_ok [of c e] by (simp add: BdmMachineMain_def) (simp add: bdm_ok_def emit_def)

text \<open>C5: Over every sequence of events, in any order and including refused and
  requeued ones, the bridge detection machine keeps \<open>OperEdge\<close> in step with its
  state: in state Edge the port is an operational edge port, in state NotEdge it is
  not; and no other variable of the port, the bridge or the other ports changes.\<close>

theorem Bdm_run_ok:
  assumes "bdm_ok c"
  shows "bdm_ok (fold BdmMachineMain es c) \<and> bdm_view (fold BdmMachineMain es c) = bdm_view c"
proof
  show "bdm_ok (fold BdmMachineMain es c)"
    by (rule fold_inv) (use assms BdmMachineMain_ok in auto)
  have "keeps bdm_view (fold BdmMachineMain es)"
    by (rule keeps_fold) (rule BdmMachineMain_keeps)
  then show "bdm_view (fold BdmMachineMain es c) = bdm_view c"
    by (rule keepsD)
qed

theorem Bdm_run_ok_witness:
  "bdm_ok (solo zero_bridge (zero_port\<lparr>BdmMachineFsm := Start 1 (new_machine 1)\<rparr>))
   \<and> OperEdge (self (fold BdmMachineMain [BdmEventNotOperEdge, BdmEventBeginAdminEdge]
       (solo zero_bridge (zero_port\<lparr>BdmMachineFsm := Start 1 (new_machine 1)\<rparr>))))"
proof -
  define c where "c = solo zero_bridge (zero_port\<lparr>BdmMachineFsm := Start 1 (new_machine 1)\<rparr>)"
  have ok: "bdm_ok c"
    by (simp add: c_def bdm_ok_def solo_def)
  have "bdm_state (self (fold BdmMachineMain [BdmEventNotOperEdge, BdmEventBeginAdminEdge] c)) = BdmStateEdge"
    by (simp add: c_def solo_def BdmMachineMain_def BdmProcess_def AddRules_empty BdmRules_def
        ProcessEvent_def bdm_get_def bdm_upd_def BdmMachineEdge_def emit_def Let_def)
  with Bdm_run_ok [OF ok, of "[BdmEventNotOperEdge, BdmEventBeginAdminEdge]"] ok show ?thesis
    unfolding c_def bdm_ok_def by auto
qed

end
