(* ===== verification/Stp_Ppm.thy ===== *)
theory Stp_Ppm
  imports Stp_Notify
begin

text \<open>
  The port protocol migration machine, \<open>l2/stp/protocol/ppmfsm.go\<close> (17.24): it
  decides whether the port sends RSTP or STP frames.
\<close>

section \<open>Machine\<close>

definition InformPtxMachineSendRSTPChanged :: "Ctx \<Rightarrow> StpOut list" where
  "InformPtxMachineSendRSTPChanged c =
    (let p = self c in
     if ptx_live p \<and> ptx_state p = PtxmStateIdle
     then if SendRSTP p = True \<and> NewInfo p = True \<and> TxCount p < TxHoldCount (brg c) \<and> HelloWhenTimer p \<noteq> 0 \<and> Selected p = True \<and> UpdtInfo p = False
          then to_ptx p PtxmEventSendRSTPAndNewInfoAndTxCountLessThanTxHoldCoundAndHelloWhenNotEqualZeroAndSelectedAndNotUpdtInfo
          else if SendRSTP p = False \<and> NewInfo p = True \<and> Role p = PortRoleRootPort \<and> TxCount p < TxHoldCount (brg c) \<and> HelloWhenTimer p \<noteq> 0 \<and> Selected p = True \<and> UpdtInfo p = False
          then to_ptx p PtxmEventNotSendRSTPAndNewInfoAndRootPortAndTxCountLessThanTxHoldCountAndHellWhenNotEqualZeroAndSelectedAndNotUpdtInfo
          else if SendRSTP p = False \<and> NewInfo p = True \<and> Role p = PortRoleDesignatedPort \<and> TxCount p < TxHoldCount (brg c) \<and> HelloWhenTimer p \<noteq> 0 \<and> Selected p = True \<and> UpdtInfo p = False
          then to_ptx p PtxmEventNotSendRSTPAndNewInfoAndDesignatedPortAndTxCountLessThanTxHoldCountAndHellWhenNotEqualZeroAndSelectedAndNotUpdtInfo
          else []
     else [])"

definition PpmmMachineCheckingRSTP :: "Ctx Callback" where
  "PpmmMachineCheckingRSTP c =
     (let c = c\<lparr>self := (self c)\<lparr>Mcheck := False\<rparr>\<rparr>;
          sendRSTPchanged = (SendRSTP (self c) \<noteq> RstpVersion (self c));
          c = c\<lparr>self := (self c)\<lparr>MdelayWhiletimer := MigrateTimeDefault\<rparr>\<rparr>;
          c = (if sendRSTPchanged
               then let c = c\<lparr>self := (self c)\<lparr>SendRSTP := RstpVersion (self c)\<rparr>\<rparr>
                    in emit (InformPtxMachineSendRSTPChanged c) c
               else c)
      in (PpmmStateCheckingRSTP, c))"

definition PpmmMachineSelectingSTP :: "Ctx Callback" where
  "PpmmMachineSelectingSTP c =
     (let sendRSTPchanged = (SendRSTP (self c) \<noteq> False);
          c = c\<lparr>self := (self c)\<lparr>MdelayWhiletimer := MigrateTimeDefault\<rparr>\<rparr>;
          c = (if sendRSTPchanged
               then let c = c\<lparr>self := (self c)\<lparr>SendRSTP := False\<rparr>\<rparr>
                    in emit (InformPtxMachineSendRSTPChanged c) c
               else c)
      in (PpmmStateSelectingSTP, c))"

definition PpmmMachineSensing :: "Ctx Callback" where
  "PpmmMachineSensing c =
     (PpmmStateSensing, c\<lparr>self := (self c)\<lparr>RcvdRSTP := False, RcvdSTP := False\<rparr>\<rparr>)"

definition PpmmRules :: "((State \<times> Event) \<times> Ctx Callback) list" where
  "PpmmRules =
     [ ((PpmmStateNone, PpmmEventBegin), PpmmMachineCheckingRSTP),
       ((PpmmStateCheckingRSTP, PpmmEventBegin), PpmmMachineCheckingRSTP),
       ((PpmmStateSelectingSTP, PpmmEventBegin), PpmmMachineCheckingRSTP),
       ((PpmmStateSensing, PpmmEventBegin), PpmmMachineCheckingRSTP),
       ((PpmmStateCheckingRSTP, PpmmEventMdelayNotEqualMigrateTimeAndNotPortEnabled), PpmmMachineCheckingRSTP),
       ((PpmmStateSelectingSTP, PpmmEventNotPortEnabled), PpmmMachineSensing),
       ((PpmmStateSensing, PpmmEventNotPortEnabled), PpmmMachineCheckingRSTP),
       ((PpmmStateSelectingSTP, PpmmEventMcheck), PpmmMachineSensing),
       ((PpmmStateSensing, PpmmEventMcheck), PpmmMachineCheckingRSTP),
       ((PpmmStateSensing, PpmmEventRstpVersionAndNotSendRSTPAndRcvdRSTP), PpmmMachineCheckingRSTP),
       ((PpmmStateCheckingRSTP, PpmmEventMdelayWhileEqualZero), PpmmMachineSensing),
       ((PpmmStateSelectingSTP, PpmmEventMdelayWhileEqualZero), PpmmMachineSensing),
       ((PpmmStateSensing, PpmmEventSendRSTPAndRcvdSTP), PpmmMachineSelectingSTP) ]"

definition PpmmProcess :: "Ctx Process" where
  "PpmmProcess = ProcessEvent ppmm_get ppmm_upd (AddRules PpmmRules Map.empty)"

definition PpmmPostStateSensing :: "Ctx Post" where
  "PpmmPostStateSensing c =
    (let p = self c in
     if ppmm_state p = PpmmStateSensing
     then if \<not> PortEnabled p
          then Some PpmmEventNotPortEnabled
          else if Mcheck p
          then Some PpmmEventMcheck
          else if RstpVersion p \<and> \<not> SendRSTP p \<and> RcvdRSTP p
          then Some PpmmEventRstpVersionAndNotSendRSTPAndRcvdRSTP
          else None
     else None)"

definition PpmmPostStateSelectingSTP :: "Ctx Post" where
  "PpmmPostStateSelectingSTP c =
    (let p = self c in
     if ppmm_state p = PpmmStateSelectingSTP
     then if \<not> PortEnabled p
          then Some PpmmEventNotPortEnabled
          else if Mcheck p
          then Some PpmmEventMcheck
          else None
     else None)"

text \<open>\<open>ProcessPostStateCheckingRSTP\<close>, called between the two, is empty.\<close>

definition PpmmPosts :: "Ctx Post list" where
  "PpmmPosts = [PpmmPostStateSensing, PpmmPostStateSelectingSTP]"

definition PpmmMachineMain :: "nat \<Rightarrow> Event \<Rightarrow> Ctx \<Rightarrow> Ctx option" where
  "PpmmMachineMain n e c =
     (if ppmm_state (self c) = PpmmStateNone \<and> e \<noteq> PpmmEventBegin
      then Some (emit [Send PpmmEvents (IfIndex (self c)) e None] c)
      else ProcessAndPost PpmmProcess PpmmPosts n e c)"

section \<open>Frame\<close>

lemma PpmmRules_cases:
  "map_of PpmmRules k = Some f \<Longrightarrow>
     f = PpmmMachineCheckingRSTP \<or> f = PpmmMachineSelectingSTP \<or> f = PpmmMachineSensing"
  by (drule table_all [where P = "\<lambda>k f. f = PpmmMachineCheckingRSTP \<or> f = PpmmMachineSelectingSTP
        \<or> f = PpmmMachineSensing"])
    (simp_all add: PpmmRules_def)

lemma PpmmMachineCheckingRSTP_result [simp]:
  "fst (PpmmMachineCheckingRSTP c) = PpmmStateCheckingRSTP"
  "self (snd (PpmmMachineCheckingRSTP c)) =
     (self c)\<lparr>Mcheck := False, MdelayWhiletimer := 3, SendRSTP := RstpVersion (self c)\<rparr>"
  "brg (snd (PpmmMachineCheckingRSTP c)) = brg c"
  "peers (snd (PpmmMachineCheckingRSTP c)) = peers c"
  "panicked (snd (PpmmMachineCheckingRSTP c)) = panicked c"
  by (cases "SendRSTP (self c) = RstpVersion (self c)";
      simp add: PpmmMachineCheckingRSTP_def emit_def Let_def)+

lemma PpmmMachineSelectingSTP_result [simp]:
  "fst (PpmmMachineSelectingSTP c) = PpmmStateSelectingSTP"
  "self (snd (PpmmMachineSelectingSTP c)) = (self c)\<lparr>MdelayWhiletimer := 3, SendRSTP := False\<rparr>"
  "brg (snd (PpmmMachineSelectingSTP c)) = brg c"
  "peers (snd (PpmmMachineSelectingSTP c)) = peers c"
  "panicked (snd (PpmmMachineSelectingSTP c)) = panicked c"
  by (cases "SendRSTP (self c)"; simp add: PpmmMachineSelectingSTP_def emit_def Let_def)+

lemma PpmmMachineSensing_result [simp]:
  "fst (PpmmMachineSensing c) = PpmmStateSensing"
  "snd (PpmmMachineSensing c) = c\<lparr>self := (self c)\<lparr>RcvdRSTP := False, RcvdSTP := False\<rparr>\<rparr>"
  by (simp_all add: PpmmMachineSensing_def)

lemmas ppmm_defs = PpmmMachineCheckingRSTP_def PpmmMachineSelectingSTP_def PpmmMachineSensing_def

definition ppmm_view :: "Ctx \<Rightarrow> Bridge \<times> StpPort \<times> (int32 \<Rightarrow> StpPort option) \<times> bool" where
  "ppmm_view c =
     (brg c, (self c)\<lparr>Mcheck := False, SendRSTP := False, MdelayWhiletimer := 0, RcvdRSTP := False,
        RcvdSTP := False, PpmmMachineFsm := nil_machine\<rparr>, peers c, panicked c)"

lemma PpmmProcess_keeps: "keeps ppmm_view (\<lambda>c. snd (PpmmProcess e c))"
  unfolding PpmmProcess_def AddRules_empty
  by (rule ppmm_slot.process_keeps)
    (auto dest!: PpmmRules_cases simp: ppmm_view_def ppmm_upd_def)

section \<open>Protocol version\<close>

definition ppmm_ok :: "Ctx \<Rightarrow> bool" where
  "ppmm_ok c \<longleftrightarrow>
     (SendRSTP (self c) \<longrightarrow> RstpVersion (self c))
     \<and> (ppmm_state (self c) = PpmmStateCheckingRSTP \<longrightarrow> SendRSTP (self c) = RstpVersion (self c))
     \<and> (ppmm_state (self c) = PpmmStateSelectingSTP \<longrightarrow> \<not> SendRSTP (self c))
     \<and> ppmm_state (self c) \<in> {PpmmStateNone, PpmmStateCheckingRSTP, PpmmStateSelectingSTP, PpmmStateSensing}"

lemma PpmmProcess_ok: "ppmm_ok c \<Longrightarrow> ppmm_ok (snd (PpmmProcess e c))"
  unfolding PpmmProcess_def AddRules_empty
  by (rule ppmm_slot.invariant)
    (auto dest!: PpmmRules_cases simp: ppmm_ok_def ppmm_upd_def)

definition ppmm_rank :: "Ctx \<Rightarrow> nat" where
  "ppmm_rank c = (if ppmm_state (self c) = PpmmStateSelectingSTP then 2
     else if ppmm_state (self c) = PpmmStateSensing then 1 else 0)"

lemma PpmmProcess_refused: "PpmmProcess e c = (Some err, c') \<Longrightarrow> c' = c"
  unfolding PpmmProcess_def using ppmm_slot.error_unchanged by blast

lemma PpmmProcess_state:
  assumes "mBegin (PpmmMachineFsm (self c))" and "map_of PpmmRules (ppmm_state (self c), e) = Some f"
  shows "ppmm_state (self (snd (PpmmProcess e c))) = fst (f (ppmm_upd (SetEvent e) c))"
  using assms
  by (simp add: PpmmProcess_def AddRules_empty ProcessEvent_def ppmm_get_def case_prod_beta)
    (simp add: ppmm_upd_def)

lemma Ppmm_post_step:
  assumes "h \<in> set PpmmPosts" and "h c = Some e" and "PpmmProcess e c = (None, c')"
  shows "ppmm_rank c' < ppmm_rank c"
proof -
  have b: "mBegin (PpmmMachineFsm (self c))"
    using assms(3) by (auto simp: PpmmProcess_def ProcessEvent_def ppmm_get_def split: if_splits)
  consider "ppmm_state (self c) = PpmmStateSensing"
      "e \<in> {PpmmEventNotPortEnabled, PpmmEventMcheck, PpmmEventRstpVersionAndNotSendRSTPAndRcvdRSTP}"
    | "ppmm_state (self c) = PpmmStateSelectingSTP" "e \<in> {PpmmEventNotPortEnabled, PpmmEventMcheck}"
    using assms(1,2)
    by (auto simp: PpmmPosts_def PpmmPostStateSensing_def PpmmPostStateSelectingSTP_def Let_def
        split: if_splits)
  then show ?thesis
  proof cases
    case 1
    then have "map_of PpmmRules (ppmm_state (self c), e) = Some PpmmMachineCheckingRSTP"
      by (auto simp: PpmmRules_def)
    from PpmmProcess_state [OF b this] 1 assms(3) show ?thesis
      by (simp add: ppmm_rank_def)
  next
    case 2
    then have "map_of PpmmRules (ppmm_state (self c), e) = Some PpmmMachineSensing"
      by (auto simp: PpmmRules_def)
    from PpmmProcess_state [OF b this] 2 assms(3) show ?thesis
      by (simp add: ppmm_rank_def)
  qed
qed

interpretation ppmm_post: post_terminates PpmmProcess PpmmPosts ppmm_ok ppmm_rank
proof
  fix h c e c'
  assume a: "h \<in> set PpmmPosts" "h c = Some e" "ppmm_ok c" "PpmmProcess e c = (None, c')"
  show "ppmm_ok c' \<and> ppmm_rank c' < ppmm_rank c"
    using Ppmm_post_step [OF a(1,2,4)] PpmmProcess_ok [OF a(3), of e] a(4) by simp
qed (rule PpmmProcess_refused)

lemma PpmmMachineMain_returns:
  assumes "ppmm_ok c"
  shows "\<exists>c'. PpmmMachineMain 3 e c = Some c' \<and> ppmm_ok c' \<and> ppmm_view c' = ppmm_view c"
proof (cases "ppmm_state (self c) = PpmmStateNone \<and> e \<noteq> PpmmEventBegin")
  case True
  then show ?thesis
    using assms by (simp add: PpmmMachineMain_def emit_def ppmm_ok_def ppmm_view_def)
next
  case False
  obtain err c1 where r: "PpmmProcess e c = (err, c1)"
    by fastforce
  have c1: "ppmm_ok c1" "ppmm_view c1 = ppmm_view c"
    using PpmmProcess_ok [OF assms, of e] keepsD [OF PpmmProcess_keeps, of e c] r by simp_all
  have rank: "ppmm_rank c1 < 3"
    by (simp add: ppmm_rank_def)
  obtain d where d: "ProcessPost PpmmProcess PpmmPosts 3 c1 = Some d" "ppmm_ok d"
    using ppmm_post.returns [OF c1(1) rank] by blast
  have "ppmm_view d = ppmm_view c1"
    by (rule ProcessPost_inv [OF d(1), where I = "\<lambda>d. ppmm_view d = ppmm_view c1"])
      (auto simp: keepsD [OF PpmmProcess_keeps])
  then show ?thesis
    using False r d c1 by (cases err) (auto simp: PpmmMachineMain_def ProcessAndPost_def)
qed

section \<open>Outcome of an event\<close>

text \<open>The protocol the port sends after an event, by the state diagram of 17.24: the resting
  state, \<open>sendRSTP\<close> and \<open>mdelayWhile\<close>.  A disabled port and a requested check restart the check
  from every state but \<open>CheckingRSTP\<close>.\<close>

definition migration_outcome :: "State \<Rightarrow> Event \<Rightarrow> StpPort \<Rightarrow> State \<times> bool \<times> int32" where
  "migration_outcome s e p =
     (let checking = (PpmmStateCheckingRSTP, RstpVersion p, 3);
          unless_restarted = (\<lambda>r. if PortEnabled p \<and> \<not> Mcheck p then r else checking);
          sensing = unless_restarted (PpmmStateSensing, SendRSTP p, MdelayWhiletimer p);
          selecting = unless_restarted (PpmmStateSelectingSTP, False, 3);
          unchanged = (s, SendRSTP p, MdelayWhiletimer p)
      in if e = PpmmEventBegin then checking
         else if s = PpmmStateCheckingRSTP then
           if e = PpmmEventMdelayWhileEqualZero then sensing
           else if e = PpmmEventMdelayNotEqualMigrateTimeAndNotPortEnabled then checking else unchanged
         else if s = PpmmStateSelectingSTP then
           if e = PpmmEventMdelayWhileEqualZero \<or> e = PpmmEventNotPortEnabled \<or> e = PpmmEventMcheck
           then sensing else unchanged
         else if s = PpmmStateSensing then
           if e = PpmmEventSendRSTPAndRcvdSTP then selecting
           else if e = PpmmEventNotPortEnabled \<or> e = PpmmEventMcheck
             \<or> e = PpmmEventRstpVersionAndNotSendRSTPAndRcvdRSTP then checking else unchanged
         else unchanged)"

definition ppmm_result :: "Ctx \<Rightarrow> State \<times> bool \<times> int32" where
  "ppmm_result c = (ppmm_state (self c), SendRSTP (self c), MdelayWhiletimer (self c))"

lemma PpmmProcess_fires:
  assumes "mBegin (PpmmMachineFsm (self c))" and "map_of PpmmRules (ppmm_state (self c), e) = Some f"
  shows "PpmmProcess e c = (None, ppmm_upd (SetState (fst (f (ppmm_upd (SetEvent e) c)))) (snd (f (ppmm_upd (SetEvent e) c))))"
  using assms by (simp add: PpmmProcess_def AddRules_empty ProcessEvent_def ppmm_get_def case_prod_beta)

lemma Ppmm_post_checking:
  assumes "ppmm_state (self c) = PpmmStateCheckingRSTP"
  shows "ProcessPost PpmmProcess PpmmPosts (Suc n) c = Some c"
  using assms by (simp add: PpmmPosts_def PpmmPostStateSensing_def PpmmPostStateSelectingSTP_def)

text \<open>One round of the post processing.\<close>

lemma Ppmm_round:
  "post_seq r PpmmProcess PpmmPosts c = post_seq r PpmmProcess [PpmmPostStateSensing, PpmmPostStateSelectingSTP] c"
  by (simp only: PpmmPosts_def)

lemma Ppmm_enter:
  "ppmm_result (ppmm_upd (SetState (fst (PpmmMachineCheckingRSTP c))) (snd (PpmmMachineCheckingRSTP c)))
     = (PpmmStateCheckingRSTP, RstpVersion (self c), 3)"
  "ppmm_result (ppmm_upd (SetState (fst (PpmmMachineSelectingSTP c))) (snd (PpmmMachineSelectingSTP c)))
     = (PpmmStateSelectingSTP, False, 3)"
  "ppmm_result (ppmm_upd (SetState (fst (PpmmMachineSensing c))) (snd (PpmmMachineSensing c)))
     = (PpmmStateSensing, SendRSTP (self c), MdelayWhiletimer (self c))"
  by (simp_all add: ppmm_result_def ppmm_upd_def)

text \<open>The port after an entry, as the post processing sees it.\<close>

lemma Ppmm_enter_sensing:
  assumes "mBegin (PpmmMachineFsm (self c))"
    and "d = ppmm_upd (SetState (fst (PpmmMachineSensing (ppmm_upd (SetEvent e) c)))) (snd (PpmmMachineSensing (ppmm_upd (SetEvent e) c)))"
  shows "mBegin (PpmmMachineFsm (self d))" "ppmm_state (self d) = PpmmStateSensing" "\<not> RcvdRSTP (self d)"
    "PortEnabled (self d) = PortEnabled (self c)" "Mcheck (self d) = Mcheck (self c)"
    "RstpVersion (self d) = RstpVersion (self c)"
    "ppmm_result d = (PpmmStateSensing, SendRSTP (self c), MdelayWhiletimer (self c))"
  using assms by (simp_all add: ppmm_result_def ppmm_upd_def)

lemma Ppmm_enter_selecting:
  assumes "mBegin (PpmmMachineFsm (self c))"
    and "d = ppmm_upd (SetState (fst (PpmmMachineSelectingSTP (ppmm_upd (SetEvent e) c)))) (snd (PpmmMachineSelectingSTP (ppmm_upd (SetEvent e) c)))"
  shows "mBegin (PpmmMachineFsm (self d))" "ppmm_state (self d) = PpmmStateSelectingSTP"
    "PortEnabled (self d) = PortEnabled (self c)" "Mcheck (self d) = Mcheck (self c)"
    "RstpVersion (self d) = RstpVersion (self c)" "ppmm_result d = (PpmmStateSelectingSTP, False, 3)"
  using assms by (simp_all add: ppmm_result_def ppmm_upd_def)

lemma Ppmm_post_sensing:
  assumes "mBegin (PpmmMachineFsm (self c))" and "ppmm_state (self c) = PpmmStateSensing" and "\<not> RcvdRSTP (self c)"
  shows "\<exists>d. ProcessPost PpmmProcess PpmmPosts (Suc (Suc n)) c = Some d
    \<and> ppmm_result d = (if PortEnabled (self c) \<and> \<not> Mcheck (self c) then ppmm_result c
        else (PpmmStateCheckingRSTP, RstpVersion (self c), 3))"
proof (cases "PortEnabled (self c) \<and> \<not> Mcheck (self c)")
  case True
  then show ?thesis
    using assms by (simp add: PpmmPosts_def PpmmPostStateSensing_def PpmmPostStateSelectingSTP_def)
next
  case False
  define e where "e = (if \<not> PortEnabled (self c) then PpmmEventNotPortEnabled else PpmmEventMcheck)"
  let ?f = PpmmMachineCheckingRSTP
  let ?d = "ppmm_upd (SetState (fst (?f (ppmm_upd (SetEvent e) c)))) (snd (?f (ppmm_upd (SetEvent e) c)))"
  have "map_of PpmmRules (ppmm_state (self c), e) = Some ?f"
    using assms(2) by (simp add: PpmmRules_def e_def)
  from PpmmProcess_fires [OF assms(1) this] have p: "PpmmProcess e c = (None, ?d)" .
  have d: "ppmm_state (self ?d) = PpmmStateCheckingRSTP" by (simp add: ppmm_upd_def)
  have h: "PpmmPostStateSensing c = Some e"
    using False assms(2) by (simp add: PpmmPostStateSensing_def e_def Let_def)
  have "ProcessPost PpmmProcess PpmmPosts (Suc (Suc n)) c = post_seq (ProcessPost PpmmProcess PpmmPosts (Suc n)) PpmmProcess [PpmmPostStateSelectingSTP] ?d"
    using p h Ppmm_post_checking [OF d, of n] by (simp add: Ppmm_round)
  then have "ProcessPost PpmmProcess PpmmPosts (Suc (Suc n)) c = Some ?d"
    using d by (simp add: PpmmPostStateSelectingSTP_def)
  moreover have "ppmm_result ?d = (PpmmStateCheckingRSTP, RstpVersion (self c), 3)"
    by (simp add: Ppmm_enter(1) del: PpmmMachineCheckingRSTP_result) (simp add: ppmm_upd_def)
  ultimately show ?thesis using False by auto
qed

lemma Ppmm_post_selecting:
  assumes "mBegin (PpmmMachineFsm (self c))" and "ppmm_state (self c) = PpmmStateSelectingSTP"
  shows "\<exists>d. ProcessPost PpmmProcess PpmmPosts (Suc (Suc (Suc n))) c = Some d
    \<and> ppmm_result d = (if PortEnabled (self c) \<and> \<not> Mcheck (self c) then ppmm_result c
        else (PpmmStateCheckingRSTP, RstpVersion (self c), 3))"
proof (cases "PortEnabled (self c) \<and> \<not> Mcheck (self c)")
  case True
  then show ?thesis
    using assms by (simp add: Ppmm_round PpmmPostStateSensing_def PpmmPostStateSelectingSTP_def)
next
  case False
  define e where "e = (if \<not> PortEnabled (self c) then PpmmEventNotPortEnabled else PpmmEventMcheck)"
  let ?f = PpmmMachineSensing
  let ?d = "ppmm_upd (SetState (fst (?f (ppmm_upd (SetEvent e) c)))) (snd (?f (ppmm_upd (SetEvent e) c)))"
  have "map_of PpmmRules (ppmm_state (self c), e) = Some ?f"
    using assms(2) by (simp add: PpmmRules_def e_def)
  from PpmmProcess_fires [OF assms(1) this] have p: "PpmmProcess e c = (None, ?d)" .
  note d = Ppmm_enter_sensing [OF assms(1) refl, of e]
  obtain d2 where d2: "ProcessPost PpmmProcess PpmmPosts (Suc (Suc n)) ?d = Some d2"
    "ppmm_result d2 = (PpmmStateCheckingRSTP, RstpVersion (self c), 3)"
    using Ppmm_post_sensing [OF d(1-3), of n] d(4-6) False by auto
  have h: "PpmmPostStateSensing c = None" "PpmmPostStateSelectingSTP c = Some e"
    using False assms(2) by (simp_all add: PpmmPostStateSensing_def PpmmPostStateSelectingSTP_def e_def Let_def)
  have "ProcessPost PpmmProcess PpmmPosts (Suc (Suc (Suc n))) c = Some d2"
    using p h d2(1) unfolding ProcessPost.simps(2) [of _ _ "Suc (Suc n)"] Ppmm_round [of "ProcessPost PpmmProcess PpmmPosts (Suc (Suc n))"]
    by (simp del: ProcessPost.simps PpmmMachineSensing_result)
  then show ?thesis using False d2(2) by auto
qed

text \<open>The run of the machine for an event with a rule, and for one without.\<close>

lemma Ppmm_run:
  assumes "mBegin (PpmmMachineFsm (self c))" and "map_of PpmmRules (ppmm_state (self c), e) = Some f"
    and "ppmm_state (self c) = PpmmStateNone \<longrightarrow> e = PpmmEventBegin"
  shows "PpmmMachineMain 3 e c = ProcessPost PpmmProcess PpmmPosts (Suc (Suc (Suc 0)))
    (ppmm_upd (SetState (fst (f (ppmm_upd (SetEvent e) c)))) (snd (f (ppmm_upd (SetEvent e) c))))"
proof -
  have "\<not> (ppmm_state (self c) = PpmmStateNone \<and> e \<noteq> PpmmEventBegin)" using assms(3) by blast
  then show ?thesis
    unfolding PpmmMachineMain_def ProcessAndPost_def PpmmProcess_fires [OF assms(1,2)] numeral_3_eq_3 by (simp only: if_False prod.case option.case)
qed

lemma Ppmm_to_checking:
  assumes "mBegin (PpmmMachineFsm (self c))" and "map_of PpmmRules (ppmm_state (self c), e) = Some PpmmMachineCheckingRSTP"
    and "ppmm_state (self c) = PpmmStateNone \<longrightarrow> e = PpmmEventBegin" and "PpmmMachineMain 3 e c = Some c'"
  shows "ppmm_result c' = (PpmmStateCheckingRSTP, RstpVersion (self c), 3)"
proof -
  let ?c1 = "ppmm_upd (SetEvent e) c"
  let ?d = "ppmm_upd (SetState (fst (PpmmMachineCheckingRSTP ?c1))) (snd (PpmmMachineCheckingRSTP ?c1))"
  have "ppmm_state (self ?d) = PpmmStateCheckingRSTP" by (simp add: ppmm_upd_def)
  from Ppmm_post_checking [OF this] have "c' = ?d" using assms(4) Ppmm_run [OF assms(1-3)] by (metis option.inject)
  moreover have "RstpVersion (self ?c1) = RstpVersion (self c)" by (simp add: ppmm_upd_def)
  ultimately show ?thesis using Ppmm_enter(1) [of ?c1] by simp
qed

lemma Ppmm_to_selecting:
  assumes "mBegin (PpmmMachineFsm (self c))" and "map_of PpmmRules (ppmm_state (self c), e) = Some PpmmMachineSelectingSTP"
    and "ppmm_state (self c) = PpmmStateNone \<longrightarrow> e = PpmmEventBegin" and "PpmmMachineMain 3 e c = Some c'"
  shows "ppmm_result c' = (if PortEnabled (self c) \<and> \<not> Mcheck (self c) then (PpmmStateSelectingSTP, False, 3)
    else (PpmmStateCheckingRSTP, RstpVersion (self c), 3))"
proof -
  define d where "d = ppmm_upd (SetState (fst (PpmmMachineSelectingSTP (ppmm_upd (SetEvent e) c))))
    (snd (PpmmMachineSelectingSTP (ppmm_upd (SetEvent e) c)))"
  note d = Ppmm_enter_selecting [OF assms(1) d_def]
  have "ProcessPost PpmmProcess PpmmPosts (Suc (Suc (Suc 0))) d = Some c'"
    using assms(4) unfolding Ppmm_run [OF assms(1-3)] d_def .
  moreover obtain x where "ProcessPost PpmmProcess PpmmPosts (Suc (Suc (Suc 0))) d = Some x"
    "ppmm_result x = (if PortEnabled (self d) \<and> \<not> Mcheck (self d) then ppmm_result d
        else (PpmmStateCheckingRSTP, RstpVersion (self d), 3))"
    using Ppmm_post_selecting [OF d(1,2)] by blast
  ultimately show ?thesis using d(3-6) by (simp del: ProcessPost.simps)
qed

lemma Ppmm_to_sensing:
  assumes "mBegin (PpmmMachineFsm (self c))" and "map_of PpmmRules (ppmm_state (self c), e) = Some PpmmMachineSensing"
    and "ppmm_state (self c) = PpmmStateNone \<longrightarrow> e = PpmmEventBegin" and "PpmmMachineMain 3 e c = Some c'"
  shows "ppmm_result c' = (if PortEnabled (self c) \<and> \<not> Mcheck (self c)
    then (PpmmStateSensing, SendRSTP (self c), MdelayWhiletimer (self c))
    else (PpmmStateCheckingRSTP, RstpVersion (self c), 3))"
proof -
  define d where "d = ppmm_upd (SetState (fst (PpmmMachineSensing (ppmm_upd (SetEvent e) c))))
    (snd (PpmmMachineSensing (ppmm_upd (SetEvent e) c)))"
  note d = Ppmm_enter_sensing [OF assms(1) d_def]
  have "ProcessPost PpmmProcess PpmmPosts (Suc (Suc (Suc 0))) d = Some c'"
    using assms(4) unfolding Ppmm_run [OF assms(1-3)] d_def .
  moreover obtain x where "ProcessPost PpmmProcess PpmmPosts (Suc (Suc (Suc 0))) d = Some x"
    "ppmm_result x = (if PortEnabled (self d) \<and> \<not> Mcheck (self d) then ppmm_result d
        else (PpmmStateCheckingRSTP, RstpVersion (self d), 3))"
    using Ppmm_post_sensing [OF d(1-3)] by blast
  ultimately show ?thesis using d(4-7) by (simp del: ProcessPost.simps)
qed

lemma Ppmm_no_rule:
  assumes "map_of PpmmRules (ppmm_state (self c), e) = None" and "PpmmMachineMain 3 e c = Some c'"
  shows "ppmm_result c' = ppmm_result c"
proof (cases "ppmm_state (self c) = PpmmStateNone \<and> e \<noteq> PpmmEventBegin")
  case True
  then show ?thesis using assms(2) by (auto simp: PpmmMachineMain_def ppmm_result_def emit_def)
next
  case False
  have "PpmmProcess e c = (Some (if mBegin (PpmmMachineFsm (self c)) then InvalidStateEvent else ErrorMachineNotStarted), c)"
    using assms(1) by (simp add: PpmmProcess_def AddRules_empty ProcessEvent_def ppmm_get_def)
  then show ?thesis using False assms(2) by (auto simp: PpmmMachineMain_def ProcessAndPost_def)
qed

text \<open>Which events lead to which state.\<close>

definition ppmm_target :: "State \<times> Event \<Rightarrow> Ctx Callback \<Rightarrow> bool" where
  "ppmm_target k f \<longleftrightarrow>
     f = PpmmMachineCheckingRSTP \<and> (snd k = PpmmEventBegin
         \<or> fst k = PpmmStateCheckingRSTP \<and> snd k = PpmmEventMdelayNotEqualMigrateTimeAndNotPortEnabled
         \<or> fst k = PpmmStateSensing \<and> (snd k = PpmmEventNotPortEnabled \<or> snd k = PpmmEventMcheck
             \<or> snd k = PpmmEventRstpVersionAndNotSendRSTPAndRcvdRSTP))
     \<or> f = PpmmMachineSelectingSTP \<and> fst k = PpmmStateSensing \<and> snd k = PpmmEventSendRSTPAndRcvdSTP
     \<or> f = PpmmMachineSensing \<and> (fst k = PpmmStateCheckingRSTP \<and> snd k = PpmmEventMdelayWhileEqualZero
         \<or> fst k = PpmmStateSelectingSTP
           \<and> (snd k = PpmmEventMdelayWhileEqualZero \<or> snd k = PpmmEventNotPortEnabled \<or> snd k = PpmmEventMcheck))"

lemma PpmmRules_target: "map_of PpmmRules k = Some f \<Longrightarrow> ppmm_target k f"
  by (drule table_all [where P = ppmm_target]) (simp_all add: PpmmRules_def ppmm_target_def)

lemma PpmmMachineMain_outcome:
  assumes "mBegin (PpmmMachineFsm (self c))" and "ppmm_ok c" and "PpmmMachineMain 3 e c = Some c'"
  shows "ppmm_result c' = migration_outcome (ppmm_state (self c)) e (self c)"
proof -
  let ?s = "ppmm_state (self c)"
  have s: "?s = PpmmStateNone \<or> ?s = PpmmStateCheckingRSTP \<or> ?s = PpmmStateSelectingSTP \<or> ?s = PpmmStateSensing"
    using assms(2) by (simp add: ppmm_ok_def)
  consider
      (check) "map_of PpmmRules (?s, e) = Some PpmmMachineCheckingRSTP" "e = PpmmEventBegin
         \<or> ?s = PpmmStateCheckingRSTP \<and> e = PpmmEventMdelayNotEqualMigrateTimeAndNotPortEnabled
         \<or> ?s = PpmmStateSensing \<and> (e = PpmmEventNotPortEnabled \<or> e = PpmmEventMcheck
             \<or> e = PpmmEventRstpVersionAndNotSendRSTPAndRcvdRSTP)"
    | (select) "map_of PpmmRules (?s, e) = Some PpmmMachineSelectingSTP" "?s = PpmmStateSensing" "e = PpmmEventSendRSTPAndRcvdSTP"
    | (sense) "map_of PpmmRules (?s, e) = Some PpmmMachineSensing"
        "?s = PpmmStateCheckingRSTP \<and> e = PpmmEventMdelayWhileEqualZero
         \<or> ?s = PpmmStateSelectingSTP \<and> (e = PpmmEventMdelayWhileEqualZero \<or> e = PpmmEventNotPortEnabled \<or> e = PpmmEventMcheck)"
    | (refuse) "map_of PpmmRules (?s, e) = None"
        "migration_outcome ?s e (self c) = ppmm_result c"
  proof (cases "map_of PpmmRules (?s, e)")
    case None
    moreover from this have "migration_outcome ?s e (self c) = ppmm_result c"
      using s by (elim disjE) (simp_all add: PpmmRules_def migration_outcome_def ppmm_result_def Let_def split: if_splits)
    ultimately show thesis by (rule refuse)
  next
    case (Some f)
    from PpmmRules_target [OF this] show thesis
      unfolding ppmm_target_def fst_conv snd_conv
      by (elim disjE conjE) (use Some check select sense in \<open>simp_all only: simp_thms\<close>)
  qed
  then show ?thesis
  proof cases
    case check
    then have "?s = PpmmStateNone \<longrightarrow> e = PpmmEventBegin" by auto
    from Ppmm_to_checking [OF assms(1) check(1) this assms(3)] check(2) show ?thesis
      by (auto simp: migration_outcome_def Let_def)
  next
    case select
    then have "?s = PpmmStateNone \<longrightarrow> e = PpmmEventBegin" by auto
    from Ppmm_to_selecting [OF assms(1) select(1) this assms(3)] select(2,3) show ?thesis
      by (auto simp: migration_outcome_def Let_def)
  next
    case sense
    then have "?s = PpmmStateNone \<longrightarrow> e = PpmmEventBegin" by auto
    from Ppmm_to_sensing [OF assms(1) sense(1) this assms(3)] sense(2) show ?thesis
      by (auto simp: migration_outcome_def Let_def)
  next
    case refuse
    then show ?thesis using Ppmm_no_rule [OF refuse(1) assms(3)] by simp
  qed
qed



end
