(* ===== verification/Stp_Pst.thy ===== *)
theory Stp_Pst
  imports Stp_Notify
begin

text \<open>
  The port state transition machine, \<open>l2/stp/protocol/pstfsm.go\<close> (17.30): it
  programs the forwarding hardware and owns \<open>Learning\<close> and \<open>Forwarding\<close>.
\<close>

section \<open>Notifications and hardware\<close>

definition learning_changed_events :: "StpPort \<Rightarrow> StpOut list" where
  "learning_changed_events p =
    ((if prt_state p = PrtStateDisablePort
      then if \<not> Learning p \<and> \<not> Forwarding p \<and> Selected p \<and> \<not> UpdtInfo p
           then to_prt p PrtEventNotLearningAndNotForwardingAndSelectedAndNotUpdtInfo
           else []
      else if prt_state p = PrtStateDesignatedPort
      then if \<not> Learning p \<and> \<not> Forwarding p \<and> \<not> Synced p \<and> Selected p \<and> \<not> UpdtInfo p
           then to_prt p PrtEventNotLearningAndNotForwardingAndNotSyncedAndSelectedAndNotUpdtInfo
           else []
      else if prt_state p = PrtStateBlockPort
      then if \<not> Learning p \<and> \<not> Forwarding p \<and> Selected p \<and> \<not> UpdtInfo p
           then to_prt p PrtEventNotLearningAndNotForwardingAndSelectedAndNotUpdtInfo
           else []
      else [])
     @ (if tc_state p = TcStateLearning
        then if Role p \<noteq> PortRoleRootPort \<and> Role p \<noteq> PortRoleDesignatedPort \<and> \<not> Learning p \<and> \<not> (RcvdTc p \<or> RcvdTcn p \<or> RcvdTcAck p \<or> TcProp p)
             then to_tc p TcEventRoleNotEqualRootPortAndRoleNotEqualDesignatedPortAndNotLearnAndNotLearningAndNotRcvdTcAndNotRcvdTcnAndNotRcvdTcAckAndNotTcProp
             else []
        else []))"

definition forwarding_changed_events :: "StpPort \<Rightarrow> StpOut list" where
  "forwarding_changed_events p =
    ((if prt_state p = PrtStateDisablePort
      then if \<not> Learning p \<and> \<not> Forwarding p \<and> Selected p \<and> \<not> UpdtInfo p
           then to_prt p PrtEventNotLearningAndNotForwardingAndSelectedAndNotUpdtInfo
           else []
      else if prt_state p = PrtStateDesignatedPort
      then if \<not> Learning p \<and> \<not> Forwarding p \<and> \<not> Synced p \<and> Selected p \<and> \<not> UpdtInfo p
           then to_prt p PrtEventNotLearningAndNotForwardingAndNotSyncedAndSelectedAndNotUpdtInfo
           else []
      else if prt_state p = PrtStateBlockPort
      then if \<not> Learning p \<and> \<not> Forwarding p \<and> Selected p \<and> \<not> UpdtInfo p
           then to_prt p PrtEventNotLearningAndNotForwardingAndSelectedAndNotUpdtInfo
           else []
      else [])
     @ (if tc_state p = TcStateLearning
        then if Role p \<noteq> PortRoleRootPort \<and> Role p \<noteq> PortRoleDesignatedPort \<and> \<not> Learning p \<and> \<not> (RcvdTc p \<or> RcvdTcn p \<or> RcvdTcAck p \<or> TcProp p)
             then to_tc p TcEventRoleNotEqualRootPortAndRoleNotEqualDesignatedPortAndNotLearnAndNotLearningAndNotRcvdTcAndNotRcvdTcnAndNotRcvdTcAckAndNotTcProp
             else []
        else []))"

text \<open>Both notifications dereference the role transition and topology change machines
  without a nil check.\<close>

definition PstNotifyLearningChanged :: "bool \<Rightarrow> bool \<Rightarrow> Ctx \<Rightarrow> Ctx" where
  "PstNotifyLearningChanged oldlearning newlearning c =
     (if oldlearning \<noteq> newlearning then
        if \<not> prt_live (self c) \<or> \<not> tc_live (self c) then panic c
        else emit (learning_changed_events (self c)) c
      else c)"

definition PstNotifyForwardingChanged :: "bool \<Rightarrow> bool \<Rightarrow> Ctx \<Rightarrow> Ctx" where
  "PstNotifyForwardingChanged oldforwarding newforwarding c =
     (if oldforwarding \<noteq> newforwarding then
        if \<not> prt_live (self c) \<or> \<not> tc_live (self c) then panic c
        else emit (forwarding_changed_events (self c)) c
      else c)"

text \<open>The loop over the plugins of \<open>GetAsicDPluginList\<close>, as one output.\<close>

definition set_hw :: "HwState \<Rightarrow> Ctx \<Rightarrow> Ctx" where
  "set_hw h c = emit [SetStgPortState (StgId (brg c)) (IfIndex (self c)) h] c"

definition disableLearning :: "Ctx \<Rightarrow> Ctx" where
  "disableLearning c = set_hw STP_PORT_STATE_BLOCKING c"

definition disableForwarding :: "Ctx \<Rightarrow> Ctx" where
  "disableForwarding c = set_hw STP_PORT_STATE_BLOCKING c"

definition enableLearning :: "Ctx \<Rightarrow> Ctx" where
  "enableLearning c = set_hw STP_PORT_STATE_LEARNING c"

definition enableForwarding :: "Ctx \<Rightarrow> Ctx" where
  "enableForwarding c =
     (let c = set_hw STP_PORT_STATE_FORWARDING c
      in c\<lparr>self := (self c)\<lparr>ForwardingTransitions := ForwardingTransitions (self c) + 1\<rparr>\<rparr>)"

section \<open>Machine\<close>

text \<open>Deferred notifications run last in, first out.\<close>

definition PstMachineDiscarding :: "Ctx Callback" where
  "PstMachineDiscarding c =
     (let c = disableLearning c;
          oldlearning = Learning (self c);
          c = c\<lparr>self := (self c)\<lparr>Learning := False\<rparr>\<rparr>;
          c = disableForwarding c;
          oldforwarding = Forwarding (self c);
          c = c\<lparr>self := (self c)\<lparr>Forwarding := False\<rparr>\<rparr>;
          c = PstNotifyForwardingChanged oldforwarding False c;
          c = PstNotifyLearningChanged oldlearning False c
      in (PstStateDiscarding, c))"

definition PstMachineLearning :: "Ctx Callback" where
  "PstMachineLearning c =
     (let c = enableLearning c;
          oldlearning = Learning (self c);
          c = c\<lparr>self := (self c)\<lparr>Learning := True\<rparr>\<rparr>
      in (PstStateLearning, PstNotifyLearningChanged oldlearning True c))"

definition PstMachineForwarding :: "Ctx Callback" where
  "PstMachineForwarding c =
     (let c = enableForwarding c;
          oldforwarding = Forwarding (self c);
          c = c\<lparr>self := (self c)\<lparr>Forwarding := True\<rparr>\<rparr>
      in (PstStateForwarding, PstNotifyForwardingChanged oldforwarding True c))"

definition PstRules :: "((State \<times> Event) \<times> Ctx Callback) list" where
  "PstRules =
     [ ((PstStateNone, PstEventBegin), PstMachineDiscarding),
       ((PstStateDiscarding, PstEventBegin), PstMachineDiscarding),
       ((PstStateLearning, PstEventBegin), PstMachineDiscarding),
       ((PstStateForwarding, PstEventBegin), PstMachineDiscarding),
       ((PstStateDiscarding, PstEventLearn), PstMachineLearning),
       ((PstStateLearning, PstEventNotLearn), PstMachineDiscarding),
       ((PstStateLearning, PstEventForward), PstMachineForwarding),
       ((PstStateForwarding, PstEventNotForward), PstMachineDiscarding) ]"

definition PstProcess :: "Ctx Process" where
  "PstProcess = ProcessEvent pst_get pst_upd (AddRules PstRules Map.empty)"

definition PstPostStateDiscarding :: "Ctx Post" where
  "PstPostStateDiscarding c =
    (let p = self c in
     if pst_state p = PstStateDiscarding
     then if Learn p
          then Some PstEventLearn
          else None
     else None)"

definition PstPostStateLearning :: "Ctx Post" where
  "PstPostStateLearning c =
    (let p = self c in
     if pst_state p = PstStateLearning
     then if \<not> Learn p
          then Some PstEventNotLearn
          else if Forward p
          then Some PstEventForward
          else None
     else None)"

definition PstPostStateForwarding :: "Ctx Post" where
  "PstPostStateForwarding c =
    (let p = self c in
     if pst_state p = PstStateForwarding
     then if \<not> Forward p
          then Some PstEventNotForward
          else None
     else None)"

definition PstPosts :: "Ctx Post list" where
  "PstPosts = [PstPostStateDiscarding, PstPostStateLearning, PstPostStateForwarding]"

definition PstMachineMain :: "nat \<Rightarrow> Event \<Rightarrow> Ctx \<Rightarrow> Ctx option" where
  "PstMachineMain n e c =
     (if pst_state (self c) = PstStateNone \<and> e \<noteq> PstEventBegin
      then Some (emit (to_pst (self c) e) c)
      else ProcessAndPost PstProcess PstPosts n e c)"

section \<open>Results of the callbacks\<close>

text \<open>The last hardware state a list of outputs programs.\<close>

fun hw_cmd :: "StpOut \<Rightarrow> HwState option" where
  "hw_cmd (SetStgPortState _ _ h) = Some h"
| "hw_cmd _ = None"

primrec hw_last :: "StpOut list \<Rightarrow> HwState option" where
  "hw_last [] = None"
| "hw_last (x # os) = (case hw_last os of Some h \<Rightarrow> Some h | None \<Rightarrow> hw_cmd x)"

lemma hw_last_append:
  "hw_last (xs @ ys) = (case hw_last ys of None \<Rightarrow> hw_last xs | Some h \<Rightarrow> Some h)"
  by (induction xs) (auto split: option.splits)

lemma learning_changed_no_hw [simp]: "hw_last (learning_changed_events p) = None"
  by (simp add: learning_changed_events_def to_prt_def to_tc_def)

lemma forwarding_changed_no_hw [simp]: "hw_last (forwarding_changed_events p) = None"
  by (simp add: forwarding_changed_events_def to_prt_def to_tc_def)

lemma PstNotify_result [simp]:
  "self (PstNotifyLearningChanged a b c) = self c"
  "self (PstNotifyForwardingChanged a b c) = self c"
  "brg (PstNotifyLearningChanged a b c) = brg c"
  "brg (PstNotifyForwardingChanged a b c) = brg c"
  "peers (PstNotifyLearningChanged a b c) = peers c"
  "peers (PstNotifyForwardingChanged a b c) = peers c"
  "hw_last (out (PstNotifyLearningChanged a b c)) = hw_last (out c)"
  "hw_last (out (PstNotifyForwardingChanged a b c)) = hw_last (out c)"
  by (simp_all add: PstNotifyLearningChanged_def PstNotifyForwardingChanged_def panic_def emit_def
      hw_last_append)

lemma set_hw_result [simp]:
  "self (set_hw h c) = self c" "brg (set_hw h c) = brg c" "peers (set_hw h c) = peers c"
  "hw_last (out (set_hw h c)) = Some h"
  by (simp_all add: set_hw_def emit_def hw_last_append)

lemma PstMachineDiscarding_result [simp]:
  "fst (PstMachineDiscarding c) = PstStateDiscarding"
  "self (snd (PstMachineDiscarding c)) = (self c)\<lparr>Learning := False, Forwarding := False\<rparr>"
  "brg (snd (PstMachineDiscarding c)) = brg c"
  "peers (snd (PstMachineDiscarding c)) = peers c"
  "hw_last (out (snd (PstMachineDiscarding c))) = Some STP_PORT_STATE_BLOCKING"
  by (simp_all add: PstMachineDiscarding_def disableLearning_def disableForwarding_def Let_def)

lemma PstMachineLearning_result [simp]:
  "fst (PstMachineLearning c) = PstStateLearning"
  "self (snd (PstMachineLearning c)) = (self c)\<lparr>Learning := True\<rparr>"
  "brg (snd (PstMachineLearning c)) = brg c"
  "peers (snd (PstMachineLearning c)) = peers c"
  "hw_last (out (snd (PstMachineLearning c))) = Some STP_PORT_STATE_LEARNING"
  by (simp_all add: PstMachineLearning_def enableLearning_def Let_def)

lemma PstMachineForwarding_result [simp]:
  "fst (PstMachineForwarding c) = PstStateForwarding"
  "self (snd (PstMachineForwarding c)) =
     (self c)\<lparr>Forwarding := True, ForwardingTransitions := ForwardingTransitions (self c) + 1\<rparr>"
  "brg (snd (PstMachineForwarding c)) = brg c"
  "peers (snd (PstMachineForwarding c)) = peers c"
  "hw_last (out (snd (PstMachineForwarding c))) = Some STP_PORT_STATE_FORWARDING"
  by (simp_all add: PstMachineForwarding_def enableForwarding_def Let_def)

section \<open>Invariant\<close>

lemma PstRules_cases:
  "map_of PstRules k = Some f \<Longrightarrow>
     f = PstMachineDiscarding
     \<or> f = PstMachineLearning \<and> fst k = PstStateDiscarding
     \<or> f = PstMachineForwarding \<and> fst k = PstStateLearning"
  by (drule table_all [where P = "\<lambda>k f. f = PstMachineDiscarding
        \<or> f = PstMachineLearning \<and> fst k = PstStateDiscarding
        \<or> f = PstMachineForwarding \<and> fst k = PstStateLearning"])
    (simp_all add: PstRules_def)

definition pst_view :: "Ctx \<Rightarrow> Bridge \<times> StpPort \<times> (int32 \<Rightarrow> StpPort option)" where
  "pst_view c =
     (brg c, (self c)\<lparr>Learning := False, Forwarding := False, ForwardingTransitions := 0,
        PstMachineFsm := nil_machine\<rparr>, peers c)"

lemma PstProcess_keeps: "keeps pst_view (\<lambda>c. snd (PstProcess e c))"
  unfolding PstProcess_def AddRules_empty
  by (rule pst_slot.process_keeps) (auto dest!: PstRules_cases simp: pst_view_def pst_upd_def)

text \<open>The state of the machine, the two variables and the hardware agree.\<close>

definition pst_agrees :: "State \<Rightarrow> StpPort \<Rightarrow> bool" where
  "pst_agrees s p \<longleftrightarrow>
     s = PstStateNone
     \<or> s = PstStateDiscarding \<and> \<not> Learning p \<and> \<not> Forwarding p
     \<or> s = PstStateLearning \<and> Learning p \<and> \<not> Forwarding p
     \<or> s = PstStateForwarding \<and> Learning p \<and> Forwarding p"

definition hw_agrees :: "State \<Rightarrow> HwState option \<Rightarrow> bool" where
  "hw_agrees s h \<longleftrightarrow>
     s = PstStateNone
     \<or> s = PstStateDiscarding \<and> h = Some STP_PORT_STATE_BLOCKING
     \<or> s = PstStateLearning \<and> h = Some STP_PORT_STATE_LEARNING
     \<or> s = PstStateForwarding \<and> h = Some STP_PORT_STATE_FORWARDING"

definition pst_ok :: "Ctx \<Rightarrow> bool" where
  "pst_ok c \<longleftrightarrow>
     pst_agrees (pst_state (self c)) (self c) \<and> hw_agrees (pst_state (self c)) (hw_last (out c))"

lemma PstProcess_ok:
  assumes "pst_ok c"
  shows "pst_ok (snd (PstProcess e c))"
  unfolding PstProcess_def AddRules_empty
proof (rule pst_slot.invariant)
  fix f
  assume "map_of PstRules (cur_s (pst_get c), e) = Some f"
  then consider "f = PstMachineDiscarding"
    | "f = PstMachineLearning" "pst_state (self c) = PstStateDiscarding"
    | "f = PstMachineForwarding" "pst_state (self c) = PstStateLearning"
    by (auto dest!: PstRules_cases simp: pst_get_def)
  then show "pst_ok (pst_upd (SetState (fst (f (pst_upd (SetEvent e) c)))) (snd (f (pst_upd (SetEvent e) c))))"
    using assms by cases (simp_all add: pst_ok_def pst_agrees_def hw_agrees_def pst_upd_def)
qed (rule assms)

section \<open>Post processing\<close>

definition pst_rank :: "Ctx \<Rightarrow> nat" where
  "pst_rank c =
     (if pst_state (self c) = PstStateForwarding \<and> \<not> Forward (self c) then 3
      else if pst_state (self c) = PstStateDiscarding \<and> Learn (self c) then 2
      else if pst_state (self c) = PstStateLearning \<and> (\<not> Learn (self c) \<or> Forward (self c)) then 1
      else 0)"

lemma PstProcess_refused: "PstProcess e c = (Some err, c') \<Longrightarrow> c' = c"
  unfolding PstProcess_def using pst_slot.error_unchanged by blast

lemma Pst_post_step:
  assumes "h \<in> set PstPosts" and "h c = Some e" and "PstProcess e c = (None, c')"
  shows "pst_rank c' < pst_rank c"
proof -
  obtain f where f: "map_of PstRules (pst_state (self c), e) = Some f"
    and c': "c' = pst_upd (SetState (fst (f (pst_upd (SetEvent e) c)))) (snd (f (pst_upd (SetEvent e) c)))"
    using pst_slot.accepted [OF assms(3) [unfolded PstProcess_def]]
    by (auto simp: AddRules_empty pst_get_def)
  consider
      "pst_state (self c) = PstStateDiscarding" "Learn (self c)" "e = PstEventLearn"
    | "pst_state (self c) = PstStateLearning" "\<not> Learn (self c)" "e = PstEventNotLearn"
    | "pst_state (self c) = PstStateLearning" "Learn (self c)" "Forward (self c)" "e = PstEventForward"
    | "pst_state (self c) = PstStateForwarding" "\<not> Forward (self c)" "e = PstEventNotForward"
    using assms(1,2)
    by (auto simp: PstPosts_def PstPostStateDiscarding_def PstPostStateLearning_def
        PstPostStateForwarding_def Let_def split: if_splits)
  then show ?thesis
    using f c' by cases (auto simp: PstRules_def pst_rank_def pst_upd_def)
qed

interpretation pst_post: post_terminates PstProcess PstPosts pst_ok pst_rank
proof
  fix h c e c'
  assume a: "h \<in> set PstPosts" "h c = Some e" "pst_ok c" "PstProcess e c = (None, c')"
  show "pst_ok c' \<and> pst_rank c' < pst_rank c"
    using Pst_post_step [OF a(1,2,4)] PstProcess_ok [OF a(3), of e] a(4) by simp
qed (rule PstProcess_refused)

lemma PstMachineMain_returns:
  assumes "pst_ok c"
  shows "\<exists>c'. PstMachineMain 4 e c = Some c' \<and> pst_ok c' \<and> pst_view c' = pst_view c"
proof (cases "pst_state (self c) = PstStateNone \<and> e \<noteq> PstEventBegin")
  case True
  then show ?thesis
    using assms
    by (simp add: PstMachineMain_def emit_def pst_ok_def pst_view_def pst_agrees_def hw_agrees_def)
next
  case False
  have "pst_rank (snd (PstProcess e c)) < 4"
    by (simp add: pst_rank_def)
  then obtain d where d: "ProcessAndPost PstProcess PstPosts 4 e c = Some d" "pst_ok d"
    using pst_post.process_and_post [of e c 4] PstProcess_ok [OF assms, of e] assms by auto
  show ?thesis
    using False d ProcessAndPost_keeps [OF PstProcess_keeps d(1)] by (auto simp: PstMachineMain_def)
qed

text \<open>A settled machine that has begun follows \<open>Learn\<close> and \<open>Forward\<close>.\<close>

lemma Pst_settled:
  assumes "settled PstProcess PstPosts c" and "mBegin (PstMachineFsm (self c))"
  shows "(pst_state (self c) = PstStateDiscarding \<longrightarrow> \<not> Learn (self c))
    \<and> (pst_state (self c) = PstStateLearning \<longrightarrow> Learn (self c) \<and> \<not> Forward (self c))
    \<and> (pst_state (self c) = PstStateForwarding \<longrightarrow> Forward (self c))"
  using assms
  by (auto simp: settled_def PstPosts_def PstPostStateDiscarding_def PstPostStateLearning_def
      PstPostStateForwarding_def PstProcess_def AddRules_empty process_refuses pst_get_def Let_def
      PstRules_def split: if_splits)

text \<open>C7: Whatever event the port state machine receives, its post processing ends
  (four rounds are enough) and afterwards the machine's state, the variables
  \<open>Learning\<close> and \<open>Forwarding\<close> and the last state programmed into the hardware say
  the same: discarding with blocking, learning with learning, forwarding with
  forwarding; in particular a port never forwards without learning.  Nothing but
  these variables and the transition counter changes.\<close>

theorem Pst_agreement:
  assumes "pst_agrees (pst_state (self c)) (self c)"
    and "hw_agrees (pst_state (self c)) (hw_last (out c))"
  shows "\<exists>c'. PstMachineMain 4 e c = Some c'
     \<and> pst_agrees (pst_state (self c')) (self c')
     \<and> hw_agrees (pst_state (self c')) (hw_last (out c'))
     \<and> pst_view c' = pst_view c"
  using PstMachineMain_returns [of c e] assms by (auto simp: pst_ok_def)

theorem Pst_agreement_witness:
  "\<exists>c'. PstMachineMain 4 PstEventBegin (solo zero_bridge (zero_port\<lparr>Learn := True,
        PstMachineFsm := Start PstStateNone (new_machine PstStateNone),
        PrtMachineFsm := new_machine PrtStateNone, TcMachineFsm := new_machine TcStateNone\<rparr>)) = Some c'
    \<and> pst_state (self c') = PstStateLearning \<and> Learning (self c') \<and> \<not> Forwarding (self c')"
proof -
  define c where "c = solo zero_bridge (zero_port\<lparr>Learn := True,
        PstMachineFsm := Start PstStateNone (new_machine PstStateNone),
        PrtMachineFsm := new_machine PrtStateNone, TcMachineFsm := new_machine TcStateNone\<rparr>)"
  have "pst_agrees (pst_state (self c)) (self c)" "hw_agrees (pst_state (self c)) (hw_last (out c))"
    by (simp_all add: c_def solo_def pst_agrees_def hw_agrees_def)
  from Pst_agreement [OF this, of PstEventBegin]
  obtain c' where c': "PstMachineMain 4 PstEventBegin c = Some c'"
    "pst_agrees (pst_state (self c')) (self c')"
    by blast
  have "pst_state (self c') = PstStateLearning"
    using c'(1)
    by (auto simp: c_def solo_def zero_port_def PstMachineMain_def ProcessAndPost_def PstProcess_def
        AddRules_empty ProcessEvent_def PstRules_def pst_get_def pst_upd_def case_prod_beta Let_def
        eval_nat_numeral PstPosts_def PstPostStateDiscarding_def PstPostStateLearning_def
        PstPostStateForwarding_def)
  with c' show ?thesis
    unfolding c_def by (auto simp: pst_agrees_def)
qed

end
