(* ===== verification/Stp_Timers.thy ===== *)
theory Stp_Timers
  imports Stp_Notify
begin

text \<open>
  The port timers: \<open>l2/stp/protocol/timers.go\<close> and the port timer machine
  \<open>ptifsm.go\<close> (17.22), which counts the timers down once a second.
\<close>

section \<open>Expiry notifications\<close>

datatype TimerType =
    TimerTypeEdgeDelayWhile | TimerTypeFdWhile | TimerTypeHelloWhen | TimerTypeMdelayWhile
  | TimerTypeRbWhile | TimerTypeRcvdInfoWhile | TimerTypeRrWhile | TimerTypeTcWhile | TimerTypeBAWhile

definition NotifyEdgeDelayWhileTimerExpired :: "StpPort \<Rightarrow> StpOut list" where
  "NotifyEdgeDelayWhileTimerExpired p =
    (if bdm_live p \<and> bdm_state p = BdmStateNotEdge \<and> AutoEdgePort p \<and> SendRSTP p \<and> Proposing p
     then to_bdm p BdmEventEdgeDelayWhileEqualZeroAndAutoEdgeAndSendRSTPAndProposing
     else [])"

definition NotifyFdWhileTimerExpired :: "StpPort \<Rightarrow> StpOut list" where
  "NotifyFdWhileTimerExpired p =
    (if prt_live p
     then if prt_state p = PrtStateRootPort
          then if RstpVersion p \<and> \<not> Learn p \<and> Selected p \<and> \<not> UpdtInfo p
               then to_prt p PrtEventFdWhileEqualZeroAndRstpVersionAndNotLearnAndSelectedAndNotUpdtInfo
               else if RstpVersion p \<and> Learn p \<and> \<not> Forward p
               then to_prt p PrtEventFdWhileEqualZeroAndRstpVersionAndLearnAndNotForwardAndSelectedAndNotUpdtInfo
               else []
          else if prt_state p = PrtStateDesignatedPort
          then if RrWhileTimer p = 0 \<and> \<not> Sync p \<and> \<not> Learn p \<and> Selected p \<and> \<not> UpdtInfo p
               then to_prt p PrtEventFdWhileEqualZeroAndRrWhileEqualZeroAndNotSyncAndNotLearnAndSelectedAndNotUpdtInfo
               else if \<not> ReRoot p \<and> \<not> Sync p \<and> \<not> Learn p \<and> Selected p \<and> \<not> UpdtInfo p
               then to_prt p PrtEventFdWhileEqualZeroAndNotReRootAndNotSyncAndNotLearnSelectedAndNotUpdtInfo
               else if RrWhileTimer p = 0 \<and> \<not> Sync p \<and> Learn p \<and> \<not> Forward p \<and> Selected p \<and> \<not> UpdtInfo p
               then to_prt p PrtEventFdWhileEqualZeroAndRrWhileEqualZeroAndNotSyncAndLearnAndNotForwardSelectedAndNotUpdtInfo
               else if \<not> ReRoot p \<and> \<not> Sync p \<and> Learn p \<and> \<not> Forward p \<and> Selected p \<and> \<not> UpdtInfo p
               then to_prt p PrtEventFdWhileEqualZeroAndNotReRootAndNotSyncAndLearnAndNotForwardSelectedAndNotUpdtInfo
               else []
          else []
     else [])"

definition NotifyHelloWhenTimerExpired :: "StpPort \<Rightarrow> StpOut list" where
  "NotifyHelloWhenTimerExpired p =
    (if ptx_live p \<and> ptx_state p = PtxmStateIdle
     then if Selected p \<and> \<not> UpdtInfo p
          then to_ptx p PtxmEventHelloWhenEqualsZeroAndSelectedAndNotUpdtInfo
          else []
     else [])"

text \<open>\<open>a != nil && x || y\<close> dereferences the machine in \<open>y\<close> even when it is nil.\<close>

definition NotifyMdelayWhileTimerExpired :: "Ctx \<Rightarrow> Ctx" where
  "NotifyMdelayWhileTimerExpired c =
     (let p = self c in
      if ppmm_live p \<and> ppmm_state p = PpmmStateCheckingRSTP
      then emit [Send PpmmEvents (IfIndex p) PpmmEventMdelayWhileEqualZero None] c
      else if \<not> ppmm_live p then panic c
      else if ppmm_state p = PpmmStateSelectingSTP
      then emit [Send PpmmEvents (IfIndex p) PpmmEventMdelayWhileEqualZero None] c
      else c)"

definition NotifyRbWhileTimerExpired :: "Ctx \<Rightarrow> StpPort \<Rightarrow> StpOut list" where
  "NotifyRbWhileTimerExpired c p =
    (if prt_live p \<and> prt_state p = PrtStateRootPort
     then if ReRooted c p \<and> RstpVersion p \<and> \<not> Learn p \<and> Selected p \<and> \<not> UpdtInfo p
          then to_prt p PrtEventReRootedAndRbWhileEqualZeroAndRstpVersionAndNotLearnAndSelectedAndNotUpdtInfo
          else if ReRooted c p \<and> RstpVersion p \<and> Learn p \<and> \<not> Forward p \<and> Selected p \<and> \<not> UpdtInfo p
          then to_prt p PrtEventReRootedAndRbWhileEqualZeroAndRstpVersionAndLearnAndNotForwardAndSelectedAndNotUpdtInfo
          else []
     else [])"

definition NotifyRcvdInfoWhileTimerExpired :: "StpPort \<Rightarrow> StpOut list" where
  "NotifyRcvdInfoWhileTimerExpired p =
    (if pim_live p \<and> pim_state p = PimStateCurrent
     then if InfoIs p = PortInfoStateReceived \<and> \<not> UpdtInfo p \<and> \<not> RcvdMsg p
          then to_pim p PimEventInflsEqualReceivedAndRcvdInfoWhileEqualZeroAndNotUpdtInfoAndNotRcvdMsg None
          else []
     else [])"

definition NotifyRrWhileTimerExpired :: "StpPort \<Rightarrow> StpOut list" where
  "NotifyRrWhileTimerExpired p =
    (if prt_live p \<and> prt_state p = PrtStateDesignatedPort
     then if ReRoot p \<and> Selected p \<and> \<not> UpdtInfo p
          then to_prt p PrtEventRrWhileEqualZeroAndReRootAndSelectedAndNotUpdtInfo
          else if FdWhileTimer p = 0 \<and> \<not> Sync p \<and> \<not> Learn p \<and> Selected p \<and> \<not> UpdtInfo p
          then to_prt p PrtEventFdWhileEqualZeroAndRrWhileEqualZeroAndNotSyncAndNotLearnAndSelectedAndNotUpdtInfo
          else if Agreed p \<and> \<not> Sync p \<and> \<not> Learn p \<and> Selected p \<and> \<not> UpdtInfo p
          then to_prt p PrtEventAgreedAndRrWhileEqualZeroAndNotSyncAndNotLearnAndSelectedAndNotUpdtInfo
          else if OperEdge p \<and> \<not> Sync p \<and> \<not> Learn p \<and> Selected p \<and> \<not> UpdtInfo p
          then to_prt p PrtEventOperEdgeAndRrWhileEqualZeroAndNotSyncAndNotLearnAndSelectedAndNotUpdtInfo
          else if FdWhileTimer p = 0 \<and> \<not> Sync p \<and> Learn p \<and> \<not> Forward p \<and> Selected p \<and> \<not> UpdtInfo p
          then to_prt p PrtEventFdWhileEqualZeroAndRrWhileEqualZeroAndNotSyncAndLearnAndNotForwardSelectedAndNotUpdtInfo
          else if Agreed p \<and> \<not> Sync p \<and> Learn p \<and> \<not> Forward p \<and> Selected p \<and> \<not> UpdtInfo p
          then to_prt p PrtEventAgreedAndRrWhileEqualZeroAndNotSyncAndLearnAndNotForwardAndSelectedAndNotUpdtInfo
          else if OperEdge p \<and> \<not> Sync p \<and> Learn p \<and> \<not> Forward p \<and> Selected p \<and> \<not> UpdtInfo p
          then to_prt p PrtEventOperEdgeAndRrWhileEqualZeroAndNotSyncAndLearnAndNotForwardAndSelectedAndNotUpdtInfo
          else []
     else [])"

text \<open>The deferred call that belongs to an expired timer; \<open>NotifyTcWhileTimerExpired\<close> is empty.\<close>

definition run_expired :: "TimerType \<Rightarrow> Ctx \<Rightarrow> Ctx" where
  "run_expired t c =
     (case t of
        TimerTypeEdgeDelayWhile \<Rightarrow> emit (NotifyEdgeDelayWhileTimerExpired (self c)) c
      | TimerTypeFdWhile \<Rightarrow> emit (NotifyFdWhileTimerExpired (self c)) c
      | TimerTypeHelloWhen \<Rightarrow> emit (NotifyHelloWhenTimerExpired (self c)) c
      | TimerTypeMdelayWhile \<Rightarrow> NotifyMdelayWhileTimerExpired c
      | TimerTypeRbWhile \<Rightarrow> emit (NotifyRbWhileTimerExpired c (self c)) c
      | TimerTypeRcvdInfoWhile \<Rightarrow> emit (NotifyRcvdInfoWhileTimerExpired (self c)) c
      | TimerTypeRrWhile \<Rightarrow> emit (NotifyRrWhileTimerExpired (self c)) c
      | TimerTypeTcWhile \<Rightarrow> c
      | TimerTypeBAWhile \<Rightarrow> c)"

section \<open>Counting down\<close>

text \<open>Each block of \<open>DecrementTimerCounters\<close> works on the state and the stack of
  deferred expiry notifications, newest first.\<close>

type_synonym ticking = "Ctx \<times> TimerType list"

definition dec_TxCount :: "Ctx \<Rightarrow> Ctx" where
  "dec_TxCount c =
     (if TxCount (self c) > 0 then c\<lparr>self := (self c)\<lparr>TxCount := TxCount (self c) - 1\<rparr>\<rparr> else c)"

definition dec_EdgeDelayWhile :: "ticking \<Rightarrow> ticking" where
  "dec_EdgeDelayWhile = (\<lambda>(c, ds).
     if lt32 0 (EdgeDelayWhileTimer (self c)) then
       let c = c\<lparr>self := (self c)\<lparr>EdgeDelayWhileTimer := EdgeDelayWhileTimer (self c) - 1\<rparr>\<rparr>;
           p = self c
       in if EdgeDelayWhileTimer p = 0 then (c, TimerTypeEdgeDelayWhile # ds)
          else (emit (if prx_live p \<and> EdgeDelayWhileTimer p \<noteq> MigrateTimeDefault \<and> \<not> PortEnabled p
                      then [Send PrxmEvents (IfIndex p)
                              PrxmEventEdgeDelayWhileNotEqualMigrateTimeAndNotPortEnabled None]
                      else []) c, ds)
     else (c, ds))"

definition fdwhile_running_events :: "Ctx \<Rightarrow> StpOut list" where
  "fdwhile_running_events c =
    (let p = self c in
     if prt_live p
     then if prt_state p = PrtStateDisabledPort
             \<and> ucast (FdWhileTimer p) \<noteq> MaxAge (BridgeTimes (brg c)) \<and> Selected p \<and> \<not> UpdtInfo p
          then to_prt p PrtEventFdWhileNotEqualMaxAgeAndSelectedAndNotUpdtInfo
          else if prt_state p = PrtStateAlternatePort
             \<and> ucast (FdWhileTimer p) \<noteq> ForwardingDelay (BridgeTimes (brg c)) \<and> Selected p \<and> \<not> UpdtInfo p
          then to_prt p PrtEventFdWhileNotEqualForwardDelayAndSelectedAndNotUpdtInfo
          else []
     else [])"

definition dec_FdWhile :: "ticking \<Rightarrow> ticking" where
  "dec_FdWhile = (\<lambda>(c, ds).
     if lt32 0 (FdWhileTimer (self c)) then
       let c = emit (fdwhile_running_events c) c;
           c = c\<lparr>self := (self c)\<lparr>FdWhileTimer := FdWhileTimer (self c) - 1\<rparr>\<rparr>
       in (c, if FdWhileTimer (self c) = 0 then TimerTypeFdWhile # ds else ds)
     else (c, ds))"

definition hellowhen_running_events :: "Ctx \<Rightarrow> StpOut list" where
  "hellowhen_running_events c =
    (let p = self c in
     if ptx_live p \<and> ptx_state p = PtxmStateIdle
     then if SendRSTP p \<and> NewInfo p \<and> (TxCount p < TxHoldCount (brg c)) \<and> Selected p \<and> \<not> UpdtInfo p
          then to_ptx p PtxmEventSendRSTPAndNewInfoAndTxCountLessThanTxHoldCoundAndHelloWhenNotEqualZeroAndSelectedAndNotUpdtInfo
          else if \<not> SendRSTP p \<and> NewInfo p \<and> Role p = PortRoleRootPort \<and> (TxCount p < TxHoldCount (brg c)) \<and> Selected p \<and> \<not> UpdtInfo p
          then to_ptx p PtxmEventNotSendRSTPAndNewInfoAndRootPortAndTxCountLessThanTxHoldCountAndHellWhenNotEqualZeroAndSelectedAndNotUpdtInfo
          else if \<not> SendRSTP p \<and> NewInfo p \<and> Role p = PortRoleDesignatedPort \<and> (TxCount p < TxHoldCount (brg c)) \<and> Selected p \<and> \<not> UpdtInfo p
          then to_ptx p PtxmEventNotSendRSTPAndNewInfoAndDesignatedPortAndTxCountLessThanTxHoldCountAndHellWhenNotEqualZeroAndSelectedAndNotUpdtInfo
          else []
     else [])"

definition dec_HelloWhen :: "ticking \<Rightarrow> ticking" where
  "dec_HelloWhen = (\<lambda>(c, ds).
     if lt32 0 (HelloWhenTimer (self c)) then
       if PortEnabled (self c) then
         let c = c\<lparr>self := (self c)\<lparr>HelloWhenTimer := HelloWhenTimer (self c) - 1\<rparr>\<rparr>
         in if HelloWhenTimer (self c) = 0 then (c, TimerTypeHelloWhen # ds)
            else (emit (hellowhen_running_events c) c, ds)
       else (c\<lparr>self := (self c)\<lparr>HelloWhenTimer := i32 (HelloTime (PortTimes (self c)))\<rparr>\<rparr>, ds)
     else (c, ds))"

definition dec_MdelayWhile :: "ticking \<Rightarrow> ticking" where
  "dec_MdelayWhile = (\<lambda>(c, ds).
     if lt32 0 (MdelayWhiletimer (self c)) then
       let c = c\<lparr>self := (self c)\<lparr>MdelayWhiletimer := MdelayWhiletimer (self c) - 1\<rparr>\<rparr>
       in (c, if MdelayWhiletimer (self c) = 0 then TimerTypeMdelayWhile # ds else ds)
     else (c, ds))"

definition dec_RbWhile :: "ticking \<Rightarrow> ticking" where
  "dec_RbWhile = (\<lambda>(c, ds).
     if lt32 0 (RbWhileTimer (self c)) then
       let p = self c;
           c = emit (if prt_live p \<and> prt_state p = PrtStateAlternatePort \<and> Role p = PortRoleBackupPort
                        \<and> Selected p \<and> \<not> UpdtInfo p
                     then to_prt p PrtEventRbWhileNotEqualTwoTimesHelloTimeAndRoleEqualsBackupPortAndSelectedAndNotUpdtInfo
                     else []) c;
           c = c\<lparr>self := (self c)\<lparr>RbWhileTimer := RbWhileTimer (self c) - 1\<rparr>\<rparr>
       in (c, if RbWhileTimer (self c) = 0 then TimerTypeRbWhile # ds else ds)
     else (c, ds))"

definition dec_RcvdInfoWhile :: "ticking \<Rightarrow> ticking" where
  "dec_RcvdInfoWhile = (\<lambda>(c, ds).
     if lt32 0 (RcvdInfoWhiletimer (self c)) then
       let c = c\<lparr>self := (self c)\<lparr>RcvdInfoWhiletimer := RcvdInfoWhiletimer (self c) - 1\<rparr>\<rparr>
       in (c, if RcvdInfoWhiletimer (self c) = 0 then TimerTypeRcvdInfoWhile # ds else ds)
     else (c, ds))"

definition rrwhile_running_events :: "Ctx \<Rightarrow> StpOut list" where
  "rrwhile_running_events c =
    (let p = self c in
     if prt_live p \<and> prt_state p = PrtStateRootPort
     then if RrWhileTimer p \<noteq> i32 (ForwardingDelay (RootTimes (brg c))) \<and> Selected p \<and> \<not> UpdtInfo p
          then to_prt p PrtEventRrWhileNotEqualFwdDelayAndSelectedAndNotUpdtInfo
          else []
     else if RrWhileTimer p \<noteq> 0 \<and> prt_live p \<and> prt_state p = PrtStateDesignatedPort
     then if ReRoot p \<and> \<not> OperEdge p \<and> Learn p \<and> Selected p \<and> \<not> UpdtInfo p
          then to_prt p PrtEventReRootAndRrWhileNotEqualZeroAndNotOperEdgeAndLearnAndSelectedAndNotUpdtInfo
          else if ReRoot p \<and> \<not> OperEdge p \<and> Forward p \<and> Selected p \<and> \<not> UpdtInfo p
          then to_prt p PrtEventReRootAndRrWhileNotEqualZeroAndNotOperEdgeAndForwardAndSelectedAndNotUpdtInfo
          else []
     else [])"

definition dec_RrWhile :: "ticking \<Rightarrow> ticking" where
  "dec_RrWhile = (\<lambda>(c, ds).
     if lt32 0 (RrWhileTimer (self c)) then
       let c = c\<lparr>self := (self c)\<lparr>RrWhileTimer := RrWhileTimer (self c) - 1\<rparr>\<rparr>;
           c = emit (rrwhile_running_events c) c
       in (c, if RrWhileTimer (self c) = 0 then TimerTypeRrWhile # ds else ds)
     else (c, ds))"

definition dec_TcWhile :: "ticking \<Rightarrow> ticking" where
  "dec_TcWhile = (\<lambda>(c, ds).
     if lt32 0 (TcWhileTimer (self c)) then
       let c = c\<lparr>self := (self c)\<lparr>TcWhileTimer := TcWhileTimer (self c) - 1\<rparr>\<rparr>
       in (c, if TcWhileTimer (self c) = 0 then TimerTypeTcWhile # ds else ds)
     else (c, ds))"

definition dec_BAWhile :: "Ctx \<Rightarrow> Ctx" where
  "dec_BAWhile c =
     (let p = self c in
      if BridgeAssurance p \<and> \<not> OperEdge p \<and> PortEnabled p \<and> lt32 0 (BAWhileTimer p) \<and> RcvdBPDU p then
        let c = c\<lparr>self := (self c)\<lparr>BAWhileTimer := BAWhileTimer p - 1\<rparr>\<rparr>
        in if BAWhileTimer (self c) = 0 then
             let c = c\<lparr>self := (self c)\<lparr>BridgeAssuranceInconsistant := True\<rparr>\<rparr>;
                 c = emit (NotifySelectedRoleChanged (self c) (SelectedRole (self c)) PortRoleDisabledPort) c
             in c\<lparr>self := (self c)\<lparr>SelectedRole := PortRoleDisabledPort\<rparr>\<rparr>
           else c
      else c)"

definition dec_BPDUGuard :: "Ctx \<Rightarrow> Ctx" where
  "dec_BPDUGuard c =
     (let p = self c in
      if BpduGuard p \<and> OperEdge p \<and> lt32 0 (BPDUGuardTimer p) then
        let c = c\<lparr>self := (self c)\<lparr>BPDUGuardTimer := BPDUGuardTimer p - 1\<rparr>\<rparr>
        in if BPDUGuardTimer (self c) = 0 then emit [BPDUGuardDetected (IfIndex p) False] c else c
      else c)"

definition dec_timers :: "ticking \<Rightarrow> ticking" where
  "dec_timers x =
     dec_TcWhile (dec_RrWhile (dec_RcvdInfoWhile (dec_RbWhile (dec_MdelayWhile
       (dec_HelloWhen (dec_FdWhile (dec_EdgeDelayWhile x)))))))"

definition DecrementTimerCounters :: "Ctx \<Rightarrow> Ctx" where
  "DecrementTimerCounters c =
     (let (c, ds) = dec_timers (dec_TxCount c, [])
      in fold run_expired ds (dec_BPDUGuard (dec_BAWhile c)))"

section \<open>The port timer machine\<close>

definition PtmMachineOneSecond :: "Ctx Callback" where
  "PtmMachineOneSecond c = (PtmStateOneSecond, c\<lparr>self := (self c)\<lparr>PtmTick := False\<rparr>\<rparr>)"

definition PtmMachineTick :: "Ctx Callback" where
  "PtmMachineTick c = (PtmStateTick, DecrementTimerCounters c)"

definition PtmRules :: "((State \<times> Event) \<times> Ctx Callback) list" where
  "PtmRules =
     [ ((PtmStateNone, PtmEventBegin), PtmMachineOneSecond),
       ((PtmStateOneSecond, PtmEventBegin), PtmMachineOneSecond),
       ((PtmStateTick, PtmEventBegin), PtmMachineOneSecond),
       ((PtmStateOneSecond, PtmEventTickEqualsTrue), PtmMachineTick),
       ((PtmStateTick, PtmEventUnconditionalFallthrough), PtmMachineOneSecond) ]"

definition PtmProcess :: "Ctx Process" where
  "PtmProcess = ProcessEvent ptm_get ptm_upd (AddRules PtmRules Map.empty)"

text \<open>The two branches of the event loop: the one second tick and a machine event.\<close>

definition PtmMachineMain_tick :: "Ctx \<Rightarrow> Ctx" where
  "PtmMachineMain_tick c =
     (let c = c\<lparr>self := (self c)\<lparr>PtmTick := True\<rparr>\<rparr>;
          c = snd (PtmProcess PtmEventTickEqualsTrue c)
      in if cur_s (PtmMachineFsm (self c)) = PtmStateTick
         then snd (PtmProcess PtmEventUnconditionalFallthrough c) else c)"

definition PtmMachineMain :: "Event \<Rightarrow> Ctx \<Rightarrow> Ctx" where
  "PtmMachineMain e c = snd (PtmProcess e c)"

section \<open>Effect of a tick\<close>

definition tick_down :: "int32 \<Rightarrow> int32" where
  "tick_down x = (if lt32 0 x then x - 1 else x)"

lemma dec_EdgeDelayWhile_result [simp]:
  "self (fst (dec_EdgeDelayWhile x)) = (self (fst x))\<lparr>EdgeDelayWhileTimer := tick_down (EdgeDelayWhileTimer (self (fst x)))\<rparr>"
  "brg (fst (dec_EdgeDelayWhile x)) = brg (fst x)" "peers (fst (dec_EdgeDelayWhile x)) = peers (fst x)"
  by (cases x; simp add: dec_EdgeDelayWhile_def tick_down_def emit_def Let_def)+

lemma dec_FdWhile_result [simp]:
  "self (fst (dec_FdWhile x)) = (self (fst x))\<lparr>FdWhileTimer := tick_down (FdWhileTimer (self (fst x)))\<rparr>"
  "brg (fst (dec_FdWhile x)) = brg (fst x)" "peers (fst (dec_FdWhile x)) = peers (fst x)"
  by (cases x; simp add: dec_FdWhile_def tick_down_def emit_def Let_def)+

lemma dec_MdelayWhile_result [simp]:
  "self (fst (dec_MdelayWhile x)) = (self (fst x))\<lparr>MdelayWhiletimer := tick_down (MdelayWhiletimer (self (fst x)))\<rparr>"
  "brg (fst (dec_MdelayWhile x)) = brg (fst x)" "peers (fst (dec_MdelayWhile x)) = peers (fst x)"
  by (cases x; simp add: dec_MdelayWhile_def tick_down_def emit_def Let_def)+

lemma dec_RbWhile_result [simp]:
  "self (fst (dec_RbWhile x)) = (self (fst x))\<lparr>RbWhileTimer := tick_down (RbWhileTimer (self (fst x)))\<rparr>"
  "brg (fst (dec_RbWhile x)) = brg (fst x)" "peers (fst (dec_RbWhile x)) = peers (fst x)"
  by (cases x; simp add: dec_RbWhile_def tick_down_def emit_def Let_def)+

lemma dec_RcvdInfoWhile_result [simp]:
  "self (fst (dec_RcvdInfoWhile x)) = (self (fst x))\<lparr>RcvdInfoWhiletimer := tick_down (RcvdInfoWhiletimer (self (fst x)))\<rparr>"
  "brg (fst (dec_RcvdInfoWhile x)) = brg (fst x)" "peers (fst (dec_RcvdInfoWhile x)) = peers (fst x)"
  by (cases x; simp add: dec_RcvdInfoWhile_def tick_down_def emit_def Let_def)+

lemma dec_RrWhile_result [simp]:
  "self (fst (dec_RrWhile x)) = (self (fst x))\<lparr>RrWhileTimer := tick_down (RrWhileTimer (self (fst x)))\<rparr>"
  "brg (fst (dec_RrWhile x)) = brg (fst x)" "peers (fst (dec_RrWhile x)) = peers (fst x)"
  by (cases x; simp add: dec_RrWhile_def tick_down_def emit_def Let_def)+

lemma dec_TcWhile_result [simp]:
  "self (fst (dec_TcWhile x)) = (self (fst x))\<lparr>TcWhileTimer := tick_down (TcWhileTimer (self (fst x)))\<rparr>"
  "brg (fst (dec_TcWhile x)) = brg (fst x)" "peers (fst (dec_TcWhile x)) = peers (fst x)"
  by (cases x; simp add: dec_TcWhile_def tick_down_def emit_def Let_def)+

definition hello_down :: "StpPort \<Rightarrow> int32" where
  "hello_down p =
     (if lt32 0 (HelloWhenTimer p) then
        if PortEnabled p then HelloWhenTimer p - 1 else i32 (HelloTime (PortTimes p))
      else HelloWhenTimer p)"

lemma dec_HelloWhen_result [simp]:
  "self (fst (dec_HelloWhen x)) = (self (fst x))\<lparr>HelloWhenTimer := hello_down (self (fst x))\<rparr>"
  "brg (fst (dec_HelloWhen x)) = brg (fst x)" "peers (fst (dec_HelloWhen x)) = peers (fst x)"
  by (cases x; simp add: dec_HelloWhen_def hello_down_def emit_def Let_def)+

lemma run_expired_result [simp]:
  "self (run_expired t c) = self c" "brg (run_expired t c) = brg c" "peers (run_expired t c) = peers c"
  by (simp_all add: run_expired_def NotifyMdelayWhileTimerExpired_def emit_def panic_def Let_def
      split: TimerType.splits)

lemma fold_run_expired_result [simp]:
  "self (fold run_expired ds c) = self c" "brg (fold run_expired ds c) = brg c"
  "peers (fold run_expired ds c) = peers c"
  by (induction ds arbitrary: c) simp_all

definition ba_down :: "StpPort \<Rightarrow> StpPort" where
  "ba_down p =
     (if BridgeAssurance p \<and> \<not> OperEdge p \<and> PortEnabled p \<and> lt32 0 (BAWhileTimer p) \<and> RcvdBPDU p then
        if BAWhileTimer p = 1
        then p\<lparr>BAWhileTimer := 0, BridgeAssuranceInconsistant := True, SelectedRole := PortRoleDisabledPort\<rparr>
        else p\<lparr>BAWhileTimer := BAWhileTimer p - 1\<rparr>
      else p)"

lemma dec_BAWhile_result [simp]:
  "self (dec_BAWhile c) = ba_down (self c)" "brg (dec_BAWhile c) = brg c"
  "peers (dec_BAWhile c) = peers c"
  by (simp_all add: dec_BAWhile_def ba_down_def emit_def Let_def)

definition guard_down :: "StpPort \<Rightarrow> StpPort" where
  "guard_down p =
     (if BpduGuard p \<and> OperEdge p then p\<lparr>BPDUGuardTimer := tick_down (BPDUGuardTimer p)\<rparr> else p)"

lemma dec_BPDUGuard_result [simp]:
  "self (dec_BPDUGuard c) = guard_down (self c)" "brg (dec_BPDUGuard c) = brg c"
  "peers (dec_BPDUGuard c) = peers c"
  by (simp_all add: dec_BPDUGuard_def guard_down_def tick_down_def emit_def Let_def)

lemma dec_TxCount_result [simp]:
  "self (dec_TxCount c) = (self c)\<lparr>TxCount := TxCount (self c) - (if TxCount (self c) = 0 then 0 else 1)\<rparr>"
  "brg (dec_TxCount c) = brg c" "peers (dec_TxCount c) = peers c"
  by (simp_all add: dec_TxCount_def word_gt_0)

definition counted_down :: "StpPort \<Rightarrow> StpPort" where
  "counted_down p = p\<lparr>
     TxCount := TxCount p - (if TxCount p = 0 then 0 else 1),
     EdgeDelayWhileTimer := tick_down (EdgeDelayWhileTimer p),
     FdWhileTimer := tick_down (FdWhileTimer p),
     HelloWhenTimer := hello_down p,
     MdelayWhiletimer := tick_down (MdelayWhiletimer p),
     RbWhileTimer := tick_down (RbWhileTimer p),
     RcvdInfoWhiletimer := tick_down (RcvdInfoWhiletimer p),
     RrWhileTimer := tick_down (RrWhileTimer p),
     TcWhileTimer := tick_down (TcWhileTimer p)\<rparr>"

lemma dec_timers_result [simp]:
  "self (fst (dec_timers (dec_TxCount c, ds))) = counted_down (self c)"
  "brg (fst (dec_timers (dec_TxCount c, ds))) = brg c"
  "peers (fst (dec_timers (dec_TxCount c, ds))) = peers c"
  by (simp_all add: dec_timers_def counted_down_def hello_down_def)

lemma DecrementTimerCounters_self:
  "self (DecrementTimerCounters c) = guard_down (ba_down (counted_down (self c)))"
  "brg (DecrementTimerCounters c) = brg c" "peers (DecrementTimerCounters c) = peers c"
  by (simp_all add: DecrementTimerCounters_def case_prod_beta)

text \<open>Counting down a running timer subtracts one and cannot make it negative.\<close>

lemma sint_tick_down: "sint (tick_down x) = (if 0 < sint x then sint x - 1 else sint x)"
proof (cases "0 < sint x")
  case True
  have "sint (x - 1) = sint x - 1"
    using True sint_lt [of x] sint_ge [of x]
    by (simp add: sint_word_ariths signed_take_bit_int_eq_self)
  then show ?thesis using True by (simp add: tick_down_def lt32_def)
next
  case False
  then show ?thesis by (simp add: tick_down_def lt32_def)
qed

lemma sint_i32: "sint (i32 x) = int (unat x)"
proof -
  have u: "uint (i32 x) = uint x" using unat_i32 [of x] by (metis uint_nat)
  have "uint x < 2 ^ LENGTH(16)" by (rule unsigned_less)
  moreover have "- (2 ^ 31) \<le> uint x" by (rule order_trans [of _ 0]) simp_all
  ultimately have "signed_take_bit 31 (uint x) = uint x"
    by (intro signed_take_bit_int_eq_self) simp_all
  then show ?thesis by (simp add: sint_uint u)
qed

lemma sint_hello_down:
  "sint (hello_down p) =
     (if sint (HelloWhenTimer p) \<le> 0 then sint (HelloWhenTimer p)
      else if PortEnabled p then sint (HelloWhenTimer p) - 1 else int (unat (HelloTime (PortTimes p))))"
  using sint_tick_down [of "HelloWhenTimer p"]
  by (cases "0 < sint (HelloWhenTimer p)") (simp_all add: hello_down_def tick_down_def lt32_def sint_i32)

lemma BAWhileTimer_ba_down:
  "BAWhileTimer (ba_down p) =
     (if BridgeAssurance p \<and> \<not> OperEdge p \<and> PortEnabled p \<and> RcvdBPDU p then tick_down (BAWhileTimer p)
      else BAWhileTimer p)"
  by (simp add: ba_down_def tick_down_def)

lemma ba_down_fields:
  "EdgeDelayWhileTimer (ba_down p) = EdgeDelayWhileTimer p" "FdWhileTimer (ba_down p) = FdWhileTimer p"
  "MdelayWhiletimer (ba_down p) = MdelayWhiletimer p" "RbWhileTimer (ba_down p) = RbWhileTimer p"
  "RcvdInfoWhiletimer (ba_down p) = RcvdInfoWhiletimer p" "RrWhileTimer (ba_down p) = RrWhileTimer p"
  "TcWhileTimer (ba_down p) = TcWhileTimer p" "HelloWhenTimer (ba_down p) = HelloWhenTimer p"
  "TxCount (ba_down p) = TxCount p" "BPDUGuardTimer (ba_down p) = BPDUGuardTimer p"
  "BpduGuard (ba_down p) = BpduGuard p" "OperEdge (ba_down p) = OperEdge p"
  by (simp_all add: ba_down_def)

text \<open>Which timers expire in a tick.\<close>

lemma expired_at_one: "lt32 0 x \<and> x - 1 = 0 \<longleftrightarrow> x = 1"
  by (auto simp: lt32_def)

lemma dec_stack:
  "snd (dec_EdgeDelayWhile x) = (if EdgeDelayWhileTimer (self (fst x)) = 1 then TimerTypeEdgeDelayWhile # snd x else snd x)"
  "snd (dec_FdWhile x) = (if FdWhileTimer (self (fst x)) = 1 then TimerTypeFdWhile # snd x else snd x)"
  "snd (dec_MdelayWhile x) = (if MdelayWhiletimer (self (fst x)) = 1 then TimerTypeMdelayWhile # snd x else snd x)"
  "snd (dec_RbWhile x) = (if RbWhileTimer (self (fst x)) = 1 then TimerTypeRbWhile # snd x else snd x)"
  "snd (dec_RcvdInfoWhile x) = (if RcvdInfoWhiletimer (self (fst x)) = 1 then TimerTypeRcvdInfoWhile # snd x else snd x)"
  "snd (dec_RrWhile x) = (if RrWhileTimer (self (fst x)) = 1 then TimerTypeRrWhile # snd x else snd x)"
  "snd (dec_TcWhile x) = (if TcWhileTimer (self (fst x)) = 1 then TimerTypeTcWhile # snd x else snd x)"
  "snd (dec_HelloWhen x) =
     (if HelloWhenTimer (self (fst x)) = 1 \<and> PortEnabled (self (fst x)) then TimerTypeHelloWhen # snd x else snd x)"
  using expired_at_one
  by (cases x; auto simp: dec_EdgeDelayWhile_def dec_FdWhile_def dec_MdelayWhile_def dec_RbWhile_def
      dec_RcvdInfoWhile_def dec_RrWhile_def dec_TcWhile_def dec_HelloWhen_def Let_def emit_def lt32_def)+

lemma dec_timers_RcvdInfo:
  "TimerTypeRcvdInfoWhile \<in> set (snd (dec_timers (dec_TxCount c, []))) \<longleftrightarrow> RcvdInfoWhiletimer (self c) = 1"
  by (simp add: dec_timers_def dec_stack)

text \<open>The only event a tick sends to the port information machine is the one for
  expired received information.\<close>

fun pim_bound :: "StpOut \<Rightarrow> bool" where
  "pim_bound (Send ch i e d) \<longleftrightarrow> ch = PimEvents"
| "pim_bound _ \<longleftrightarrow> False"

definition no_pim :: "StpOut list \<Rightarrow> bool" where
  "no_pim os \<longleftrightarrow> list_all (\<lambda>x. \<not> pim_bound x) os"

lemma no_pim_notin: "no_pim os \<Longrightarrow> pim_bound x \<Longrightarrow> x \<notin> set os"
  by (auto simp: no_pim_def list_all_iff)

lemma no_pim_simps [simp]:
  "no_pim []" "no_pim (xs @ ys) \<longleftrightarrow> no_pim xs \<and> no_pim ys"
  "no_pim [Send ch i e d] \<longleftrightarrow> ch \<noteq> PimEvents" "no_pim [BPDUGuardDetected i b]"
  "no_pim (to_prt p e)" "no_pim (to_bdm p e)" "no_pim (to_ptx p e)"
  by (auto simp: no_pim_def to_prt_def to_bdm_def to_ptx_def)

lemma tick_no_pim:
  "no_pim (fdwhile_running_events c)" "no_pim (hellowhen_running_events c)"
  "no_pim (rrwhile_running_events c)" "no_pim (NotifySelectedRoleChanged p r r')"
  "no_pim (NotifyEdgeDelayWhileTimerExpired p)" "no_pim (NotifyFdWhileTimerExpired p)"
  "no_pim (NotifyHelloWhenTimerExpired p)" "no_pim (NotifyRbWhileTimerExpired c p)"
  "no_pim (NotifyRrWhileTimerExpired p)"
  by (simp_all add: fdwhile_running_events_def hellowhen_running_events_def rrwhile_running_events_def
      NotifySelectedRoleChanged_def NotifyEdgeDelayWhileTimerExpired_def NotifyFdWhileTimerExpired_def
      NotifyHelloWhenTimerExpired_def NotifyRbWhileTimerExpired_def NotifyRrWhileTimerExpired_def Let_def)

lemma dec_no_pim [simp]:
  "no_pim (out (fst (dec_EdgeDelayWhile x))) = no_pim (out (fst x))"
  "no_pim (out (fst (dec_FdWhile x))) = no_pim (out (fst x))"
  "no_pim (out (fst (dec_HelloWhen x))) = no_pim (out (fst x))"
  "no_pim (out (fst (dec_MdelayWhile x))) = no_pim (out (fst x))"
  "no_pim (out (fst (dec_RbWhile x))) = no_pim (out (fst x))"
  "no_pim (out (fst (dec_RcvdInfoWhile x))) = no_pim (out (fst x))"
  "no_pim (out (fst (dec_RrWhile x))) = no_pim (out (fst x))"
  "no_pim (out (fst (dec_TcWhile x))) = no_pim (out (fst x))"
  by (cases x; simp add: dec_EdgeDelayWhile_def dec_FdWhile_def dec_HelloWhen_def dec_MdelayWhile_def
        dec_RbWhile_def dec_RcvdInfoWhile_def dec_RrWhile_def dec_TcWhile_def Let_def emit_def tick_no_pim)+

lemma dec_timers_no_pim:
  assumes "no_pim (out c)"
  shows "no_pim (out (dec_BPDUGuard (dec_BAWhile (fst (dec_timers (dec_TxCount c, []))))))"
proof -
  have "no_pim (out (fst (dec_timers (dec_TxCount c, []))))"
    using assms by (simp add: dec_timers_def dec_TxCount_def)
  then show ?thesis
    by (simp add: dec_BPDUGuard_def dec_BAWhile_def Let_def emit_def tick_no_pim)
qed

lemma run_expired_pim:
  assumes "x \<in> set (out (run_expired t c))" and "pim_bound x"
  shows "x \<in> set (out c) \<or> t = TimerTypeRcvdInfoWhile \<and> x \<in> set (NotifyRcvdInfoWhileTimerExpired (self c))"
proof (cases t)
  case TimerTypeMdelayWhile
  have "x \<noteq> Send PpmmEvents i e d" for i e d
    using assms(2) by auto
  then show ?thesis
    using assms(1) TimerTypeMdelayWhile
    by (simp add: run_expired_def emit_def panic_def NotifyMdelayWhileTimerExpired_def Let_def split: if_splits)
qed (use assms(1) in \<open>simp_all add: run_expired_def emit_def no_pim_notin [OF tick_no_pim(5) assms(2)]
    no_pim_notin [OF tick_no_pim(6) assms(2)] no_pim_notin [OF tick_no_pim(7) assms(2)]
    no_pim_notin [OF tick_no_pim(8) assms(2)] no_pim_notin [OF tick_no_pim(9) assms(2)]\<close>)

lemma run_expired_mono: "set (out c) \<subseteq> set (out (run_expired t c))"
  by (auto simp: run_expired_def emit_def panic_def NotifyMdelayWhileTimerExpired_def Let_def
      split: TimerType.splits)

lemma fold_run_expired_pim:
  assumes "no_pim (out c)"
  shows "Send PimEvents i e d \<in> set (out (fold run_expired ds c)) \<longleftrightarrow>
     TimerTypeRcvdInfoWhile \<in> set ds \<and> Send PimEvents i e d \<in> set (NotifyRcvdInfoWhileTimerExpired (self c))"
proof -
  let ?x = "Send PimEvents i e d"
  have mono: "set (out c) \<subseteq> set (out (fold run_expired ds c))" for c ds
    using run_expired_mono by (induction ds arbitrary: c) (auto, blast)
  have one: "?x \<in> set (out (run_expired t c)) \<longleftrightarrow>
      ?x \<in> set (out c) \<or> t = TimerTypeRcvdInfoWhile \<and> ?x \<in> set (NotifyRcvdInfoWhileTimerExpired (self c))" for t c
    using run_expired_pim [of ?x t c] run_expired_mono [of c t]
    by (cases t) (auto simp: run_expired_def emit_def)
  have "?x \<in> set (out (fold run_expired ds c)) \<longleftrightarrow> ?x \<in> set (out c) \<or>
      TimerTypeRcvdInfoWhile \<in> set ds \<and> ?x \<in> set (NotifyRcvdInfoWhileTimerExpired (self c))" for c
    by (induction ds arbitrary: c) (auto simp: one)
  moreover have "?x \<notin> set (out c)"
    using no_pim_notin [OF assms, of ?x] by simp
  ultimately show ?thesis
    by blast
qed

text \<open>C8: A tick of the port timer machine counts each of the seven protocol timers
  \<open>edgeDelayWhile\<close>, \<open>fdWhile\<close>, \<open>mdelayWhile\<close>, \<open>rbWhile\<close>, \<open>rcvdInfoWhile\<close>, \<open>rrWhile\<close> and \<open>tcWhile\<close> that
  is running down by exactly one, as signed 32 bit numbers, and leaves one that is zero
  or negative alone.  The running hello timer goes down by one on an enabled port and is
  set to the hello time on a disabled one.  The bridge assurance timer goes down only
  on an enabled non-edge port with bridge assurance that has received a frame, the BPDU
  guard timer only on an edge port with BPDU guard.  The transmit counter goes down by
  one and never wraps below zero.  The machine is back in \<open>OneSecond\<close> afterwards.\<close>

theorem Ptm_tick_counts:
  assumes "mBegin (PtmMachineFsm (self c))" and "cur_s (PtmMachineFsm (self c)) = PtmStateOneSecond"
  shows "cur_s (PtmMachineFsm (self (PtmMachineMain_tick c))) = PtmStateOneSecond
    \<and> list_all (\<lambda>timer. sint (timer (self (PtmMachineMain_tick c)))
          = (if 0 < sint (timer (self c)) then sint (timer (self c)) - 1 else sint (timer (self c))))
        [EdgeDelayWhileTimer, FdWhileTimer, MdelayWhiletimer, RbWhileTimer, RcvdInfoWhiletimer,
         RrWhileTimer, TcWhileTimer]
    \<and> sint (HelloWhenTimer (self (PtmMachineMain_tick c)))
        = (if sint (HelloWhenTimer (self c)) \<le> 0 then sint (HelloWhenTimer (self c))
           else if PortEnabled (self c) then sint (HelloWhenTimer (self c)) - 1
           else int (unat (HelloTime (PortTimes (self c)))))
    \<and> sint (BAWhileTimer (self (PtmMachineMain_tick c)))
        = (if 0 < sint (BAWhileTimer (self c)) \<and> BridgeAssurance (self c) \<and> \<not> OperEdge (self c)
              \<and> PortEnabled (self c) \<and> RcvdBPDU (self c)
           then sint (BAWhileTimer (self c)) - 1 else sint (BAWhileTimer (self c)))
    \<and> sint (BPDUGuardTimer (self (PtmMachineMain_tick c)))
        = (if 0 < sint (BPDUGuardTimer (self c)) \<and> BpduGuard (self c) \<and> OperEdge (self c)
           then sint (BPDUGuardTimer (self c)) - 1 else sint (BPDUGuardTimer (self c)))
    \<and> unat (TxCount (self (PtmMachineMain_tick c))) = unat (TxCount (self c)) - 1"
proof -
  have g: "PtmMachineFsm (guard_down q) = PtmMachineFsm q" "PtmMachineFsm (ba_down q) = PtmMachineFsm q"
    "PtmMachineFsm (counted_down q) = PtmMachineFsm q" for q
    by (simp_all add: guard_down_def ba_down_def counted_down_def)
  have p: "self (PtmMachineMain_tick c) =
     (guard_down (ba_down (counted_down ((self c)\<lparr>PtmTick := True,
        PtmMachineFsm := SetEvent PtmEventTickEqualsTrue (PtmMachineFsm (self c))\<rparr>))))\<lparr>PtmTick := False,
        PtmMachineFsm := SetState PtmStateOneSecond (SetEvent PtmEventUnconditionalFallthrough
          (SetState PtmStateTick (SetEvent PtmEventTickEqualsTrue (PtmMachineFsm (self c)))))\<rparr>"
    using assms
    by (simp add: PtmMachineMain_tick_def PtmProcess_def AddRules_empty PtmRules_def ProcessEvent_def
        ptm_get_def ptm_upd_def PtmMachineTick_def PtmMachineOneSecond_def DecrementTimerCounters_self g Let_def)
  have tx: "unat (x - (if x = 0 then 0 else 1)) = unat x - 1" for x :: uint64
    by (auto simp: unat_minus_one)
  show ?thesis
    by (simp add: p guard_down_def ba_down_fields BAWhileTimer_ba_down counted_down_def sint_tick_down
        sint_hello_down tx)
qed

theorem Ptm_tick_counts_witness:
  "FdWhileTimer (self (PtmMachineMain_tick (solo zero_bridge (zero_port\<lparr>FdWhileTimer := 15,
      PtmMachineFsm := Start PtmStateOneSecond (new_machine PtmStateNone)\<rparr>)))) = 14"
proof -
  define c where "c = solo zero_bridge (zero_port\<lparr>FdWhileTimer := 15,
      PtmMachineFsm := Start PtmStateOneSecond (new_machine PtmStateNone)\<rparr>)"
  have "mBegin (PtmMachineFsm (self c))" "cur_s (PtmMachineFsm (self c)) = PtmStateOneSecond"
    by (simp_all add: c_def solo_def)
  from Ptm_tick_counts [OF this] have "sint (FdWhileTimer (self (PtmMachineMain_tick c))) = sint (14 :: int32)"
    by (simp add: c_def solo_def)
  then show ?thesis
    unfolding c_def by (simp only: signed_word_eqI)
qed

text \<open>C9: A tick tells the port information machine that its information has aged out
  exactly when the received information timer expires in this very tick while the
  machine is current, the information was received from the LAN and no update or
  message is pending; a tick sends no other event to that machine.\<close>

theorem tick_ages_information:
  assumes "out c = []"
  shows "Send PimEvents i e d \<in> set (out (DecrementTimerCounters c)) \<longleftrightarrow>
     i = IfIndex (self c) \<and> d = None
     \<and> e = PimEventInflsEqualReceivedAndRcvdInfoWhileEqualZeroAndNotUpdtInfoAndNotRcvdMsg
     \<and> RcvdInfoWhiletimer (self c) = 1
     \<and> pim_live (self c) \<and> pim_state (self c) = PimStateCurrent
     \<and> InfoIs (self c) = PortInfoStateReceived \<and> \<not> UpdtInfo (self c) \<and> \<not> RcvdMsg (self c)"
proof -
  have "no_pim (out (dec_BPDUGuard (dec_BAWhile (fst (dec_timers (dec_TxCount c, []))))))"
    by (rule dec_timers_no_pim) (simp add: assms)
  note iff = fold_run_expired_pim [OF this, of i e d]
  have sel: "IfIndex q = IfIndex p \<and> PimMachineFsm q = PimMachineFsm p \<and> InfoIs q = InfoIs p
      \<and> UpdtInfo q = UpdtInfo p \<and> RcvdMsg q = RcvdMsg p"
    if "q = guard_down (ba_down (counted_down p))" for p q
    using that by (simp add: guard_down_def ba_down_def counted_down_def)
  show ?thesis
    using sel [OF refl, of "self c"]
    by (auto simp: DecrementTimerCounters_def case_prod_beta iff dec_timers_RcvdInfo
        NotifyRcvdInfoWhileTimerExpired_def to_pim_def split: if_splits)
qed

theorem tick_ages_information_witness:
  "Send PimEvents 7 PimEventInflsEqualReceivedAndRcvdInfoWhileEqualZeroAndNotUpdtInfoAndNotRcvdMsg None
     \<in> set (out (DecrementTimerCounters (solo zero_bridge (zero_port\<lparr>IfIndex := 7,
          RcvdInfoWhiletimer := 1, InfoIs := PortInfoStateReceived,
          PimMachineFsm := new_machine PimStateCurrent\<rparr>))))"
  by (subst tick_ages_information) (simp_all add: solo_def zero_port_def new_machine_def)

end
