(* ===== verification/Stp_Frames.thy ===== *)
theory Stp_Frames
  imports Stp_Notify
begin

text \<open>
  Frames: the transmit routines of \<open>l2/stp/protocol/tx.go\<close>, the counters of
  \<open>port.go\<close>, and the accessors with which the receiving side reads a frame
  (\<open>port.go\<close> and \<open>pimfsm.go\<close>).  Serialising and writing a frame belongs to the
  packet libraries: \<open>L\<close> holds their constants and \<open>wok\<close> says whether the write
  on the port's handle succeeds.
\<close>

section \<open>Counters\<close>

definition SetRxPortCounters :: "BPDURxType \<Rightarrow> StpPort \<Rightarrow> StpPort" where
  "SetRxPortCounters ptype p =
     (let p = p\<lparr>BpduRx := BpduRx p + 1\<rparr> in
      case ptype of
        BPDURxTypeSTP \<Rightarrow> p\<lparr>StpRx := StpRx p + 1\<rparr>
      | BPDURxTypeRSTP \<Rightarrow> p\<lparr>RstpRx := RstpRx p + 1\<rparr>
      | BPDURxTypeTopo \<Rightarrow> p\<lparr>TcRx := TcRx p + 1\<rparr>
      | BPDURxTypeTopoAck \<Rightarrow> p\<lparr>TcAckRx := TcAckRx p + 1\<rparr>
      | BPDURxTypePVST \<Rightarrow> p\<lparr>PvstRx := PvstRx p + 1\<rparr>
      | _ \<Rightarrow> p)"

definition SetTxPortCounters :: "BPDURxType \<Rightarrow> StpPort \<Rightarrow> StpPort" where
  "SetTxPortCounters ptype p =
     (let p = p\<lparr>BpduTx := BpduTx p + 1\<rparr> in
      case ptype of
        BPDURxTypeSTP \<Rightarrow> p\<lparr>StpTx := StpTx p + 1\<rparr>
      | BPDURxTypeRSTP \<Rightarrow> p\<lparr>RstpTx := RstpTx p + 1\<rparr>
      | BPDURxTypeTopo \<Rightarrow> p\<lparr>TcTx := TcTx p + 1\<rparr>
      | BPDURxTypeTopoAck \<Rightarrow> p\<lparr>TcAckTx := TcAckTx p + 1\<rparr>
      | BPDURxTypePVST \<Rightarrow> p\<lparr>PvstTx := PvstTx p + 1\<rparr>
      | _ \<Rightarrow> p)"

section \<open>Transmission\<close>

definition wire_port_id :: "StpPort \<Rightarrow> uint16" where
  "wire_port_id p = PortId p OR push_bit 8 (Priority p)"

definition tx_flags :: "Layers \<Rightarrow> StpPort \<Rightarrow> uint8" where
  "tx_flags L p =
     StpSetBpduFlags (ConvertBoolToUint8 (TcAck p)) (ConvertBoolToUint8 (Agree p))
       (ConvertBoolToUint8 (Forwarding p)) (ConvertBoolToUint8 (Learning p))
       (ConvertRoleToPktRole L (Role p)) (ConvertBoolToUint8 (Proposed p))
       (ConvertBoolToUint8 (TcWhileTimer p \<noteq> 0)) 0"

definition tx_config_flags :: "StpPort \<Rightarrow> uint8" where
  "tx_config_flags p =
     StpSetBpduFlags (ConvertBoolToUint8 (TcAck p)) 0 0 0 0 0 (ConvertBoolToUint8 (TcWhileTimer p \<noteq> 0)) 0"

text \<open>The fields common to the frames a port sends.\<close>

definition tx_bpdu :: "uint8 \<Rightarrow> uint8 \<Rightarrow> uint8 \<Rightarrow> Bridge \<Rightarrow> StpPort \<Rightarrow> Bpdu" where
  "tx_bpdu version bpdutype flags b p =
     \<lparr>ProtocolVersionId = version, BPDUType = bpdutype, Flags = flags,
      bpduRootId = RootBridgeId (PortPriority p),
      bpduRootPathCost = RootPathCost (BridgePriority b),
      bpduBridgeId = DesignatedBridgeId (BridgePriority b),
      bpduPortId = wire_port_id p,
      bpduMsgAge = push_bit 8 (MessageAge (RootTimes b)),
      bpduMaxAge = push_bit 8 (MaxAge (RootTimes b)),
      bpduHelloTime = push_bit 8 (HelloTime (RootTimes b)),
      bpduFwdDelay = push_bit 8 (ForwardingDelay (RootTimes b))\<rparr>"

text \<open>Counting a frame that was written: its type, then topology change and
  acknowledgement.\<close>

definition count_tx :: "BPDURxType \<Rightarrow> StpPort \<Rightarrow> StpPort" where
  "count_tx ptype p =
     (let p = SetTxPortCounters ptype p;
          p = (if TcWhileTimer p \<noteq> 0 then SetTxPortCounters BPDURxTypeTopo p else p)
      in if TcAck p then SetTxPortCounters BPDURxTypeTopoAck p else p)"

definition TxPVST :: "Layers \<Rightarrow> bool \<Rightarrow> Ctx \<Rightarrow> Ctx" where
  "TxPVST L wok c =
     (if portHandle (self c) then
        if wok then
          (emit [TxFrame (IfIndex (self c))
                  (PVST (tx_bpdu (RSTPProtocolVersion L) (BPDUTypeRSTP L) (tx_flags L (self c)) (brg c) (self c))
                    (Vlan (brg c)))] c)\<lparr>self := count_tx BPDURxTypePVST (self c)\<rparr>
        else c
      else c)"

definition TxRSTP :: "Layers \<Rightarrow> bool \<Rightarrow> Ctx \<Rightarrow> Ctx" where
  "TxRSTP L wok c =
     (if portHandle (self c) then
        if Vlan (brg c) \<noteq> 0 then TxPVST L wok c
        else if wok then
          (emit [TxFrame (IfIndex (self c))
                  (RSTP (tx_bpdu (RSTPProtocolVersion L) (BPDUTypeRSTP L) (tx_flags L (self c)) (brg c) (self c)))]
             c)\<lparr>self := count_tx BPDURxTypeRSTP (self c)\<rparr>
        else c
      else c)"

definition TxTCN :: "Layers \<Rightarrow> bool \<Rightarrow> Ctx \<Rightarrow> Ctx" where
  "TxTCN L wok c =
     (let cnt = (\<lambda>c. c\<lparr>self := SetTxPortCounters BPDURxTypeTopo (SetTxPortCounters BPDURxTypeSTP (self c))\<rparr>) in
      if portHandle (self c) then
        if \<not> SendRSTP (self c) then
          if wok then
            cnt (emit [TxFrame (IfIndex (self c)) (BPDUTopology (STPProtocolVersion L) (BPDUTypeTopoChange L))] c)
          else c
        else cnt (TxRSTP L wok c)
      else c)"

definition TxConfig :: "Layers \<Rightarrow> bool \<Rightarrow> Ctx \<Rightarrow> Ctx" where
  "TxConfig L wok c =
     (if portHandle (self c) then
        if Vlan (brg c) \<noteq> 0 then TxPVST L wok c
        else if wok then
          (emit [TxFrame (IfIndex (self c))
                  (STP (tx_bpdu (STPProtocolVersion L) (BPDUTypeSTP L) (tx_config_flags (self c)) (brg c) (self c)))]
             c)\<lparr>self := count_tx BPDURxTypeSTP (self c)\<rparr>
        else c
      else c)"

section \<open>Reading a frame\<close>

definition pdu_bpdu :: "Pdu \<Rightarrow> Bpdu option" where
  "pdu_bpdu pdu =
     (case pdu of STP b \<Rightarrow> Some b | RSTP b \<Rightarrow> Some b | PVST b _ \<Rightarrow> Some b | BPDUTopology _ _ \<Rightarrow> None)"

definition SaveMsgRcvInfo :: "Pdu \<Rightarrow> StpPort \<Rightarrow> StpPort" where
  "SaveMsgRcvInfo pdu p =
     (case pdu_bpdu pdu of
        Some b \<Rightarrow>
          p\<lparr>MsgPriority := (MsgPriority p)\<lparr>BridgePortId := bpduPortId b, DesignatedBridgeId := bpduBridgeId b,
                DesignatedPortId := bpduPortId b, RootBridgeId := bpduRootId b,
                RootPathCost := bpduRootPathCost b\<rparr>,
             MsgTimes := (MsgTimes p)\<lparr>ForwardingDelay := drop_bit 8 (bpduFwdDelay b),
                HelloTime := drop_bit 8 (bpduHelloTime b), MaxAge := drop_bit 8 (bpduMaxAge b),
                MessageAge := drop_bit 8 (bpduMsgAge b)\<rparr>\<rparr>
      | None \<Rightarrow> p)"

definition getRcvdMsgFlags :: "Pdu option \<Rightarrow> uint8" where
  "getRcvdMsgFlags data =
     (case data of
        None \<Rightarrow> 0
      | Some pdu \<Rightarrow> (case pdu_bpdu pdu of Some b \<Rightarrow> Flags b | None \<Rightarrow> 0))"

definition getRcvdMsgPriority :: "Pdu option \<Rightarrow> PriorityVector" where
  "getRcvdMsgPriority data =
     (case data of
        None \<Rightarrow> zero_pv
      | Some pdu \<Rightarrow>
          (case pdu_bpdu pdu of
             Some b \<Rightarrow> zero_pv\<lparr>RootBridgeId := bpduRootId b, RootPathCost := bpduRootPathCost b,
                DesignatedBridgeId := bpduBridgeId b, DesignatedPortId := bpduPortId b,
                BridgePortId := bpduPortId b\<rparr>
           | None \<Rightarrow> zero_pv))"

definition getRcvdMsgTimes :: "Pdu option \<Rightarrow> Times" where
  "getRcvdMsgTimes data =
     (case data of
        None \<Rightarrow> zero_times
      | Some pdu \<Rightarrow>
          (case pdu_bpdu pdu of
             Some b \<Rightarrow> zero_times\<lparr>MessageAge := drop_bit 8 (bpduMsgAge b), MaxAge := drop_bit 8 (bpduMaxAge b),
                HelloTime := drop_bit 8 (bpduHelloTime b), ForwardingDelay := drop_bit 8 (bpduFwdDelay b)\<rparr>
           | None \<Rightarrow> zero_times))"

definition isTcnBPDU :: "Pdu option \<Rightarrow> bool" where
  "isTcnBPDU data = (case data of Some (BPDUTopology _ _) \<Rightarrow> True | _ \<Rightarrow> False)"

section \<open>What transmission changes\<close>

text \<open>Everything of a port except its transmit counters.\<close>

definition tx_view :: "StpPort \<Rightarrow> StpPort" where
  "tx_view p = p\<lparr>BpduTx := 0, StpTx := 0, RstpTx := 0, TcTx := 0, TcAckTx := 0, PvstTx := 0\<rparr>"

lemma SetTxPortCounters_view [simp]: "tx_view (SetTxPortCounters ptype p) = tx_view p"
  by (cases ptype) (simp_all add: tx_view_def SetTxPortCounters_def)

lemma count_tx_view [simp]: "tx_view (count_tx ptype p) = tx_view p"
  by (simp add: count_tx_def Let_def)

lemma Tx_view [simp]:
  "tx_view (self (TxPVST L wok c)) = tx_view (self c)"
  "tx_view (self (TxRSTP L wok c)) = tx_view (self c)"
  "tx_view (self (TxTCN L wok c)) = tx_view (self c)"
  "tx_view (self (TxConfig L wok c)) = tx_view (self c)"
  by (simp_all add: TxPVST_def TxRSTP_def TxTCN_def TxConfig_def emit_def Let_def)

lemma Tx_rest [simp]:
  "brg (TxPVST L wok c) = brg c" "peers (TxPVST L wok c) = peers c" "panicked (TxPVST L wok c) = panicked c"
  "brg (TxRSTP L wok c) = brg c" "peers (TxRSTP L wok c) = peers c" "panicked (TxRSTP L wok c) = panicked c"
  "brg (TxTCN L wok c) = brg c" "peers (TxTCN L wok c) = peers c" "panicked (TxTCN L wok c) = panicked c"
  "brg (TxConfig L wok c) = brg c" "peers (TxConfig L wok c) = peers c"
  "panicked (TxConfig L wok c) = panicked c"
  by (simp_all add: TxPVST_def TxRSTP_def TxTCN_def TxConfig_def emit_def Let_def)

fun is_frame :: "StpOut \<Rightarrow> bool" where
  "is_frame (TxFrame i pdu) \<longleftrightarrow> True"
| "is_frame _ \<longleftrightarrow> False"

definition frames :: "StpOut list \<Rightarrow> nat" where
  "frames os = length (filter is_frame os)"

lemma frames_simps [simp]:
  "frames [] = 0" "frames (xs @ ys) = frames xs + frames ys" "frames [TxFrame i pdu] = 1"
  by (simp_all add: frames_def)

text \<open>Each transmit routine writes one frame if the port has a handle and the write
  succeeds, and none otherwise.\<close>

lemma Tx_frames:
  "frames (out (TxPVST L wok c)) = frames (out c) + (if portHandle (self c) \<and> wok then 1 else 0)"
  "frames (out (TxRSTP L wok c)) = frames (out c) + (if portHandle (self c) \<and> wok then 1 else 0)"
  "frames (out (TxTCN L wok c)) = frames (out c) + (if portHandle (self c) \<and> wok then 1 else 0)"
  "frames (out (TxConfig L wok c)) = frames (out c) + (if portHandle (self c) \<and> wok then 1 else 0)"
  by (simp_all add: TxPVST_def TxRSTP_def TxTCN_def TxConfig_def emit_def Let_def)

section \<open>Round trip over the wire\<close>

lemma push_drop_8: "drop_bit 8 (push_bit 8 (x::uint16)) = take_bit 8 x"
  by (rule bit_word_eqI) (auto simp: bit_simps)

text \<open>C10: The RST frame that \<open>TxRSTP\<close> writes to the wire for a port of the default bridge is what
  the receiver reads: the root bridge, root path cost, designated bridge and designated port;
  the role; the learning, forwarding, agreement, proposal, topology change and acknowledgement
  flags as the sender has them; and every timer value below 256 seconds, where larger times are
  truncated modulo 256.\<close>

theorem tx_rx_roundtrip:
  assumes "roles_ok L" and "portHandle (self c)" and "Vlan (brg c) = 0"
  shows "\<exists>pdu. out (TxRSTP L True c) = out c @ [TxFrame (IfIndex (self c)) pdu]
     \<and> getRcvdMsgPriority (Some pdu) =
       \<lparr>RootBridgeId = RootBridgeId (PortPriority (self c)), RootPathCost = RootPathCost (BridgePriority (brg c)),
        DesignatedBridgeId = DesignatedBridgeId (BridgePriority (brg c)),
        DesignatedPortId = wire_port_id (self c), BridgePortId = wire_port_id (self c)\<rparr>
     \<and> getRcvdMsgTimes (Some pdu) =
       \<lparr>ForwardingDelay = take_bit 8 (ForwardingDelay (RootTimes (brg c))),
        HelloTime = take_bit 8 (HelloTime (RootTimes (brg c))), MaxAge = take_bit 8 (MaxAge (RootTimes (brg c))),
        MessageAge = take_bit 8 (MessageAge (RootTimes (brg c)))\<rparr>
     \<and> StpGetBpduRole L (getRcvdMsgFlags (Some pdu)) = wire_role (Role (self c))
     \<and> StpGetBpduLearning (getRcvdMsgFlags (Some pdu)) = Learning (self c)
     \<and> StpGetBpduForwarding (getRcvdMsgFlags (Some pdu)) = Forwarding (self c)
     \<and> StpGetBpduAgreement (getRcvdMsgFlags (Some pdu)) = Agree (self c)
     \<and> StpGetBpduProposal (getRcvdMsgFlags (Some pdu)) = Proposed (self c)
     \<and> StpGetBpduTopoChange (getRcvdMsgFlags (Some pdu)) = (TcWhileTimer (self c) \<noteq> 0)
     \<and> StpGetBpduTopoChangeAck (getRcvdMsgFlags (Some pdu)) = TcAck (self c)"
proof -
  let ?p = "self c"
  let ?pdu = "RSTP (tx_bpdu (RSTPProtocolVersion L) (BPDUTypeRSTP L) (tx_flags L ?p) (brg c) ?p)"
  have f: "tx_flags L ?p = bpdu_flags L (TcAck ?p) (Agree ?p) (Forwarding ?p) (Learning ?p) (Role ?p) (Proposed ?p)
      (TcWhileTimer ?p \<noteq> 0)"
    by (simp add: tx_flags_def bpdu_flags_def)
  note bits = bpdu_flags_bits [OF assms(1), of "TcAck ?p" "Agree ?p" "Forwarding ?p" "Learning ?p" "Role ?p"
      "Proposed ?p" "TcWhileTimer ?p \<noteq> 0"]
  have role: "StpGetBpduRole L (tx_flags L ?p) = wire_role (Role ?p)"
    unfolding f by (rule bpdu_flags_get_role [OF assms(1)])
  have sent: "out (TxRSTP L True c) = out c @ [TxFrame (IfIndex ?p) ?pdu]"
    using assms(2,3) by (simp add: TxRSTP_def emit_def)
  show ?thesis
    using bits role
    by (intro exI [of _ ?pdu])
      (simp add: sent getRcvdMsgPriority_def getRcvdMsgTimes_def getRcvdMsgFlags_def pdu_bpdu_def tx_bpdu_def
        push_drop_8 zero_pv_def zero_times_def f StpGetBpduTopoChangeAck_def StpGetBpduAgreement_def
        StpGetBpduForwarding_def StpGetBpduLearning_def StpGetBpduProposal_def StpGetBpduTopoChange_def
        word1_and del: drop_bit_0)
qed

theorem tx_rx_roundtrip_witness:
  "roles_ok ieee_layers
   \<and> (\<exists>pdu. out (TxRSTP ieee_layers True (solo (zero_bridge\<lparr>RootTimes := zero_times\<lparr>MaxAge := 20\<rparr>\<rparr>)
          (zero_port\<lparr>portHandle := True, Role := PortRoleDesignatedPort, Proposed := True\<rparr>))) = [TxFrame 0 pdu]
        \<and> MaxAge (getRcvdMsgTimes (Some pdu)) = 20
        \<and> StpGetBpduProposal (getRcvdMsgFlags (Some pdu)) \<and> \<not> StpGetBpduLearning (getRcvdMsgFlags (Some pdu)))"
proof -
  define c where "c = solo (zero_bridge\<lparr>RootTimes := zero_times\<lparr>MaxAge := 20\<rparr>\<rparr>)
      (zero_port\<lparr>portHandle := True, Role := PortRoleDesignatedPort, Proposed := True\<rparr>)"
  have c: "portHandle (self c)" "Vlan (brg c) = 0" "out c = []" "IfIndex (self c) = 0" "Proposed (self c)"
    "\<not> Learning (self c)" "MaxAge (RootTimes (brg c)) = 20"
    by (simp_all add: c_def solo_def zero_bridge_def zero_port_def)
  have "take_bit 8 (20 :: uint16) = 20" by simp
  then show ?thesis
    using tx_rx_roundtrip [OF ieee_roles_ok c(1,2)] c(3-7) ieee_roles_ok unfolding c_def by auto
qed

end
