(* ===== verification/Stp_Ptx.thy ===== *)
theory Stp_Ptx
  imports Stp_Frames
begin

text \<open>
  The port transmit machine, \<open>l2/stp/protocol/ptxfsm.go\<close> (17.26).  \<open>L\<close> and \<open>wok\<close>
  are the parameters of the transmit routines.
\<close>

section \<open>Machine\<close>

definition PtxmMachineTransmitInit :: "Ctx Callback" where
  "PtxmMachineTransmitInit c =
     (PtxmStateTransmitInit, c\<lparr>self := (self c)\<lparr>NewInfo := True, TxCount := 0\<rparr>\<rparr>)"

definition PtxmMachineTransmitIdle :: "Ctx Callback" where
  "PtxmMachineTransmitIdle c =
     (PtxmStateIdle, c\<lparr>self := (self c)\<lparr>HelloWhenTimer := i32 (HelloTime (PortTimes (self c)))\<rparr>\<rparr>)"

definition PtxmMachineTransmitPeriodic :: "Ctx Callback" where
  "PtxmMachineTransmitPeriodic c =
     (let p = self c in
      (PtxmStateTransmitPeriodic,
       c\<lparr>self := p\<lparr>NewInfo := NewInfo p \<or> (Role p = PortRoleDesignatedPort
           \<or> (Role p = PortRoleRootPort \<and> TcWhileTimer p \<noteq> 0) \<or> BridgeAssurance p)\<rparr>\<rparr>))"

definition PtxmMachineTransmitRSTP :: "Layers \<Rightarrow> bool \<Rightarrow> Ctx Callback" where
  "PtxmMachineTransmitRSTP L wok c =
     (let c = c\<lparr>self := (self c)\<lparr>NewInfo := False\<rparr>\<rparr>;
          c = TxRSTP L wok c
      in (PtxmStateTransmitRSTP, c\<lparr>self := (self c)\<lparr>TxCount := TxCount (self c) + 1, TcAck := False\<rparr>\<rparr>))"

definition PtxmMachineTransmitTCN :: "Layers \<Rightarrow> bool \<Rightarrow> Ctx Callback" where
  "PtxmMachineTransmitTCN L wok c =
     (let c = c\<lparr>self := (self c)\<lparr>NewInfo := False\<rparr>\<rparr>;
          c = TxTCN L wok c
      in (PtxmStateTransmitTCN, c\<lparr>self := (self c)\<lparr>TxCount := TxCount (self c) + 1\<rparr>\<rparr>))"

definition PtxmMachineTransmitConfig :: "Layers \<Rightarrow> bool \<Rightarrow> Ctx Callback" where
  "PtxmMachineTransmitConfig L wok c =
     (let c = c\<lparr>self := (self c)\<lparr>NewInfo := False\<rparr>\<rparr>;
          c = TxConfig L wok c
      in (PtxmStateTransmitConfig, c\<lparr>self := (self c)\<lparr>TxCount := TxCount (self c) + 1, TcAck := False\<rparr>\<rparr>))"

definition PtxmRules :: "Layers \<Rightarrow> bool \<Rightarrow> ((State \<times> Event) \<times> Ctx Callback) list" where
  "PtxmRules L wok =
     [ ((PtxmStateNone, PtxmEventBegin), PtxmMachineTransmitInit),
       ((PtxmStateTransmitInit, PtxmEventBegin), PtxmMachineTransmitInit),
       ((PtxmStateTransmitConfig, PtxmEventBegin), PtxmMachineTransmitInit),
       ((PtxmStateTransmitTCN, PtxmEventBegin), PtxmMachineTransmitInit),
       ((PtxmStateTransmitPeriodic, PtxmEventBegin), PtxmMachineTransmitInit),
       ((PtxmStateTransmitRSTP, PtxmEventBegin), PtxmMachineTransmitInit),
       ((PtxmStateIdle, PtxmEventBegin), PtxmMachineTransmitInit),
       ((PtxmStateTransmitInit, PtxmEventUnconditionalFallThrough), PtxmMachineTransmitIdle),
       ((PtxmStateTransmitConfig, PtxmEventUnconditionalFallThrough), PtxmMachineTransmitIdle),
       ((PtxmStateTransmitTCN, PtxmEventUnconditionalFallThrough), PtxmMachineTransmitIdle),
       ((PtxmStateTransmitPeriodic, PtxmEventUnconditionalFallThrough), PtxmMachineTransmitIdle),
       ((PtxmStateTransmitRSTP, PtxmEventUnconditionalFallThrough), PtxmMachineTransmitIdle),
       ((PtxmStateIdle, PtxmEventHelloWhenEqualsZeroAndSelectedAndNotUpdtInfo), PtxmMachineTransmitPeriodic),
       ((PtxmStateIdle, PtxmEventSendRSTPAndNewInfoAndTxCountLessThanTxHoldCoundAndHelloWhenNotEqualZeroAndSelectedAndNotUpdtInfo), PtxmMachineTransmitRSTP L wok),
       ((PtxmStateIdle, PtxmEventNotSendRSTPAndNewInfoAndRootPortAndTxCountLessThanTxHoldCountAndHellWhenNotEqualZeroAndSelectedAndNotUpdtInfo), PtxmMachineTransmitTCN L wok),
       ((PtxmStateIdle, PtxmEventNotSendRSTPAndNewInfoAndDesignatedPortAndTxCountLessThanTxHoldCountAndHellWhenNotEqualZeroAndSelectedAndNotUpdtInfo), PtxmMachineTransmitConfig L wok) ]"

definition PtxmProcess :: "Layers \<Rightarrow> bool \<Rightarrow> Ctx Process" where
  "PtxmProcess L wok = ProcessEvent ptx_get ptx_upd (AddRules (PtxmRules L wok) Map.empty)"

definition PtxmPostStateTransmitInit :: "Ctx Post" where
  "PtxmPostStateTransmitInit c =
    (let p = self c in
     if ptx_state p = PtxmStateTransmitInit
     then Some PtxmEventUnconditionalFallThrough
     else None)"

definition PtxmPostStateTransmitPeriodic :: "Ctx Post" where
  "PtxmPostStateTransmitPeriodic c =
    (let p = self c in
     if ptx_state p = PtxmStateTransmitPeriodic
     then Some PtxmEventUnconditionalFallThrough
     else None)"

definition PtxmPostStateTransmitConfig :: "Ctx Post" where
  "PtxmPostStateTransmitConfig c =
    (let p = self c in
     if ptx_state p = PtxmStateTransmitConfig
     then Some PtxmEventUnconditionalFallThrough
     else None)"

definition PtxmPostStateTransmitTcn :: "Ctx Post" where
  "PtxmPostStateTransmitTcn c =
    (let p = self c in
     if ptx_state p = PtxmStateTransmitTCN
     then Some PtxmEventUnconditionalFallThrough
     else None)"

definition PtxmPostStateTransmitRstp :: "Ctx Post" where
  "PtxmPostStateTransmitRstp c =
    (let p = self c in
     if ptx_state p = PtxmStateTransmitRSTP
     then Some PtxmEventUnconditionalFallThrough
     else None)"

definition PtxmPostStateIdle :: "Ctx Post" where
  "PtxmPostStateIdle c =
    (let p = self c in
     if ptx_state p = PtxmStateIdle
     then if HelloWhenTimer p = 0 \<and> Selected p \<and> \<not> UpdtInfo p
          then Some PtxmEventHelloWhenEqualsZeroAndSelectedAndNotUpdtInfo
          else if SendRSTP p \<and> NewInfo p \<and> TxCount p < TxHoldCount (brg c)
              \<and> HelloWhenTimer p \<noteq> 0 \<and> Selected p \<and> \<not> UpdtInfo p
          then Some PtxmEventSendRSTPAndNewInfoAndTxCountLessThanTxHoldCoundAndHelloWhenNotEqualZeroAndSelectedAndNotUpdtInfo
          else if \<not> SendRSTP p \<and> NewInfo p \<and> Role p = PortRoleRootPort \<and> TxCount p < TxHoldCount (brg c)
              \<and> HelloWhenTimer p \<noteq> 0 \<and> Selected p \<and> \<not> UpdtInfo p
          then Some PtxmEventNotSendRSTPAndNewInfoAndRootPortAndTxCountLessThanTxHoldCountAndHellWhenNotEqualZeroAndSelectedAndNotUpdtInfo
          else if \<not> SendRSTP p \<and> NewInfo p \<and> Role p = PortRoleDesignatedPort \<and> TxCount p < TxHoldCount (brg c)
              \<and> HelloWhenTimer p \<noteq> 0 \<and> Selected p \<and> \<not> UpdtInfo p
          then Some PtxmEventNotSendRSTPAndNewInfoAndDesignatedPortAndTxCountLessThanTxHoldCountAndHellWhenNotEqualZeroAndSelectedAndNotUpdtInfo
          else None
     else None)"

definition PtxmPosts :: "Ctx Post list" where
  "PtxmPosts = [PtxmPostStateTransmitInit, PtxmPostStateTransmitPeriodic, PtxmPostStateTransmitConfig,
     PtxmPostStateTransmitTcn, PtxmPostStateTransmitRstp, PtxmPostStateIdle]"

definition PtxmMachineMain :: "Layers \<Rightarrow> bool \<Rightarrow> nat \<Rightarrow> Event \<Rightarrow> Ctx \<Rightarrow> Ctx option" where
  "PtxmMachineMain L wok n e c =
     (if ptx_state (self c) = PtxmStateNone \<and> e \<noteq> PtxmEventBegin
      then Some (emit (to_ptx (self c) e) c)
      else ProcessAndPost (PtxmProcess L wok) PtxmPosts n e c)"

section \<open>Results of the callbacks\<close>

lemma tx_view_fields:
  assumes "tx_view p = tx_view q"
  shows "HelloWhenTimer p = HelloWhenTimer q" "PortTimes p = PortTimes q" "NewInfo p = NewInfo q"
    "TxCount p = TxCount q" "PtxmMachineFsm p = PtxmMachineFsm q"
proof -
  have "HelloWhenTimer (tx_view p) = HelloWhenTimer (tx_view q)" "PortTimes (tx_view p) = PortTimes (tx_view q)"
    "NewInfo (tx_view p) = NewInfo (tx_view q)" "TxCount (tx_view p) = TxCount (tx_view q)"
    "PtxmMachineFsm (tx_view p) = PtxmMachineFsm (tx_view q)"
    using assms by simp_all
  then show "HelloWhenTimer p = HelloWhenTimer q" "PortTimes p = PortTimes q" "NewInfo p = NewInfo q"
    "TxCount p = TxCount q" "PtxmMachineFsm p = PtxmMachineFsm q"
    by (simp_all add: tx_view_def)
qed

lemmas Tx_fields = Tx_view [THEN tx_view_fields(1)] Tx_view [THEN tx_view_fields(2)]
  Tx_view [THEN tx_view_fields(3)] Tx_view [THEN tx_view_fields(4)] Tx_view [THEN tx_view_fields(5)]

text \<open>Everything the machine may not change.\<close>

definition ptx_mask :: "StpPort \<Rightarrow> StpPort" where
  "ptx_mask p = (tx_view p)\<lparr>NewInfo := False, TxCount := 0, TcAck := False, HelloWhenTimer := 0,
        PtxmMachineFsm := nil_machine\<rparr>"

definition ptx_view :: "Ctx \<Rightarrow> Bridge \<times> StpPort \<times> (int32 \<Rightarrow> StpPort option) \<times> bool" where
  "ptx_view c = (brg c, ptx_mask (self c), peers c, panicked c)"

lemma ptx_mask_cong: "tx_view p = tx_view q \<Longrightarrow> ptx_mask p = ptx_mask q"
  by (simp add: ptx_mask_def)

lemmas ptx_mask_Tx [simp] = Tx_view [THEN ptx_mask_cong]

lemma ptx_mask_absorbs [simp]:
  "ptx_mask (p\<lparr>NewInfo := b\<rparr>) = ptx_mask p"
  "ptx_mask (p\<lparr>TxCount := n\<rparr>) = ptx_mask p"
  "ptx_mask (p\<lparr>TcAck := b\<rparr>) = ptx_mask p"
  "ptx_mask (p\<lparr>HelloWhenTimer := h\<rparr>) = ptx_mask p"
  "ptx_mask (p\<lparr>PtxmMachineFsm := m\<rparr>) = ptx_mask p"
  by (simp_all add: ptx_mask_def tx_view_def)

lemmas ptx_callbacks =
  PtxmMachineTransmitInit_def PtxmMachineTransmitIdle_def PtxmMachineTransmitPeriodic_def
  PtxmMachineTransmitRSTP_def PtxmMachineTransmitTCN_def PtxmMachineTransmitConfig_def Let_def

lemma PtxmRules_cases:
  "map_of (PtxmRules L wok) k = Some f \<Longrightarrow>
     f = PtxmMachineTransmitInit \<or> f = PtxmMachineTransmitIdle \<and> fst k \<noteq> PtxmStateIdle
     \<or> fst k = PtxmStateIdle \<and> (f = PtxmMachineTransmitPeriodic \<or> f = PtxmMachineTransmitRSTP L wok
        \<or> f = PtxmMachineTransmitTCN L wok \<or> f = PtxmMachineTransmitConfig L wok)"
  by (drule table_all [where P = "\<lambda>k f. f = PtxmMachineTransmitInit
        \<or> f = PtxmMachineTransmitIdle \<and> fst k \<noteq> PtxmStateIdle
        \<or> fst k = PtxmStateIdle \<and> (f = PtxmMachineTransmitPeriodic \<or> f = PtxmMachineTransmitRSTP L wok
           \<or> f = PtxmMachineTransmitTCN L wok \<or> f = PtxmMachineTransmitConfig L wok)"])
    (simp_all add: PtxmRules_def)

lemma PtxmProcess_keeps: "keeps ptx_view (\<lambda>c. snd (PtxmProcess L wok e c))"
  unfolding PtxmProcess_def AddRules_empty
proof (rule ptx_slot.process_keeps)
  show "ptx_view (ptx_upd g c) = ptx_view c" for g c
    by (simp add: ptx_view_def ptx_upd_def)
next
  fix k f and c :: Ctx
  assume "map_of (PtxmRules L wok) k = Some f"
  then consider "f = PtxmMachineTransmitInit" | "f = PtxmMachineTransmitIdle"
    | "f = PtxmMachineTransmitPeriodic" | "f = PtxmMachineTransmitRSTP L wok"
    | "f = PtxmMachineTransmitTCN L wok" | "f = PtxmMachineTransmitConfig L wok"
    by (blast dest: PtxmRules_cases)
  then show "ptx_view (snd (f c)) = ptx_view c"
    by cases (simp_all add: ptx_callbacks ptx_view_def)
qed

section \<open>Post processing\<close>

definition ptx_sending :: "State \<Rightarrow> bool" where
  "ptx_sending s \<longleftrightarrow> s = PtxmStateTransmitConfig \<or> s = PtxmStateTransmitTCN \<or> s = PtxmStateTransmitRSTP"

text \<open>The hello time is not zero, and right after a transmission there is nothing new
  to send.\<close>

definition ptx_inv :: "Ctx \<Rightarrow> bool" where
  "ptx_inv c \<longleftrightarrow> mBegin (PtxmMachineFsm (self c)) \<and> HelloTime (PortTimes (self c)) \<noteq> 0
     \<and> (ptx_sending (ptx_state (self c)) \<longrightarrow> \<not> NewInfo (self c))"

definition ptx_rank :: "Ctx \<Rightarrow> nat" where
  "ptx_rank c =
     (let s = ptx_state (self c) in
      if s = PtxmStateIdle then
        (if HelloWhenTimer (self c) = 0 then 4 else if NewInfo (self c) then 2 else 0)
      else if s = PtxmStateTransmitInit \<or> s = PtxmStateTransmitPeriodic then 3
      else if ptx_sending s then 1 else 0)"

text \<open>Frames sent so far, plus the one that may still follow.\<close>

definition ptx_budget :: "Ctx \<Rightarrow> nat" where
  "ptx_budget c = frames (out c) + (if ptx_rank c \<ge> 2 then 1 else 0)"

lemma PtxmProcess_refused: "PtxmProcess L wok e c = (Some err, c') \<Longrightarrow> c' = c"
  unfolding PtxmProcess_def using ptx_slot.error_unchanged by blast

lemma PtxmProcess_accepted:
  assumes "PtxmProcess L wok e c = (None, c')"
  obtains f where "mBegin (PtxmMachineFsm (self c))"
    and "map_of (PtxmRules L wok) (ptx_state (self c), e) = Some f"
    and "c' = ptx_upd (SetState (fst (f (ptx_upd (SetEvent e) c)))) (snd (f (ptx_upd (SetEvent e) c)))"
  using ptx_slot.accepted [OF assms [unfolded PtxmProcess_def]] by (auto simp: AddRules_empty ptx_get_def)

lemma Ptxm_post_step:
  assumes "h \<in> set PtxmPosts" and "h c = Some e" and "ptx_inv c" and "PtxmProcess L wok e c = (None, c')"
  shows "ptx_inv c' \<and> ptx_rank c' < ptx_rank c \<and> ptx_budget c' \<le> ptx_budget c"
proof -
  obtain f where m: "mBegin (PtxmMachineFsm (self c))"
    and f: "map_of (PtxmRules L wok) (ptx_state (self c), e) = Some f"
    and c': "c' = ptx_upd (SetState (fst (f (ptx_upd (SetEvent e) c)))) (snd (f (ptx_upd (SetEvent e) c)))"
    using PtxmProcess_accepted [OF assms(4)] .
  let ?s = "ptx_state (self c)"
  consider
      "?s = PtxmStateTransmitInit \<or> ?s = PtxmStateTransmitPeriodic" "f = PtxmMachineTransmitIdle"
    | "ptx_sending ?s" "f = PtxmMachineTransmitIdle"
    | "?s = PtxmStateIdle" "HelloWhenTimer (self c) = 0" "f = PtxmMachineTransmitPeriodic"
    | "?s = PtxmStateIdle" "HelloWhenTimer (self c) \<noteq> 0" "NewInfo (self c)" "f = PtxmMachineTransmitRSTP L wok"
    | "?s = PtxmStateIdle" "HelloWhenTimer (self c) \<noteq> 0" "NewInfo (self c)" "f = PtxmMachineTransmitTCN L wok"
    | "?s = PtxmStateIdle" "HelloWhenTimer (self c) \<noteq> 0" "NewInfo (self c)" "f = PtxmMachineTransmitConfig L wok"
    using assms(1,2) f
    by (auto simp: PtxmPosts_def PtxmPostStateTransmitInit_def PtxmPostStateTransmitPeriodic_def
        PtxmPostStateTransmitConfig_def PtxmPostStateTransmitTcn_def PtxmPostStateTransmitRstp_def
        PtxmPostStateIdle_def Let_def ptx_sending_def PtxmRules_def split: if_splits)
  then show ?thesis
    using assms(3) unfolding c'
    by cases (auto simp: ptx_callbacks ptx_upd_def ptx_inv_def ptx_rank_def ptx_sending_def ptx_budget_def
        Tx_fields Tx_frames i32_eq_0_iff)
qed

interpretation ptx_post: post_terminates "PtxmProcess L wok" PtxmPosts ptx_inv ptx_rank
proof
  fix h c e c'
  assume "h \<in> set PtxmPosts" "h c = Some e" "ptx_inv c" "PtxmProcess L wok e c = (None, c')"
  then show "ptx_inv c' \<and> ptx_rank c' < ptx_rank c"
    using Ptxm_post_step by blast
qed (rule PtxmProcess_refused)

text \<open>An accepted event establishes the invariant and sends at most one frame.\<close>

lemma PtxmProcess_step:
  assumes "HelloTime (PortTimes (self c)) \<noteq> 0" and "PtxmProcess L wok e c = (None, c')"
  shows "ptx_inv c' \<and> ptx_rank c' < 4 \<and> ptx_budget c' \<le> frames (out c) + 1"
proof -
  obtain f where m: "mBegin (PtxmMachineFsm (self c))"
    and f: "map_of (PtxmRules L wok) (ptx_state (self c), e) = Some f"
    and c': "c' = ptx_upd (SetState (fst (f (ptx_upd (SetEvent e) c)))) (snd (f (ptx_upd (SetEvent e) c)))"
    using PtxmProcess_accepted [OF assms(2)] .
  consider "f = PtxmMachineTransmitInit" | "f = PtxmMachineTransmitIdle"
    | "f = PtxmMachineTransmitPeriodic" | "f = PtxmMachineTransmitRSTP L wok"
    | "f = PtxmMachineTransmitTCN L wok" | "f = PtxmMachineTransmitConfig L wok"
    using PtxmRules_cases [OF f] by blast
  then show ?thesis
    using assms(1) m unfolding c'
    by cases (auto simp: ptx_callbacks ptx_upd_def ptx_inv_def ptx_rank_def ptx_sending_def ptx_budget_def
        Tx_fields Tx_frames i32_eq_0_iff)
qed

text \<open>A settled transmit machine waits in \<open>Idle\<close>, or has not begun.\<close>

lemma Ptxm_settled:
  assumes "settled (PtxmProcess L wok) PtxmPosts c" and "mBegin (PtxmMachineFsm (self c))"
  shows "\<not> ptx_sending (ptx_state (self c)) \<and> ptx_state (self c) \<noteq> PtxmStateTransmitInit
    \<and> ptx_state (self c) \<noteq> PtxmStateTransmitPeriodic"
  using assms
  by (auto simp: settled_def PtxmPosts_def PtxmPostStateTransmitInit_def PtxmPostStateTransmitPeriodic_def
        PtxmPostStateTransmitConfig_def PtxmPostStateTransmitTcn_def PtxmPostStateTransmitRstp_def
        PtxmProcess_def AddRules_empty process_refuses ptx_get_def Let_def ptx_sending_def
        PtxmRules_def split: if_splits)

lemma Ptxm_budget:
  assumes "HelloTime (PortTimes (self c)) \<noteq> 0" and "PtxmProcess L wok e c = (None, c')"
    and "ProcessAndPost (PtxmProcess L wok) PtxmPosts n e c = Some d"
  shows "frames (out d) \<le> frames (out c) + 1"
proof -
  let ?I = "\<lambda>d. ptx_inv d \<and> ptx_budget d \<le> frames (out c) + 1"
  have "?I d"
  proof (rule ProcessAndPost_inv [where I = ?I, OF assms(3)])
    show "?I (snd (PtxmProcess L wok e c))"
      using PtxmProcess_step [OF assms(1,2)] assms(2) by simp
  next
    fix h e c'
    assume a: "h \<in> set PtxmPosts" "h c' = Some e" "?I c'"
    obtain err c'' where r: "PtxmProcess L wok e c' = (err, c'')"
      by fastforce
    show "?I (snd (PtxmProcess L wok e c'))"
    proof (cases err)
      case None
      then show ?thesis
        using Ptxm_post_step [of h c' e L wok c''] a r by auto
    next
      case (Some x)
      then show ?thesis
        using PtxmProcess_refused [of L wok e c' x c''] a r by simp
    qed
  qed
  then show ?thesis
    by (simp add: ptx_budget_def)
qed

text \<open>C11: If the port's hello time is not zero, the transmit machine finishes every
  event within four rounds of post processing, sends at most one frame for it,
  comes to rest outside the transmitting states, and changes nothing of the port
  but \<open>NewInfo\<close>, \<open>TxCount\<close>, \<open>TcAck\<close>, the hello timer and the counters.\<close>

theorem Ptxm_one_frame:
  assumes "HelloTime (PortTimes (self c)) \<noteq> 0" and "\<not> ptx_sending (ptx_state (self c))"
  shows "\<exists>c'. PtxmMachineMain L wok 4 e c = Some c'
     \<and> frames (out c') \<le> frames (out c) + 1
     \<and> \<not> ptx_sending (ptx_state (self c'))
     \<and> ptx_view c' = ptx_view c"
proof (cases "ptx_state (self c) = PtxmStateNone \<and> e \<noteq> PtxmEventBegin")
  case True
  then show ?thesis
    using assms
    by (simp add: PtxmMachineMain_def emit_def ptx_view_def to_ptx_def frames_def)
next
  case False
  obtain err c1 where r: "PtxmProcess L wok e c = (err, c1)"
    by fastforce
  obtain d where d: "ProcessAndPost (PtxmProcess L wok) PtxmPosts 4 e c = Some d"
    and acc: "err = None \<longrightarrow> ptx_inv d \<and> settled (PtxmProcess L wok) PtxmPosts d"
    and ref: "err \<noteq> None \<longrightarrow> d = c"
    using ptx_post.process_and_post [of L wok e c 4] PtxmProcess_step [OF assms(1), of L wok e c1] r by auto
  have "frames (out d) \<le> frames (out c) + 1 \<and> \<not> ptx_sending (ptx_state (self d))"
  proof (cases err)
    case None
    then show ?thesis
      using acc Ptxm_settled [of L wok d] Ptxm_budget [OF assms(1) _ d] r by (auto simp: ptx_inv_def)
  next
    case (Some x)
    then show ?thesis
      using ref assms(2) by simp
  qed
  then show ?thesis
    using False d ProcessAndPost_keeps [OF PtxmProcess_keeps d] by (auto simp: PtxmMachineMain_def)
qed

theorem Ptxm_one_frame_witness:
  "\<exists>c'. PtxmMachineMain ieee_layers True 4 PtxmEventBegin (solo (zero_bridge\<lparr>TxHoldCount := 6\<rparr>) (zero_port\<lparr>
        portHandle := True, SendRSTP := True, Selected := True, PortTimes := zero_times\<lparr>HelloTime := 2\<rparr>,
        PtxmMachineFsm := Start PtxmStateNone (new_machine PtxmStateNone)\<rparr>)) = Some c'
    \<and> frames (out c') = 1 \<and> ptx_state (self c') = PtxmStateIdle"
proof -
  define c where "c = solo (zero_bridge\<lparr>TxHoldCount := 6\<rparr>) (zero_port\<lparr>
        portHandle := True, SendRSTP := True, Selected := True, PortTimes := zero_times\<lparr>HelloTime := 2\<rparr>,
        PtxmMachineFsm := Start PtxmStateNone (new_machine PtxmStateNone)\<rparr>)"
  have "HelloTime (PortTimes (self c)) \<noteq> 0" "\<not> ptx_sending (ptx_state (self c))"
    by (simp_all add: c_def solo_def ptx_sending_def)
  from Ptxm_one_frame [OF this, of ieee_layers True PtxmEventBegin]
  obtain c' where c': "PtxmMachineMain ieee_layers True 4 PtxmEventBegin c = Some c'"
    by blast
  have "map_option (\<lambda>d. (frames (out d), ptx_state (self d)))
      (PtxmMachineMain ieee_layers True 4 PtxmEventBegin c) = Some (1, PtxmStateIdle)"
    unfolding c_def by code_simp
  with c' show ?thesis
    unfolding c_def by auto
qed

text \<open>C12: With a hello time of zero the periodic transmission of a selected port with
  current information never ends: the idle state immediately expires again, and no
  amount of fuel lets the post processing return.\<close>

theorem Ptxm_zero_hello_diverges:
  assumes "ptx_state (self c) = PtxmStateIdle" and "mBegin (PtxmMachineFsm (self c))"
    and "HelloTime (PortTimes (self c)) = 0" and "HelloWhenTimer (self c) = 0"
    and "Selected (self c)" and "\<not> UpdtInfo (self c)"
  shows "ProcessPost (PtxmProcess L wok) PtxmPosts n c = None"
proof (rule ProcessPost_diverges [where S = "\<lambda>c. (ptx_state (self c) = PtxmStateIdle \<and> HelloWhenTimer (self c) = 0
      \<or> ptx_state (self c) = PtxmStateTransmitPeriodic) \<and> mBegin (PtxmMachineFsm (self c))
      \<and> HelloTime (PortTimes (self c)) = 0 \<and> Selected (self c) \<and> \<not> UpdtInfo (self c)"])
  fix c :: Ctx
  assume a: "(ptx_state (self c) = PtxmStateIdle \<and> HelloWhenTimer (self c) = 0
      \<or> ptx_state (self c) = PtxmStateTransmitPeriodic) \<and> mBegin (PtxmMachineFsm (self c))
      \<and> HelloTime (PortTimes (self c)) = 0 \<and> Selected (self c) \<and> \<not> UpdtInfo (self c)"
  note defs = PtxmPosts_def PtxmPostStateTransmitInit_def PtxmPostStateTransmitPeriodic_def
        PtxmPostStateTransmitConfig_def PtxmPostStateTransmitTcn_def PtxmPostStateTransmitRstp_def
        PtxmPostStateIdle_def PtxmProcess_def AddRules_empty ProcessEvent_def PtxmRules_def ptx_get_def
        ptx_upd_def ptx_callbacks i32_def
  from a consider "ptx_state (self c) = PtxmStateIdle" "HelloWhenTimer (self c) = 0"
    | "ptx_state (self c) = PtxmStateTransmitPeriodic"
    by blast
  then show "\<exists>h e c' gs ks. PtxmPosts = gs @ h # ks \<and> (\<forall>g \<in> set gs. g c = None) \<and> h c = Some e
      \<and> PtxmProcess L wok e c = (None, c')
      \<and> (ptx_state (self c') = PtxmStateIdle \<and> HelloWhenTimer (self c') = 0
         \<or> ptx_state (self c') = PtxmStateTransmitPeriodic) \<and> mBegin (PtxmMachineFsm (self c'))
      \<and> HelloTime (PortTimes (self c')) = 0 \<and> Selected (self c') \<and> \<not> UpdtInfo (self c')"
  proof cases
    case 1
    show ?thesis
      by (intro exI [of _ PtxmPostStateIdle] exI [of _ PtxmEventHelloWhenEqualsZeroAndSelectedAndNotUpdtInfo]
          exI [of _ "snd (PtxmProcess L wok PtxmEventHelloWhenEqualsZeroAndSelectedAndNotUpdtInfo c)"]
          exI [of _ "butlast PtxmPosts"] exI [of _ "[]"]) (use a 1 in \<open>simp add: defs\<close>)
  next
    case 2
    show ?thesis
      by (intro exI [of _ PtxmPostStateTransmitPeriodic] exI [of _ PtxmEventUnconditionalFallThrough]
          exI [of _ "snd (PtxmProcess L wok PtxmEventUnconditionalFallThrough c)"]
          exI [of _ "take 1 PtxmPosts"] exI [of _ "drop 2 PtxmPosts"]) (use a 2 in \<open>simp add: defs\<close>)
  qed
qed (use assms in simp)

theorem Ptxm_zero_hello_diverges_witness:
  "ProcessPost (PtxmProcess ieee_layers True) PtxmPosts 1000 (solo zero_bridge (zero_port\<lparr>Selected := True,
     PtxmMachineFsm := Start PtxmStateIdle (new_machine PtxmStateNone)\<rparr>)) = None"
  by (rule Ptxm_zero_hello_diverges) (simp_all add: solo_def zero_port_def zero_times_def)

text \<open>The events that order a transmission.\<close>

definition ptx_tx_event :: "Event \<Rightarrow> bool" where
  "ptx_tx_event e \<longleftrightarrow>
     e = PtxmEventSendRSTPAndNewInfoAndTxCountLessThanTxHoldCoundAndHelloWhenNotEqualZeroAndSelectedAndNotUpdtInfo
     \<or> e = PtxmEventNotSendRSTPAndNewInfoAndRootPortAndTxCountLessThanTxHoldCountAndHellWhenNotEqualZeroAndSelectedAndNotUpdtInfo
     \<or> e = PtxmEventNotSendRSTPAndNewInfoAndDesignatedPortAndTxCountLessThanTxHoldCountAndHellWhenNotEqualZeroAndSelectedAndNotUpdtInfo"

lemma PtxmProcess_hold:
  assumes "TxCount (self c) \<le> TxHoldCount (brg c)"
    and "ptx_tx_event e \<longrightarrow> TxCount (self c) < TxHoldCount (brg c)"
  shows "TxCount (self (snd (PtxmProcess L wok e c))) \<le> TxHoldCount (brg (snd (PtxmProcess L wok e c)))"
  unfolding PtxmProcess_def AddRules_empty
proof (rule ptx_slot.invariant)
  fix f
  assume f: "map_of (PtxmRules L wok) (cur_s (ptx_get c), e) = Some f"
  have tx: "ptx_tx_event e" if "f = PtxmMachineTransmitRSTP L wok \<or> f = PtxmMachineTransmitTCN L wok
      \<or> f = PtxmMachineTransmitConfig L wok" "f \<noteq> PtxmMachineTransmitInit"
      "f \<noteq> PtxmMachineTransmitIdle" "f \<noteq> PtxmMachineTransmitPeriodic"
    using f that by (auto simp: PtxmRules_def ptx_tx_event_def split: if_splits)
  show "TxCount (self (ptx_upd (SetState (fst (f (ptx_upd (SetEvent e) c)))) (snd (f (ptx_upd (SetEvent e) c)))))
      \<le> TxHoldCount (brg (ptx_upd (SetState (fst (f (ptx_upd (SetEvent e) c)))) (snd (f (ptx_upd (SetEvent e) c)))))"
  proof (cases "f = PtxmMachineTransmitInit \<or> f = PtxmMachineTransmitIdle \<or> f = PtxmMachineTransmitPeriodic")
    case True
    then show ?thesis
      using assms(1) by (auto simp: ptx_callbacks ptx_upd_def)
  next
    case False
    then have "TxCount (self c) < TxHoldCount (brg c)"
      using tx assms(2) PtxmRules_cases [OF f] by blast
    then show ?thesis
      using False PtxmRules_cases [OF f] by (auto simp: ptx_callbacks ptx_upd_def Tx_fields inc_le)
  qed
qed (rule assms(1))

text \<open>The run of the machine for one event: it returns if the hello time is not zero.\<close>

lemma PtxmMachineMain_returns:
  assumes "HelloTime (PortTimes (self c)) \<noteq> 0"
  shows "\<exists>c'. PtxmMachineMain L wok 4 e c = Some c'"
proof -
  obtain err c1 where r: "PtxmProcess L wok e c = (err, c1)"
    by fastforce
  show ?thesis
    using ptx_post.process_and_post [of L wok e c 4] PtxmProcess_step [OF assms, of L wok e c1] r
    by (auto simp: PtxmMachineMain_def)
qed

lemma PtxmMachineMain_hold:
  assumes "PtxmMachineMain L wok n e c = Some c'" and "TxCount (self c) \<le> TxHoldCount (brg c)"
    and "ptx_tx_event e \<longrightarrow> TxCount (self c) < TxHoldCount (brg c)"
  shows "TxCount (self c') \<le> TxHoldCount (brg c')"
proof (cases "ptx_state (self c) = PtxmStateNone \<and> e \<noteq> PtxmEventBegin")
  case True
  then show ?thesis
    using assms by (auto simp: PtxmMachineMain_def emit_def)
next
  case False
  then have "ProcessAndPost (PtxmProcess L wok) PtxmPosts n e c = Some c'"
    using assms(1) by (auto simp: PtxmMachineMain_def split: if_splits)
  then show ?thesis
  proof (rule ProcessAndPost_inv [where I = "\<lambda>c. TxCount (self c) \<le> TxHoldCount (brg c)"])
    fix h e' and d :: Ctx
    assume a: "h \<in> set PtxmPosts" "h d = Some e'" "TxCount (self d) \<le> TxHoldCount (brg d)"
    have "ptx_tx_event e' \<longrightarrow> TxCount (self d) < TxHoldCount (brg d)"
      using a(1,2)
      by (auto simp: PtxmPosts_def PtxmPostStateTransmitInit_def PtxmPostStateTransmitPeriodic_def
          PtxmPostStateTransmitConfig_def PtxmPostStateTransmitTcn_def PtxmPostStateTransmitRstp_def
          PtxmPostStateIdle_def Let_def ptx_tx_event_def split: if_splits)
    then show "TxCount (self (snd (PtxmProcess L wok e' d))) \<le> TxHoldCount (brg (snd (PtxmProcess L wok e' d)))"
      by (rule PtxmProcess_hold [OF a(3)])
  qed (rule PtxmProcess_hold [OF assms(2,3)])
qed


text \<open>C13: The transmit hold count: with a hello time that is not zero the machine finishes
  every event within four rounds of post processing, and if \<open>TxCount\<close> is at most \<open>TxHoldCount\<close>
  before, it is so afterwards.  For an event that itself orders a transmission the count
  has to be below \<open>TxHoldCount\<close> before.\<close>

theorem Ptxm_hold_count:
  assumes "HelloTime (PortTimes (self c)) \<noteq> 0" and "TxCount (self c) \<le> TxHoldCount (brg c)"
    and "ptx_tx_event e \<longrightarrow> TxCount (self c) < TxHoldCount (brg c)"
  shows "\<exists>c'. PtxmMachineMain L wok 4 e c = Some c' \<and> TxCount (self c') \<le> TxHoldCount (brg c')"
  using PtxmMachineMain_returns [OF assms(1)] PtxmMachineMain_hold [OF _ assms(2,3)] by blast

theorem Ptxm_hold_count_witness:
  "\<exists>c'. PtxmMachineMain ieee_layers True 4 PtxmEventHelloWhenEqualsZeroAndSelectedAndNotUpdtInfo
      (solo (zero_bridge\<lparr>TxHoldCount := 1\<rparr>) (zero_port\<lparr>
        portHandle := True, SendRSTP := True, NewInfo := True, Selected := True,
        PortTimes := zero_times\<lparr>HelloTime := 2\<rparr>,
        PtxmMachineFsm := Start PtxmStateIdle (new_machine PtxmStateNone)\<rparr>)) = Some c'
     \<and> TxCount (self c') = 1 \<and> TxCount (self c') \<le> TxHoldCount (brg c')"
proof -
  define c where "c = solo (zero_bridge\<lparr>TxHoldCount := 1\<rparr>) (zero_port\<lparr>
        portHandle := True, SendRSTP := True, NewInfo := True, Selected := True,
        PortTimes := zero_times\<lparr>HelloTime := 2\<rparr>,
        PtxmMachineFsm := Start PtxmStateIdle (new_machine PtxmStateNone)\<rparr>)"
  have "HelloTime (PortTimes (self c)) \<noteq> 0" "TxCount (self c) \<le> TxHoldCount (brg c)"
    "ptx_tx_event PtxmEventHelloWhenEqualsZeroAndSelectedAndNotUpdtInfo \<longrightarrow>
       TxCount (self c) < TxHoldCount (brg c)"
    by (simp_all add: c_def solo_def zero_port_def)
  note Ptxm_hold_count [OF this, of ieee_layers True]
  moreover have "map_option (\<lambda>d. TxCount (self d))
      (PtxmMachineMain ieee_layers True 4 PtxmEventHelloWhenEqualsZeroAndSelectedAndNotUpdtInfo c) = Some 1"
    unfolding c_def by code_simp
  ultimately show ?thesis
    unfolding c_def by auto
qed

end
