(* ===== verification/Stp_Prx.thy ===== *)
theory Stp_Prx
  imports Stp_Frames
begin

text \<open>
  The port receive machine, \<open>l2/stp/protocol/prxfsm.go\<close> (17.23).  \<open>data\<close> is the
  argument the callbacks get from \<open>ProcessEvent\<close>: the received frame, or nothing
  when the event came through the event channel.
\<close>

section \<open>Frame versions\<close>

record RxBpduPdu =
  rx_pdu :: Pdu
  rx_ptype :: BPDURxType

text \<open>The topology change flags of a configuration or RST frame.\<close>

definition rcvd_tc_flags :: "uint8 \<Rightarrow> Ctx \<Rightarrow> Ctx" where
  "rcvd_tc_flags flags c =
     (let p = (self c)\<lparr>RcvdTc := StpGetBpduTopoChange flags, RcvdTcn := False,
                RcvdTcAck := StpGetBpduTopoChangeAck flags\<rparr>;
          p = (if RcvdTc p then SetRxPortCounters BPDURxTypeTopo p else p);
          p = (if RcvdTcAck p then SetRxPortCounters BPDURxTypeTopoAck p else p)
      in emit (NotifyRcvdTcRcvdTcnRcvdTcAck p) (c\<lparr>self := p\<rparr>))"

text \<open>An RST frame, on its own or inside PVST.\<close>

definition rcvd_rst_version :: "Layers \<Rightarrow> Bpdu \<Rightarrow> Pdu \<Rightarrow> Ctx \<Rightarrow> bool \<times> Ctx" where
  "rcvd_rst_version L b pdu c =
     (if ProtocolVersionId b = RSTPProtocolVersion L \<and> BPDUType b = BPDUTypeRSTP L then
        let p = self c;
            c = (if \<not> RcvdRSTP p \<and> \<not> SendRSTP p \<and> RstpVersion p \<and> ppmm_live p
                 then emit [Send PpmmEvents (IfIndex p) PpmmEventRstpVersionAndNotSendRSTPAndRcvdRSTP (Some pdu)] c
                 else c)
        in (True, c\<lparr>self := (self c)\<lparr>MdelayWhiletimer := MigrateTimeDefault, RcvdRSTP := True\<rparr>\<rparr>)
      else (False, c))"

definition inform_stp :: "Pdu \<Rightarrow> Ctx \<Rightarrow> Ctx" where
  "inform_stp pdu c =
     (if MdelayWhiletimer (self c) = 0 \<and> SendRSTP (self c) \<and> ppmm_live (self c)
      then emit [Send PpmmEvents (IfIndex (self c)) PpmmEventSendRSTPAndRcvdSTP (Some pdu)] c else c)"

definition UpdtBPDUVersion :: "Layers \<Rightarrow> Pdu \<Rightarrow> Ctx \<Rightarrow> bool \<times> Ctx" where
  "UpdtBPDUVersion L pdu c =
     (case pdu of
        RSTP b \<Rightarrow> (let (v, c) = rcvd_rst_version L b pdu c in (v, rcvd_tc_flags (Flags b) c))
      | PVST b _ \<Rightarrow> (let (v, c) = rcvd_rst_version L b pdu c in (v, rcvd_tc_flags (Flags b) c))
      | STP b \<Rightarrow>
          (let (v, c) =
             (if ProtocolVersionId b = STPProtocolVersion L \<and> BPDUType b = BPDUTypeSTP L then
                let c = inform_stp pdu c in (True, c\<lparr>self := (self c)\<lparr>RcvdSTP := True\<rparr>\<rparr>)
              else (False, c))
           in (v, rcvd_tc_flags (Flags b) c))
      | BPDUTopology version bpdutype \<Rightarrow>
          (if version = STPProtocolVersion L \<and> bpdutype = BPDUTypeTopoChange L
              \<or> version = TCNProtocolVersion L \<and> bpdutype = BPDUTypeTopoChange L then
             let c = inform_stp pdu c;
                 c = (if MdelayWhiletimer (self c) = 0 then c\<lparr>self := (self c)\<lparr>RcvdSTP := True\<rparr>\<rparr> else c);
                 c = c\<lparr>self := (self c)\<lparr>RcvdTc := False, RcvdTcn := True, RcvdTcAck := False\<rparr>\<rparr>
             in (True, emit (NotifyRcvdTcRcvdTcnRcvdTcAck (self c)) c)
           else (False, c)))"

section \<open>Machine\<close>

text \<open>The deferred \<open>NotifyRcvdMsgChanged\<close>, which panics on missing data.\<close>

definition notify_rcvd_msg :: "bool \<Rightarrow> bool \<Rightarrow> Pdu option \<Rightarrow> Ctx \<Rightarrow> Ctx" where
  "notify_rcvd_msg oldrcvdmsg newrcvdmsg data c =
     (case NotifyRcvdMsgChanged PrxmMachineModuleStr (self c) oldrcvdmsg newrcvdmsg data of
        (True, _) \<Rightarrow> panic c
      | (False, os) \<Rightarrow> emit os c)"

definition PrxmMachineDiscard :: "Pdu option \<Rightarrow> Ctx Callback" where
  "PrxmMachineDiscard data c =
     (let oldrcvdmsg = RcvdMsg (self c);
          c = c\<lparr>self := (self c)\<lparr>RcvdBPDU := False, RcvdRSTP := False, RcvdSTP := False,
                  RcvdMsg := False, EdgeDelayWhileTimer := MigrateTimeDefault\<rparr>\<rparr>
      in (PrxmStateDiscard, notify_rcvd_msg oldrcvdmsg False data c))"

text \<open>\<open>SaveMsgRcvInfo\<close> asserts that the data is a frame.\<close>

definition PrxmMachineReceive :: "Layers \<Rightarrow> Pdu option \<Rightarrow> Ctx Callback" where
  "PrxmMachineReceive L data c =
     (case data of
        None \<Rightarrow> (PrxmStateReceive, panic c)
      | Some pdu \<Rightarrow>
          (let c = c\<lparr>self := SaveMsgRcvInfo pdu (self c)\<rparr>;
               (rcvdMsg, c) = UpdtBPDUVersion L pdu c;
               oldrcvdmsg = RcvdMsg (self c);
               c = c\<lparr>self := (self c)\<lparr>RcvdMsg := rcvdMsg\<rparr>\<rparr>;
               oldoperedge = OperEdge (self c);
               edge = (\<not> AdminEdge (self c) \<and> AutoEdgePort (self c));
               c = (if edge then c\<lparr>self := (self c)\<lparr>OperEdge := False\<rparr>\<rparr> else c);
               c = c\<lparr>self := (self c)\<lparr>RcvdBPDU := False, EdgeDelayWhileTimer := MigrateTimeDefault\<rparr>\<rparr>;
               c = (if edge then emit (NotifyOperEdgeChanged PrxmMachineModuleStr (self c) oldoperedge False) c
                    else c)
           in (PrxmStateReceive, notify_rcvd_msg oldrcvdmsg rcvdMsg data c)))"

definition PrxmRules :: "Layers \<Rightarrow> Pdu option \<Rightarrow> ((State \<times> Event) \<times> Ctx Callback) list" where
  "PrxmRules L data =
     [ ((PrxmStateNone, PrxmEventBegin), PrxmMachineDiscard data),
       ((PrxmStateDiscard, PrxmEventBegin), PrxmMachineDiscard data),
       ((PrxmStateReceive, PrxmEventBegin), PrxmMachineDiscard data),
       ((PrxmStateDiscard, PrxmEventRcvdBpduAndNotPortEnabled), PrxmMachineDiscard data),
       ((PrxmStateReceive, PrxmEventRcvdBpduAndNotPortEnabled), PrxmMachineDiscard data),
       ((PrxmStateDiscard, PrxmEventEdgeDelayWhileNotEqualMigrateTimeAndNotPortEnabled), PrxmMachineDiscard data),
       ((PrxmStateReceive, PrxmEventEdgeDelayWhileNotEqualMigrateTimeAndNotPortEnabled), PrxmMachineDiscard data),
       ((PrxmStateDiscard, PrxmEventRcvdBpduAndPortEnabled), PrxmMachineReceive L data),
       ((PrxmStateReceive, PrxmEventRcvdBpduAndPortEnabledAndNotRcvdMsg), PrxmMachineReceive L data) ]"

definition PrxmProcess :: "Layers \<Rightarrow> Pdu option \<Rightarrow> Ctx Process" where
  "PrxmProcess L data = ProcessEvent prx_get prx_upd (AddRules (PrxmRules L data) Map.empty)"

abbreviation prx_state :: "StpPort \<Rightarrow> State" where "prx_state p \<equiv> cur_s (PrxmMachineFsm p)"

definition PrxmPostStateDiscard :: "Ctx Post" where
  "PrxmPostStateDiscard c =
     (let p = self c in
      if prx_state p = PrxmStateDiscard \<and> RcvdBPDU p \<and> PortEnabled p
      then Some PrxmEventRcvdBpduAndPortEnabled else None)"

definition PrxmPostStateReceive :: "Ctx Post" where
  "PrxmPostStateReceive c =
     (let p = self c in
      if prx_state p = PrxmStateReceive \<and> RcvdBPDU p \<and> PortEnabled p \<and> \<not> RcvdMsg p
      then Some PrxmEventRcvdBpduAndPortEnabledAndNotRcvdMsg else None)"

definition PrxmPosts :: "Ctx Post list" where
  "PrxmPosts = [PrxmPostStateDiscard, PrxmPostStateReceive]"

text \<open>The event channel: \<open>ProcessEvent\<close> gets no data; the senders of receive events
  attach none either.\<close>

definition PrxmMachineMain :: "Layers \<Rightarrow> nat \<Rightarrow> Event \<Rightarrow> Ctx \<Rightarrow> Ctx option" where
  "PrxmMachineMain L n e c =
     (if prx_state (self c) = PrxmStateNone \<and> e \<noteq> PrxmEventBegin
      then Some (emit [Send PrxmEvents (IfIndex (self c)) e None] c)
      else ProcessAndPost (PrxmProcess L None) PrxmPosts n e c)"

text \<open>The event a received frame raises in the current state.\<close>

definition rx_event :: "StpPort \<Rightarrow> Event option" where
  "rx_event p =
     (if prx_state p = PrxmStateDiscard then
        if PortEnabled p then Some PrxmEventRcvdBpduAndPortEnabled
        else Some PrxmEventRcvdBpduAndNotPortEnabled
      else if PortEnabled p \<and> \<not> RcvdMsg p then Some PrxmEventRcvdBpduAndPortEnabledAndNotRcvdMsg
      else if \<not> PortEnabled p then Some PrxmEventRcvdBpduAndNotPortEnabled
      else None)"

definition bpdu_guard_frame :: "Ctx \<Rightarrow> Ctx" where
  "bpdu_guard_frame c =
     (let running = BPDUGuardTimer (self c) \<noteq> 0;
          c = c\<lparr>self := (self c)\<lparr>BPDUGuardTimer := BpduGuardInterval (self c)\<rparr>\<rparr>
      in if running then emit [BPDUGuardDetected (IfIndex (self c)) True] c else c)"

definition PrxmRxFrame :: "Layers \<Rightarrow> nat \<Rightarrow> RxBpduPdu \<Rightarrow> Ctx \<Rightarrow> Ctx option" where
  "PrxmRxFrame L n rx c =
     (if prx_state (self c) = PrxmStateNone then Some c
      else
        let r = (if BpduGuard (self c) \<and> AdminEdge (self c) then Some (bpdu_guard_frame c)
                 else case rx_event (self c) of
                        None \<Rightarrow> Some c
                      | Some e \<Rightarrow> ProcessAndPost (PrxmProcess L (Some (rx_pdu rx))) PrxmPosts n e c)
        in map_option (\<lambda>c. c\<lparr>self := SetRxPortCounters (rx_ptype rx) (self c)\<rparr>) r)"

section \<open>Results of the callbacks\<close>

text \<open>The frames \<open>UpdtBPDUVersion\<close> accepts.\<close>

definition version_ok :: "Layers \<Rightarrow> Pdu \<Rightarrow> bool" where
  "version_ok L pdu \<longleftrightarrow>
     (case pdu of
        STP b \<Rightarrow> ProtocolVersionId b = STPProtocolVersion L \<and> BPDUType b = BPDUTypeSTP L
      | RSTP b \<Rightarrow> ProtocolVersionId b = RSTPProtocolVersion L \<and> BPDUType b = BPDUTypeRSTP L
      | PVST b _ \<Rightarrow> ProtocolVersionId b = RSTPProtocolVersion L \<and> BPDUType b = BPDUTypeRSTP L
      | BPDUTopology v t \<Rightarrow> (v = STPProtocolVersion L \<or> v = TCNProtocolVersion L) \<and> t = BPDUTypeTopoChange L)"

text \<open>The events that hand a received message to the port information machine.\<close>

fun is_rcvd_event :: "StpOut \<Rightarrow> bool" where
  "is_rcvd_event (Send ch i e d) \<longleftrightarrow>
     ch = PimEvents \<and> (e = PimEventRcvdMsg \<or> e = PimEventRcvdMsgAndNotUpdtInfo)"
| "is_rcvd_event _ \<longleftrightarrow> False"

definition rcvd_events :: "StpOut list \<Rightarrow> StpOut list" where
  "rcvd_events os = filter is_rcvd_event os"

lemma rcvd_events_append [simp]:
  "rcvd_events [] = []" "rcvd_events (xs @ ys) = rcvd_events xs @ rcvd_events ys"
  by (simp_all add: rcvd_events_def)

lemma Notify_no_rcvd [simp]:
  "rcvd_events (NotifyRcvdTcRcvdTcnRcvdTcAck p) = []"
  "rcvd_events (NotifyOperEdgeChanged src p a b) = []"
  by (simp_all add: rcvd_events_def NotifyRcvdTcRcvdTcnRcvdTcAck_def NotifyOperEdgeChanged_def
      NotifyOperEdgeChanged_Prt_def to_prt_def to_bdm_def to_tc_def)

lemma SetRxPortCounters_fields [simp]:
  "PrxmMachineFsm (SetRxPortCounters t p) = PrxmMachineFsm p" "RcvdMsg (SetRxPortCounters t p) = RcvdMsg p"
  "IfIndex (SetRxPortCounters t p) = IfIndex p" "PimMachineFsm (SetRxPortCounters t p) = PimMachineFsm p"
  "UpdtInfo (SetRxPortCounters t p) = UpdtInfo p" "RcvdBPDU (SetRxPortCounters t p) = RcvdBPDU p"
  "MsgPriority (SetRxPortCounters t p) = MsgPriority p" "MsgTimes (SetRxPortCounters t p) = MsgTimes p"
  "RcvdTc (SetRxPortCounters t p) = RcvdTc p" "RcvdTcAck (SetRxPortCounters t p) = RcvdTcAck p"
  by (cases t; simp add: SetRxPortCounters_def)+

lemma rcvd_tc_flags_fields [simp]:
  "brg (rcvd_tc_flags f c) = brg c" "peers (rcvd_tc_flags f c) = peers c"
  "panicked (rcvd_tc_flags f c) = panicked c" "rcvd_events (out (rcvd_tc_flags f c)) = rcvd_events (out c)"
  "PrxmMachineFsm (self (rcvd_tc_flags f c)) = PrxmMachineFsm (self c)"
  "RcvdMsg (self (rcvd_tc_flags f c)) = RcvdMsg (self c)" "IfIndex (self (rcvd_tc_flags f c)) = IfIndex (self c)"
  "PimMachineFsm (self (rcvd_tc_flags f c)) = PimMachineFsm (self c)"
  "UpdtInfo (self (rcvd_tc_flags f c)) = UpdtInfo (self c)"
  "MsgPriority (self (rcvd_tc_flags f c)) = MsgPriority (self c)"
  "MsgTimes (self (rcvd_tc_flags f c)) = MsgTimes (self c)"
  by (simp_all add: rcvd_tc_flags_def emit_def Let_def)

lemma SaveMsgRcvInfo_fields [simp]:
  "PrxmMachineFsm (SaveMsgRcvInfo pdu p) = PrxmMachineFsm p" "RcvdMsg (SaveMsgRcvInfo pdu p) = RcvdMsg p"
  "IfIndex (SaveMsgRcvInfo pdu p) = IfIndex p" "PimMachineFsm (SaveMsgRcvInfo pdu p) = PimMachineFsm p"
  "UpdtInfo (SaveMsgRcvInfo pdu p) = UpdtInfo p"
  by (simp_all add: SaveMsgRcvInfo_def split: option.splits)

lemma inform_stp_fields [simp]:
  "brg (inform_stp pdu c) = brg c" "peers (inform_stp pdu c) = peers c" "self (inform_stp pdu c) = self c"
  "panicked (inform_stp pdu c) = panicked c" "rcvd_events (out (inform_stp pdu c)) = rcvd_events (out c)"
  by (simp_all add: inform_stp_def emit_def rcvd_events_def)

lemma rcvd_rst_version_result [simp]:
  "fst (rcvd_rst_version L b pdu c) \<longleftrightarrow>
     ProtocolVersionId b = RSTPProtocolVersion L \<and> BPDUType b = BPDUTypeRSTP L"
  "brg (snd (rcvd_rst_version L b pdu c)) = brg c" "peers (snd (rcvd_rst_version L b pdu c)) = peers c"
  "panicked (snd (rcvd_rst_version L b pdu c)) = panicked c"
  "rcvd_events (out (snd (rcvd_rst_version L b pdu c))) = rcvd_events (out c)"
  "PrxmMachineFsm (self (snd (rcvd_rst_version L b pdu c))) = PrxmMachineFsm (self c)"
  "RcvdMsg (self (snd (rcvd_rst_version L b pdu c))) = RcvdMsg (self c)"
  "IfIndex (self (snd (rcvd_rst_version L b pdu c))) = IfIndex (self c)"
  "PimMachineFsm (self (snd (rcvd_rst_version L b pdu c))) = PimMachineFsm (self c)"
  "UpdtInfo (self (snd (rcvd_rst_version L b pdu c))) = UpdtInfo (self c)"
  "MsgPriority (self (snd (rcvd_rst_version L b pdu c))) = MsgPriority (self c)"
  "MsgTimes (self (snd (rcvd_rst_version L b pdu c))) = MsgTimes (self c)"
  by (simp_all add: rcvd_rst_version_def emit_def Let_def rcvd_events_def)

lemma UpdtBPDUVersion_result [simp]:
  "fst (UpdtBPDUVersion L pdu c) = version_ok L pdu"
  "brg (snd (UpdtBPDUVersion L pdu c)) = brg c" "peers (snd (UpdtBPDUVersion L pdu c)) = peers c"
  "panicked (snd (UpdtBPDUVersion L pdu c)) = panicked c"
  "rcvd_events (out (snd (UpdtBPDUVersion L pdu c))) = rcvd_events (out c)"
  "PrxmMachineFsm (self (snd (UpdtBPDUVersion L pdu c))) = PrxmMachineFsm (self c)"
  "RcvdMsg (self (snd (UpdtBPDUVersion L pdu c))) = RcvdMsg (self c)"
  "IfIndex (self (snd (UpdtBPDUVersion L pdu c))) = IfIndex (self c)"
  "PimMachineFsm (self (snd (UpdtBPDUVersion L pdu c))) = PimMachineFsm (self c)"
  "UpdtInfo (self (snd (UpdtBPDUVersion L pdu c))) = UpdtInfo (self c)"
  "MsgPriority (self (snd (UpdtBPDUVersion L pdu c))) = MsgPriority (self c)"
  "MsgTimes (self (snd (UpdtBPDUVersion L pdu c))) = MsgTimes (self c)"
  by (cases pdu; simp add: UpdtBPDUVersion_def case_prod_beta Let_def version_ok_def emit_def; blast)+

text \<open>The event \<open>NotifyRcvdMsgChanged\<close> sends for a message that has just arrived.\<close>

definition rcvd_msg_event :: "StpPort \<Rightarrow> Pdu \<Rightarrow> StpOut list" where
  "rcvd_msg_event p pdu =
     (if pim_live p \<and> pim_state p = PimStateDisabled then to_pim p PimEventRcvdMsg (Some pdu)
      else if pim_live p \<and> pim_state p = PimStateCurrent \<and> \<not> UpdtInfo p
      then to_pim p PimEventRcvdMsgAndNotUpdtInfo (Some pdu)
      else [])"

lemma rcvd_msg_event_cong:
  "IfIndex p = IfIndex q \<Longrightarrow> PimMachineFsm p = PimMachineFsm q \<Longrightarrow> UpdtInfo p = UpdtInfo q
     \<Longrightarrow> rcvd_msg_event p pdu = rcvd_msg_event q pdu"
  by (simp add: rcvd_msg_event_def to_pim_def)

lemma notify_rcvd_msg_result [simp]:
  "self (notify_rcvd_msg a b d c) = self c" "brg (notify_rcvd_msg a b d c) = brg c"
  "peers (notify_rcvd_msg a b d c) = peers c"
  "panicked (notify_rcvd_msg a b d c) \<longleftrightarrow> panicked c \<or> a \<noteq> b \<and> d = None"
  by (auto simp: notify_rcvd_msg_def NotifyRcvdMsgChanged_def panic_def emit_def split: option.splits)

lemma notify_rcvd_msg_events [simp]:
  "RcvdMsg (self c) = b \<Longrightarrow> rcvd_events (out (notify_rcvd_msg a b (Some pdu) c)) =
     rcvd_events (out c) @ (if \<not> a \<and> b then rcvd_msg_event (self c) pdu else [])"
  by (auto simp: notify_rcvd_msg_def NotifyRcvdMsgChanged_def panic_def emit_def to_pim_def rcvd_msg_event_def
      rcvd_events_def)

lemma PrxmMachineDiscard_result [simp]:
  "fst (PrxmMachineDiscard d c) = PrxmStateDiscard"
  "self (snd (PrxmMachineDiscard d c)) = (self c)\<lparr>RcvdBPDU := False, RcvdRSTP := False, RcvdSTP := False,
     RcvdMsg := False, EdgeDelayWhileTimer := MigrateTimeDefault\<rparr>"
  "brg (snd (PrxmMachineDiscard d c)) = brg c" "peers (snd (PrxmMachineDiscard d c)) = peers c"
  "panicked (snd (PrxmMachineDiscard d c)) \<longleftrightarrow> panicked c \<or> RcvdMsg (self c) \<and> d = None"
  by (auto simp: PrxmMachineDiscard_def Let_def)

lemma PrxmMachineDiscard_events [simp]:
  "rcvd_events (out (snd (PrxmMachineDiscard (Some pdu) c))) = rcvd_events (out c)"
  by (simp add: PrxmMachineDiscard_def Let_def)

lemma PrxmMachineReceive_result [simp]:
  "fst (PrxmMachineReceive L d c) = PrxmStateReceive"
  "brg (snd (PrxmMachineReceive L d c)) = brg c" "peers (snd (PrxmMachineReceive L d c)) = peers c"
  "panicked (snd (PrxmMachineReceive L d c)) \<longleftrightarrow> panicked c \<or> d = None"
  "PrxmMachineFsm (self (snd (PrxmMachineReceive L d c))) = PrxmMachineFsm (self c)"
  by (auto simp: PrxmMachineReceive_def Let_def case_prod_beta panic_def emit_def split: option.splits)

lemma PrxmMachineReceive_frame [simp]:
  "RcvdBPDU (self (snd (PrxmMachineReceive L (Some pdu) c))) = False"
  "RcvdMsg (self (snd (PrxmMachineReceive L (Some pdu) c))) = version_ok L pdu"
  "MsgPriority (self (snd (PrxmMachineReceive L (Some pdu) c))) = MsgPriority (SaveMsgRcvInfo pdu (self c))"
  "MsgTimes (self (snd (PrxmMachineReceive L (Some pdu) c))) = MsgTimes (SaveMsgRcvInfo pdu (self c))"
  by (simp_all add: PrxmMachineReceive_def Let_def case_prod_beta emit_def)

lemma PrxmMachineReceive_events [simp]:
  "rcvd_events (out (snd (PrxmMachineReceive L (Some pdu) c))) =
     rcvd_events (out c) @ (if \<not> RcvdMsg (self c) \<and> version_ok L pdu then rcvd_msg_event (self c) pdu else [])"
  by (simp add: PrxmMachineReceive_def Let_def case_prod_beta emit_def)
    (auto intro!: rcvd_msg_event_cong)

section \<open>Event handling\<close>

lemma PrxmRules_cases:
  "map_of (PrxmRules L d) k = Some f \<Longrightarrow>
     f = PrxmMachineDiscard d \<or> f = PrxmMachineReceive L d \<and>
       (snd k = PrxmEventRcvdBpduAndPortEnabled \<or> snd k = PrxmEventRcvdBpduAndPortEnabledAndNotRcvdMsg)"
  by (drule table_all [where P = "\<lambda>k f. f = PrxmMachineDiscard d \<or> f = PrxmMachineReceive L d \<and>
       (snd k = PrxmEventRcvdBpduAndPortEnabled \<or> snd k = PrxmEventRcvdBpduAndPortEnabledAndNotRcvdMsg)"])
    (simp_all add: PrxmRules_def)

lemma PrxmProcess_refused: "PrxmProcess L d e c = (Some err, c') \<Longrightarrow> c' = c"
  unfolding PrxmProcess_def using prx_slot.error_unchanged by blast

lemma PrxmProcess_fires:
  assumes "mBegin (PrxmMachineFsm (self c))" and "map_of (PrxmRules L d) (prx_state (self c), e) = Some f"
  shows "PrxmProcess L d e c =
    (None, prx_upd (SetState (fst (f (prx_upd (SetEvent e) c)))) (snd (f (prx_upd (SetEvent e) c))))"
  unfolding PrxmProcess_def AddRules_empty
  by (rule prx_slot.fires [of _ _ _ f]) (use assms in \<open>simp_all add: prx_get_def\<close>)

text \<open>After a frame was processed the post processing has nothing to do.\<close>

lemma Prxm_post_idle:
  assumes "\<not> RcvdBPDU (self c)"
  shows "ProcessPost pe PrxmPosts (Suc n) c = Some c"
  using assms by (simp add: PrxmPosts_def PrxmPostStateDiscard_def PrxmPostStateReceive_def Let_def)

lemma prx_upd_fields [simp]:
  "brg (prx_upd g c) = brg c" "peers (prx_upd g c) = peers c" "out (prx_upd g c) = out c"
  "panicked (prx_upd g c) = panicked c" "RcvdBPDU (self (prx_upd g c)) = RcvdBPDU (self c)"
  "RcvdMsg (self (prx_upd g c)) = RcvdMsg (self c)" "PrxmMachineFsm (self (prx_upd g c)) = g (PrxmMachineFsm (self c))"
  "rcvd_msg_event (self (prx_upd g c)) pdu = rcvd_msg_event (self c) pdu"
  "MsgPriority (SaveMsgRcvInfo pdu (self (prx_upd g c))) = MsgPriority (SaveMsgRcvInfo pdu (self c))"
  "MsgPriority (self (prx_upd g c)) = MsgPriority (self c)"
  by (simp_all add: prx_upd_def rcvd_msg_event_def to_pim_def SaveMsgRcvInfo_def split: option.splits)

lemma Prxm_process_frame:
  assumes "mBegin (PrxmMachineFsm (self c))"
    and "prx_state (self c) = PrxmStateDiscard \<or> prx_state (self c) = PrxmStateReceive"
    and "rx_event (self c) = Some e"
  shows "\<exists>c'. ProcessAndPost (PrxmProcess L (Some pdu)) PrxmPosts (Suc n) e c = Some c'
     \<and> panicked c' = panicked c \<and> \<not> RcvdBPDU (self c') \<and> mBegin (PrxmMachineFsm (self c'))
     \<and> prx_state (self c') = (if PortEnabled (self c) then PrxmStateReceive else PrxmStateDiscard)
     \<and> RcvdMsg (self c') = (PortEnabled (self c) \<and> version_ok L pdu)
     \<and> MsgPriority (self c') = (if PortEnabled (self c) then MsgPriority (SaveMsgRcvInfo pdu (self c))
          else MsgPriority (self c))
     \<and> rcvd_events (out c') = rcvd_events (out c) @
          (if PortEnabled (self c) \<and> \<not> RcvdMsg (self c) \<and> version_ok L pdu
           then rcvd_msg_event (self c) pdu else [])"
proof -
  let ?f = "if PortEnabled (self c) then PrxmMachineReceive L (Some pdu) else PrxmMachineDiscard (Some pdu)"
  have "map_of (PrxmRules L (Some pdu)) (prx_state (self c), e) = Some ?f"
    using assms(2,3) by (auto simp: rx_event_def PrxmRules_def split: if_splits)
  note fired = PrxmProcess_fires [OF assms(1) this]
  have "\<not> RcvdBPDU (self (snd (PrxmProcess L (Some pdu) e c)))"
    unfolding fired by simp
  then have "ProcessAndPost (PrxmProcess L (Some pdu)) PrxmPosts (Suc n) e c = Some (snd (PrxmProcess L (Some pdu) e c))"
    by (simp add: ProcessAndPost_def fired Prxm_post_idle del: ProcessPost.simps)
  then show ?thesis
    unfolding fired using assms(1) by simp
qed



text \<open>C15: Discarding while a message is pending crashes the daemon: an event from the
  channel carries no frame, but the deferred notification of the change of
  \<open>RcvdMsg\<close> asserts one.  A port that is disabled between the receipt of a frame and
  its processing reaches this state.\<close>

theorem Prxm_discard_panics:
  assumes "mBegin (PrxmMachineFsm (self c))"
    and "prx_state (self c) = PrxmStateDiscard \<or> prx_state (self c) = PrxmStateReceive"
    and "RcvdMsg (self c)"
  shows "\<exists>c'. PrxmMachineMain L 1 PrxmEventEdgeDelayWhileNotEqualMigrateTimeAndNotPortEnabled c = Some c'
    \<and> panicked c'"
proof -
  let ?e = PrxmEventEdgeDelayWhileNotEqualMigrateTimeAndNotPortEnabled
  have "map_of (PrxmRules L None) (prx_state (self c), ?e) = Some (PrxmMachineDiscard None)"
    using assms(2) by (auto simp: PrxmRules_def)
  note fired = PrxmProcess_fires [OF assms(1) this]
  have "ProcessAndPost (PrxmProcess L None) PrxmPosts 1 ?e c = Some (snd (PrxmProcess L None ?e c))"
    using Prxm_post_idle [of "snd (PrxmProcess L None ?e c)" "PrxmProcess L None" 0]
    by (simp add: ProcessAndPost_def fired del: ProcessPost.simps)
  then show ?thesis
    using assms(2,3) by (auto simp: PrxmMachineMain_def fired)
qed

theorem Prxm_discard_panics_witness:
  "\<exists>c'. PrxmMachineMain ieee_layers 1 PrxmEventEdgeDelayWhileNotEqualMigrateTimeAndNotPortEnabled
      (solo zero_bridge (zero_port\<lparr>RcvdMsg := True,
          PrxmMachineFsm := Start PrxmStateReceive (new_machine PrxmStateNone)\<rparr>)) = Some c' \<and> panicked c'"
  by (rule Prxm_discard_panics) (simp_all add: solo_def)

end
