(* ===== verification/Stp_Pim.thy ===== *)
theory Stp_Pim
  imports Stp_Frames
begin

text \<open>
  The port information machine, \<open>l2/stp/protocol/pimfsm.go\<close> (17.27): it compares
  received priority vectors with the port's own, records the better ones, ages
  them, and asks for a new role selection.  \<open>data\<close> is the received frame, if the
  event carries one.
\<close>

section \<open>Notifications\<close>

definition agreed_changed_events :: "StpPort \<Rightarrow> StpOut list" where
  "agreed_changed_events p =
    (if prt_live p
     then if prt_state p = PrtStateDesignatedPort
          then if \<not> Forward p \<and> \<not> Agreed p \<and> \<not> Proposing p \<and> \<not> OperEdge p \<and> Selected p \<and> \<not> UpdtInfo p
               then to_prt p PrtEventNotForwardAndNotAgreedAndNotProposingAndNotOperEdgeAndSelectedAndNotUpdtInfo
               else if Agreed p \<and> \<not> Synced p \<and> Selected p \<and> \<not> UpdtInfo p
               then to_prt p PrtEventAgreedAndNotSyncedAndSelectedAndNotUpdtInfo
               else if Agreed p \<and> RrWhileTimer p = 0 \<and> \<not> Sync p \<and> \<not> Learn p \<and> Selected p \<and> \<not> UpdtInfo p
               then to_prt p PrtEventAgreedAndRrWhileEqualZeroAndNotSyncAndNotLearnAndSelectedAndNotUpdtInfo
               else if Agreed p \<and> \<not> ReRoot p \<and> \<not> Sync p \<and> \<not> Learn p \<and> Selected p \<and> \<not> UpdtInfo p
               then to_prt p PrtEventAgreedAndNotReRootAndNotSyncAndNotLearnAndSelectedAndNotUpdtInfo
               else if Agreed p \<and> RrWhileTimer p = 0 \<and> \<not> Sync p \<and> Learn p \<and> \<not> Forward p \<and> Selected p \<and> \<not> UpdtInfo p
               then to_prt p PrtEventAgreedAndRrWhileEqualZeroAndNotSyncAndLearnAndNotForwardAndSelectedAndNotUpdtInfo
               else if Agreed p \<and> \<not> ReRoot p \<and> \<not> Sync p \<and> Learn p \<and> \<not> Forward p \<and> Selected p \<and> \<not> UpdtInfo p
               then to_prt p PrtEventAgreedAndNotReRootAndNotSyncAndLearnAndNotForwardAndSelectedAndNotUpdtInfo
               else []
          else []
     else [])"

definition agree_changed_events :: "Ctx \<Rightarrow> StpPort \<Rightarrow> StpOut list" where
  "agree_changed_events c p =
    (if prt_live p
     then if prt_state p = PrtStateRootPort
          then if Proposed p \<and> \<not> Agree p \<and> Selected p \<and> \<not> UpdtInfo p
               then to_prt p PrtEventProposedAndNotAgreeAndSelectedAndNotUpdtInfo
               else if AllSynced c \<and> \<not> Agree p \<and> Selected p \<and> \<not> UpdtInfo p
               then to_prt p PrtEventAllSyncedAndNotAgreeAndSelectedAndNotUpdtInfo
               else if Proposed p \<and> Agree p \<and> Selected p \<and> \<not> UpdtInfo p
               then to_prt p PrtEventProposedAndAgreeAndSelectedAndNotUpdtInfo
               else []
          else if prt_state p = PrtStateDesignatedPort
          then if \<not> Forward p \<and> \<not> Agreed p \<and> \<not> Proposing p \<and> \<not> OperEdge p \<and> Selected p \<and> \<not> UpdtInfo p
               then to_prt p PrtEventNotForwardAndNotAgreedAndNotProposingAndNotOperEdgeAndSelectedAndNotUpdtInfo
               else if Agreed p \<and> \<not> Synced p \<and> Selected p \<and> \<not> UpdtInfo p
               then to_prt p PrtEventAgreedAndNotSyncedAndSelectedAndNotUpdtInfo
               else if Agreed p \<and> RrWhileTimer p = 0 \<and> \<not> Sync p \<and> \<not> Learn p \<and> Selected p \<and> \<not> UpdtInfo p
               then to_prt p PrtEventAgreedAndRrWhileEqualZeroAndNotSyncAndNotLearnAndSelectedAndNotUpdtInfo
               else if Agreed p \<and> \<not> ReRoot p \<and> \<not> Sync p \<and> \<not> Learn p \<and> Selected p \<and> \<not> UpdtInfo p
               then to_prt p PrtEventAgreedAndNotReRootAndNotSyncAndNotLearnAndSelectedAndNotUpdtInfo
               else if Agreed p \<and> RrWhileTimer p = 0 \<and> \<not> Sync p \<and> Learn p \<and> \<not> Forward p \<and> Selected p \<and> \<not> UpdtInfo p
               then to_prt p PrtEventAgreedAndRrWhileEqualZeroAndNotSyncAndLearnAndNotForwardAndSelectedAndNotUpdtInfo
               else if Agreed p \<and> \<not> ReRoot p \<and> \<not> Sync p \<and> \<not> Learn p \<and> Selected p \<and> \<not> UpdtInfo p
               then to_prt p PrtEventAgreedAndNotReRootAndNotSyncAndNotLearnAndSelectedAndNotUpdtInfo
               else []
          else if prt_state p = PrtStateAlternatePort
          then if Proposed p \<and> \<not> Agree p \<and> Selected p \<and> \<not> UpdtInfo p
               then to_prt p PrtEventProposedAndNotAgreeAndSelectedAndNotUpdtInfo
               else if AllSynced c \<and> \<not> Agree p \<and> Selected p \<and> \<not> UpdtInfo p
               then to_prt p PrtEventAllSyncedAndNotAgreeAndSelectedAndNotUpdtInfo
               else if Proposed p \<and> Agree p \<and> Proposed p \<and> \<not> UpdtInfo p
               then to_prt p PrtEventProposedAndAgreeAndSelectedAndNotUpdtInfo
               else []
          else []
     else [])"

definition proposed_changed_events :: "StpPort \<Rightarrow> StpOut list" where
  "proposed_changed_events p =
    (if prt_live p
     then if prt_state p = PrtStateRootPort
          then if Proposed p \<and> Agree p \<and> Selected p \<and> \<not> UpdtInfo p
               then to_prt p PrtEventProposedAndAgreeAndSelectedAndNotUpdtInfo
               else if Proposed p \<and> \<not> Agree p \<and> Selected p \<and> \<not> UpdtInfo p
               then to_prt p PrtEventProposedAndNotAgreeAndSelectedAndNotUpdtInfo
               else []
          else if prt_state p = PrtStateAlternatePort
          then if Proposed p \<and> \<not> Agree p \<and> Selected p \<and> \<not> UpdtInfo p
               then to_prt p PrtEventProposedAndNotAgreeAndSelectedAndNotUpdtInfo
               else if Proposed p \<and> Agree p \<and> Selected p \<and> \<not> UpdtInfo p
               then to_prt p PrtEventProposedAndAgreeAndSelectedAndNotUpdtInfo
               else []
          else []
     else [])"

definition newinfo_changed_events :: "Ctx \<Rightarrow> StpPort \<Rightarrow> StpOut list" where
  "newinfo_changed_events c p =
    (if ptx_live p
     then if ptx_state p = PtxmStateIdle
          then if \<not> SendRSTP p \<and> NewInfo p \<and> Role p = PortRoleDesignatedPort \<and> TxCount p < TxHoldCount (brg c) \<and> HelloWhenTimer p \<noteq> 0 \<and> Selected p \<and> \<not> UpdtInfo p
               then to_ptx p PtxmEventNotSendRSTPAndNewInfoAndDesignatedPortAndTxCountLessThanTxHoldCountAndHellWhenNotEqualZeroAndSelectedAndNotUpdtInfo
               else if \<not> SendRSTP p \<and> NewInfo p \<and> Role p = PortRoleRootPort \<and> HelloWhenTimer p \<noteq> 0 \<and> Selected p \<and> \<not> UpdtInfo p
               then to_ptx p PtxmEventNotSendRSTPAndNewInfoAndRootPortAndTxCountLessThanTxHoldCountAndHellWhenNotEqualZeroAndSelectedAndNotUpdtInfo
               else []
          else []
     else [])"

definition disputed_changed_events :: "StpPort \<Rightarrow> StpOut list" where
  "disputed_changed_events p =
    (if prt_live p
     then if prt_state p = PrtStateDesignatedPort
          then if Disputed p \<and> \<not> OperEdge p \<and> Learn p \<and> Selected p \<and> \<not> UpdtInfo p
               then to_prt p PrtEventDisputedAndNotOperEdgeAndLearnAndSelectedAndNotUpdtInfo
               else if Disputed p \<and> \<not> OperEdge p \<and> Forward p \<and> Selected p \<and> \<not> UpdtInfo p
               then to_prt p PrtEventDisputedAndNotOperEdgeAndForwardAndSelectedAndNotUpdtInfo
               else []
          else []
     else [])"

definition PimNotifyAgreedChanged :: "bool \<Rightarrow> bool \<Rightarrow> Ctx \<Rightarrow> Ctx" where
  "PimNotifyAgreedChanged oldagreed newagreed c =
     emit (if oldagreed \<noteq> newagreed then agreed_changed_events (self c) else []) c"

definition PimNotifyAgreeChanged :: "bool \<Rightarrow> bool \<Rightarrow> Ctx \<Rightarrow> Ctx" where
  "PimNotifyAgreeChanged oldagree newagree c =
     emit (if oldagree \<noteq> newagree then agree_changed_events c (self c) else []) c"

definition PimNotifyProposedChanged :: "bool \<Rightarrow> bool \<Rightarrow> Ctx \<Rightarrow> Ctx" where
  "PimNotifyProposedChanged oldproposed newproposed c =
     emit (if oldproposed \<noteq> newproposed then proposed_changed_events (self c) else []) c"

definition PimNotifyReselectChanged :: "bool \<Rightarrow> bool \<Rightarrow> Ctx \<Rightarrow> Ctx" where
  "PimNotifyReselectChanged oldreselect newreselect c =
     emit (if newreselect \<and> mlive (PrsMachineFsm (brg c)) \<and> cur_s (PrsMachineFsm (brg c)) = PrsStateRoleSelection
           then [Send PrsEvents 0 PrsEventReselect None] else []) c"

definition PimNotifyNewInfoChange :: "bool \<Rightarrow> bool \<Rightarrow> Ctx \<Rightarrow> Ctx" where
  "PimNotifyNewInfoChange oldnewinfo newnewinfo c =
     emit (if oldnewinfo \<noteq> newnewinfo then newinfo_changed_events c (self c) else []) c"

definition PimNotifyDisputedChanged :: "bool \<Rightarrow> bool \<Rightarrow> Ctx \<Rightarrow> Ctx" where
  "PimNotifyDisputedChanged olddisputed newdisputed c =
     emit (if olddisputed \<noteq> newdisputed then disputed_changed_events (self c) else []) c"

definition notify_selected :: "bool \<Rightarrow> bool \<Rightarrow> Ctx \<Rightarrow> Ctx" where
  "notify_selected oldselected newselected c =
     emit (NotifySelectedChanged c PimMachineModuleStr (self c) oldselected newselected) c"

definition notify_synced :: "bool \<Rightarrow> bool \<Rightarrow> Ctx \<Rightarrow> Ctx" where
  "notify_synced oldsynced newsynced c =
     emit (NotifySyncedChanged c PimMachineModuleStr (self c) oldsynced newsynced) c"

text \<open>\<open>NotifyRcvdMsgChanged\<close> ignores changes made by this machine.\<close>

definition notify_rcvd :: "bool \<Rightarrow> bool \<Rightarrow> Pdu option \<Rightarrow> Ctx \<Rightarrow> Ctx" where
  "notify_rcvd oldrcvdmsg newrcvdmsg data c =
     (case NotifyRcvdMsgChanged PimMachineModuleStr (self c) oldrcvdmsg newrcvdmsg data of
        (True, _) \<Rightarrow> panic c
      | (False, os) \<Rightarrow> emit os c)"

section \<open>Comparing and recording information\<close>

definition rcvInfo :: "Layers \<Rightarrow> Pdu option \<Rightarrow> Bridge \<Rightarrow> StpPort \<Rightarrow> PortDesignatedRcvInfo" where
  "rcvInfo L data b p =
     (let msgRole = StpGetBpduRole L (getRcvdMsgFlags data);
          msgpriority = getRcvdMsgPriority data;
          msgtimes = getRcvdMsgTimes data in
      if isTcnBPDU data then OtherInfo
      else
        let msgRole = (case data of Some (STP _) \<Rightarrow> PortRoleDesignatedPort | _ \<Rightarrow> msgRole) in
        if CompareBridgeAddr (GetBridgeAddrFromBridgeId (RootBridgeId msgpriority))
             (GetBridgeAddrFromBridgeId (BridgeIdentifier b)) = 0
           \<and> GetBridgePriorityFromBridgeId (RootBridgeId msgpriority)
               \<noteq> GetBridgePriorityFromBridgeId (BridgeIdentifier b) then OtherInfo
        else if msgRole = PortRoleDesignatedPort \<and> (msgpriority = PortPriority p \<and> msgtimes \<noteq> PortTimes p)
        then SuperiorDesignatedInfo
        else if msgRole = PortRoleDesignatedPort \<and> msgpriority = PortPriority p \<and> msgtimes = PortTimes p
        then RepeatedDesignatedInfo
        else if msgRole = PortRoleDesignatedPort
             \<and> IsMsgPriorityVectorWorseThanPortPriorityVector msgpriority (PortPriority p)
        then InferiorDesignatedInfo
        else if (msgRole = PortRoleRootPort \<or> msgRole = PortRoleAlternatePort \<or> msgRole = PortRoleBackupPort)
             \<and> IsMsgPriorityVectorTheSameOrWorseThanPortPriorityVector False msgpriority (PortPriority p)
        then InferiorRootAlternateInfo
        else if msgRole = PortRoleDesignatedPort
             \<and> IsMsgPriorityVectorSuperiorThanPortPriorityVector msgpriority (PortPriority p)
        then SuperiorDesignatedInfo
        else OtherInfo)"

definition recordProposal :: "Layers \<Rightarrow> uint8 \<Rightarrow> Ctx \<Rightarrow> Ctx" where
  "recordProposal L rcvdMsgFlags c =
     (if StpGetBpduRole L rcvdMsgFlags = PortRoleDesignatedPort \<and> StpGetBpduProposal rcvdMsgFlags then
        PimNotifyProposedChanged (Proposed (self c)) True (c\<lparr>self := (self c)\<lparr>Proposed := True\<rparr>\<rparr>)
      else c)"

definition setTcFlags :: "uint8 \<Rightarrow> Pdu option \<Rightarrow> StpPort \<Rightarrow> StpPort" where
  "setTcFlags rcvdMsgFlags data p =
     p\<lparr>RcvdTcAck := StpGetBpduTopoChangeAck rcvdMsgFlags, RcvdTc := StpGetBpduTopoChange rcvdMsgFlags,
       RcvdTcn := isTcnBPDU data\<rparr>"

definition betterorsameinfo :: "PortInfoState \<Rightarrow> Bridge \<Rightarrow> StpPort \<Rightarrow> bool" where
  "betterorsameinfo newInfoIs b p =
     (if newInfoIs = PortInfoStateReceived \<and> InfoIs p = PortInfoStateReceived
         \<and> IsMsgPriorityVectorSuperiorOrSameThanPortPriorityVector (MsgPriority p) (PortPriority p) then True
      else if newInfoIs = PortInfoStateMine \<and> InfoIs p = PortInfoStateMine
         \<and> IsMsgPriorityVectorSuperiorOrSameThanPortPriorityVector (BridgePriority b) (PortPriority p) then True
      else False)"

definition recordPriority :: "PriorityVector \<Rightarrow> Bridge \<Rightarrow> StpPort \<Rightarrow> bool \<times> StpPort" where
  "recordPriority rcvdMsgPriority b p =
     (let p = p\<lparr>MsgPriority := rcvdMsgPriority\<rparr>;
          betterorsame = betterorsameinfo (InfoIs p) b p
      in (betterorsame, p\<lparr>PortPriority := rcvdMsgPriority\<rparr>))"

abbreviation (input) BridgeHelloTimeMin :: uint16 where "BridgeHelloTimeMin \<equiv> 1"

definition recordTimes :: "Times \<Rightarrow> StpPort \<Rightarrow> StpPort" where
  "recordTimes rcvdMsgTimes p =
     p\<lparr>PortTimes := (PortTimes p)\<lparr>ForwardingDelay := ForwardingDelay rcvdMsgTimes,
         HelloTime := (if HelloTime rcvdMsgTimes > BridgeHelloTimeMin then HelloTime rcvdMsgTimes
                       else BridgeHelloTimeMin),
         MaxAge := MaxAge rcvdMsgTimes, MessageAge := MessageAge rcvdMsgTimes\<rparr>\<rparr>"

definition updtRcvdInfoWhile :: "StpPort \<Rightarrow> StpPort" where
  "updtRcvdInfoWhile p =
     p\<lparr>RcvdInfoWhiletimer :=
         (if MessageAge (PortTimes p) + 1 \<le> MaxAge (PortTimes p) then 3 * i32 (HelloTime (PortTimes p)) else 0)\<rparr>"

text \<open>\<open>recordDispute\<close> calls \<open>NotifyDisputedChanged\<close> before it sets \<open>Disputed\<close>.\<close>

definition recordDispute :: "Layers \<Rightarrow> uint8 \<Rightarrow> Ctx \<Rightarrow> Ctx" where
  "recordDispute L rcvdMsgFlags c =
     (let dispute = (StpGetBpduRole L rcvdMsgFlags = PortRoleDesignatedPort
            \<and> (StpGetBpduLearning rcvdMsgFlags \<or> StpGetBpduForwarding rcvdMsgFlags));
          agreed1 = Agreed (self c);
          c = (if dispute then
                 let c = PimNotifyDisputedChanged (Disputed (self c)) True c
                 in c\<lparr>self := (self c)\<lparr>Disputed := True, Agreed := False\<rparr>\<rparr>
               else c);
          agreed2 = Agreed (self c);
          oldproposing = Proposing (self c);
          c = (if StpGetBpduLearning rcvdMsgFlags then
                 let c = c\<lparr>self := (self c)\<lparr>Agreed := True, Proposing := False\<rparr>\<rparr>;
                     c = emit (NotifyProposingChanged PimMachineModuleStr (self c) oldproposing False) c
                 in PimNotifyAgreedChanged agreed2 True c
               else c)
      in if dispute then PimNotifyAgreedChanged agreed1 False c else c)"

definition recordAgreement :: "uint8 \<Rightarrow> Ctx \<Rightarrow> Ctx" where
  "recordAgreement rcvdMsgFlags c =
     (let p = self c in
      if RstpVersion p \<and> OperPointToPointMAC p \<and> StpGetBpduAgreement rcvdMsgFlags then
        PimNotifyAgreedChanged (Agreed p) True (c\<lparr>self := p\<lparr>Agreed := True, Proposing := False\<rparr>\<rparr>)
      else PimNotifyAgreedChanged (Agreed p) False (c\<lparr>self := p\<lparr>Agreed := False\<rparr>\<rparr>))"

section \<open>Machine\<close>

definition PimMachineDisabled :: "Ctx Callback" where
  "PimMachineDisabled c =
     (let p = self c;
          c = c\<lparr>self := p\<lparr>RcvdMsg := False, Proposing := False, Proposed := False, Agree := False,
                Agreed := False, RcvdInfoWhiletimer := 0, InfoIs := PortInfoStateDisabled,
                Selected := False, Reselect := True\<rparr>\<rparr>;
          c = PimNotifyReselectChanged (Reselect p) True c;
          c = notify_selected (Selected p) False c;
          c = PimNotifyAgreedChanged (Agreed p) False c;
          c = PimNotifyAgreeChanged (Agree p) False c;
          c = PimNotifyProposedChanged (Proposed p) False c
      in (PimStateDisabled, c))"

definition PimMachineAged :: "Ctx Callback" where
  "PimMachineAged c =
     (let p = self c;
          c = c\<lparr>self := p\<lparr>InfoIs := PortInfoStateAged, Selected := False, Reselect := True\<rparr>\<rparr>;
          c = PimNotifyReselectChanged (Reselect p) True c;
          c = notify_selected (Selected p) False c
      in (PimStateAged, c))"

definition PimMachineUpdate :: "Ctx Callback" where
  "PimMachineUpdate c =
     (let b = brg c; p = self c;
          p1 = p\<lparr>Proposing := False, Proposed := False\<rparr>;
          agreed = (Agreed p1 \<and> betterorsameinfo (InfoIs p1) b p1);
          p2 = p1\<lparr>Agreed := agreed\<rparr>;
          synced = (Synced p2 \<and> Agreed p2);
          p3 = p2\<lparr>Synced := synced\<rparr>;
          p4 = (if RootPortId b = 0
                then p3\<lparr>PortPriority := (PortPriority p3)\<lparr>RootBridgeId := BridgeIdentifier b, RootPathCost := 0\<rparr>\<rparr>
                else p3\<lparr>PortPriority := (PortPriority p3)\<lparr>RootBridgeId := RootBridgeId (BridgePriority b),
                       RootPathCost := RootPathCost (BridgePriority b)\<rparr>\<rparr>);
          p5 = p4\<lparr>PortPriority := (PortPriority p4)\<lparr>DesignatedBridgeId := BridgeIdentifier b,
                    DesignatedPortId := push_bit 8 (Priority p4) OR PortId p4\<rparr>,
                  PortTimes := BridgeTimes b, UpdtInfo := False, InfoIs := PortInfoStateMine, NewInfo := True\<rparr>;
          c = c\<lparr>self := p5\<rparr>;
          c = PimNotifyNewInfoChange (NewInfo p) True c;
          c = notify_synced (Synced p) synced c;
          c = PimNotifyAgreedChanged (Agreed p) agreed c;
          c = PimNotifyProposedChanged (Proposed p) False c
      in (PimStateUpdate, c))"

definition PimMachineCurrent :: "Ctx Callback" where
  "PimMachineCurrent c = (PimStateCurrent, c)"

definition PimMachineReceive :: "Layers \<Rightarrow> Pdu option \<Rightarrow> Ctx Callback" where
  "PimMachineReceive L data c =
     (let p = (self c)\<lparr>RcvdInfo := rcvInfo L data (brg c) (self c)\<rparr>;
          p = (if BridgeAssurance p
               then p\<lparr>BAWhileTimer := i32 (HelloTime (RootTimes (brg c)) * 3), BridgeAssuranceInconsistant := False\<rparr>
               else p)
      in (PimStateReceive, c\<lparr>self := p\<rparr>))"

definition PimMachineSuperiorDesignated :: "Layers \<Rightarrow> Pdu option \<Rightarrow> Ctx Callback" where
  "PimMachineSuperiorDesignated L data c =
     (let oldagreed = Agreed (self c);
          c = c\<lparr>self := (self c)\<lparr>Agreed := False, Proposing := False\<rparr>\<rparr>;
          flags = getRcvdMsgFlags data;
          c = recordProposal L flags c;
          c = c\<lparr>self := setTcFlags flags data (self c)\<rparr>;
          (betterorsame, p) = recordPriority (getRcvdMsgPriority data) (brg c) (self c);
          p = recordTimes (getRcvdMsgTimes data) p;
          oldagree = Agree p;
          agree = (Agree p \<and> betterorsame);
          p = updtRcvdInfoWhile (p\<lparr>Agree := agree\<rparr>);
          oldselected = Selected p; oldrcvdmsg = RcvdMsg p; oldreselect = Reselect p;
          c = c\<lparr>self := p\<lparr>InfoIs := PortInfoStateReceived, Selected := False, RcvdMsg := False, Reselect := True\<rparr>\<rparr>;
          c = PimNotifyReselectChanged oldreselect True c;
          c = notify_rcvd oldrcvdmsg False data c;
          c = notify_selected oldselected False c;
          c = PimNotifyAgreeChanged oldagree agree c;
          c = PimNotifyAgreedChanged oldagreed False c
      in (PimStateSuperiorDesignated, c))"

definition clear_rcvd_msg :: "Pdu option \<Rightarrow> Ctx \<Rightarrow> Ctx" where
  "clear_rcvd_msg data c =
     notify_rcvd (RcvdMsg (self c)) False data (c\<lparr>self := (self c)\<lparr>RcvdMsg := False\<rparr>\<rparr>)"

definition PimMachineRepeatedDesignated :: "Layers \<Rightarrow> Pdu option \<Rightarrow> Ctx Callback" where
  "PimMachineRepeatedDesignated L data c =
     (let flags = getRcvdMsgFlags data;
          c = recordProposal L flags c;
          c = c\<lparr>self := updtRcvdInfoWhile (setTcFlags flags data (self c))\<rparr>
      in (PimStateRepeatedDesignated, clear_rcvd_msg data c))"

definition PimMachineInferiorDesignated :: "Layers \<Rightarrow> Pdu option \<Rightarrow> Ctx Callback" where
  "PimMachineInferiorDesignated L data c =
     (PimStateInferiorDesignated, clear_rcvd_msg data (recordDispute L (getRcvdMsgFlags data) c))"

definition PimMachineNotDesignated :: "Layers \<Rightarrow> Pdu option \<Rightarrow> Ctx Callback" where
  "PimMachineNotDesignated L data c =
     (let flags = getRcvdMsgFlags data;
          c = recordAgreement flags c;
          c = c\<lparr>self := setTcFlags flags data (self c)\<rparr>
      in (PimStateNotDesignated, clear_rcvd_msg data c))"

definition PimMachineOther :: "Pdu option \<Rightarrow> Ctx Callback" where
  "PimMachineOther data c = (PimStateOther, clear_rcvd_msg data c)"

definition PimRules :: "Layers \<Rightarrow> Pdu option \<Rightarrow> ((State \<times> Event) \<times> Ctx Callback) list" where
  "PimRules L data =
     [ ((PimStateNone, PimEventBegin), PimMachineDisabled),
       ((PimStateDisabled, PimEventBegin), PimMachineDisabled),
       ((PimStateAged, PimEventBegin), PimMachineDisabled),
       ((PimStateUpdate, PimEventBegin), PimMachineDisabled),
       ((PimStateSuperiorDesignated, PimEventBegin), PimMachineDisabled),
       ((PimStateRepeatedDesignated, PimEventBegin), PimMachineDisabled),
       ((PimStateInferiorDesignated, PimEventBegin), PimMachineDisabled),
       ((PimStateNotDesignated, PimEventBegin), PimMachineDisabled),
       ((PimStateOther, PimEventBegin), PimMachineDisabled),
       ((PimStateCurrent, PimEventBegin), PimMachineDisabled),
       ((PimStateReceive, PimEventBegin), PimMachineDisabled),
       ((PimStateDisabled, PimEventRcvdMsg), PimMachineDisabled),
       ((PimStateDisabled, PimEventNotPortEnabledInfoIsNotEqualDisabled), PimMachineDisabled),
       ((PimStateAged, PimEventNotPortEnabledInfoIsNotEqualDisabled), PimMachineDisabled),
       ((PimStateUpdate, PimEventNotPortEnabledInfoIsNotEqualDisabled), PimMachineDisabled),
       ((PimStateSuperiorDesignated, PimEventNotPortEnabledInfoIsNotEqualDisabled), PimMachineDisabled),
       ((PimStateRepeatedDesignated, PimEventNotPortEnabledInfoIsNotEqualDisabled), PimMachineDisabled),
       ((PimStateInferiorDesignated, PimEventNotPortEnabledInfoIsNotEqualDisabled), PimMachineDisabled),
       ((PimStateNotDesignated, PimEventNotPortEnabledInfoIsNotEqualDisabled), PimMachineDisabled),
       ((PimStateOther, PimEventNotPortEnabledInfoIsNotEqualDisabled), PimMachineDisabled),
       ((PimStateCurrent, PimEventNotPortEnabledInfoIsNotEqualDisabled), PimMachineDisabled),
       ((PimStateReceive, PimEventNotPortEnabledInfoIsNotEqualDisabled), PimMachineDisabled),
       ((PimStateDisabled, PimEventPortEnabled), PimMachineAged),
       ((PimStateAged, PimEventSelectedAndUpdtInfo), PimMachineUpdate),
       ((PimStateCurrent, PimEventSelectedAndUpdtInfo), PimMachineUpdate),
       ((PimStateUpdate, PimEventUnconditionalFallThrough), PimMachineCurrent),
       ((PimStateSuperiorDesignated, PimEventUnconditionalFallThrough), PimMachineCurrent),
       ((PimStateRepeatedDesignated, PimEventUnconditionalFallThrough), PimMachineCurrent),
       ((PimStateInferiorDesignated, PimEventUnconditionalFallThrough), PimMachineCurrent),
       ((PimStateNotDesignated, PimEventUnconditionalFallThrough), PimMachineCurrent),
       ((PimStateOther, PimEventUnconditionalFallThrough), PimMachineCurrent),
       ((PimStateCurrent, PimEventInflsEqualReceivedAndRcvdInfoWhileEqualZeroAndNotUpdtInfoAndNotRcvdMsg), PimMachineAged),
       ((PimStateCurrent, PimEventRcvdMsgAndNotUpdtInfo), PimMachineReceive L data),
       ((PimStateReceive, PimEventRcvdInfoEqualSuperiorDesignatedInfo), PimMachineSuperiorDesignated L data),
       ((PimStateReceive, PimEventRcvdInfoEqualRepeatedDesignatedInfo), PimMachineRepeatedDesignated L data),
       ((PimStateReceive, PimEventRcvdInfoEqualInferiorDesignatedInfo), PimMachineInferiorDesignated L data),
       ((PimStateReceive, PimEventRcvdInfoEqualInferiorRootAlternateInfo), PimMachineNotDesignated L data),
       ((PimStateReceive, PimEventRcvdInfoEqualOtherInfo), PimMachineOther data) ]"

definition PimProcess :: "Layers \<Rightarrow> Pdu option \<Rightarrow> Ctx Process" where
  "PimProcess L data = ProcessEvent pim_get pim_upd (AddRules (PimRules L data) Map.empty)"

definition PimPostStateDisabled :: "Ctx Post" where
  "PimPostStateDisabled c =
    (let p = self c in
     if pim_state p = PimStateDisabled
     then if PortEnabled p
          then Some PimEventPortEnabled
          else if RcvdMsg p
          then Some PimEventRcvdMsg
          else None
     else None)"

definition PimPostStateAged :: "Ctx Post" where
  "PimPostStateAged c =
    (let p = self c in
     if pim_state p = PimStateAged
     then if Selected p \<and> UpdtInfo p
          then Some PimEventSelectedAndUpdtInfo
          else None
     else None)"

definition PimPostStateUpdate :: "Ctx Post" where
  "PimPostStateUpdate c =
    (let p = self c in
     if pim_state p = PimStateUpdate
     then Some PimEventUnconditionalFallThrough
     else None)"

definition PimPostStateSuperiorDesignated :: "Ctx Post" where
  "PimPostStateSuperiorDesignated c =
    (let p = self c in
     if pim_state p = PimStateSuperiorDesignated
     then Some PimEventUnconditionalFallThrough
     else None)"

definition PimPostStateRepeatedDesignated :: "Ctx Post" where
  "PimPostStateRepeatedDesignated c =
    (let p = self c in
     if pim_state p = PimStateRepeatedDesignated
     then Some PimEventUnconditionalFallThrough
     else None)"

definition PimPostStateInferiorDesignated :: "Ctx Post" where
  "PimPostStateInferiorDesignated c =
    (let p = self c in
     if pim_state p = PimStateInferiorDesignated
     then Some PimEventUnconditionalFallThrough
     else None)"

definition PimPostStateNotDesignated :: "Ctx Post" where
  "PimPostStateNotDesignated c =
    (let p = self c in
     if pim_state p = PimStateNotDesignated
     then Some PimEventUnconditionalFallThrough
     else None)"

definition PimPostStateOther :: "Ctx Post" where
  "PimPostStateOther c =
    (let p = self c in
     if pim_state p = PimStateOther
     then Some PimEventUnconditionalFallThrough
     else None)"

definition PimPostStateCurrent :: "Ctx Post" where
  "PimPostStateCurrent c =
    (let p = self c in
     if pim_state p = PimStateCurrent
     then if Selected p \<and> UpdtInfo p
          then Some PimEventSelectedAndUpdtInfo
          else if InfoIs p = PortInfoStateReceived \<and> RcvdInfoWhiletimer p = 0 \<and> \<not> UpdtInfo p \<and> \<not> RcvdMsg p
          then Some PimEventInflsEqualReceivedAndRcvdInfoWhileEqualZeroAndNotUpdtInfoAndNotRcvdMsg
          else if RcvdMsg p \<and> \<not> UpdtInfo p
          then Some PimEventRcvdMsgAndNotUpdtInfo
          else None
     else None)"

definition PimPostStateReceive :: "Ctx Post" where
  "PimPostStateReceive c =
    (let p = self c in
     if pim_state p = PimStateReceive
     then if RcvdInfo p = SuperiorDesignatedInfo
          then Some PimEventRcvdInfoEqualSuperiorDesignatedInfo
          else if RcvdInfo p = RepeatedDesignatedInfo
          then Some PimEventRcvdInfoEqualRepeatedDesignatedInfo
          else if RcvdInfo p = InferiorDesignatedInfo
          then Some PimEventRcvdInfoEqualInferiorDesignatedInfo
          else if RcvdInfo p = InferiorRootAlternateInfo
          then Some PimEventRcvdInfoEqualInferiorRootAlternateInfo
          else if RcvdInfo p = OtherInfo
          then Some PimEventRcvdInfoEqualOtherInfo
          else None
     else None)"

definition PimPosts :: "Ctx Post list" where
  "PimPosts = [PimPostStateDisabled, PimPostStateAged, PimPostStateUpdate,
     PimPostStateSuperiorDesignated, PimPostStateRepeatedDesignated,
     PimPostStateInferiorDesignated, PimPostStateNotDesignated, PimPostStateOther,
     PimPostStateCurrent, PimPostStateReceive]"

definition PimMachineMain :: "Layers \<Rightarrow> nat \<Rightarrow> Event \<Rightarrow> Pdu option \<Rightarrow> Ctx \<Rightarrow> Ctx option" where
  "PimMachineMain L n e data c =
     (if pim_state (self c) = PimStateNone \<and> e \<noteq> PimEventBegin
      then Some (emit (to_pim (self c) e data) c)
      else ProcessAndPost (PimProcess L data) PimPosts n e c)"

section \<open>Results of the callbacks\<close>

lemma PimNotify_result [simp]:
  "self (PimNotifyAgreedChanged a b c) = self c" "brg (PimNotifyAgreedChanged a b c) = brg c"
  "peers (PimNotifyAgreedChanged a b c) = peers c" "panicked (PimNotifyAgreedChanged a b c) = panicked c"
  "self (PimNotifyAgreeChanged a b c) = self c" "brg (PimNotifyAgreeChanged a b c) = brg c"
  "peers (PimNotifyAgreeChanged a b c) = peers c" "panicked (PimNotifyAgreeChanged a b c) = panicked c"
  "self (PimNotifyProposedChanged a b c) = self c" "brg (PimNotifyProposedChanged a b c) = brg c"
  "peers (PimNotifyProposedChanged a b c) = peers c" "panicked (PimNotifyProposedChanged a b c) = panicked c"
  "self (PimNotifyReselectChanged a b c) = self c" "brg (PimNotifyReselectChanged a b c) = brg c"
  "peers (PimNotifyReselectChanged a b c) = peers c" "panicked (PimNotifyReselectChanged a b c) = panicked c"
  "self (PimNotifyNewInfoChange a b c) = self c" "brg (PimNotifyNewInfoChange a b c) = brg c"
  "peers (PimNotifyNewInfoChange a b c) = peers c" "panicked (PimNotifyNewInfoChange a b c) = panicked c"
  "self (PimNotifyDisputedChanged a b c) = self c" "brg (PimNotifyDisputedChanged a b c) = brg c"
  "peers (PimNotifyDisputedChanged a b c) = peers c" "panicked (PimNotifyDisputedChanged a b c) = panicked c"
  "self (notify_selected a b c) = self c" "brg (notify_selected a b c) = brg c"
  "peers (notify_selected a b c) = peers c" "panicked (notify_selected a b c) = panicked c"
  "self (notify_synced a b c) = self c" "brg (notify_synced a b c) = brg c"
  "peers (notify_synced a b c) = peers c" "panicked (notify_synced a b c) = panicked c"
  by (simp_all add: PimNotifyAgreedChanged_def PimNotifyAgreeChanged_def PimNotifyProposedChanged_def
      PimNotifyReselectChanged_def PimNotifyNewInfoChange_def PimNotifyDisputedChanged_def
      notify_selected_def notify_synced_def emit_def)

lemma notify_rcvd_id [simp]: "notify_rcvd a b d c = c"
  by (simp add: notify_rcvd_def NotifyRcvdMsgChanged_def emit_def)

lemma clear_rcvd_msg_result [simp]:
  "clear_rcvd_msg d c = c\<lparr>self := (self c)\<lparr>RcvdMsg := False\<rparr>\<rparr>"
  by (simp add: clear_rcvd_msg_def)

lemma recordProposal_result [simp]:
  "self (recordProposal L f c) =
     (if StpGetBpduRole L f = PortRoleDesignatedPort \<and> StpGetBpduProposal f
      then (self c)\<lparr>Proposed := True\<rparr> else self c)"
  "brg (recordProposal L f c) = brg c" "peers (recordProposal L f c) = peers c"
  "panicked (recordProposal L f c) = panicked c"
  by (simp_all add: recordProposal_def)

definition disputed_port :: "Layers \<Rightarrow> uint8 \<Rightarrow> StpPort \<Rightarrow> StpPort" where
  "disputed_port L f p =
     (let p = (if StpGetBpduRole L f = PortRoleDesignatedPort \<and> (StpGetBpduLearning f \<or> StpGetBpduForwarding f)
               then p\<lparr>Disputed := True, Agreed := False\<rparr> else p)
      in if StpGetBpduLearning f then p\<lparr>Agreed := True, Proposing := False\<rparr> else p)"

lemma recordDispute_result [simp]:
  "self (recordDispute L f c) = disputed_port L f (self c)"
  "brg (recordDispute L f c) = brg c" "peers (recordDispute L f c) = peers c"
  "panicked (recordDispute L f c) = panicked c"
  by (simp_all add: recordDispute_def disputed_port_def Let_def emit_def)

definition agreed_port :: "uint8 \<Rightarrow> StpPort \<Rightarrow> StpPort" where
  "agreed_port f p =
     (if RstpVersion p \<and> OperPointToPointMAC p \<and> StpGetBpduAgreement f
      then p\<lparr>Agreed := True, Proposing := False\<rparr> else p\<lparr>Agreed := False\<rparr>)"

lemma recordAgreement_result [simp]:
  "self (recordAgreement f c) = agreed_port f (self c)"
  "brg (recordAgreement f c) = brg c" "peers (recordAgreement f c) = peers c"
  "panicked (recordAgreement f c) = panicked c"
  by (simp_all add: recordAgreement_def agreed_port_def Let_def)

text \<open>The port after each callback.\<close>

definition adopt :: "Layers \<Rightarrow> Pdu option \<Rightarrow> Bridge \<Rightarrow> StpPort \<Rightarrow> StpPort" where
  "adopt L data b p =
     (let flags = getRcvdMsgFlags data;
          p0 = p\<lparr>Agreed := False, Proposing := False\<rparr>;
          p1 = setTcFlags flags data
             (if StpGetBpduRole L flags = PortRoleDesignatedPort \<and> StpGetBpduProposal flags
              then p0\<lparr>Proposed := True\<rparr> else p0);
          p2 = recordTimes (getRcvdMsgTimes data) (snd (recordPriority (getRcvdMsgPriority data) b p1));
          p3 = updtRcvdInfoWhile (p2\<lparr>Agree := Agree p2
             \<and> fst (recordPriority (getRcvdMsgPriority data) b p1)\<rparr>)
      in p3\<lparr>InfoIs := PortInfoStateReceived, Selected := False, RcvdMsg := False, Reselect := True\<rparr>)"

lemma PimMachine_result [simp]:
  "fst (PimMachineDisabled c) = PimStateDisabled" "fst (PimMachineAged c) = PimStateAged"
  "fst (PimMachineUpdate c) = PimStateUpdate" "PimMachineCurrent c = (PimStateCurrent, c)"
  "fst (PimMachineReceive L d c) = PimStateReceive"
  "fst (PimMachineSuperiorDesignated L d c) = PimStateSuperiorDesignated"
  "fst (PimMachineRepeatedDesignated L d c) = PimStateRepeatedDesignated"
  "fst (PimMachineInferiorDesignated L d c) = PimStateInferiorDesignated"
  "fst (PimMachineNotDesignated L d c) = PimStateNotDesignated"
  "fst (PimMachineOther d c) = PimStateOther"
  by (simp_all add: PimMachineDisabled_def PimMachineAged_def PimMachineUpdate_def PimMachineCurrent_def
      PimMachineReceive_def PimMachineSuperiorDesignated_def PimMachineRepeatedDesignated_def
      PimMachineInferiorDesignated_def PimMachineNotDesignated_def PimMachineOther_def Let_def case_prod_beta)

lemma PimMachine_rest [simp]:
  "brg (snd (PimMachineDisabled c)) = brg c" "peers (snd (PimMachineDisabled c)) = peers c"
  "panicked (snd (PimMachineDisabled c)) = panicked c"
  "brg (snd (PimMachineAged c)) = brg c" "peers (snd (PimMachineAged c)) = peers c"
  "panicked (snd (PimMachineAged c)) = panicked c"
  "brg (snd (PimMachineUpdate c)) = brg c" "peers (snd (PimMachineUpdate c)) = peers c"
  "panicked (snd (PimMachineUpdate c)) = panicked c"
  "brg (snd (PimMachineReceive L d c)) = brg c" "peers (snd (PimMachineReceive L d c)) = peers c"
  "panicked (snd (PimMachineReceive L d c)) = panicked c"
  "brg (snd (PimMachineSuperiorDesignated L d c)) = brg c"
  "peers (snd (PimMachineSuperiorDesignated L d c)) = peers c"
  "panicked (snd (PimMachineSuperiorDesignated L d c)) = panicked c"
  "brg (snd (PimMachineRepeatedDesignated L d c)) = brg c"
  "peers (snd (PimMachineRepeatedDesignated L d c)) = peers c"
  "panicked (snd (PimMachineRepeatedDesignated L d c)) = panicked c"
  "brg (snd (PimMachineInferiorDesignated L d c)) = brg c"
  "peers (snd (PimMachineInferiorDesignated L d c)) = peers c"
  "panicked (snd (PimMachineInferiorDesignated L d c)) = panicked c"
  "brg (snd (PimMachineNotDesignated L d c)) = brg c"
  "peers (snd (PimMachineNotDesignated L d c)) = peers c"
  "panicked (snd (PimMachineNotDesignated L d c)) = panicked c"
  "brg (snd (PimMachineOther d c)) = brg c" "peers (snd (PimMachineOther d c)) = peers c"
  "panicked (snd (PimMachineOther d c)) = panicked c"
  by (simp_all add: PimMachineDisabled_def PimMachineAged_def PimMachineUpdate_def
      PimMachineReceive_def PimMachineSuperiorDesignated_def PimMachineRepeatedDesignated_def
      PimMachineInferiorDesignated_def PimMachineNotDesignated_def PimMachineOther_def Let_def case_prod_beta)

lemma PimMachine_self [simp]:
  "self (snd (PimMachineDisabled c)) = (self c)\<lparr>RcvdMsg := False, Proposing := False, Proposed := False,
     Agree := False, Agreed := False, RcvdInfoWhiletimer := 0, InfoIs := PortInfoStateDisabled,
     Selected := False, Reselect := True\<rparr>"
  "self (snd (PimMachineAged c)) = (self c)\<lparr>InfoIs := PortInfoStateAged, Selected := False, Reselect := True\<rparr>"
  "self (snd (PimMachineSuperiorDesignated L d c)) = adopt L d (brg c) (self c)"
  "self (snd (PimMachineOther d c)) = (self c)\<lparr>RcvdMsg := False\<rparr>"
  by (simp_all add: PimMachineDisabled_def PimMachineAged_def PimMachineSuperiorDesignated_def
      PimMachineOther_def adopt_def Let_def case_prod_beta)

lemma record_fields [simp]:
  "PimMachineFsm (setTcFlags f d p) = PimMachineFsm p" "PimMachineFsm (updtRcvdInfoWhile p) = PimMachineFsm p"
  "PimMachineFsm (disputed_port L f p) = PimMachineFsm p" "PimMachineFsm (agreed_port f p) = PimMachineFsm p"
  "Selected (setTcFlags f d p) = Selected p" "Selected (updtRcvdInfoWhile p) = Selected p"
  "Selected (disputed_port L f p) = Selected p" "Selected (agreed_port f p) = Selected p"
  "UpdtInfo (setTcFlags f d p) = UpdtInfo p" "UpdtInfo (updtRcvdInfoWhile p) = UpdtInfo p"
  "UpdtInfo (disputed_port L f p) = UpdtInfo p" "UpdtInfo (agreed_port f p) = UpdtInfo p"
  "PortTimes (setTcFlags f d p) = PortTimes p" "PortPriority (setTcFlags f d p) = PortPriority p"
  "InfoIs (setTcFlags f d p) = InfoIs p" "PortTimes (updtRcvdInfoWhile p) = PortTimes p"
  "PortPriority (updtRcvdInfoWhile p) = PortPriority p" "InfoIs (updtRcvdInfoWhile p) = InfoIs p"
  by (simp_all add: setTcFlags_def updtRcvdInfoWhile_def disputed_port_def agreed_port_def Let_def)

lemma adopt_fields [simp]:
  "PimMachineFsm (adopt L d b p) = PimMachineFsm p" "Selected (adopt L d b p) = False"
  "UpdtInfo (adopt L d b p) = UpdtInfo p" "RcvdMsg (adopt L d b p) = False" "Reselect (adopt L d b p)"
  "InfoIs (adopt L d b p) = PortInfoStateReceived" "Agreed (adopt L d b p) = False"
  "Proposing (adopt L d b p) = False" "MsgPriority (adopt L d b p) = getRcvdMsgPriority d"
  "PortPriority (adopt L d b p) = getRcvdMsgPriority d"
  by (simp_all add: adopt_def Let_def recordPriority_def recordTimes_def updtRcvdInfoWhile_def setTcFlags_def)

lemma hello_max: "(if x > 1 then x else 1) = max 1 (x :: uint16)"
  by (cases "1 < x") (simp_all add: max.absorb2 max.absorb1 less_imp_le)

lemma times_overwrite:
  "t\<lparr>ForwardingDelay := ForwardingDelay s, HelloTime := h, MaxAge := MaxAge s, MessageAge := MessageAge s\<rparr>
     = s\<lparr>HelloTime := h\<rparr>" for t s :: Times
  by simp

lemma adopt_times:
  "PortTimes (adopt L d b p) = (getRcvdMsgTimes d)\<lparr>HelloTime := max 1 (HelloTime (getRcvdMsgTimes d))\<rparr>"
  by (simp add: adopt_def Let_def recordPriority_def recordTimes_def updtRcvdInfoWhile_def setTcFlags_def
      hello_max times_overwrite)

lemma PimMachine_fields [simp]:
  "PimMachineFsm (self (snd (PimMachineUpdate c))) = PimMachineFsm (self c)"
  "RcvdMsg (self (snd (PimMachineUpdate c))) = RcvdMsg (self c)"
  "UpdtInfo (self (snd (PimMachineUpdate c))) = False"
  "InfoIs (self (snd (PimMachineUpdate c))) = PortInfoStateMine"
  "PimMachineFsm (self (snd (PimMachineReceive L d c))) = PimMachineFsm (self c)"
  "Selected (self (snd (PimMachineReceive L d c))) = Selected (self c)"
  "UpdtInfo (self (snd (PimMachineReceive L d c))) = UpdtInfo (self c)"
  "PimMachineFsm (self (snd (PimMachineRepeatedDesignated L d c))) = PimMachineFsm (self c)"
  "Selected (self (snd (PimMachineRepeatedDesignated L d c))) = Selected (self c)"
  "UpdtInfo (self (snd (PimMachineRepeatedDesignated L d c))) = UpdtInfo (self c)"
  "RcvdMsg (self (snd (PimMachineRepeatedDesignated L d c))) = False"
  "PimMachineFsm (self (snd (PimMachineInferiorDesignated L d c))) = PimMachineFsm (self c)"
  "Selected (self (snd (PimMachineInferiorDesignated L d c))) = Selected (self c)"
  "UpdtInfo (self (snd (PimMachineInferiorDesignated L d c))) = UpdtInfo (self c)"
  "RcvdMsg (self (snd (PimMachineInferiorDesignated L d c))) = False"
  "PimMachineFsm (self (snd (PimMachineNotDesignated L d c))) = PimMachineFsm (self c)"
  "Selected (self (snd (PimMachineNotDesignated L d c))) = Selected (self c)"
  "UpdtInfo (self (snd (PimMachineNotDesignated L d c))) = UpdtInfo (self c)"
  "RcvdMsg (self (snd (PimMachineNotDesignated L d c))) = False"
  by (simp_all add: PimMachineUpdate_def PimMachineReceive_def PimMachineRepeatedDesignated_def
      PimMachineInferiorDesignated_def PimMachineNotDesignated_def Let_def)

section \<open>Post processing\<close>

lemma PimRules_cases:
  "map_of (PimRules L d) k = Some f \<Longrightarrow>
     f = PimMachineDisabled \<or> f = PimMachineAged \<or> f = PimMachineUpdate \<or> f = PimMachineCurrent
     \<or> f = PimMachineReceive L d \<or> f = PimMachineSuperiorDesignated L d \<or> f = PimMachineRepeatedDesignated L d
     \<or> f = PimMachineInferiorDesignated L d \<or> f = PimMachineNotDesignated L d \<or> f = PimMachineOther d"
  by (drule table_all [where P = "\<lambda>k f. f = PimMachineDisabled \<or> f = PimMachineAged \<or> f = PimMachineUpdate
     \<or> f = PimMachineCurrent
     \<or> f = PimMachineReceive L d \<or> f = PimMachineSuperiorDesignated L d \<or> f = PimMachineRepeatedDesignated L d
     \<or> f = PimMachineInferiorDesignated L d \<or> f = PimMachineNotDesignated L d \<or> f = PimMachineOther d"])
    (simp_all add: PimRules_def)

definition pim_recording :: "State \<Rightarrow> bool" where
  "pim_recording s \<longleftrightarrow> s = PimStateUpdate \<or> s = PimStateSuperiorDesignated \<or> s = PimStateRepeatedDesignated
     \<or> s = PimStateInferiorDesignated \<or> s = PimStateNotDesignated \<or> s = PimStateOther"

text \<open>A pending update weighs most, then a pending message, then the position in the
  cycle.\<close>

definition pim_rank :: "Ctx \<Rightarrow> nat" where
  "pim_rank c =
     (let p = self c; s = pim_state p in
      (if Selected p \<and> UpdtInfo p then 10 else 0)
      + (if RcvdMsg p \<and> s \<noteq> PimStateReceive then 5 else 0)
      + (if s = PimStateAged then 0 else if s = PimStateCurrent then 1
         else if pim_recording s then 2 else if s = PimStateReceive then 3 else 4))"

lemma pim_rank_bound: "pim_rank c < 20"
  by (simp add: pim_rank_def Let_def)

lemma PimProcess_refused: "PimProcess L d e c = (Some err, c') \<Longrightarrow> c' = c"
  unfolding PimProcess_def using pim_slot.error_unchanged by blast

lemma PimProcess_accepted:
  assumes "PimProcess L d e c = (None, c')"
  obtains f where "mBegin (PimMachineFsm (self c))"
    and "map_of (PimRules L d) (pim_state (self c), e) = Some f"
    and "c' = pim_upd (SetState (fst (f (pim_upd (SetEvent e) c)))) (snd (f (pim_upd (SetEvent e) c)))"
  using pim_slot.accepted [OF assms [unfolded PimProcess_def]] by (auto simp: AddRules_empty pim_get_def)

lemma Pim_post_choice:
  assumes "h \<in> set PimPosts" and "h c = Some e" and "map_of (PimRules L d) (pim_state (self c), e) = Some f"
  obtains "pim_state (self c) = PimStateDisabled" "f = PimMachineAged"
    | "pim_state (self c) = PimStateDisabled" "RcvdMsg (self c)" "f = PimMachineDisabled"
    | "pim_state (self c) = PimStateAged \<or> pim_state (self c) = PimStateCurrent"
      "Selected (self c)" "UpdtInfo (self c)" "f = PimMachineUpdate"
    | "pim_recording (pim_state (self c))" "f = PimMachineCurrent"
    | "pim_state (self c) = PimStateCurrent" "f = PimMachineAged"
    | "pim_state (self c) = PimStateCurrent" "RcvdMsg (self c)" "f = PimMachineReceive L d"
    | "pim_state (self c) = PimStateReceive" "f = PimMachineSuperiorDesignated L d \<or> f = PimMachineRepeatedDesignated L d
       \<or> f = PimMachineInferiorDesignated L d \<or> f = PimMachineNotDesignated L d \<or> f = PimMachineOther d"
  using assms
  by (auto simp: PimPosts_def PimPostStateDisabled_def PimPostStateAged_def PimPostStateUpdate_def
      PimPostStateSuperiorDesignated_def PimPostStateRepeatedDesignated_def PimPostStateInferiorDesignated_def
      PimPostStateNotDesignated_def PimPostStateOther_def PimPostStateCurrent_def PimPostStateReceive_def
      Let_def pim_recording_def PimRules_def split: if_splits)

lemma Pim_post_step:
  assumes "h \<in> set PimPosts" and "h c = Some e" and "PimProcess L d e c = (None, c')"
  shows "pim_rank c' < pim_rank c"
proof -
  obtain f where f: "map_of (PimRules L d) (pim_state (self c), e) = Some f"
    and c': "c' = pim_upd (SetState (fst (f (pim_upd (SetEvent e) c)))) (snd (f (pim_upd (SetEvent e) c)))"
    using PimProcess_accepted [OF assms(3)] .
  show ?thesis
    using assms(1,2) f
  proof (cases rule: Pim_post_choice)
    case 7
    then show ?thesis
      unfolding c' by (elim disjE) (simp_all add: pim_upd_def pim_rank_def pim_recording_def Let_def)
  qed (auto simp: c' pim_upd_def pim_rank_def pim_recording_def Let_def)
qed

definition pim_begun :: "Ctx \<Rightarrow> bool" where
  "pim_begun c \<longleftrightarrow> mBegin (PimMachineFsm (self c))"

text \<open>Every callback keeps the machine, the bridge and the other ports.\<close>

lemma PimRules_keep:
  assumes "map_of (PimRules L d) k = Some f"
  shows "PimMachineFsm (self (snd (f c))) = PimMachineFsm (self c)" "brg (snd (f c)) = brg c"
    "peers (snd (f c)) = peers c" "panicked (snd (f c)) = panicked c"
proof -
  have "PimMachineFsm (self (snd (f c))) = PimMachineFsm (self c) \<and> brg (snd (f c)) = brg c
      \<and> peers (snd (f c)) = peers c \<and> panicked (snd (f c)) = panicked c"
    using PimRules_cases [OF assms] by (elim disjE) simp_all
  then show "PimMachineFsm (self (snd (f c))) = PimMachineFsm (self c)" "brg (snd (f c)) = brg c"
    "peers (snd (f c)) = peers c" "panicked (snd (f c)) = panicked c"
    by simp_all
qed

lemma PimProcess_begun:
  assumes "PimProcess L d e c = (None, c')"
  shows "pim_begun c'"
  using PimProcess_accepted [OF assms]
  by (metis PimRules_keep(1) SetEvent_fields(2) SetState_fields(2) pim_begun_def pim_get_def pim_slot.get_upd)

interpretation pim_post: post_terminates "PimProcess L d" PimPosts pim_begun pim_rank
proof
  fix h c e c'
  assume "h \<in> set PimPosts" "h c = Some e" "PimProcess L d e c = (None, c')"
  then show "pim_begun c' \<and> pim_rank c' < pim_rank c"
    using Pim_post_step PimProcess_begun by blast
qed (rule PimProcess_refused)

definition pim_rest :: "Ctx \<Rightarrow> Bridge \<times> (int32 \<Rightarrow> StpPort option) \<times> bool" where
  "pim_rest c = (brg c, peers c, panicked c)"

lemma PimProcess_keeps: "keeps pim_rest (\<lambda>c. snd (PimProcess L d e c))"
  unfolding PimProcess_def AddRules_empty
  by (rule pim_slot.process_keeps) (simp_all add: pim_rest_def pim_upd_def PimRules_keep)

lemma Pim_settled:
  assumes "settled (PimProcess L d) PimPosts c" and "pim_begun c"
  shows "\<not> pim_recording (pim_state (self c)) \<and> pim_state (self c) \<noteq> PimStateReceive
    \<and> (pim_state (self c) = PimStateCurrent \<longrightarrow> UpdtInfo (self c) \<or> \<not> RcvdMsg (self c))"
proof -
  note defs = settled_def PimPosts_def PimProcess_def AddRules_empty process_refuses pim_get_def Let_def
    pim_begun_def PimPostStateUpdate_def PimPostStateSuperiorDesignated_def PimPostStateRepeatedDesignated_def
    PimPostStateInferiorDesignated_def PimPostStateNotDesignated_def PimPostStateOther_def PimPostStateCurrent_def
    PimPostStateReceive_def PimRules_def
  have "pim_state (self c) \<noteq> PimStateReceive"
    using assms by (cases "RcvdInfo (self c)") (auto simp: defs)
  moreover have "\<not> pim_recording (pim_state (self c))"
    using assms by (auto simp: defs pim_recording_def)
  moreover have "pim_state (self c) = PimStateCurrent \<longrightarrow> UpdtInfo (self c) \<or> \<not> RcvdMsg (self c)"
    using assms by (auto simp: defs split: if_splits)
  ultimately show ?thesis
    by blast
qed

text \<open>C16: Whatever event and frame the port information machine gets, its post
  processing ends (twenty rounds are enough), it comes to rest in \<open>Disabled\<close>,
  \<open>Aged\<close> or \<open>Current\<close> (or has not begun), after an accepted event that ends in \<open>Current\<close> no
  received message is left unprocessed unless an update is pending, and it touches neither the bridge nor another port.\<close>

theorem Pim_returns:
  assumes "\<not> pim_recording (pim_state (self c))" and "pim_state (self c) \<noteq> PimStateReceive"
  shows "\<exists>c'. PimMachineMain L 20 e d c = Some c'
     \<and> \<not> pim_recording (pim_state (self c')) \<and> pim_state (self c') \<noteq> PimStateReceive
     \<and> (fst (PimProcess L d e c) = None \<and> pim_state (self c') = PimStateCurrent
          \<longrightarrow> UpdtInfo (self c') \<or> \<not> RcvdMsg (self c'))
     \<and> brg c' = brg c \<and> peers c' = peers c \<and> panicked c' = panicked c"
proof (cases "pim_state (self c) = PimStateNone \<and> e \<noteq> PimEventBegin")
  case True
  then have "fst (PimProcess L d e c) \<noteq> None"
    unfolding PimProcess_def AddRules_empty process_accepts by (auto simp: pim_get_def PimRules_def)
  then show ?thesis
    using True assms by (simp add: PimMachineMain_def emit_def)
next
  case False
  obtain err c1 where r: "PimProcess L d e c = (err, c1)"
    by fastforce
  obtain c' where c': "ProcessAndPost (PimProcess L d) PimPosts 20 e c = Some c'"
    and acc: "err = None \<longrightarrow> pim_begun c' \<and> settled (PimProcess L d) PimPosts c'"
    and ref: "err \<noteq> None \<longrightarrow> c' = c"
    using pim_post.process_and_post [of L d e c 20] PimProcess_begun [of L d e c c1] pim_rank_bound r by auto
  have "pim_rest c' = pim_rest c"
    by (rule ProcessAndPost_keeps [OF PimProcess_keeps c'])
  moreover have "\<not> pim_recording (pim_state (self c')) \<and> pim_state (self c') \<noteq> PimStateReceive
      \<and> (err = None \<and> pim_state (self c') = PimStateCurrent \<longrightarrow> UpdtInfo (self c') \<or> \<not> RcvdMsg (self c'))"
    using acc ref Pim_settled [of L d c'] assms by (cases err) auto
  ultimately show ?thesis
    using False c' r by (auto simp: PimMachineMain_def pim_rest_def)
qed

theorem Pim_returns_witness:
  "\<exists>c'. PimMachineMain ieee_layers 20 PimEventBegin None (solo zero_bridge (zero_port\<lparr>PortEnabled := True,
        PimMachineFsm := Start PimStateNone (new_machine PimStateNone)\<rparr>)) = Some c'
    \<and> pim_state (self c') = PimStateAged \<and> Reselect (self c')"
proof -
  define c where "c = solo zero_bridge (zero_port\<lparr>PortEnabled := True,
        PimMachineFsm := Start PimStateNone (new_machine PimStateNone)\<rparr>)"
  have "\<not> pim_recording (pim_state (self c))" "pim_state (self c) \<noteq> PimStateReceive"
    by (simp_all add: c_def solo_def pim_recording_def)
  from Pim_returns [OF this, of ieee_layers PimEventBegin None]
  obtain c' where c': "PimMachineMain ieee_layers 20 PimEventBegin None c = Some c'"
    by blast
  have "map_option (\<lambda>d. (pim_state (self d), Reselect (self d))) (PimMachineMain ieee_layers 20 PimEventBegin None c)
      = Some (PimStateAged, True)"
    unfolding c_def by code_simp
  with c' show ?thesis
    unfolding c_def by auto
qed

section \<open>Classification of received information\<close>

text \<open>A configuration frame, or an RST frame from a designated port, that does not name
  this bridge as root under another priority.\<close>

definition designated_msg :: "Layers \<Rightarrow> Pdu \<Rightarrow> Bridge \<Rightarrow> bool" where
  "designated_msg L pdu b \<longleftrightarrow>
     (case pdu of STP _ \<Rightarrow> True | BPDUTopology _ _ \<Rightarrow> False
      | _ \<Rightarrow> StpGetBpduRole L (getRcvdMsgFlags (Some pdu)) = PortRoleDesignatedPort)
     \<and> (GetBridgeAddrFromBridgeId (RootBridgeId (getRcvdMsgPriority (Some pdu)))
          = GetBridgeAddrFromBridgeId (BridgeIdentifier b)
        \<longrightarrow> GetBridgePriorityFromBridgeId (RootBridgeId (getRcvdMsgPriority (Some pdu)))
          = GetBridgePriorityFromBridgeId (BridgeIdentifier b))"

lemma designated_not_tcn: "designated_msg L pdu b \<Longrightarrow> \<not> isTcnBPDU (Some pdu)"
  by (auto simp: designated_msg_def isTcnBPDU_def split: Pdu.splits)

text \<open>C17: A designated port's message is classified by the order on priority vectors:
  the same vector is repeated information if the times agree and superior
  otherwise; of two different vectors the larger one is inferior and everything
  else superior.\<close>

theorem rcvInfo_classifies:
  assumes "designated_msg L pdu b"
  shows "rcvInfo L (Some pdu) b p =
    (if getRcvdMsgPriority (Some pdu) = PortPriority p then
       if getRcvdMsgTimes (Some pdu) = PortTimes p then RepeatedDesignatedInfo else SuperiorDesignatedInfo
     else if pv_key (PortPriority p) < pv_key (getRcvdMsgPriority (Some pdu)) then InferiorDesignatedInfo
     else SuperiorDesignatedInfo)"
proof -
  have role: "(case Some pdu of Some (STP _) \<Rightarrow> PortRoleDesignatedPort
      | _ \<Rightarrow> StpGetBpduRole L (getRcvdMsgFlags (Some pdu))) = PortRoleDesignatedPort"
    using assms by (auto simp: designated_msg_def split: Pdu.splits)
  have sup: "IsMsgPriorityVectorSuperiorThanPortPriorityVector (getRcvdMsgPriority (Some pdu)) (PortPriority p)"
    if "\<not> pv_key (PortPriority p) < pv_key (getRcvdMsgPriority (Some pdu))"
    using that pv_key_eq_designated unfolding superior_iff by (meson linorder_less_linear)
  show ?thesis
    using assms sup unfolding rcvInfo_def Let_def role
    by (auto simp: designated_not_tcn worse_iff designated_msg_def)
qed

theorem rcvInfo_classifies_witness:
  "rcvInfo ieee_layers (Some (STP (tx_bpdu 0 0 0 (zero_bridge\<lparr>BridgePriority :=
       zero_pv\<lparr>RootPathCost := 5, DesignatedBridgeId := BridgeId 1 0 0 0 0 0 0 1\<rparr>\<rparr>) zero_port)))
     (zero_bridge\<lparr>BridgeIdentifier := BridgeId 0 0 0 0 0 0 0 2\<rparr>)
     (zero_port\<lparr>PortPriority := zero_pv\<lparr>RootPathCost := 9\<rparr>\<rparr>) = SuperiorDesignatedInfo"
proof -
  define pdu where "pdu = STP (tx_bpdu 0 0 0 (zero_bridge\<lparr>BridgePriority :=
       zero_pv\<lparr>RootPathCost := 5, DesignatedBridgeId := BridgeId 1 0 0 0 0 0 0 1\<rparr>\<rparr>) zero_port)"
  have pv: "getRcvdMsgPriority (Some pdu) =
      \<lparr>RootBridgeId = zero_bid, RootPathCost = 5, DesignatedBridgeId = BridgeId 1 0 0 0 0 0 0 1,
       DesignatedPortId = 0, BridgePortId = 0\<rparr>"
    by (simp add: pdu_def getRcvdMsgPriority_def pdu_bpdu_def tx_bpdu_def zero_pv_def zero_bridge_def
        zero_port_def wire_port_id_def)
  have "designated_msg ieee_layers pdu (zero_bridge\<lparr>BridgeIdentifier := BridgeId 0 0 0 0 0 0 0 2\<rparr>)"
    unfolding designated_msg_def pv
    by (simp add: pdu_def GetBridgeAddrFromBridgeId_def zero_bid_def)
  from rcvInfo_classifies [OF this, of "zero_port\<lparr>PortPriority := zero_pv\<lparr>RootPathCost := 9\<rparr>\<rparr>"] show ?thesis
    unfolding pv pdu_def [symmetric]
    by (simp add: zero_pv_def pv_key_def less_le)
qed

text \<open>C18: A designated port that announces a worse vector than it did before, for
  instance because its root path became more expensive, is not believed: although
  the superiority test of 17.6 accepts the message, it is classified as inferior,
  and the port keeps the outdated vector until it ages out.\<close>

theorem rcvInfo_worse_from_same_designated:
  assumes "designated_msg L pdu b" and "pv_same_designated (getRcvdMsgPriority (Some pdu)) (PortPriority p)"
    and "pv_key (PortPriority p) < pv_key (getRcvdMsgPriority (Some pdu))"
  shows "IsMsgPriorityVectorSuperiorThanPortPriorityVector (getRcvdMsgPriority (Some pdu)) (PortPriority p)
    \<and> rcvInfo L (Some pdu) b p = InferiorDesignatedInfo"
proof -
  have "getRcvdMsgPriority (Some pdu) \<noteq> PortPriority p"
    using assms(3) by auto
  then show ?thesis
    using assms by (simp add: superior_iff worse_iff rcvInfo_def Let_def designated_not_tcn designated_msg_def
        split: Pdu.splits)
qed

theorem rcvInfo_worse_from_same_designated_witness:
  "rcvInfo ieee_layers (Some (STP (tx_bpdu 0 0 0 (zero_bridge\<lparr>BridgePriority := zero_pv\<lparr>RootPathCost := 9\<rparr>\<rparr>) zero_port)))
     (zero_bridge\<lparr>BridgeIdentifier := BridgeId 0 0 0 0 0 0 0 2\<rparr>)
     (zero_port\<lparr>PortPriority := zero_pv\<lparr>RootPathCost := 5\<rparr>\<rparr>) = InferiorDesignatedInfo"
proof -
  define pdu where
    "pdu = STP (tx_bpdu 0 0 0 (zero_bridge\<lparr>BridgePriority := zero_pv\<lparr>RootPathCost := 9\<rparr>\<rparr>) zero_port)"
  have pv: "getRcvdMsgPriority (Some pdu) = zero_pv\<lparr>RootPathCost := 9\<rparr>"
    by (simp add: pdu_def getRcvdMsgPriority_def pdu_bpdu_def tx_bpdu_def zero_pv_def zero_bridge_def
        zero_port_def wire_port_id_def)
  have "designated_msg ieee_layers pdu (zero_bridge\<lparr>BridgeIdentifier := BridgeId 0 0 0 0 0 0 0 2\<rparr>)"
    unfolding designated_msg_def pv
    by (simp add: pdu_def GetBridgeAddrFromBridgeId_def zero_pv_def zero_bid_def)
  from rcvInfo_worse_from_same_designated [OF this, of "zero_port\<lparr>PortPriority := zero_pv\<lparr>RootPathCost := 5\<rparr>\<rparr>"]
  show ?thesis
    unfolding pv pdu_def [symmetric]
    by (simp add: zero_pv_def pv_key_def less_le pv_same_designated_def)
qed

section \<open>Adopting superior information\<close>

lemma PimProcess_fires:
  assumes "pim_begun c" and "map_of (PimRules L d) (pim_state (self c), e) = Some f"
  shows "PimProcess L d e c =
    (None, pim_upd (SetState (fst (f (pim_upd (SetEvent e) c)))) (snd (f (pim_upd (SetEvent e) c))))"
  unfolding PimProcess_def AddRules_empty
  by (rule pim_slot.fires [of _ _ _ f]) (use assms in \<open>simp_all add: pim_get_def pim_begun_def\<close>)

lemma Pim_fired:
  assumes "pim_begun c" and "map_of (PimRules L d) (pim_state (self c), e) = Some f"
  shows "PimProcess L d e c = (None, snd (PimProcess L d e c))"
    and "self (snd (PimProcess L d e c)) =
      (self (snd (f (pim_upd (SetEvent e) c))))\<lparr>PimMachineFsm :=
         SetState (fst (f (pim_upd (SetEvent e) c))) (SetEvent e (PimMachineFsm (self c)))\<rparr>"
    and "brg (snd (PimProcess L d e c)) = brg c"
    and "pim_begun (snd (PimProcess L d e c))"
  using assms
  by (simp_all add: PimProcess_fires [OF assms] PimRules_keep [OF assms(2)] pim_upd_def pim_begun_def)

text \<open>One round of the post processing runs the event of the first function that picks one.\<close>

lemma Pim_run:
  assumes "pim_begun c" and "PimPosts = gs @ h # ks" and "h c = Some e"
    and "map_of (PimRules L d) (pim_state (self c), e) = Some f"
    and "\<forall>g \<in> set gs. g c = None" and "19 < n"
  shows "ProcessPost (PimProcess L d) PimPosts (Suc n) c
      = ProcessPost (PimProcess L d) PimPosts n (snd (PimProcess L d e c))"
proof -
  have "pim_rank c' < n" for c'
    using assms(6) by (simp add: pim_rank_def Let_def)
  then show ?thesis
    by (rule pim_post.run_step [OF assms(2) assms(5,3) Pim_fired(1,4) [OF assms(1,4)]])
qed

lemmas pim_posts = PimPosts_def PimPostStateDisabled_def PimPostStateAged_def PimPostStateUpdate_def
  PimPostStateReceive_def PimPostStateSuperiorDesignated_def PimPostStateRepeatedDesignated_def
  PimPostStateInferiorDesignated_def PimPostStateNotDesignated_def PimPostStateOther_def PimPostStateCurrent_def
  Let_def

lemma Pim_run_receive:
  assumes "pim_begun c" and "pim_state (self c) = PimStateReceive" and "RcvdInfo (self c) = SuperiorDesignatedInfo"
    and "19 < n"
  shows "ProcessPost (PimProcess L d) PimPosts (Suc n) c
      = ProcessPost (PimProcess L d) PimPosts n (snd (PimProcess L d PimEventRcvdInfoEqualSuperiorDesignatedInfo c))"
  by (rule Pim_run [where gs = "butlast PimPosts" and h = PimPostStateReceive and ks = "[]"
        and f = "PimMachineSuperiorDesignated L d"])
    (use assms in \<open>simp_all add: pim_posts PimRules_def\<close>)

lemma Pim_run_recorded:
  assumes "pim_begun c" and "pim_state (self c) = PimStateSuperiorDesignated" and "19 < n"
  shows "ProcessPost (PimProcess L d) PimPosts (Suc n) c
      = ProcessPost (PimProcess L d) PimPosts n (snd (PimProcess L d PimEventUnconditionalFallThrough c))"
  by (rule Pim_run [where gs = "take 3 PimPosts" and h = PimPostStateSuperiorDesignated and ks = "drop 4 PimPosts"
        and f = "PimMachineCurrent"])
    (use assms in \<open>simp_all add: pim_posts PimRules_def\<close>)

lemma Pim_current_settled:
  assumes "pim_state (self c) = PimStateCurrent" and "\<not> Selected (self c)" and "\<not> RcvdMsg (self c)"
    and "RcvdInfoWhiletimer (self c) \<noteq> 0"
  shows "settled (PimProcess L d) PimPosts c"
  using assms by (simp add: settled_def pim_posts)

lemma adopt_timer:
  "RcvdInfoWhiletimer (adopt L d b p) =
     (if MessageAge (getRcvdMsgTimes d) + 1 \<le> MaxAge (getRcvdMsgTimes d)
      then 3 * i32 (max 1 (HelloTime (getRcvdMsgTimes d))) else 0)"
  by (simp add: adopt_def Let_def recordPriority_def recordTimes_def updtRcvdInfoWhile_def setTcFlags_def hello_max)

lemma three_hello_nonzero: "3 * i32 (max 1 h) \<noteq> 0"
proof -
  have h: "unat (max 1 h) < 2 ^ 16"
    using unsigned_less [of "max 1 h"] by simp
  have "max 1 h \<noteq> 0"
    by (auto simp: max_def)
  then have "unat (max 1 h) \<noteq> 0"
    by (simp add: unat_eq_0)
  moreover have "unat (3 * i32 (max 1 h)) = 3 * unat (max 1 h)"
    using h by (simp add: unat_word_ariths unat_i32)
  ultimately show ?thesis
    by (metis mult_eq_0_iff unat_0 zero_neq_numeral)
qed

text \<open>Role selection is asked to run again.\<close>

lemma Pim_out_grows [simp]:
  "x \<in> set (out c) \<Longrightarrow> x \<in> set (out (notify_selected a b c))"
  "x \<in> set (out c) \<Longrightarrow> x \<in> set (out (PimNotifyAgreeChanged a b c))"
  "x \<in> set (out c) \<Longrightarrow> x \<in> set (out (PimNotifyAgreedChanged a b c))"
  by (simp_all add: notify_selected_def PimNotifyAgreeChanged_def PimNotifyAgreedChanged_def emit_def)

lemma PimMachineSuperior_reselects:
  assumes "mlive (PrsMachineFsm (brg c))" and "cur_s (PrsMachineFsm (brg c)) = PrsStateRoleSelection"
  shows "Send PrsEvents 0 PrsEventReselect None \<in> set (out (snd (PimMachineSuperiorDesignated L d c)))"
proof -
  have "Send PrsEvents 0 PrsEventReselect None \<in> set (out (PimNotifyReselectChanged a True c'))"
    if "brg c' = brg c" for a c'
    using assms that by (simp add: PimNotifyReselectChanged_def emit_def)
  then show ?thesis
    by (simp add: PimMachineSuperiorDesignated_def Let_def case_prod_beta)
qed

lemma PimMachineMain_enough:
  assumes "PimMachineMain L 30 e d c = Some c'" and "pim_begun c"
  shows "PimMachineMain L 20 e d c = Some c'"
proof -
  obtain c1 where c1: "ProcessAndPost (PimProcess L d) PimPosts 20 e c = Some c1"
    using pim_post.process_and_post [of L d e c 20] PimProcess_begun [of L d e c "snd (PimProcess L d e c)"]
      pim_rank_bound
    by (cases "PimProcess L d e c") auto
  then have "ProcessAndPost (PimProcess L d) PimPosts 30 e c = Some c1"
    by (auto simp: ProcessAndPost_def split: prod.splits option.splits intro: ProcessPost_mono)
  then show ?thesis
    using assms(1) c1 by (auto simp: PimMachineMain_def split: if_splits)
qed

text \<open>C19: When a message classified as superior arrives at a current port, the port
  takes over its priority vector and times (with a hello time of at least one
  second), drops its agreement, is no longer selected and asks for a new role
  selection; if the message is not yet at its maximum age the information is kept
  for three hello times.\<close>

theorem Pim_superior_adopted:
  assumes "pim_begun c" and "pim_state (self c) = PimStateCurrent" and "\<not> UpdtInfo (self c)"
    and "rcvInfo L (Some pdu) (brg c) (self c) = SuperiorDesignatedInfo"
    and "MessageAge (getRcvdMsgTimes (Some pdu)) + 1 \<le> MaxAge (getRcvdMsgTimes (Some pdu))"
  shows "\<exists>c'. PimMachineMain L 20 PimEventRcvdMsgAndNotUpdtInfo (Some pdu) c = Some c'
     \<and> pim_state (self c') = PimStateCurrent
     \<and> PortPriority (self c') = getRcvdMsgPriority (Some pdu)
     \<and> PortTimes (self c') = (getRcvdMsgTimes (Some pdu))\<lparr>HelloTime := max 1 (HelloTime (getRcvdMsgTimes (Some pdu)))\<rparr>
     \<and> RcvdInfoWhiletimer (self c') = 3 * i32 (HelloTime (PortTimes (self c')))
     \<and> InfoIs (self c') = PortInfoStateReceived \<and> \<not> Agreed (self c') \<and> \<not> Selected (self c')
     \<and> Reselect (self c') \<and> \<not> RcvdMsg (self c')"
proof -
  let ?d = "Some pdu"
  let ?c1 = "snd (PimProcess L ?d PimEventRcvdMsgAndNotUpdtInfo c)"
  let ?c2 = "snd (PimProcess L ?d PimEventRcvdInfoEqualSuperiorDesignatedInfo ?c1)"
  let ?c3 = "snd (PimProcess L ?d PimEventUnconditionalFallThrough ?c2)"
  have "map_of (PimRules L ?d) (pim_state (self c), PimEventRcvdMsgAndNotUpdtInfo) = Some (PimMachineReceive L ?d)"
    using assms(2) by (simp add: PimRules_def)
  note f1 = Pim_fired [OF assms(1) this]
  have info: "rcvInfo L ?d b (p\<lparr>PimMachineFsm := m\<rparr>) = rcvInfo L ?d b p" for b p m
    by (simp add: rcvInfo_def Let_def)
  have s1: "pim_state (self ?c1) = PimStateReceive" "RcvdInfo (self ?c1) = SuperiorDesignatedInfo"
    "UpdtInfo (self ?c1) = UpdtInfo (self c)" "brg ?c1 = brg c"
    using assms(4) by (simp_all add: f1(2-4) PimMachineReceive_def pim_upd_def info Let_def)
  have "map_of (PimRules L ?d) (pim_state (self ?c1), PimEventRcvdInfoEqualSuperiorDesignatedInfo)
      = Some (PimMachineSuperiorDesignated L ?d)"
    using s1 by (simp add: PimRules_def)
  note f2 = Pim_fired [OF f1(4) this]
  have s2: "pim_state (self ?c2) = PimStateSuperiorDesignated"
    by (simp add: f2(2-4))
  have "map_of (PimRules L ?d) (pim_state (self ?c2), PimEventUnconditionalFallThrough) = Some PimMachineCurrent"
    unfolding s2 by (simp add: PimRules_def)
  note f3 = Pim_fired [OF f2(4) this]
  obtain p m m' where self3: "self ?c3 = (adopt L ?d (brg c) (p\<lparr>PimMachineFsm := m\<rparr>))\<lparr>PimMachineFsm := m'\<rparr>"
    and m': "cur_s m' = PimStateCurrent"
    by (simp add: f3(2-4) f2(2-4) pim_upd_def s1 del: SetState_fields SetEvent_fields) (metis SetState_fields(3))
  have "RcvdInfoWhiletimer (self ?c3) \<noteq> 0"
    using assms(5) three_hello_nonzero by (simp add: self3 adopt_timer)
  then have "settled (PimProcess L ?d) PimPosts ?c3"
    by (intro Pim_current_settled) (simp_all add: self3 m')
  then have "ProcessPost (PimProcess L ?d) PimPosts 30 ?c1 = Some ?c3"
    using Pim_run_receive [OF f1(4) s1(1,2), of 29 L ?d] Pim_run_recorded [OF f2(4) s2, of 28 L ?d]
      pim_post.run_stop [of L ?d ?c3 27] by simp
  then have "PimMachineMain L 20 PimEventRcvdMsgAndNotUpdtInfo ?d c = Some ?c3"
    by (intro PimMachineMain_enough) (use assms(1,2) f1(1) in \<open>auto simp: PimMachineMain_def ProcessAndPost_def split: prod.splits\<close>)
  then show ?thesis
    using assms(5) by (simp add: self3 m' adopt_times adopt_timer)
qed

theorem Pim_superior_adopted_witness:
  "\<exists>c'. PimMachineMain ieee_layers 20 PimEventRcvdMsgAndNotUpdtInfo
       (Some (STP (tx_bpdu 0 0 0 (zero_bridge\<lparr>BridgePriority := zero_pv\<lparr>RootPathCost := 5\<rparr>,
          RootTimes := zero_times\<lparr>MaxAge := 20, HelloTime := 2\<rparr>\<rparr>) zero_port)))
       (solo (zero_bridge\<lparr>BridgeIdentifier := BridgeId 0 0 0 0 0 0 0 2\<rparr>)
          (zero_port\<lparr>PortPriority := zero_pv\<lparr>RootPathCost := 9\<rparr>,
            PimMachineFsm := Start PimStateCurrent (new_machine PimStateNone)\<rparr>)) = Some c'
     \<and> RootPathCost (PortPriority (self c')) = 5 \<and> InfoIs (self c') = PortInfoStateReceived"
proof -
  define c where "c = solo (zero_bridge\<lparr>BridgeIdentifier := BridgeId 0 0 0 0 0 0 0 2\<rparr>)
          (zero_port\<lparr>PortPriority := zero_pv\<lparr>RootPathCost := 9\<rparr>,
            PimMachineFsm := Start PimStateCurrent (new_machine PimStateNone)\<rparr>)"
  define pdu where "pdu = STP (tx_bpdu 0 0 0 (zero_bridge\<lparr>BridgePriority := zero_pv\<lparr>RootPathCost := 5\<rparr>,
          RootTimes := zero_times\<lparr>MaxAge := 20, HelloTime := 2\<rparr>\<rparr>) zero_port)"
  have "pim_begun c" "pim_state (self c) = PimStateCurrent" "\<not> UpdtInfo (self c)"
    by (simp_all add: c_def solo_def pim_begun_def zero_port_def)
  moreover have "rcvInfo ieee_layers (Some pdu) (brg c) (self c) = SuperiorDesignatedInfo"
    "MessageAge (getRcvdMsgTimes (Some pdu)) + 1 \<le> MaxAge (getRcvdMsgTimes (Some pdu))"
    "RootPathCost (getRcvdMsgPriority (Some pdu)) = 5"
    unfolding c_def pdu_def by code_simp+
  ultimately show ?thesis
    using Pim_superior_adopted [of c ieee_layers pdu] unfolding c_def pdu_def by force
qed

end
