(* ===== verification/Stp_Tree.thy ===== *)
theory Stp_Tree
  imports Stp_Notify
begin

text \<open>
  Writing to every port of a bridge.  Several machines loop over \<open>b.StpPorts\<close>,
  look each index up, change the port found and defer a notification for it
  (\<open>setSyncTree\<close>, \<open>setReRootTree\<close> of \<open>prtfsm.go\<close>, the loops of \<open>prsfsm.go\<close>).
  The table of ports is an interface with a lookup and an update; the locale
  \<open>port_table\<close> states its law and proves what such a loop does, and the handler
  context provides it.
\<close>

section \<open>The port table\<close>

definition upd_port :: "int32 \<Rightarrow> (StpPort \<Rightarrow> StpPort) \<Rightarrow> Ctx \<Rightarrow> Ctx" where
  "upd_port pId f c =
     (if pId = IfIndex (self c) then c\<lparr>self := f (self c)\<rparr>
      else c\<lparr>peers := (peers c)(pId := map_option f (peers c pId))\<rparr>)"

text \<open>One loop over the ports: every port found is changed by \<open>f\<close>; \<open>d\<close> is what is
  deferred for it, evaluated before the change.  The deferred calls are returned
  in the order they run, last in, first out.\<close>

fun port_loop ::
  "('s \<Rightarrow> int32 \<Rightarrow> 'p option) \<Rightarrow> (int32 \<Rightarrow> ('p \<Rightarrow> 'p) \<Rightarrow> 's \<Rightarrow> 's)
     \<Rightarrow> (int32 \<Rightarrow> 'p \<Rightarrow> 'd list) \<Rightarrow> ('p \<Rightarrow> 'p) \<Rightarrow> int32 list \<Rightarrow> 's \<Rightarrow> 's \<times> 'd list" where
  "port_loop look upd d f [] c = (c, [])"
| "port_loop look upd d f (pId # ids) c =
     (case look c pId of
        None \<Rightarrow> port_loop look upd d f ids c
      | Some p \<Rightarrow>
          (let (c', ds) = port_loop look upd d f ids (upd pId f c) in (c', ds @ d pId p)))"

locale port_table =
  fixes look :: "'s \<Rightarrow> int32 \<Rightarrow> 'p option"
    and upd :: "int32 \<Rightarrow> ('p \<Rightarrow> 'p) \<Rightarrow> 's \<Rightarrow> 's"
    and key :: "'p \<Rightarrow> int32"
  assumes look_upd: "(\<And>p. key (f p) = key p) \<Longrightarrow>
      look (upd i f c) j = (if j = i then map_option f (look c j) else look c j)"
begin

text \<open>After the loop every listed port has been changed, no other port has.\<close>

lemma loop_look:
  assumes k: "\<And>p. key (f p) = key p" and "\<And>p. f (f p) = f p"
  shows "look (fst (port_loop look upd d f ids c)) j =
    (if j \<in> set ids then map_option f (look c j) else look c j)"
proof (induction ids arbitrary: c)
  case Nil
  then show ?case by simp
next
  case (Cons i ids)
  show ?case
  proof (cases "look c i")
    case None
    then show ?thesis using Cons.IH [of c] by auto
  next
    case (Some p)
    have "fst (port_loop look upd d f (i # ids) c) = fst (port_loop look upd d f ids (upd i f c))"
      using Some by (simp add: case_prod_beta Let_def)
    then show ?thesis
      using Cons.IH [of "upd i f c"] look_upd [OF k, where i = i and c = c and j = j]
      by (cases "look c j") (auto simp: assms(2))
  qed
qed

text \<open>Exactly the listed ports that exist contribute deferred calls.\<close>

lemma loop_defers:
  assumes k: "\<And>p. key (f p) = key p" and inv: "\<And>i p. d i (f p) = d i p"
  shows "set (snd (port_loop look upd d f ids c)) =
    (\<Union>i \<in> set ids. case look c i of None \<Rightarrow> {} | Some p \<Rightarrow> set (d i p))"
proof (induction ids arbitrary: c)
  case Nil
  then show ?case by simp
next
  case (Cons i ids)
  show ?case
  proof (cases "look c i")
    case None
    then show ?thesis using Cons.IH [of c] by auto
  next
    case (Some p)
    have eq: "(case look (upd i f c) j of None \<Rightarrow> {} | Some p \<Rightarrow> set (d j p)) =
        (case look c j of None \<Rightarrow> {} | Some p \<Rightarrow> set (d j p))" for j
      using look_upd [OF k, where i = i and c = c and j = j] by (auto simp: inv split: option.splits)
    show ?thesis
      using Some Cons.IH [of "upd i f c"] by (auto simp: case_prod_beta Let_def eq)
  qed
qed

end

text \<open>The context of a handler is a port table, as long as \<open>IfIndex\<close> is kept.\<close>

interpretation ctx_ports: port_table StpFindPortByIfIndex upd_port IfIndex
  by unfold_locales (auto simp: StpFindPortByIfIndex_def upd_port_def)

section \<open>What a loop keeps\<close>

lemma upd_port_rest [simp]:
  "brg (upd_port i f c) = brg c" "out (upd_port i f c) = out c"
  "panicked (upd_port i f c) = panicked c"
  by (simp_all add: upd_port_def)

lemma upd_port_self:
  "self (upd_port i f c) = (if i = IfIndex (self c) then f (self c) else self c)"
  by (simp add: upd_port_def)

abbreviation tree_loop ::
  "(int32 \<Rightarrow> StpPort \<Rightarrow> 'd list) \<Rightarrow> (StpPort \<Rightarrow> StpPort) \<Rightarrow> int32 list \<Rightarrow> Ctx \<Rightarrow> Ctx \<times> 'd list" where
  "tree_loop \<equiv> port_loop StpFindPortByIfIndex upd_port"

lemma tree_loop_inv:
  assumes "\<And>i c. P c \<Longrightarrow> P (upd_port i f c)" and "P c"
  shows "P (fst (tree_loop d f ids c))"
  using assms(2)
  by (induction ids arbitrary: c) (auto simp: case_prod_beta Let_def assms(1) split: option.splits)

lemma tree_loop_rest [simp]:
  "brg (fst (tree_loop d f ids c)) = brg c"
  "out (fst (tree_loop d f ids c)) = out c"
  "panicked (fst (tree_loop d f ids c)) = panicked c"
  using tree_loop_inv [where P = "\<lambda>x. brg x = brg c \<and> out x = out c \<and> panicked x = panicked c",
      of f c d ids]
  by simp_all

text \<open>The port itself and the other ports after a loop with an idempotent change.\<close>

lemma tree_loop_self:
  assumes "\<And>p. IfIndex (f p) = IfIndex p" and "\<And>p. f (f p) = f p"
  shows "self (fst (tree_loop d f ids c)) = (if IfIndex (self c) \<in> set ids then f (self c) else self c)"
    and "IfIndex (self (fst (tree_loop d f ids c))) = IfIndex (self c)"
proof -
  have idx: "IfIndex (self (fst (tree_loop d f ids c))) = IfIndex (self c)"
    by (rule tree_loop_inv [where P = "\<lambda>x. IfIndex (self x) = IfIndex (self c)"])
      (simp_all add: upd_port_self assms(1))
  then show "IfIndex (self (fst (tree_loop d f ids c))) = IfIndex (self c)" .
  show "self (fst (tree_loop d f ids c)) = (if IfIndex (self c) \<in> set ids then f (self c) else self c)"
    using ctx_ports.loop_look [OF assms, where d = d and ids = ids and c = c and j = "IfIndex (self c)"] idx
    by (simp add: StpFindPortByIfIndex_def split: if_splits)
qed

lemma tree_loop_peers:
  assumes "\<And>p. IfIndex (f p) = IfIndex p" and "\<And>p. f (f p) = f p" and "j \<noteq> IfIndex (self c)"
  shows "peers (fst (tree_loop d f ids c)) j =
    (if j \<in> set ids then map_option f (peers c j) else peers c j)"
  using ctx_ports.loop_look [OF assms(1,2), where d = d and ids = ids and c = c and j = j] assms(3)
    tree_loop_self(2) [OF assms(1,2), where d = d and ids = ids and c = c]
  by (simp add: StpFindPortByIfIndex_def)

end
