(* ===== verification/Stp_Prt.thy ===== *)
theory Stp_Prt
  imports Stp_Tree
begin

text \<open>
  The port role transitions machine, \<open>l2/stp/protocol/prtfsm.go\<close> (17.29): it moves
  a port to the role selected for it and decides when the port may learn and
  forward.  \<open>NotifyNewInfoChanged\<close> processes an event on the machine itself while a
  transition is still running; the callbacks that reach it take that inner event
  as the argument \<open>nest\<close>.
\<close>

section \<open>Notifications\<close>

definition role_changed_events :: "StpPort \<Rightarrow> StpOut list" where
  "role_changed_events p =
    (if tc_live p
     then if tc_state p = TcStateLearning
          then if Role p \<noteq> PortRoleRootPort \<and> Role p \<noteq> PortRoleDesignatedPort \<and> \<not> Learn p \<and> Learning p \<and> \<not> RcvdTc p \<and> \<not> RcvdTcn p \<and> \<not> RcvdTcAck p \<and> \<not> TcProp p
               then to_tc p TcEventRoleNotEqualRootPortAndRoleNotEqualDesignatedPortAndNotLearnAndNotLearningAndNotRcvdTcAndNotRcvdTcnAndNotRcvdTcAckAndNotTcProp
               else if Role p = PortRoleRootPort \<and> Forward p \<and> \<not> OperEdge p
               then to_tc p TcEventRoleEqualRootPortAndForwardAndNotOperEdge
               else []
          else if tc_state p = TcStateActive
          then if Role p \<noteq> PortRoleRootPort \<and> Role p \<noteq> PortRoleDesignatedPort
               then to_tc p TcEventRoleNotEqualRootPortAndRoleNotEqualDesignatedPort
               else []
          else []
     else [])"

definition forward_changed_events :: "StpPort \<Rightarrow> StpOut list" where
  "forward_changed_events p =
    ((if pst_live p
      then if pst_state p = PstStateLearning
           then if Forward p
                then to_pst p PstEventForward
                else []
           else if pst_state p = PstStateForwarding
           then if \<not> Forward p
                then to_pst p PstEventNotForward
                else []
           else []
      else [])
     @ (if tc_live p
        then if tc_state p = TcStateLearning
             then if Role p = PortRoleRootPort \<and> Forward p \<and> \<not> OperEdge p
                  then to_tc p TcEventRoleEqualRootPortAndForwardAndNotOperEdge
                  else if Role p = PortRoleDesignatedPort \<and> Forward p \<and> \<not> OperEdge p
                  then to_tc p TcEventRoleEqualDesignatedPortAndForwardAndNotOperEdge
                  else []
             else []
        else []))"

definition learn_changed_events :: "StpPort \<Rightarrow> StpOut list" where
  "learn_changed_events p =
    ((if pst_live p
      then if pst_state p = PstStateDiscarding
           then if Learn p
                then to_pst p PstEventLearn
                else []
           else if pst_state p = PstStateLearning
           then if \<not> Learn p
                then to_pst p PstEventNotLearn
                else []
           else []
      else [])
     @ (if tc_live p
        then if tc_state p = TcStateLearning
             then if Role p \<noteq> PortRoleRootPort \<and> Role p \<noteq> PortRoleDesignatedPort \<and> \<not> Learn p \<and> \<not> Learning p \<and> \<not> RcvdTc p \<and> \<not> RcvdTcn p \<and> \<not> RcvdTcAck p \<and> \<not> TcProp p
                  then to_tc p TcEventRoleNotEqualRootPortAndRoleNotEqualDesignatedPortAndNotLearnAndNotLearningAndNotRcvdTcAndNotRcvdTcnAndNotRcvdTcAckAndNotTcProp
                  else []
             else if tc_state p = TcStateInactive
             then if Learn p \<and> \<not> FdbFlush p
                  then to_tc p TcEventLearnAndNotFdbFlush
                  else []
             else []
        else []))"

definition PrtNotifyRoleChanged :: "PortRole \<Rightarrow> PortRole \<Rightarrow> Ctx \<Rightarrow> Ctx" where
  "PrtNotifyRoleChanged oldrole newrole c =
     emit (if oldrole \<noteq> newrole then role_changed_events (self c) else []) c"

definition PrtNotifyForwardChanged :: "bool \<Rightarrow> bool \<Rightarrow> Ctx \<Rightarrow> Ctx" where
  "PrtNotifyForwardChanged oldforward newforward c =
     emit (if oldforward \<noteq> newforward then forward_changed_events (self c) else []) c"

definition PrtNotifyLearnChanged :: "bool \<Rightarrow> bool \<Rightarrow> Ctx \<Rightarrow> Ctx" where
  "PrtNotifyLearnChanged oldlearn newlearn c =
     emit (if oldlearn \<noteq> newlearn then learn_changed_events (self c) else []) c"

definition PrtNotifyNewInfoChanged :: "(Ctx \<Rightarrow> Ctx) \<Rightarrow> bool \<Rightarrow> bool \<Rightarrow> Ctx \<Rightarrow> Ctx" where
  "PrtNotifyNewInfoChanged nest oldnewinfo newnewinfo c =
     (let p = self c in
      if oldnewinfo \<noteq> newnewinfo then
        if ptx_live p then
          if ptx_state p = PtxmStateIdle then
            if SendRSTP p \<and> NewInfo p \<and> TxCount p < TxHoldCount (brg c) \<and> HelloWhenTimer p \<noteq> 0
               \<and> Selected p \<and> \<not> UpdtInfo p
            then nest c else c
          else c
        else c
      else c)"

definition notify_proposing :: "bool \<Rightarrow> bool \<Rightarrow> Ctx \<Rightarrow> Ctx" where
  "notify_proposing oldproposing newproposing c =
     emit (NotifyProposingChanged PrtMachineModuleStr (self c) oldproposing newproposing) c"

definition reroot_changed_events :: "StpPort \<Rightarrow> StpOut list" where
  "reroot_changed_events p =
    (if prt_state p = PrtStateDisabledPort
     then if ReRoot p \<and> Selected p \<and> \<not> UpdtInfo p
          then to_prt p PrtEventReRootAndSelectedAndNotUpdtInfo
          else []
     else if prt_state p = PrtStateRootPort
     then if ReRoot p \<and> Forward p \<and> Selected p \<and> \<not> UpdtInfo p
          then to_prt p PrtEventReRootAndForwardAndSelectedAndNotUpdtInfo
          else []
     else if prt_state p = PrtStateDesignatedPort
     then if RrWhileTimer p = 0 \<and> ReRoot p \<and> Selected p \<and> \<not> UpdtInfo p
          then to_prt p PrtEventRrWhileEqualZeroAndReRootAndSelectedAndNotUpdtInfo
          else if ReRoot p \<and> RrWhileTimer p \<noteq> 0 \<and> \<not> OperEdge p \<and> Learn p \<and> Selected p \<and> \<not> UpdtInfo p
          then to_prt p PrtEventReRootAndRrWhileNotEqualZeroAndNotOperEdgeAndLearnAndSelectedAndNotUpdtInfo
          else if ReRoot p \<and> RrWhileTimer p \<noteq> 0 \<and> \<not> OperEdge p \<and> Forward p \<and> Selected p \<and> \<not> UpdtInfo p
          then to_prt p PrtEventReRootAndRrWhileNotEqualZeroAndNotOperEdgeAndForwardAndSelectedAndNotUpdtInfo
          else []
     else if prt_state p = PrtStateAlternatePort
     then if ReRoot p \<and> Selected p \<and> \<not> UpdtInfo p
          then to_prt p PrtEventReRootAndSelectedAndNotUpdtInfo
          else []
     else [])"

definition sync_changed_events :: "StpPort \<Rightarrow> StpOut list" where
  "sync_changed_events p =
    (if prt_state p = PrtStateDisabledPort
     then if Sync p \<and> Selected p \<and> \<not> UpdtInfo p
          then to_prt p PrtEventSyncAndSelectedAndNotUpdtInfo
          else []
     else if prt_state p = PrtStateDesignatedPort
     then if Sync p \<and> Synced p \<and> Selected p \<and> \<not> UpdtInfo p
          then to_prt p PrtEventSyncAndSyncedAndSelectedAndNotUpdtInfo
          else if Sync p \<and> \<not> Synced p \<and> \<not> OperEdge p \<and> Learn p \<and> Selected p \<and> \<not> UpdtInfo p
          then to_prt p PrtEventSyncAndNotSyncedAndNotOperEdgeAndLearnAndSelectedAndNotUpdtInfo
          else if Sync p \<and> \<not> Synced p \<and> \<not> OperEdge p \<and> Forward p \<and> Selected p \<and> \<not> UpdtInfo p
          then to_prt p PrtEventSyncAndNotSyncedAndNotOperEdgeAndForwardAndSelectedAndNotUpdtInfo
          else []
     else if prt_state p = PrtStateAlternatePort
     then if Sync p \<and> Selected p \<and> \<not> UpdtInfo p
          then to_prt p PrtEventSyncAndSelectedAndNotUpdtInfo
          else []
     else [])"

text \<open>Both are methods of another port's machine; a port without one panics.\<close>

definition PrtNotifySyncChanged :: "int32 \<times> bool \<Rightarrow> bool \<Rightarrow> Ctx \<Rightarrow> Ctx" where
  "PrtNotifySyncChanged pold newsync c =
     (case StpFindPortByIfIndex c (fst pold) of
        None \<Rightarrow> c
      | Some p \<Rightarrow>
          if \<not> prt_live p then panic c
          else emit (if snd pold \<noteq> newsync then sync_changed_events p else []) c)"

definition PrtNotifyReRootChanged :: "int32 \<times> bool \<Rightarrow> bool \<Rightarrow> Ctx \<Rightarrow> Ctx" where
  "PrtNotifyReRootChanged pold newreroot c =
     (case StpFindPortByIfIndex c (fst pold) of
        None \<Rightarrow> c
      | Some p \<Rightarrow>
          if \<not> prt_live p then panic c
          else emit (if snd pold \<noteq> newreroot then reroot_changed_events p else []) c)"

definition setSyncTree :: "int32 \<Rightarrow> Ctx \<Rightarrow> Ctx" where
  "setSyncTree ifindex c =
     (let (c, ds) = tree_loop (\<lambda>pId p. if ifindex \<noteq> pId then [(pId, Sync p)] else [])
                      (\<lambda>p. p\<lparr>Sync := True\<rparr>) (StpPorts (brg c)) c
      in fold (\<lambda>d. PrtNotifySyncChanged d True) ds c)"

definition setReRootTree :: "int32 \<Rightarrow> Ctx \<Rightarrow> Ctx" where
  "setReRootTree ifindex c =
     (let (c, ds) = tree_loop (\<lambda>pId p. if ifindex \<noteq> pId then [(pId, ReRoot p)] else [])
                      (\<lambda>p. p\<lparr>ReRoot := True\<rparr>) (StpPorts (brg c)) c
      in fold (\<lambda>d. PrtNotifyReRootChanged d True) ds c)"

section \<open>Callbacks\<close>

definition PrtMachineInitPort :: "Ctx Callback" where
  "PrtMachineInitPort c =
     (let p = self c;
          c = c\<lparr>self := p\<lparr>Role := PortRoleDisabledPort, Learn := False, Forward := False,
                 Synced := False, Sync := True, ReRoot := True,
                 RrWhileTimer := i32 (ForwardingDelay (BridgeTimes (brg c))),
                 FdWhileTimer := i32 (MaxAge (BridgeTimes (brg c))), RbWhileTimer := 0\<rparr>\<rparr>;
          c = PrtNotifyForwardChanged (Forward p) False c;
          c = PrtNotifyLearnChanged (Learn p) False c;
          c = PrtNotifyRoleChanged (Role p) PortRoleDisabledPort c
      in (PrtStateInitPort, c))"

definition PrtMachineDisablePort :: "Ctx Callback" where
  "PrtMachineDisablePort c =
     (let p = self c;
          c = c\<lparr>self := p\<lparr>Role := SelectedRole p, Learn := False, Forward := False\<rparr>\<rparr>;
          c = PrtNotifyForwardChanged (Forward p) False c;
          c = PrtNotifyLearnChanged (Learn p) False c;
          c = PrtNotifyRoleChanged (Role p) (SelectedRole p) c
      in (PrtStateDisablePort, c))"

definition PrtMachineDisabledPort :: "Ctx Callback" where
  "PrtMachineDisabledPort c =
     (PrtStateDisabledPort,
      c\<lparr>self := (self c)\<lparr>FdWhileTimer := i32 (MaxAge (BridgeTimes (brg c))), Synced := True,
          RrWhileTimer := 0, Sync := False, ReRoot := False\<rparr>\<rparr>)"

definition PrtMachineRootProposed :: "Ctx Callback" where
  "PrtMachineRootProposed c =
     (let c = setSyncTree (IfIndex (self c)) c
      in (PrtStateRootProposed, c\<lparr>self := (self c)\<lparr>Proposed := False\<rparr>\<rparr>))"

definition PrtMachineRootAgreed :: "(Ctx \<Rightarrow> Ctx) \<Rightarrow> Ctx Callback" where
  "PrtMachineRootAgreed nest c =
     (let oldnewinfo = NewInfo (self c);
          c = c\<lparr>self := (self c)\<lparr>Proposed := False, Sync := False, Agree := True, NewInfo := True\<rparr>\<rparr>
      in (PrtStateRootAgreed, PrtNotifyNewInfoChanged nest oldnewinfo True c))"

definition PrtMachineReRoot :: "Ctx Callback" where
  "PrtMachineReRoot c = (PrtStateReRoot, setReRootTree (IfIndex (self c)) c)"

definition PrtMachineRootForward :: "Ctx Callback" where
  "PrtMachineRootForward c =
     (let oldforward = Forward (self c);
          c = c\<lparr>self := (self c)\<lparr>FdWhileTimer := 0, Forward := True\<rparr>\<rparr>
      in (PrtStateRootForward, PrtNotifyForwardChanged oldforward True c))"

definition PrtMachineRootLearn :: "Ctx Callback" where
  "PrtMachineRootLearn c =
     (let oldlearn = Learn (self c);
          c = c\<lparr>self := (self c)\<lparr>FdWhileTimer := i32 (ForwardingDelay (PortTimes (self c))), Learn := True\<rparr>\<rparr>
      in (PrtStateRootLearn, PrtNotifyLearnChanged oldlearn True c))"

definition PrtMachineReRooted :: "Ctx Callback" where
  "PrtMachineReRooted c = (PrtStateReRooted, c\<lparr>self := (self c)\<lparr>ReRoot := False\<rparr>\<rparr>)"

definition PrtMachineRootPort :: "Ctx Callback" where
  "PrtMachineRootPort c =
     (let oldrole = Role (self c);
          c = c\<lparr>self := (self c)\<lparr>Role := PortRoleRootPort,
                 RrWhileTimer := i32 (ForwardingDelay (PortTimes (self c)))\<rparr>\<rparr>
      in (PrtStateRootPort, PrtNotifyRoleChanged oldrole PortRoleRootPort c))"

definition PrtMachineDesignatedPropose :: "(Ctx \<Rightarrow> Ctx) \<Rightarrow> Ctx Callback" where
  "PrtMachineDesignatedPropose nest c =
     (let oldproposing = Proposing (self c);
          oldnewinfo = NewInfo (self c);
          c = c\<lparr>self := (self c)\<lparr>Proposing := True, EdgeDelayWhileTimer := i32 (EdgeDelay c (self c)),
                 NewInfo := True\<rparr>\<rparr>;
          c = PrtNotifyNewInfoChanged nest oldnewinfo True c
      in (PrtStateDesignatedPropose, notify_proposing oldproposing True c))"

definition PrtMachineDesignatedSynced :: "Ctx Callback" where
  "PrtMachineDesignatedSynced c =
     (PrtStateDesignatedSynced,
      c\<lparr>self := (self c)\<lparr>RrWhileTimer := 0, Synced := True, Sync := False\<rparr>\<rparr>)"

definition PrtMachineDesignatedRetired :: "Ctx Callback" where
  "PrtMachineDesignatedRetired c =
     (PrtStateDesignatedRetired, c\<lparr>self := (self c)\<lparr>ReRoot := False\<rparr>\<rparr>)"

definition PrtMachineDesignatedForward :: "Ctx Callback" where
  "PrtMachineDesignatedForward c =
     (let oldforward = Forward (self c);
          c = c\<lparr>self := (self c)\<lparr>Forward := True, FdWhileTimer := 0, Agreed := SendRSTP (self c)\<rparr>\<rparr>
      in (PrtStateDesignatedForward, PrtNotifyForwardChanged oldforward True c))"

definition PrtMachineDesignatedLearn :: "Ctx Callback" where
  "PrtMachineDesignatedLearn c =
     (let oldlearn = Learn (self c);
          c = c\<lparr>self := (self c)\<lparr>Learn := True, FdWhileTimer := i32 (ForwardingDelay (PortTimes (self c)))\<rparr>\<rparr>
      in (PrtStateDesignatedLearn, PrtNotifyLearnChanged oldlearn True c))"

definition PrtMachineDesignatedDiscard :: "Ctx Callback" where
  "PrtMachineDesignatedDiscard c =
     (let p = self c;
          c = c\<lparr>self := p\<lparr>Learn := False, Forward := False, Disputed := False,
                 FdWhileTimer := i32 (ForwardingDelay (PortTimes p))\<rparr>\<rparr>;
          c = PrtNotifyForwardChanged (Forward p) False c
      in (PrtStateDesignatedDiscard, PrtNotifyLearnChanged (Learn p) False c))"

definition PrtMachineDesignatedPort :: "Ctx Callback" where
  "PrtMachineDesignatedPort c =
     (let oldrole = Role (self c);
          c = c\<lparr>self := (self c)\<lparr>Role := PortRoleDesignatedPort\<rparr>\<rparr>
      in (PrtStateDesignatedPort, PrtNotifyRoleChanged oldrole PortRoleDesignatedPort c))"

definition PrtMachineAlternateProposed :: "Ctx Callback" where
  "PrtMachineAlternateProposed c =
     (let c = setSyncTree (IfIndex (self c)) c
      in (PrtStateAlternateProposed, c\<lparr>self := (self c)\<lparr>Proposed := False\<rparr>\<rparr>))"

definition PrtMachineAlternateAgreed :: "(Ctx \<Rightarrow> Ctx) \<Rightarrow> Ctx Callback" where
  "PrtMachineAlternateAgreed nest c =
     (let oldnewinfo = NewInfo (self c);
          c = c\<lparr>self := (self c)\<lparr>Proposed := False, Agree := True, NewInfo := True\<rparr>\<rparr>
      in (PrtStateAlternateAgreed, PrtNotifyNewInfoChanged nest oldnewinfo True c))"

definition PrtMachineBlockPort :: "Ctx Callback" where
  "PrtMachineBlockPort c =
     (let p = self c;
          c = c\<lparr>self := p\<lparr>Role := SelectedRole p, Learn := False, Forward := False\<rparr>\<rparr>;
          c = PrtNotifyForwardChanged (Forward p) False c;
          c = PrtNotifyLearnChanged (Learn p) False c;
          c = PrtNotifyRoleChanged (Role p) (SelectedRole p) c
      in (PrtStateBlockPort, c))"

definition PrtMachineBackupPort :: "Ctx Callback" where
  "PrtMachineBackupPort c =
     (PrtStateBackupPort, c\<lparr>self := (self c)\<lparr>RbWhileTimer := i32 (2 * HelloTime (PortTimes (self c)))\<rparr>\<rparr>)"

definition PrtMachineAlternatePort :: "Ctx Callback" where
  "PrtMachineAlternatePort c =
     (PrtStateAlternatePort,
      c\<lparr>self := (self c)\<lparr>FdWhileTimer := i32 (ForwardingDelay (PortTimes (self c))), Synced := True,
          RrWhileTimer := 0, Sync := False, ReRoot := False\<rparr>\<rparr>)"

section \<open>Rules\<close>

text \<open>The rule table in the order \<open>PrtMachineFSMBuild\<close> fills it, cut at its comments.\<close>

definition PrtRules_begin :: "((State \<times> Event) \<times> Ctx Callback) list" where
  "PrtRules_begin =
     [ ((PrtStateNone, PrtEventBegin), PrtMachineInitPort),
       ((PrtStateInitPort, PrtEventBegin), PrtMachineInitPort),
       ((PrtStateDisablePort, PrtEventBegin), PrtMachineInitPort),
       ((PrtStateDisabledPort, PrtEventBegin), PrtMachineInitPort),
       ((PrtStateRootProposed, PrtEventBegin), PrtMachineInitPort),
       ((PrtStateRootAgreed, PrtEventBegin), PrtMachineInitPort),
       ((PrtStateReRoot, PrtEventBegin), PrtMachineInitPort),
       ((PrtStateRootForward, PrtEventBegin), PrtMachineInitPort),
       ((PrtStateRootLearn, PrtEventBegin), PrtMachineInitPort),
       ((PrtStateReRooted, PrtEventBegin), PrtMachineInitPort),
       ((PrtStateRootPort, PrtEventBegin), PrtMachineInitPort),
       ((PrtStateDesignatedPropose, PrtEventBegin), PrtMachineInitPort),
       ((PrtStateDesignatedSynced, PrtEventBegin), PrtMachineInitPort),
       ((PrtStateDesignatedRetired, PrtEventBegin), PrtMachineInitPort),
       ((PrtStateDesignatedForward, PrtEventBegin), PrtMachineInitPort),
       ((PrtStateDesignatedLearn, PrtEventBegin), PrtMachineInitPort),
       ((PrtStateDesignatedDiscard, PrtEventBegin), PrtMachineInitPort),
       ((PrtStateDesignatedPort, PrtEventBegin), PrtMachineInitPort),
       ((PrtStateAlternateProposed, PrtEventBegin), PrtMachineInitPort),
       ((PrtStateAlternateAgreed, PrtEventBegin), PrtMachineInitPort),
       ((PrtStateAlternatePort, PrtEventBegin), PrtMachineInitPort),
       ((PrtStateBlockPort, PrtEventBegin), PrtMachineInitPort),
       ((PrtStateBackupPort, PrtEventBegin), PrtMachineInitPort) ]"

definition PrtRules_fall :: "((State \<times> Event) \<times> Ctx Callback) list" where
  "PrtRules_fall =
     [ ((PrtStateInitPort, PrtEventUnconditionallFallThrough), PrtMachineDisablePort),
       ((PrtStateRootProposed, PrtEventUnconditionallFallThrough), PrtMachineRootPort),
       ((PrtStateRootAgreed, PrtEventUnconditionallFallThrough), PrtMachineRootPort),
       ((PrtStateReRoot, PrtEventUnconditionallFallThrough), PrtMachineRootPort),
       ((PrtStateRootForward, PrtEventUnconditionallFallThrough), PrtMachineRootPort),
       ((PrtStateRootLearn, PrtEventUnconditionallFallThrough), PrtMachineRootPort),
       ((PrtStateReRooted, PrtEventUnconditionallFallThrough), PrtMachineRootPort),
       ((PrtStateDesignatedPropose, PrtEventUnconditionallFallThrough), PrtMachineDesignatedPort),
       ((PrtStateDesignatedSynced, PrtEventUnconditionallFallThrough), PrtMachineDesignatedPort),
       ((PrtStateDesignatedRetired, PrtEventUnconditionallFallThrough), PrtMachineDesignatedPort),
       ((PrtStateDesignatedForward, PrtEventUnconditionallFallThrough), PrtMachineDesignatedPort),
       ((PrtStateDesignatedLearn, PrtEventUnconditionallFallThrough), PrtMachineDesignatedPort),
       ((PrtStateDesignatedDiscard, PrtEventUnconditionallFallThrough), PrtMachineDesignatedPort),
       ((PrtStateAlternateProposed, PrtEventUnconditionallFallThrough), PrtMachineAlternatePort),
       ((PrtStateAlternateAgreed, PrtEventUnconditionallFallThrough), PrtMachineAlternatePort),
       ((PrtStateBlockPort, PrtEventUnconditionallFallThrough), PrtMachineAlternatePort),
       ((PrtStateBackupPort, PrtEventUnconditionallFallThrough), PrtMachineAlternatePort) ]"

definition PrtRules_disabled :: "((State \<times> Event) \<times> Ctx Callback) list" where
  "PrtRules_disabled =
     [ ((PrtStateDisablePort, PrtEventNotLearningAndNotForwardingAndSelectedAndNotUpdtInfo), PrtMachineDisabledPort),
       ((PrtStateBlockPort, PrtEventNotLearningAndNotForwardingAndSelectedAndNotUpdtInfo), PrtMachineAlternatePort),
       ((PrtStateDisabledPort, PrtEventFdWhileNotEqualMaxAgeAndSelectedAndNotUpdtInfo), PrtMachineDisabledPort),
       ((PrtStateDisabledPort, PrtEventSyncAndSelectedAndNotUpdtInfo), PrtMachineDisabledPort),
       ((PrtStateAlternatePort, PrtEventSyncAndSelectedAndNotUpdtInfo), PrtMachineAlternatePort),
       ((PrtStateDisabledPort, PrtEventReRootAndSelectedAndNotUpdtInfo), PrtMachineDisabledPort),
       ((PrtStateAlternatePort, PrtEventReRootAndSelectedAndNotUpdtInfo), PrtMachineAlternatePort),
       ((PrtStateDisabledPort, PrtEventNotSyncedAndSelectedAndNotUpdtInfo), PrtMachineDisabledPort),
       ((PrtStateAlternatePort, PrtEventNotSyncedAndSelectedAndNotUpdtInfo), PrtMachineAlternatePort),
       ((PrtStateInitPort, PrtEventSelectedRoleEqualDisabledPortAndRoleNotEqualSelectedRoleAndSelectedAndNotUpdtInfo), PrtMachineInitPort),
       ((PrtStateDisablePort, PrtEventSelectedRoleEqualDisabledPortAndRoleNotEqualSelectedRoleAndSelectedAndNotUpdtInfo), PrtMachineInitPort),
       ((PrtStateDisabledPort, PrtEventSelectedRoleEqualDisabledPortAndRoleNotEqualSelectedRoleAndSelectedAndNotUpdtInfo), PrtMachineInitPort),
       ((PrtStateRootProposed, PrtEventSelectedRoleEqualDisabledPortAndRoleNotEqualSelectedRoleAndSelectedAndNotUpdtInfo), PrtMachineInitPort),
       ((PrtStateRootAgreed, PrtEventSelectedRoleEqualDisabledPortAndRoleNotEqualSelectedRoleAndSelectedAndNotUpdtInfo), PrtMachineInitPort),
       ((PrtStateReRoot, PrtEventSelectedRoleEqualDisabledPortAndRoleNotEqualSelectedRoleAndSelectedAndNotUpdtInfo), PrtMachineInitPort),
       ((PrtStateRootForward, PrtEventSelectedRoleEqualDisabledPortAndRoleNotEqualSelectedRoleAndSelectedAndNotUpdtInfo), PrtMachineInitPort),
       ((PrtStateRootLearn, PrtEventSelectedRoleEqualDisabledPortAndRoleNotEqualSelectedRoleAndSelectedAndNotUpdtInfo), PrtMachineInitPort),
       ((PrtStateReRooted, PrtEventSelectedRoleEqualDisabledPortAndRoleNotEqualSelectedRoleAndSelectedAndNotUpdtInfo), PrtMachineInitPort),
       ((PrtStateRootPort, PrtEventSelectedRoleEqualDisabledPortAndRoleNotEqualSelectedRoleAndSelectedAndNotUpdtInfo), PrtMachineInitPort),
       ((PrtStateDesignatedPropose, PrtEventSelectedRoleEqualDisabledPortAndRoleNotEqualSelectedRoleAndSelectedAndNotUpdtInfo), PrtMachineInitPort),
       ((PrtStateDesignatedSynced, PrtEventSelectedRoleEqualDisabledPortAndRoleNotEqualSelectedRoleAndSelectedAndNotUpdtInfo), PrtMachineInitPort),
       ((PrtStateDesignatedRetired, PrtEventSelectedRoleEqualDisabledPortAndRoleNotEqualSelectedRoleAndSelectedAndNotUpdtInfo), PrtMachineInitPort),
       ((PrtStateDesignatedForward, PrtEventSelectedRoleEqualDisabledPortAndRoleNotEqualSelectedRoleAndSelectedAndNotUpdtInfo), PrtMachineInitPort),
       ((PrtStateDesignatedLearn, PrtEventSelectedRoleEqualDisabledPortAndRoleNotEqualSelectedRoleAndSelectedAndNotUpdtInfo), PrtMachineInitPort),
       ((PrtStateDesignatedDiscard, PrtEventSelectedRoleEqualDisabledPortAndRoleNotEqualSelectedRoleAndSelectedAndNotUpdtInfo), PrtMachineInitPort),
       ((PrtStateDesignatedPort, PrtEventSelectedRoleEqualDisabledPortAndRoleNotEqualSelectedRoleAndSelectedAndNotUpdtInfo), PrtMachineInitPort),
       ((PrtStateAlternateProposed, PrtEventSelectedRoleEqualDisabledPortAndRoleNotEqualSelectedRoleAndSelectedAndNotUpdtInfo), PrtMachineInitPort),
       ((PrtStateAlternateAgreed, PrtEventSelectedRoleEqualDisabledPortAndRoleNotEqualSelectedRoleAndSelectedAndNotUpdtInfo), PrtMachineInitPort),
       ((PrtStateAlternatePort, PrtEventSelectedRoleEqualDisabledPortAndRoleNotEqualSelectedRoleAndSelectedAndNotUpdtInfo), PrtMachineInitPort),
       ((PrtStateBlockPort, PrtEventSelectedRoleEqualDisabledPortAndRoleNotEqualSelectedRoleAndSelectedAndNotUpdtInfo), PrtMachineInitPort),
       ((PrtStateBackupPort, PrtEventSelectedRoleEqualDisabledPortAndRoleNotEqualSelectedRoleAndSelectedAndNotUpdtInfo), PrtMachineInitPort) ]"

definition PrtRules_root :: "(Ctx \<Rightarrow> Ctx) \<Rightarrow> ((State \<times> Event) \<times> Ctx Callback) list" where
  "PrtRules_root nest =
     [ ((PrtStateRootPort, PrtEventProposedAndNotAgreeAndSelectedAndNotUpdtInfo), PrtMachineRootProposed),
       ((PrtStateRootPort, PrtEventAllSyncedAndNotAgreeAndSelectedAndNotUpdtInfo), (PrtMachineRootAgreed nest)),
       ((PrtStateRootPort, PrtEventProposedAndAgreeAndSelectedAndNotUpdtInfo), (PrtMachineRootAgreed nest)),
       ((PrtStateRootPort, PrtEventNotForwardAndNotReRootAndSelectedAndNotUpdtInfo), PrtMachineReRoot),
       ((PrtStateRootPort, PrtEventRrWhileNotEqualFwdDelayAndSelectedAndNotUpdtInfo), PrtMachineRootPort),
       ((PrtStateRootPort, PrtEventReRootAndForwardAndSelectedAndNotUpdtInfo), PrtMachineReRooted),
       ((PrtStateRootPort, PrtEventFdWhileEqualZeroAndRstpVersionAndNotLearnAndSelectedAndNotUpdtInfo), PrtMachineRootLearn),
       ((PrtStateRootPort, PrtEventReRootedAndRbWhileEqualZeroAndRstpVersionAndNotLearnAndSelectedAndNotUpdtInfo), PrtMachineRootLearn),
       ((PrtStateRootPort, PrtEventFdWhileEqualZeroAndRstpVersionAndLearnAndNotForwardAndSelectedAndNotUpdtInfo), PrtMachineRootForward),
       ((PrtStateRootPort, PrtEventReRootedAndRbWhileEqualZeroAndRstpVersionAndLearnAndNotForwardAndSelectedAndNotUpdtInfo), PrtMachineRootForward),
       ((PrtStateInitPort, PrtEventSelectedRoleEqualRootPortAndRoleNotEqualSelectedRoleAndSelectedAndNotUpdtInfo), PrtMachineRootPort),
       ((PrtStateDisablePort, PrtEventSelectedRoleEqualRootPortAndRoleNotEqualSelectedRoleAndSelectedAndNotUpdtInfo), PrtMachineRootPort),
       ((PrtStateDisabledPort, PrtEventSelectedRoleEqualRootPortAndRoleNotEqualSelectedRoleAndSelectedAndNotUpdtInfo), PrtMachineRootPort),
       ((PrtStateRootProposed, PrtEventSelectedRoleEqualRootPortAndRoleNotEqualSelectedRoleAndSelectedAndNotUpdtInfo), PrtMachineRootPort),
       ((PrtStateRootAgreed, PrtEventSelectedRoleEqualRootPortAndRoleNotEqualSelectedRoleAndSelectedAndNotUpdtInfo), PrtMachineRootPort),
       ((PrtStateReRoot, PrtEventSelectedRoleEqualRootPortAndRoleNotEqualSelectedRoleAndSelectedAndNotUpdtInfo), PrtMachineRootPort),
       ((PrtStateRootForward, PrtEventSelectedRoleEqualRootPortAndRoleNotEqualSelectedRoleAndSelectedAndNotUpdtInfo), PrtMachineRootPort),
       ((PrtStateRootLearn, PrtEventSelectedRoleEqualRootPortAndRoleNotEqualSelectedRoleAndSelectedAndNotUpdtInfo), PrtMachineRootPort),
       ((PrtStateReRooted, PrtEventSelectedRoleEqualRootPortAndRoleNotEqualSelectedRoleAndSelectedAndNotUpdtInfo), PrtMachineRootPort),
       ((PrtStateRootPort, PrtEventSelectedRoleEqualRootPortAndRoleNotEqualSelectedRoleAndSelectedAndNotUpdtInfo), PrtMachineRootPort),
       ((PrtStateDesignatedPropose, PrtEventSelectedRoleEqualRootPortAndRoleNotEqualSelectedRoleAndSelectedAndNotUpdtInfo), PrtMachineRootPort),
       ((PrtStateDesignatedSynced, PrtEventSelectedRoleEqualRootPortAndRoleNotEqualSelectedRoleAndSelectedAndNotUpdtInfo), PrtMachineRootPort),
       ((PrtStateDesignatedRetired, PrtEventSelectedRoleEqualRootPortAndRoleNotEqualSelectedRoleAndSelectedAndNotUpdtInfo), PrtMachineRootPort),
       ((PrtStateDesignatedForward, PrtEventSelectedRoleEqualRootPortAndRoleNotEqualSelectedRoleAndSelectedAndNotUpdtInfo), PrtMachineRootPort),
       ((PrtStateDesignatedLearn, PrtEventSelectedRoleEqualRootPortAndRoleNotEqualSelectedRoleAndSelectedAndNotUpdtInfo), PrtMachineRootPort),
       ((PrtStateDesignatedDiscard, PrtEventSelectedRoleEqualRootPortAndRoleNotEqualSelectedRoleAndSelectedAndNotUpdtInfo), PrtMachineRootPort),
       ((PrtStateDesignatedPort, PrtEventSelectedRoleEqualRootPortAndRoleNotEqualSelectedRoleAndSelectedAndNotUpdtInfo), PrtMachineRootPort),
       ((PrtStateAlternateProposed, PrtEventSelectedRoleEqualRootPortAndRoleNotEqualSelectedRoleAndSelectedAndNotUpdtInfo), PrtMachineRootPort),
       ((PrtStateAlternateAgreed, PrtEventSelectedRoleEqualRootPortAndRoleNotEqualSelectedRoleAndSelectedAndNotUpdtInfo), PrtMachineRootPort),
       ((PrtStateAlternatePort, PrtEventSelectedRoleEqualRootPortAndRoleNotEqualSelectedRoleAndSelectedAndNotUpdtInfo), PrtMachineRootPort),
       ((PrtStateBlockPort, PrtEventSelectedRoleEqualRootPortAndRoleNotEqualSelectedRoleAndSelectedAndNotUpdtInfo), PrtMachineRootPort),
       ((PrtStateBackupPort, PrtEventSelectedRoleEqualRootPortAndRoleNotEqualSelectedRoleAndSelectedAndNotUpdtInfo), PrtMachineRootPort) ]"

definition PrtRules_designated :: "(Ctx \<Rightarrow> Ctx) \<Rightarrow> ((State \<times> Event) \<times> Ctx Callback) list" where
  "PrtRules_designated nest =
     [ ((PrtStateDesignatedPort, PrtEventNotForwardAndNotAgreedAndNotProposingAndNotOperEdgeAndSelectedAndNotUpdtInfo), (PrtMachineDesignatedPropose nest)),
       ((PrtStateDesignatedPort, PrtEventNotLearningAndNotForwardingAndNotSyncedAndSelectedAndNotUpdtInfo), PrtMachineDesignatedSynced),
       ((PrtStateDesignatedPort, PrtEventAgreedAndNotSyncedAndSelectedAndNotUpdtInfo), PrtMachineDesignatedSynced),
       ((PrtStateDesignatedPort, PrtEventOperEdgeAndNotSyncedAndSelectedAndNotUpdtInfo), PrtMachineDesignatedSynced),
       ((PrtStateDesignatedPort, PrtEventSyncAndSyncedAndSelectedAndNotUpdtInfo), PrtMachineDesignatedSynced),
       ((PrtStateDesignatedPort, PrtEventRrWhileEqualZeroAndReRootAndSelectedAndNotUpdtInfo), PrtMachineDesignatedRetired),
       ((PrtStateInitPort, PrtEventSelectedRoleEqualDesignatedPortAndRoleNotEqualSelectedRoleAndSelectedAndNotUpdtInfo), PrtMachineDesignatedPort),
       ((PrtStateDisablePort, PrtEventSelectedRoleEqualDesignatedPortAndRoleNotEqualSelectedRoleAndSelectedAndNotUpdtInfo), PrtMachineDesignatedPort),
       ((PrtStateDisabledPort, PrtEventSelectedRoleEqualDesignatedPortAndRoleNotEqualSelectedRoleAndSelectedAndNotUpdtInfo), PrtMachineDesignatedPort),
       ((PrtStateRootProposed, PrtEventSelectedRoleEqualDesignatedPortAndRoleNotEqualSelectedRoleAndSelectedAndNotUpdtInfo), PrtMachineDesignatedPort),
       ((PrtStateRootAgreed, PrtEventSelectedRoleEqualDesignatedPortAndRoleNotEqualSelectedRoleAndSelectedAndNotUpdtInfo), PrtMachineDesignatedPort),
       ((PrtStateReRoot, PrtEventSelectedRoleEqualDesignatedPortAndRoleNotEqualSelectedRoleAndSelectedAndNotUpdtInfo), PrtMachineDesignatedPort),
       ((PrtStateRootForward, PrtEventSelectedRoleEqualDesignatedPortAndRoleNotEqualSelectedRoleAndSelectedAndNotUpdtInfo), PrtMachineDesignatedPort),
       ((PrtStateRootLearn, PrtEventSelectedRoleEqualDesignatedPortAndRoleNotEqualSelectedRoleAndSelectedAndNotUpdtInfo), PrtMachineDesignatedPort),
       ((PrtStateReRooted, PrtEventSelectedRoleEqualDesignatedPortAndRoleNotEqualSelectedRoleAndSelectedAndNotUpdtInfo), PrtMachineDesignatedPort),
       ((PrtStateRootPort, PrtEventSelectedRoleEqualDesignatedPortAndRoleNotEqualSelectedRoleAndSelectedAndNotUpdtInfo), PrtMachineDesignatedPort),
       ((PrtStateDesignatedPropose, PrtEventSelectedRoleEqualDesignatedPortAndRoleNotEqualSelectedRoleAndSelectedAndNotUpdtInfo), PrtMachineDesignatedPort),
       ((PrtStateDesignatedSynced, PrtEventSelectedRoleEqualDesignatedPortAndRoleNotEqualSelectedRoleAndSelectedAndNotUpdtInfo), PrtMachineDesignatedPort),
       ((PrtStateDesignatedRetired, PrtEventSelectedRoleEqualDesignatedPortAndRoleNotEqualSelectedRoleAndSelectedAndNotUpdtInfo), PrtMachineDesignatedPort),
       ((PrtStateDesignatedForward, PrtEventSelectedRoleEqualDesignatedPortAndRoleNotEqualSelectedRoleAndSelectedAndNotUpdtInfo), PrtMachineDesignatedPort),
       ((PrtStateDesignatedLearn, PrtEventSelectedRoleEqualDesignatedPortAndRoleNotEqualSelectedRoleAndSelectedAndNotUpdtInfo), PrtMachineDesignatedPort),
       ((PrtStateDesignatedDiscard, PrtEventSelectedRoleEqualDesignatedPortAndRoleNotEqualSelectedRoleAndSelectedAndNotUpdtInfo), PrtMachineDesignatedPort),
       ((PrtStateDesignatedPort, PrtEventSelectedRoleEqualDesignatedPortAndRoleNotEqualSelectedRoleAndSelectedAndNotUpdtInfo), PrtMachineDesignatedPort),
       ((PrtStateAlternateProposed, PrtEventSelectedRoleEqualDesignatedPortAndRoleNotEqualSelectedRoleAndSelectedAndNotUpdtInfo), PrtMachineDesignatedPort),
       ((PrtStateAlternateAgreed, PrtEventSelectedRoleEqualDesignatedPortAndRoleNotEqualSelectedRoleAndSelectedAndNotUpdtInfo), PrtMachineDesignatedPort),
       ((PrtStateAlternatePort, PrtEventSelectedRoleEqualDesignatedPortAndRoleNotEqualSelectedRoleAndSelectedAndNotUpdtInfo), PrtMachineDesignatedPort),
       ((PrtStateBlockPort, PrtEventSelectedRoleEqualDesignatedPortAndRoleNotEqualSelectedRoleAndSelectedAndNotUpdtInfo), PrtMachineDesignatedPort),
       ((PrtStateBackupPort, PrtEventSelectedRoleEqualDesignatedPortAndRoleNotEqualSelectedRoleAndSelectedAndNotUpdtInfo), PrtMachineDesignatedPort),
       ((PrtStateDesignatedPort, PrtEventSyncAndNotSyncedAndNotOperEdgeAndLearnAndSelectedAndNotUpdtInfo), PrtMachineDesignatedDiscard),
       ((PrtStateDesignatedPort, PrtEventSyncAndNotSyncedAndNotOperEdgeAndForwardAndSelectedAndNotUpdtInfo), PrtMachineDesignatedDiscard),
       ((PrtStateDesignatedPort, PrtEventReRootAndRrWhileNotEqualZeroAndNotOperEdgeAndLearnAndSelectedAndNotUpdtInfo), PrtMachineDesignatedDiscard),
       ((PrtStateDesignatedPort, PrtEventReRootAndRrWhileNotEqualZeroAndNotOperEdgeAndForwardAndSelectedAndNotUpdtInfo), PrtMachineDesignatedDiscard),
       ((PrtStateDesignatedPort, PrtEventDisputedAndNotOperEdgeAndLearnAndSelectedAndNotUpdtInfo), PrtMachineDesignatedDiscard),
       ((PrtStateDesignatedPort, PrtEventDisputedAndNotOperEdgeAndForwardAndSelectedAndNotUpdtInfo), PrtMachineDesignatedDiscard),
       ((PrtStateDesignatedPort, PrtEventFdWhileEqualZeroAndRrWhileEqualZeroAndNotSyncAndNotLearnAndSelectedAndNotUpdtInfo), PrtMachineDesignatedLearn),
       ((PrtStateDesignatedPort, PrtEventFdWhileEqualZeroAndNotReRootAndNotSyncAndLearnAndNotForwardSelectedAndNotUpdtInfo), PrtMachineDesignatedLearn),
       ((PrtStateDesignatedPort, PrtEventAgreedAndRrWhileEqualZeroAndNotSyncAndNotLearnAndSelectedAndNotUpdtInfo), PrtMachineDesignatedLearn),
       ((PrtStateDesignatedPort, PrtEventAgreedAndNotReRootAndNotSyncAndNotLearnAndSelectedAndNotUpdtInfo), PrtMachineDesignatedLearn),
       ((PrtStateDesignatedPort, PrtEventOperEdgeAndRrWhileEqualZeroAndNotSyncAndNotLearnAndSelectedAndNotUpdtInfo), PrtMachineDesignatedLearn),
       ((PrtStateDesignatedPort, PrtEventOperEdgeAndNotReRootAndNotSyncAndNotLearnAndSelectedAndNotUpdtInfo), PrtMachineDesignatedLearn),
       ((PrtStateDesignatedPort, PrtEventFdWhileEqualZeroAndRrWhileEqualZeroAndNotSyncAndLearnAndNotForwardSelectedAndNotUpdtInfo), PrtMachineDesignatedForward),
       ((PrtStateDesignatedPort, PrtEventFdWhileEqualZeroAndNotReRootAndNotSyncAndLearnAndNotForwardSelectedAndNotUpdtInfo), PrtMachineDesignatedForward),
       ((PrtStateDesignatedPort, PrtEventAgreedAndRrWhileEqualZeroAndNotSyncAndLearnAndNotForwardAndSelectedAndNotUpdtInfo), PrtMachineDesignatedForward),
       ((PrtStateDesignatedPort, PrtEventAgreedAndNotReRootAndNotSyncAndLearnAndNotForwardAndSelectedAndNotUpdtInfo), PrtMachineDesignatedForward),
       ((PrtStateDesignatedPort, PrtEventOperEdgeAndRrWhileEqualZeroAndNotSyncAndLearnAndNotForwardAndSelectedAndNotUpdtInfo), PrtMachineDesignatedForward),
       ((PrtStateDesignatedPort, PrtEventOperEdgeAndNotReRootAndNotSyncAndLearnAndNotForwardAndSelectedAndNotUpdtInfo), PrtMachineDesignatedForward) ]"

definition PrtRules_alternate :: "(Ctx \<Rightarrow> Ctx) \<Rightarrow> ((State \<times> Event) \<times> Ctx Callback) list" where
  "PrtRules_alternate nest =
     [ ((PrtStateInitPort, PrtEventSelectedRoleEqualAlternateAndRoleNotEqualSelectedRoleAndSelectedAndNotUpdtInfo), PrtMachineBlockPort),
       ((PrtStateDisablePort, PrtEventSelectedRoleEqualAlternateAndRoleNotEqualSelectedRoleAndSelectedAndNotUpdtInfo), PrtMachineBlockPort),
       ((PrtStateDisabledPort, PrtEventSelectedRoleEqualAlternateAndRoleNotEqualSelectedRoleAndSelectedAndNotUpdtInfo), PrtMachineBlockPort),
       ((PrtStateRootProposed, PrtEventSelectedRoleEqualAlternateAndRoleNotEqualSelectedRoleAndSelectedAndNotUpdtInfo), PrtMachineBlockPort),
       ((PrtStateRootAgreed, PrtEventSelectedRoleEqualAlternateAndRoleNotEqualSelectedRoleAndSelectedAndNotUpdtInfo), PrtMachineBlockPort),
       ((PrtStateReRoot, PrtEventSelectedRoleEqualAlternateAndRoleNotEqualSelectedRoleAndSelectedAndNotUpdtInfo), PrtMachineBlockPort),
       ((PrtStateRootForward, PrtEventSelectedRoleEqualAlternateAndRoleNotEqualSelectedRoleAndSelectedAndNotUpdtInfo), PrtMachineBlockPort),
       ((PrtStateRootLearn, PrtEventSelectedRoleEqualAlternateAndRoleNotEqualSelectedRoleAndSelectedAndNotUpdtInfo), PrtMachineBlockPort),
       ((PrtStateReRooted, PrtEventSelectedRoleEqualAlternateAndRoleNotEqualSelectedRoleAndSelectedAndNotUpdtInfo), PrtMachineBlockPort),
       ((PrtStateRootPort, PrtEventSelectedRoleEqualAlternateAndRoleNotEqualSelectedRoleAndSelectedAndNotUpdtInfo), PrtMachineBlockPort),
       ((PrtStateDesignatedPropose, PrtEventSelectedRoleEqualAlternateAndRoleNotEqualSelectedRoleAndSelectedAndNotUpdtInfo), PrtMachineBlockPort),
       ((PrtStateDesignatedSynced, PrtEventSelectedRoleEqualAlternateAndRoleNotEqualSelectedRoleAndSelectedAndNotUpdtInfo), PrtMachineBlockPort),
       ((PrtStateDesignatedRetired, PrtEventSelectedRoleEqualAlternateAndRoleNotEqualSelectedRoleAndSelectedAndNotUpdtInfo), PrtMachineBlockPort),
       ((PrtStateDesignatedForward, PrtEventSelectedRoleEqualAlternateAndRoleNotEqualSelectedRoleAndSelectedAndNotUpdtInfo), PrtMachineBlockPort),
       ((PrtStateDesignatedLearn, PrtEventSelectedRoleEqualAlternateAndRoleNotEqualSelectedRoleAndSelectedAndNotUpdtInfo), PrtMachineBlockPort),
       ((PrtStateDesignatedDiscard, PrtEventSelectedRoleEqualAlternateAndRoleNotEqualSelectedRoleAndSelectedAndNotUpdtInfo), PrtMachineBlockPort),
       ((PrtStateDesignatedPort, PrtEventSelectedRoleEqualAlternateAndRoleNotEqualSelectedRoleAndSelectedAndNotUpdtInfo), PrtMachineBlockPort),
       ((PrtStateAlternateProposed, PrtEventSelectedRoleEqualAlternateAndRoleNotEqualSelectedRoleAndSelectedAndNotUpdtInfo), PrtMachineBlockPort),
       ((PrtStateAlternateAgreed, PrtEventSelectedRoleEqualAlternateAndRoleNotEqualSelectedRoleAndSelectedAndNotUpdtInfo), PrtMachineBlockPort),
       ((PrtStateAlternatePort, PrtEventSelectedRoleEqualAlternateAndRoleNotEqualSelectedRoleAndSelectedAndNotUpdtInfo), PrtMachineBlockPort),
       ((PrtStateBlockPort, PrtEventSelectedRoleEqualAlternateAndRoleNotEqualSelectedRoleAndSelectedAndNotUpdtInfo), PrtMachineBlockPort),
       ((PrtStateBackupPort, PrtEventSelectedRoleEqualAlternateAndRoleNotEqualSelectedRoleAndSelectedAndNotUpdtInfo), PrtMachineBlockPort),
       ((PrtStateInitPort, PrtEventSelectedRoleEqualAlternateAndRoleNotEqualSelectedRoleAndSelectedAndNotUpdtInfo), PrtMachineBlockPort),
       ((PrtStateDisablePort, PrtEventSelectedRoleEqualAlternateAndRoleNotEqualSelectedRoleAndSelectedAndNotUpdtInfo), PrtMachineBlockPort),
       ((PrtStateDisabledPort, PrtEventSelectedRoleEqualAlternateAndRoleNotEqualSelectedRoleAndSelectedAndNotUpdtInfo), PrtMachineBlockPort),
       ((PrtStateRootProposed, PrtEventSelectedRoleEqualAlternateAndRoleNotEqualSelectedRoleAndSelectedAndNotUpdtInfo), PrtMachineBlockPort),
       ((PrtStateRootAgreed, PrtEventSelectedRoleEqualAlternateAndRoleNotEqualSelectedRoleAndSelectedAndNotUpdtInfo), PrtMachineBlockPort),
       ((PrtStateReRoot, PrtEventSelectedRoleEqualAlternateAndRoleNotEqualSelectedRoleAndSelectedAndNotUpdtInfo), PrtMachineBlockPort),
       ((PrtStateRootForward, PrtEventSelectedRoleEqualAlternateAndRoleNotEqualSelectedRoleAndSelectedAndNotUpdtInfo), PrtMachineBlockPort),
       ((PrtStateRootLearn, PrtEventSelectedRoleEqualAlternateAndRoleNotEqualSelectedRoleAndSelectedAndNotUpdtInfo), PrtMachineBlockPort),
       ((PrtStateReRooted, PrtEventSelectedRoleEqualAlternateAndRoleNotEqualSelectedRoleAndSelectedAndNotUpdtInfo), PrtMachineBlockPort),
       ((PrtStateRootPort, PrtEventSelectedRoleEqualAlternateAndRoleNotEqualSelectedRoleAndSelectedAndNotUpdtInfo), PrtMachineBlockPort),
       ((PrtStateDesignatedPropose, PrtEventSelectedRoleEqualAlternateAndRoleNotEqualSelectedRoleAndSelectedAndNotUpdtInfo), PrtMachineBlockPort),
       ((PrtStateDesignatedSynced, PrtEventSelectedRoleEqualAlternateAndRoleNotEqualSelectedRoleAndSelectedAndNotUpdtInfo), PrtMachineBlockPort),
       ((PrtStateDesignatedRetired, PrtEventSelectedRoleEqualAlternateAndRoleNotEqualSelectedRoleAndSelectedAndNotUpdtInfo), PrtMachineBlockPort),
       ((PrtStateDesignatedForward, PrtEventSelectedRoleEqualAlternateAndRoleNotEqualSelectedRoleAndSelectedAndNotUpdtInfo), PrtMachineBlockPort),
       ((PrtStateDesignatedLearn, PrtEventSelectedRoleEqualAlternateAndRoleNotEqualSelectedRoleAndSelectedAndNotUpdtInfo), PrtMachineBlockPort),
       ((PrtStateDesignatedDiscard, PrtEventSelectedRoleEqualAlternateAndRoleNotEqualSelectedRoleAndSelectedAndNotUpdtInfo), PrtMachineBlockPort),
       ((PrtStateDesignatedPort, PrtEventSelectedRoleEqualAlternateAndRoleNotEqualSelectedRoleAndSelectedAndNotUpdtInfo), PrtMachineBlockPort),
       ((PrtStateAlternateProposed, PrtEventSelectedRoleEqualAlternateAndRoleNotEqualSelectedRoleAndSelectedAndNotUpdtInfo), PrtMachineBlockPort),
       ((PrtStateAlternateAgreed, PrtEventSelectedRoleEqualAlternateAndRoleNotEqualSelectedRoleAndSelectedAndNotUpdtInfo), PrtMachineBlockPort),
       ((PrtStateAlternatePort, PrtEventSelectedRoleEqualAlternateAndRoleNotEqualSelectedRoleAndSelectedAndNotUpdtInfo), PrtMachineBlockPort),
       ((PrtStateBlockPort, PrtEventSelectedRoleEqualAlternateAndRoleNotEqualSelectedRoleAndSelectedAndNotUpdtInfo), PrtMachineBlockPort),
       ((PrtStateBackupPort, PrtEventSelectedRoleEqualAlternateAndRoleNotEqualSelectedRoleAndSelectedAndNotUpdtInfo), PrtMachineBlockPort),
       ((PrtStateAlternatePort, PrtEventProposedAndNotAgreeAndSelectedAndNotUpdtInfo), PrtMachineAlternateProposed),
       ((PrtStateAlternatePort, PrtEventAllSyncedAndNotAgreeAndSelectedAndNotUpdtInfo), (PrtMachineAlternateAgreed nest)),
       ((PrtStateAlternatePort, PrtEventProposedAndAgreeAndSelectedAndNotUpdtInfo), (PrtMachineAlternateAgreed nest)),
       ((PrtStateAlternatePort, PrtEventFdWhileNotEqualForwardDelayAndSelectedAndNotUpdtInfo), PrtMachineAlternatePort),
       ((PrtStateAlternatePort, PrtEventFdWhileNotEqualForwardDelayAndSelectedAndNotUpdtInfo), PrtMachineAlternatePort),
       ((PrtStateAlternatePort, PrtEventRbWhileNotEqualTwoTimesHelloTimeAndRoleEqualsBackupPortAndSelectedAndNotUpdtInfo), PrtMachineBackupPort) ]"

definition PrtRules :: "(Ctx \<Rightarrow> Ctx) \<Rightarrow> ((State \<times> Event) \<times> Ctx Callback) list" where
  "PrtRules nest =
     PrtRules_begin @ PrtRules_fall @ PrtRules_disabled @ PrtRules_root nest
       @ PrtRules_designated nest @ PrtRules_alternate nest"

text \<open>
  The inner event is the transmit machine's \<open>SendRSTP\<close> constant, processed on this
  machine.  Its number is that of the event that selects the disabled role, whose
  rules all lead to \<open>InitPort\<close>, which has no inner event: one unfolding of the
  recursion is exact (lemma \<open>prt_nested_exact\<close>).
\<close>

abbreviation prt_inner :: Event where
  "prt_inner \<equiv>
     PtxmEventSendRSTPAndNewInfoAndTxCountLessThanTxHoldCoundAndHelloWhenNotEqualZeroAndSelectedAndNotUpdtInfo"

definition prt_nested :: "Ctx \<Rightarrow> Ctx" where
  "prt_nested c =
     snd (ProcessEvent prt_get prt_upd (AddRules (PrtRules id) Map.empty) prt_inner c)"

definition PrtProcess :: "Ctx Process" where
  "PrtProcess = ProcessEvent prt_get prt_upd (AddRules (PrtRules prt_nested) Map.empty)"

section \<open>Post processing\<close>

definition PrtPostStateInitPort :: "Ctx Post" where
  "PrtPostStateInitPort c =
    (let p = self c in
     if prt_live p \<and> prt_state p = PrtStateInitPort
     then Some PrtEventUnconditionallFallThrough
     else None)"

definition PrtPostStateDisable :: "Ctx Post" where
  "PrtPostStateDisable c =
    (let p = self c in
     if prt_live p \<and> prt_state p = PrtStateDisablePort
     then if \<not> Learning p \<and> \<not> Forwarding p \<and> Selected p \<and> \<not> UpdtInfo p
          then Some PrtEventNotLearningAndNotForwardingAndSelectedAndNotUpdtInfo
          else None
     else None)"

definition PrtPostStateDisabled :: "Ctx Post" where
  "PrtPostStateDisabled c =
    (let p = self c in
     if prt_live p \<and> prt_state p = PrtStateDisabledPort
     then if FdWhileTimer p \<noteq> i32 (MaxAge (PortTimes p)) \<and> Selected p \<and> \<not> UpdtInfo p
          then Some PrtEventFdWhileNotEqualMaxAgeAndSelectedAndNotUpdtInfo
          else if Sync p \<and> Selected p \<and> \<not> UpdtInfo p
          then Some PrtEventSyncAndSelectedAndNotUpdtInfo
          else if ReRoot p \<and> Selected p \<and> \<not> UpdtInfo p
          then Some PrtEventReRootAndSelectedAndNotUpdtInfo
          else if \<not> Synced p \<and> Selected p \<and> \<not> UpdtInfo p
          then Some PrtEventNotSyncedAndSelectedAndNotUpdtInfo
          else None
     else None)"

definition PrtPostStateRootPort :: "Ctx Post" where
  "PrtPostStateRootPort c =
    (let p = self c in
     if prt_live p \<and> prt_state p = PrtStateRootPort
     then if Proposed p \<and> \<not> Agree p \<and> Selected p \<and> \<not> UpdtInfo p
          then Some PrtEventProposedAndNotAgreeAndSelectedAndNotUpdtInfo
          else if AllSynced c \<and> \<not> Agree p \<and> Selected p \<and> \<not> UpdtInfo p
          then Some PrtEventAllSyncedAndNotAgreeAndSelectedAndNotUpdtInfo
          else if Proposed p \<and> Agree p \<and> Selected p \<and> \<not> UpdtInfo p
          then Some PrtEventProposedAndAgreeAndSelectedAndNotUpdtInfo
          else if \<not> Forward p \<and> \<not> ReRoot p \<and> Selected p \<and> \<not> UpdtInfo p
          then Some PrtEventNotForwardAndNotReRootAndSelectedAndNotUpdtInfo
          else if RrWhileTimer p \<noteq> i32 (ForwardingDelay (PortTimes p)) \<and> Selected p \<and> \<not> UpdtInfo p
          then Some PrtEventRrWhileNotEqualFwdDelayAndSelectedAndNotUpdtInfo
          else if ReRoot p \<and> Forward p \<and> Selected p \<and> \<not> UpdtInfo p
          then Some PrtEventReRootAndForwardAndSelectedAndNotUpdtInfo
          else if FdWhileTimer p = 0 \<and> RstpVersion p \<and> \<not> Learn p \<and> Selected p \<and> \<not> UpdtInfo p
          then Some PrtEventFdWhileEqualZeroAndRstpVersionAndNotLearnAndSelectedAndNotUpdtInfo
          else if ReRooted c p \<and> RbWhileTimer p = 0 \<and> RstpVersion p \<and> \<not> Learn p \<and> Selected p \<and> \<not> UpdtInfo p
          then Some PrtEventReRootedAndRbWhileEqualZeroAndRstpVersionAndNotLearnAndSelectedAndNotUpdtInfo
          else if FdWhileTimer p = 0 \<and> RstpVersion p \<and> Learn p \<and> \<not> Forward p \<and> Selected p \<and> \<not> UpdtInfo p
          then Some PrtEventFdWhileEqualZeroAndRstpVersionAndLearnAndNotForwardAndSelectedAndNotUpdtInfo
          else if ReRooted c p \<and> RbWhileTimer p = 0 \<and> RstpVersion p \<and> Learn p \<and> \<not> Forward p \<and> Selected p \<and> \<not> UpdtInfo p
          then Some PrtEventReRootedAndRbWhileEqualZeroAndRstpVersionAndLearnAndNotForwardAndSelectedAndNotUpdtInfo
          else None
     else None)"

definition PrtPostStateRootProposed :: "Ctx Post" where
  "PrtPostStateRootProposed c =
    (let p = self c in
     if prt_live p \<and> prt_state p = PrtStateRootProposed
     then Some PrtEventUnconditionallFallThrough
     else None)"

definition PrtPostStateRootAgreed :: "Ctx Post" where
  "PrtPostStateRootAgreed c =
    (let p = self c in
     if prt_live p \<and> prt_state p = PrtStateRootAgreed
     then Some PrtEventUnconditionallFallThrough
     else None)"

definition PrtPostStateReRoot :: "Ctx Post" where
  "PrtPostStateReRoot c =
    (let p = self c in
     if prt_live p \<and> prt_state p = PrtStateReRoot
     then Some PrtEventUnconditionallFallThrough
     else None)"

definition PrtPostStateRootForward :: "Ctx Post" where
  "PrtPostStateRootForward c =
    (let p = self c in
     if prt_live p \<and> prt_state p = PrtStateRootForward
     then Some PrtEventUnconditionallFallThrough
     else None)"

definition PrtPostStateRootLearn :: "Ctx Post" where
  "PrtPostStateRootLearn c =
    (let p = self c in
     if prt_live p \<and> prt_state p = PrtStateRootLearn
     then Some PrtEventUnconditionallFallThrough
     else None)"

definition PrtPostStateReRooted :: "Ctx Post" where
  "PrtPostStateReRooted c =
    (let p = self c in
     if prt_live p \<and> prt_state p = PrtStateReRooted
     then Some PrtEventUnconditionallFallThrough
     else None)"

text \<open>The second half of the function: when a designated port may learn and forward.\<close>

definition DesignatedPort_learn_forward :: "StpPort \<Rightarrow> Event option" where
  "DesignatedPort_learn_forward p =
    (if FdWhileTimer p = 0 \<and> RrWhileTimer p = 0 \<and> \<not> Sync p \<and> \<not> Learn p \<and> Selected p \<and> \<not> UpdtInfo p
     then Some PrtEventFdWhileEqualZeroAndRrWhileEqualZeroAndNotSyncAndNotLearnAndSelectedAndNotUpdtInfo
     else if FdWhileTimer p = 0 \<and> \<not> ReRoot p \<and> \<not> Sync p \<and> \<not> Learn p \<and> Selected p \<and> \<not> UpdtInfo p
     then Some PrtEventFdWhileEqualZeroAndNotReRootAndNotSyncAndNotLearnSelectedAndNotUpdtInfo
     else if Agreed p \<and> RrWhileTimer p = 0 \<and> \<not> Sync p \<and> \<not> Learn p \<and> Selected p \<and> \<not> UpdtInfo p
     then Some PrtEventFdWhileEqualZeroAndRrWhileEqualZeroAndNotSyncAndLearnAndNotForwardSelectedAndNotUpdtInfo
     else if Agreed p \<and> \<not> ReRoot p \<and> \<not> Sync p \<and> \<not> Learn p \<and> Selected p \<and> \<not> UpdtInfo p
     then Some PrtEventAgreedAndNotReRootAndNotSyncAndNotLearnAndSelectedAndNotUpdtInfo
     else if OperEdge p \<and> RrWhileTimer p = 0 \<and> \<not> Sync p \<and> \<not> Learn p \<and> Selected p \<and> \<not> UpdtInfo p
     then Some PrtEventOperEdgeAndRrWhileEqualZeroAndNotSyncAndNotLearnAndSelectedAndNotUpdtInfo
     else if OperEdge p \<and> \<not> ReRoot p \<and> \<not> Sync p \<and> \<not> Learn p \<and> Selected p \<and> \<not> UpdtInfo p
     then Some PrtEventOperEdgeAndNotReRootAndNotSyncAndNotLearnAndSelectedAndNotUpdtInfo
     else if FdWhileTimer p = 0 \<and> RrWhileTimer p = 0 \<and> \<not> Sync p \<and> Learn p \<and> \<not> Forward p \<and> Selected p \<and> \<not> UpdtInfo p
     then Some PrtEventFdWhileEqualZeroAndRrWhileEqualZeroAndNotSyncAndLearnAndNotForwardSelectedAndNotUpdtInfo
     else if FdWhileTimer p = 0 \<and> \<not> ReRoot p \<and> \<not> Sync p \<and> Learn p \<and> \<not> Forward p \<and> Selected p \<and> \<not> UpdtInfo p
     then Some PrtEventFdWhileEqualZeroAndNotReRootAndNotSyncAndLearnAndNotForwardSelectedAndNotUpdtInfo
     else if Agreed p \<and> RrWhileTimer p = 0 \<and> \<not> Sync p \<and> Learn p \<and> \<not> Forward p \<and> Selected p \<and> \<not> UpdtInfo p
     then Some PrtEventAgreedAndRrWhileEqualZeroAndNotSyncAndLearnAndNotForwardAndSelectedAndNotUpdtInfo
     else if Agreed p \<and> \<not> ReRoot p \<and> \<not> Sync p \<and> Learn p \<and> \<not> Forward p \<and> Selected p \<and> \<not> UpdtInfo p
     then Some PrtEventAgreedAndNotReRootAndNotSyncAndLearnAndNotForwardAndSelectedAndNotUpdtInfo
     else if OperEdge p \<and> RrWhileTimer p = 0 \<and> \<not> Sync p \<and> Learn p \<and> \<not> Forward p \<and> Selected p \<and> \<not> UpdtInfo p
     then Some PrtEventOperEdgeAndRrWhileEqualZeroAndNotSyncAndLearnAndNotForwardAndSelectedAndNotUpdtInfo
     else if OperEdge p \<and> \<not> ReRoot p \<and> \<not> Sync p \<and> Learn p \<and> \<not> Forward p \<and> Selected p \<and> \<not> UpdtInfo p
     then Some PrtEventOperEdgeAndNotReRootAndNotSyncAndLearnAndNotForwardAndSelectedAndNotUpdtInfo
     else None)"

definition PrtPostStateDesignatedPort :: "Ctx Post" where
  "PrtPostStateDesignatedPort c =
    (let p = self c in
     if prt_live p \<and> prt_state p = PrtStateDesignatedPort
     then if \<not> Forwarding p \<and> \<not> Agreed p \<and> \<not> Proposing p \<and> \<not> OperEdge p \<and> Selected p \<and> \<not> UpdtInfo p
          then Some PrtEventNotForwardAndNotAgreedAndNotProposingAndNotOperEdgeAndSelectedAndNotUpdtInfo
          else if \<not> Learning p \<and> \<not> Forwarding p \<and> \<not> Synced p \<and> Selected p \<and> \<not> UpdtInfo p
          then Some PrtEventNotLearningAndNotForwardingAndNotSyncedAndSelectedAndNotUpdtInfo
          else if Agreed p \<and> \<not> Synced p \<and> Selected p \<and> \<not> UpdtInfo p
          then Some PrtEventAgreedAndNotSyncedAndSelectedAndNotUpdtInfo
          else if OperEdge p \<and> \<not> Synced p \<and> Selected p \<and> \<not> UpdtInfo p
          then Some PrtEventOperEdgeAndNotSyncedAndSelectedAndNotUpdtInfo
          else if Sync p \<and> Synced p \<and> Selected p \<and> \<not> UpdtInfo p
          then Some PrtEventSyncAndSyncedAndSelectedAndNotUpdtInfo
          else if RrWhileTimer p = 0 \<and> ReRoot p \<and> Selected p \<and> \<not> UpdtInfo p
          then Some PrtEventRrWhileEqualZeroAndReRootAndSelectedAndNotUpdtInfo
          else if Sync p \<and> \<not> Synced p \<and> \<not> OperEdge p \<and> Learn p \<and> Selected p \<and> \<not> UpdtInfo p
          then Some PrtEventSyncAndNotSyncedAndNotOperEdgeAndLearnAndSelectedAndNotUpdtInfo
          else if Sync p \<and> \<not> Synced p \<and> \<not> OperEdge p \<and> Forward p \<and> Selected p \<and> \<not> UpdtInfo p
          then Some PrtEventSyncAndNotSyncedAndNotOperEdgeAndForwardAndSelectedAndNotUpdtInfo
          else if ReRoot p \<and> RrWhileTimer p \<noteq> 0 \<and> \<not> OperEdge p \<and> Learn p \<and> Selected p \<and> \<not> UpdtInfo p
          then Some PrtEventReRootAndRrWhileNotEqualZeroAndNotOperEdgeAndLearnAndSelectedAndNotUpdtInfo
          else if ReRoot p \<and> RrWhileTimer p \<noteq> 0 \<and> \<not> OperEdge p \<and> Forward p \<and> Selected p \<and> \<not> UpdtInfo p
          then Some PrtEventReRootAndRrWhileNotEqualZeroAndNotOperEdgeAndForwardAndSelectedAndNotUpdtInfo
          else if Disputed p \<and> \<not> OperEdge p \<and> Learn p \<and> Selected p \<and> \<not> UpdtInfo p
          then Some PrtEventDisputedAndNotOperEdgeAndLearnAndSelectedAndNotUpdtInfo
          else if Disputed p \<and> \<not> OperEdge p \<and> Forward p \<and> Selected p \<and> \<not> UpdtInfo p
          then Some PrtEventDisputedAndNotOperEdgeAndForwardAndSelectedAndNotUpdtInfo
          else DesignatedPort_learn_forward p
     else None)"

definition PrtPostStateDesignatedPropose :: "Ctx Post" where
  "PrtPostStateDesignatedPropose c =
    (let p = self c in
     if prt_live p \<and> prt_state p = PrtStateDesignatedPropose
     then Some PrtEventUnconditionallFallThrough
     else None)"

definition PrtPostStateDesignatedSynced :: "Ctx Post" where
  "PrtPostStateDesignatedSynced c =
    (let p = self c in
     if prt_live p \<and> prt_state p = PrtStateDesignatedSynced
     then Some PrtEventUnconditionallFallThrough
     else None)"

definition PrtPostStateDesignatedRetired :: "Ctx Post" where
  "PrtPostStateDesignatedRetired c =
    (let p = self c in
     if prt_live p \<and> prt_state p = PrtStateDesignatedRetired
     then Some PrtEventUnconditionallFallThrough
     else None)"

definition PrtPostStateDesignatedForward :: "Ctx Post" where
  "PrtPostStateDesignatedForward c =
    (let p = self c in
     if prt_live p \<and> prt_state p = PrtStateDesignatedForward
     then Some PrtEventUnconditionallFallThrough
     else None)"

definition PrtPostStateDesignatedLearn :: "Ctx Post" where
  "PrtPostStateDesignatedLearn c =
    (let p = self c in
     if prt_live p \<and> prt_state p = PrtStateDesignatedLearn
     then Some PrtEventUnconditionallFallThrough
     else None)"

definition PrtPostStateDesignatedDiscard :: "Ctx Post" where
  "PrtPostStateDesignatedDiscard c =
    (let p = self c in
     if prt_live p \<and> prt_state p = PrtStateDesignatedDiscard
     then Some PrtEventUnconditionallFallThrough
     else None)"

definition PrtPostStateBlockedPort :: "Ctx Post" where
  "PrtPostStateBlockedPort c =
    (let p = self c in
     if prt_live p \<and> prt_state p = PrtStateBlockPort
     then if \<not> Learning p \<and> \<not> Forwarding p \<and> Selected p \<and> \<not> UpdtInfo p
          then Some PrtEventNotLearningAndNotForwardingAndSelectedAndNotUpdtInfo
          else None
     else None)"

definition PrtPostStateAlternatePort :: "Ctx Post" where
  "PrtPostStateAlternatePort c =
    (let p = self c in
     if prt_live p \<and> prt_state p = PrtStateAlternatePort
     then if Proposed p \<and> \<not> Agree p \<and> Selected p \<and> \<not> UpdtInfo p
          then Some PrtEventProposedAndNotAgreeAndSelectedAndNotUpdtInfo
          else if AllSynced c \<and> \<not> Agree p \<and> Selected p \<and> \<not> UpdtInfo p
          then Some PrtEventAllSyncedAndNotAgreeAndSelectedAndNotUpdtInfo
          else if Proposed p \<and> Agree p \<and> Selected p \<and> \<not> UpdtInfo p
          then Some PrtEventProposedAndAgreeAndSelectedAndNotUpdtInfo
          else if FdWhileTimer p \<noteq> i32 (ForwardingDelay (PortTimes p)) \<and> Selected p \<and> \<not> UpdtInfo p
          then Some PrtEventFdWhileNotEqualForwardDelayAndSelectedAndNotUpdtInfo
          else if Sync p \<and> Selected p \<and> \<not> UpdtInfo p
          then Some PrtEventSyncAndSelectedAndNotUpdtInfo
          else if ReRoot p \<and> Selected p \<and> \<not> UpdtInfo p
          then Some PrtEventReRootAndSelectedAndNotUpdtInfo
          else if \<not> Synced p \<and> Selected p \<and> \<not> UpdtInfo p
          then Some PrtEventNotSyncedAndSelectedAndNotUpdtInfo
          else if RbWhileTimer p \<noteq> i32 (2 * HelloTime (PortTimes p)) \<and> Role p = PortRoleBackupPort \<and> Selected p \<and> \<not> UpdtInfo p
          then Some PrtEventRbWhileNotEqualTwoTimesHelloTimeAndRoleEqualsBackupPortAndSelectedAndNotUpdtInfo
          else None
     else None)"

definition PrtPostStateAlternateProposed :: "Ctx Post" where
  "PrtPostStateAlternateProposed c =
    (let p = self c in
     if prt_live p \<and> prt_state p = PrtStateAlternateProposed
     then Some PrtEventUnconditionallFallThrough
     else None)"

definition PrtPostStateAlternateAgreed :: "Ctx Post" where
  "PrtPostStateAlternateAgreed c =
    (let p = self c in
     if prt_live p \<and> prt_state p = PrtStateAlternateAgreed
     then Some PrtEventUnconditionallFallThrough
     else None)"

definition PrtPostStateBackupPort :: "Ctx Post" where
  "PrtPostStateBackupPort c =
    (let p = self c in
     if prt_live p \<and> prt_state p = PrtStateBackupPort
     then Some PrtEventUnconditionallFallThrough
     else None)"

definition PrtPosts :: "Ctx Post list" where
  "PrtPosts =
     [PrtPostStateInitPort,
      PrtPostStateDisable,
      PrtPostStateDisabled,
      PrtPostStateRootPort,
      PrtPostStateRootProposed,
      PrtPostStateRootAgreed,
      PrtPostStateReRoot,
      PrtPostStateRootForward,
      PrtPostStateRootLearn,
      PrtPostStateReRooted,
      PrtPostStateDesignatedPort,
      PrtPostStateDesignatedPropose,
      PrtPostStateDesignatedSynced,
      PrtPostStateDesignatedRetired,
      PrtPostStateDesignatedForward,
      PrtPostStateDesignatedLearn,
      PrtPostStateDesignatedDiscard,
      PrtPostStateBlockedPort,
      PrtPostStateAlternatePort,
      PrtPostStateAlternateProposed,
      PrtPostStateAlternateAgreed,
      PrtPostStateBackupPort]"

definition PrtMachineMain :: "nat \<Rightarrow> Event \<Rightarrow> Ctx \<Rightarrow> Ctx option" where
  "PrtMachineMain n e c =
     (if prt_state (self c) = PrtStateNone \<and> e \<noteq> PrtEventBegin
      then Some (emit (to_prt (self c) e) c)
      else ProcessAndPost PrtProcess PrtPosts n e c)"

section \<open>Results of the callbacks\<close>

lemma PrtNotify_result [simp]:
  "self (PrtNotifyRoleChanged r s c) = self c" "self (PrtNotifyForwardChanged a b c) = self c"
  "self (PrtNotifyLearnChanged a b c) = self c" "self (notify_proposing a b c) = self c"
  "self (PrtNotifySyncChanged d b c) = self c" "self (PrtNotifyReRootChanged d b c) = self c"
  "brg (PrtNotifyRoleChanged r s c) = brg c" "brg (PrtNotifyForwardChanged a b c) = brg c"
  "brg (PrtNotifyLearnChanged a b c) = brg c" "brg (notify_proposing a b c) = brg c"
  "brg (PrtNotifySyncChanged d b c) = brg c" "brg (PrtNotifyReRootChanged d b c) = brg c"
  "peers (PrtNotifyRoleChanged r s c) = peers c" "peers (PrtNotifyForwardChanged a b c) = peers c"
  "peers (PrtNotifyLearnChanged a b c) = peers c" "peers (notify_proposing a b c) = peers c"
  "peers (PrtNotifySyncChanged d b c) = peers c" "peers (PrtNotifyReRootChanged d b c) = peers c"
  by (simp_all add: PrtNotifyRoleChanged_def PrtNotifyForwardChanged_def PrtNotifyLearnChanged_def
      notify_proposing_def PrtNotifySyncChanged_def PrtNotifyReRootChanged_def emit_def panic_def
      split: option.splits)

lemma fold_notify_result [simp]:
  "self (fold (\<lambda>d. PrtNotifySyncChanged d b) ds c) = self c"
  "brg (fold (\<lambda>d. PrtNotifySyncChanged d b) ds c) = brg c"
  "peers (fold (\<lambda>d. PrtNotifySyncChanged d b) ds c) = peers c"
  "self (fold (\<lambda>d. PrtNotifyReRootChanged d b) ds c) = self c"
  "brg (fold (\<lambda>d. PrtNotifyReRootChanged d b) ds c) = brg c"
  "peers (fold (\<lambda>d. PrtNotifyReRootChanged d b) ds c) = peers c"
  by (induction ds arbitrary: c) simp_all

lemma setSyncTree_result [simp]:
  "self (setSyncTree i c) =
     (if IfIndex (self c) \<in> set (StpPorts (brg c)) then (self c)\<lparr>Sync := True\<rparr> else self c)"
  "brg (setSyncTree i c) = brg c"
  "j \<noteq> IfIndex (self c) \<Longrightarrow> peers (setSyncTree i c) j =
     (if j \<in> set (StpPorts (brg c)) then map_option (\<lambda>q. q\<lparr>Sync := True\<rparr>) (peers c j) else peers c j)"
  by (simp_all add: setSyncTree_def case_prod_beta Let_def tree_loop_self tree_loop_peers)

lemma setReRootTree_result [simp]:
  "self (setReRootTree i c) =
     (if IfIndex (self c) \<in> set (StpPorts (brg c)) then (self c)\<lparr>ReRoot := True\<rparr> else self c)"
  "brg (setReRootTree i c) = brg c"
  "j \<noteq> IfIndex (self c) \<Longrightarrow> peers (setReRootTree i c) j =
     (if j \<in> set (StpPorts (brg c)) then map_option (\<lambda>q. q\<lparr>ReRoot := True\<rparr>) (peers c j) else peers c j)"
  by (simp_all add: setReRootTree_def case_prod_beta Let_def tree_loop_self tree_loop_peers)

definition init_port :: "Bridge \<Rightarrow> StpPort \<Rightarrow> StpPort" where
  "init_port b p =
     p\<lparr>Role := PortRoleDisabledPort, Learn := False, Forward := False, Synced := False, Sync := True,
       ReRoot := True, RrWhileTimer := i32 (ForwardingDelay (BridgeTimes b)),
       FdWhileTimer := i32 (MaxAge (BridgeTimes b)), RbWhileTimer := 0\<rparr>"

lemma PrtMachine_state [simp]:
  "fst (PrtMachineInitPort c) = PrtStateInitPort"
  "fst (PrtMachineDisablePort c) = PrtStateDisablePort"
  "fst (PrtMachineDisabledPort c) = PrtStateDisabledPort"
  "fst (PrtMachineRootProposed c) = PrtStateRootProposed"
  "fst (PrtMachineRootAgreed nest c) = PrtStateRootAgreed"
  "fst (PrtMachineReRoot c) = PrtStateReRoot"
  "fst (PrtMachineRootForward c) = PrtStateRootForward"
  "fst (PrtMachineRootLearn c) = PrtStateRootLearn"
  "fst (PrtMachineReRooted c) = PrtStateReRooted"
  "fst (PrtMachineRootPort c) = PrtStateRootPort"
  "fst (PrtMachineDesignatedPropose nest c) = PrtStateDesignatedPropose"
  "fst (PrtMachineDesignatedSynced c) = PrtStateDesignatedSynced"
  "fst (PrtMachineDesignatedRetired c) = PrtStateDesignatedRetired"
  "fst (PrtMachineDesignatedForward c) = PrtStateDesignatedForward"
  "fst (PrtMachineDesignatedLearn c) = PrtStateDesignatedLearn"
  "fst (PrtMachineDesignatedDiscard c) = PrtStateDesignatedDiscard"
  "fst (PrtMachineDesignatedPort c) = PrtStateDesignatedPort"
  "fst (PrtMachineAlternateProposed c) = PrtStateAlternateProposed"
  "fst (PrtMachineAlternateAgreed nest c) = PrtStateAlternateAgreed"
  "fst (PrtMachineBlockPort c) = PrtStateBlockPort"
  "fst (PrtMachineBackupPort c) = PrtStateBackupPort"
  "fst (PrtMachineAlternatePort c) = PrtStateAlternatePort"
  by (simp_all add: PrtMachineInitPort_def PrtMachineDisablePort_def PrtMachineDisabledPort_def
      PrtMachineRootProposed_def PrtMachineRootAgreed_def PrtMachineReRoot_def PrtMachineRootForward_def
      PrtMachineRootLearn_def PrtMachineReRooted_def PrtMachineRootPort_def
      PrtMachineDesignatedPropose_def PrtMachineDesignatedSynced_def PrtMachineDesignatedRetired_def
      PrtMachineDesignatedForward_def PrtMachineDesignatedLearn_def PrtMachineDesignatedDiscard_def
      PrtMachineDesignatedPort_def PrtMachineAlternateProposed_def PrtMachineAlternateAgreed_def
      PrtMachineBlockPort_def PrtMachineBackupPort_def PrtMachineAlternatePort_def Let_def)

lemma PrtMachine_self [simp]:
  "self (snd (PrtMachineInitPort c)) = init_port (brg c) (self c)"
  "self (snd (PrtMachineDisablePort c)) = (self c)\<lparr>Role := SelectedRole (self c), Learn := False, Forward := False\<rparr>"
  "self (snd (PrtMachineDisabledPort c)) =
     (self c)\<lparr>FdWhileTimer := i32 (MaxAge (BridgeTimes (brg c))), Synced := True,
        RrWhileTimer := 0, Sync := False, ReRoot := False\<rparr>"
  "self (snd (PrtMachineRootProposed c)) = (self (setSyncTree (IfIndex (self c)) c))\<lparr>Proposed := False\<rparr>"
  "self (snd (PrtMachineReRoot c)) = self (setReRootTree (IfIndex (self c)) c)"
  "self (snd (PrtMachineRootForward c)) = (self c)\<lparr>FdWhileTimer := 0, Forward := True\<rparr>"
  "self (snd (PrtMachineRootLearn c)) =
     (self c)\<lparr>FdWhileTimer := i32 (ForwardingDelay (PortTimes (self c))), Learn := True\<rparr>"
  "self (snd (PrtMachineReRooted c)) = (self c)\<lparr>ReRoot := False\<rparr>"
  "self (snd (PrtMachineRootPort c)) =
     (self c)\<lparr>Role := PortRoleRootPort, RrWhileTimer := i32 (ForwardingDelay (PortTimes (self c)))\<rparr>"
  "self (snd (PrtMachineDesignatedSynced c)) = (self c)\<lparr>RrWhileTimer := 0, Synced := True, Sync := False\<rparr>"
  "self (snd (PrtMachineDesignatedRetired c)) = (self c)\<lparr>ReRoot := False\<rparr>"
  "self (snd (PrtMachineDesignatedForward c)) =
     (self c)\<lparr>Forward := True, FdWhileTimer := 0, Agreed := SendRSTP (self c)\<rparr>"
  "self (snd (PrtMachineDesignatedLearn c)) =
     (self c)\<lparr>Learn := True, FdWhileTimer := i32 (ForwardingDelay (PortTimes (self c)))\<rparr>"
  "self (snd (PrtMachineDesignatedDiscard c)) =
     (self c)\<lparr>Learn := False, Forward := False, Disputed := False,
        FdWhileTimer := i32 (ForwardingDelay (PortTimes (self c)))\<rparr>"
  "self (snd (PrtMachineDesignatedPort c)) = (self c)\<lparr>Role := PortRoleDesignatedPort\<rparr>"
  "self (snd (PrtMachineAlternateProposed c)) = (self (setSyncTree (IfIndex (self c)) c))\<lparr>Proposed := False\<rparr>"
  "self (snd (PrtMachineBlockPort c)) = (self c)\<lparr>Role := SelectedRole (self c), Learn := False, Forward := False\<rparr>"
  "self (snd (PrtMachineBackupPort c)) = (self c)\<lparr>RbWhileTimer := i32 (2 * HelloTime (PortTimes (self c)))\<rparr>"
  "self (snd (PrtMachineAlternatePort c)) =
     (self c)\<lparr>FdWhileTimer := i32 (ForwardingDelay (PortTimes (self c))), Synced := True,
        RrWhileTimer := 0, Sync := False, ReRoot := False\<rparr>"
  by (simp_all add: PrtMachineInitPort_def PrtMachineDisablePort_def PrtMachineDisabledPort_def
      PrtMachineRootProposed_def PrtMachineReRoot_def PrtMachineRootForward_def
      PrtMachineRootLearn_def PrtMachineReRooted_def PrtMachineRootPort_def
      PrtMachineDesignatedSynced_def PrtMachineDesignatedRetired_def
      PrtMachineDesignatedForward_def PrtMachineDesignatedLearn_def PrtMachineDesignatedDiscard_def
      PrtMachineDesignatedPort_def PrtMachineAlternateProposed_def
      PrtMachineBlockPort_def PrtMachineBackupPort_def PrtMachineAlternatePort_def Let_def init_port_def)

end
