(* ===== verification/Stp_Prt_Run.thy ===== *)
theory Stp_Prt_Run
  imports Stp_Prt
begin

text \<open>
  Runs of the port role transitions machine: the rules it uses, what its
  transitions keep, that its post processing ends, and what a run achieves.
\<close>

section \<open>Rules\<close>

lemmas PrtRules_defs =
  PrtRules_def PrtRules_begin_def PrtRules_fall_def PrtRules_disabled_def PrtRules_root_def
  PrtRules_designated_def PrtRules_alternate_def

text \<open>Each part of the table is about its own events.\<close>

lemma map_of_other_event:
  assumes "list_all (\<lambda>(k, f). snd k \<in> E) rs" and "e \<notin> E"
  shows "map_of rs (s, e) = None"
  using assms by (fastforce simp: list_all_iff map_of_eq_None_iff)

lemma PrtRules_events:
  "list_all (\<lambda>(k, f). snd k \<in> {1}) PrtRules_begin"
  "list_all (\<lambda>(k, f). snd k \<in> {2}) PrtRules_fall"
  "list_all (\<lambda>(k, f). snd k \<in> {3..8}) PrtRules_disabled"
  "list_all (\<lambda>(k, f). snd k \<in> {9..19}) (PrtRules_root nest)"
  "list_all (\<lambda>(k, f). snd k \<in> {20..45}) (PrtRules_designated nest)"
  "list_all (\<lambda>(k, f). snd k \<in> {10..12} \<union> {47..50}) (PrtRules_alternate nest)"
  by (simp_all add: PrtRules_begin_def PrtRules_fall_def PrtRules_disabled_def PrtRules_root_def
      PrtRules_designated_def PrtRules_alternate_def)

lemmas prt_other_event = PrtRules_events [THEN map_of_other_event]

lemma PrtRules_part:
  "map_of (PrtRules nest) (s, 1) = map_of PrtRules_begin (s, 1)"
  "map_of (PrtRules nest) (s, 2) = map_of PrtRules_fall (s, 2)"
  "e \<in> {3..8} \<Longrightarrow> map_of (PrtRules nest) (s, e) = map_of PrtRules_disabled (s, e)"
  "e \<in> {9, 13, 14, 15, 16, 17, 18, 19} \<Longrightarrow> map_of (PrtRules nest) (s, e) = map_of (PrtRules_root nest) (s, e)"
  "e \<in> {10..12} \<Longrightarrow> map_of (PrtRules nest) (s, e) =
     (map_of (PrtRules_alternate nest) ++ map_of (PrtRules_root nest)) (s, e)"
  "e \<in> {20..45} \<Longrightarrow> map_of (PrtRules nest) (s, e) = map_of (PrtRules_designated nest) (s, e)"
  "e \<in> {47..50} \<Longrightarrow> map_of (PrtRules nest) (s, e) = map_of (PrtRules_alternate nest) (s, e)"
  by (auto simp: PrtRules_def map_add_def prt_other_event split: option.splits)

lemma prt_inner_rule:
  "map_of (PrtRules nest) (s, prt_inner) = (if s \<in> {2..23} then Some PrtMachineInitPort else None)"
proof (cases "s \<in> {2..23}")
  case True
  then have "s \<in> set [2..23]"
    by (simp only: set_upto)
  moreover have "list_all (\<lambda>s. map_of PrtRules_disabled (s, prt_inner) = Some PrtMachineInitPort) [2..23]"
    by (simp add: PrtRules_disabled_def upto_rec1)
  ultimately have "map_of PrtRules_disabled (s, prt_inner) = Some PrtMachineInitPort"
    unfolding list_all_iff by blast
  with True show ?thesis
    by (simp add: PrtRules_part)
next
  case False
  have "list_all (\<lambda>(k, f). snd k = prt_inner \<longrightarrow> fst k \<in> {2..23}) PrtRules_disabled"
    by (simp add: PrtRules_disabled_def)
  with False have "map_of PrtRules_disabled (s, prt_inner) = None"
    by (force simp: list_all_iff map_of_eq_None_iff)
  with False show ?thesis
    by (simp add: PrtRules_part)
qed

text \<open>The rules that post processing asks for.\<close>

lemma PrtRules_lookup [stp_table]:
  "map_of (PrtRules nest) (PrtStateInitPort, 2) = Some PrtMachineDisablePort"
  "map_of (PrtRules nest) (PrtStateDisablePort, 4) = Some PrtMachineDisabledPort"
  "map_of (PrtRules nest) (PrtStateDisabledPort, 5) = Some PrtMachineDisabledPort"
  "map_of (PrtRules nest) (PrtStateDisabledPort, 6) = Some PrtMachineDisabledPort"
  "map_of (PrtRules nest) (PrtStateDisabledPort, 7) = Some PrtMachineDisabledPort"
  "map_of (PrtRules nest) (PrtStateDisabledPort, 8) = Some PrtMachineDisabledPort"
  "map_of (PrtRules nest) (PrtStateRootPort, 10) = Some PrtMachineRootProposed"
  "map_of (PrtRules nest) (PrtStateRootPort, 11) = Some (PrtMachineRootAgreed nest)"
  "map_of (PrtRules nest) (PrtStateRootPort, 12) = Some (PrtMachineRootAgreed nest)"
  "map_of (PrtRules nest) (PrtStateRootPort, 13) = Some PrtMachineReRoot"
  "map_of (PrtRules nest) (PrtStateRootPort, 14) = Some PrtMachineRootPort"
  "map_of (PrtRules nest) (PrtStateRootPort, 15) = Some PrtMachineReRooted"
  "map_of (PrtRules nest) (PrtStateRootPort, 16) = Some PrtMachineRootLearn"
  "map_of (PrtRules nest) (PrtStateRootPort, 17) = Some PrtMachineRootLearn"
  "map_of (PrtRules nest) (PrtStateRootPort, 18) = Some PrtMachineRootForward"
  "map_of (PrtRules nest) (PrtStateRootPort, 19) = Some PrtMachineRootForward"
  "map_of (PrtRules nest) (PrtStateReRoot, 2) = Some PrtMachineRootPort"
  "map_of (PrtRules nest) (PrtStateRootAgreed, 2) = Some PrtMachineRootPort"
  "map_of (PrtRules nest) (PrtStateRootProposed, 2) = Some PrtMachineRootPort"
  "map_of (PrtRules nest) (PrtStateRootForward, 2) = Some PrtMachineRootPort"
  "map_of (PrtRules nest) (PrtStateRootLearn, 2) = Some PrtMachineRootPort"
  "map_of (PrtRules nest) (PrtStateReRooted, 2) = Some PrtMachineRootPort"
  "map_of (PrtRules nest) (PrtStateDesignatedRetired, 2) = Some PrtMachineDesignatedPort"
  "map_of (PrtRules nest) (PrtStateDesignatedSynced, 2) = Some PrtMachineDesignatedPort"
  "map_of (PrtRules nest) (PrtStateDesignatedPropose, 2) = Some PrtMachineDesignatedPort"
  "map_of (PrtRules nest) (PrtStateDesignatedForward, 2) = Some PrtMachineDesignatedPort"
  "map_of (PrtRules nest) (PrtStateDesignatedLearn, 2) = Some PrtMachineDesignatedPort"
  "map_of (PrtRules nest) (PrtStateDesignatedDiscard, 2) = Some PrtMachineDesignatedPort"
  "map_of (PrtRules nest) (PrtStateAlternateAgreed, 2) = Some PrtMachineAlternatePort"
  "map_of (PrtRules nest) (PrtStateAlternateProposed, 2) = Some PrtMachineAlternatePort"
  "map_of (PrtRules nest) (PrtStateBackupPort, 2) = Some PrtMachineAlternatePort"
  "map_of (PrtRules nest) (PrtStateDesignatedPort, 21) = Some (PrtMachineDesignatedPropose nest)"
  "map_of (PrtRules nest) (PrtStateDesignatedPort, 22) = Some PrtMachineDesignatedSynced"
  "map_of (PrtRules nest) (PrtStateDesignatedPort, 23) = Some PrtMachineDesignatedSynced"
  "map_of (PrtRules nest) (PrtStateDesignatedPort, 24) = Some PrtMachineDesignatedSynced"
  "map_of (PrtRules nest) (PrtStateDesignatedPort, 25) = Some PrtMachineDesignatedSynced"
  "map_of (PrtRules nest) (PrtStateDesignatedPort, 26) = Some PrtMachineDesignatedRetired"
  "map_of (PrtRules nest) (PrtStateDesignatedPort, 27) = Some PrtMachineDesignatedDiscard"
  "map_of (PrtRules nest) (PrtStateDesignatedPort, 28) = Some PrtMachineDesignatedDiscard"
  "map_of (PrtRules nest) (PrtStateDesignatedPort, 29) = Some PrtMachineDesignatedDiscard"
  "map_of (PrtRules nest) (PrtStateDesignatedPort, 30) = Some PrtMachineDesignatedDiscard"
  "map_of (PrtRules nest) (PrtStateDesignatedPort, 31) = Some PrtMachineDesignatedDiscard"
  "map_of (PrtRules nest) (PrtStateDesignatedPort, 32) = Some PrtMachineDesignatedDiscard"
  "map_of (PrtRules nest) (PrtStateDesignatedPort, 33) = Some PrtMachineDesignatedLearn"
  "map_of (PrtRules nest) (PrtStateDesignatedPort, 34) = None"
  "map_of (PrtRules nest) (PrtStateDesignatedPort, 35) = Some PrtMachineDesignatedLearn"
  "map_of (PrtRules nest) (PrtStateDesignatedPort, 36) = Some PrtMachineDesignatedLearn"
  "map_of (PrtRules nest) (PrtStateDesignatedPort, 37) = Some PrtMachineDesignatedLearn"
  "map_of (PrtRules nest) (PrtStateDesignatedPort, 38) = Some PrtMachineDesignatedLearn"
  "map_of (PrtRules nest) (PrtStateDesignatedPort, 40) = Some PrtMachineDesignatedForward"
  "map_of (PrtRules nest) (PrtStateDesignatedPort, 41) = Some PrtMachineDesignatedLearn"
  "map_of (PrtRules nest) (PrtStateDesignatedPort, 42) = Some PrtMachineDesignatedForward"
  "map_of (PrtRules nest) (PrtStateDesignatedPort, 43) = Some PrtMachineDesignatedForward"
  "map_of (PrtRules nest) (PrtStateDesignatedPort, 44) = Some PrtMachineDesignatedForward"
  "map_of (PrtRules nest) (PrtStateDesignatedPort, 45) = Some PrtMachineDesignatedForward"
  "map_of (PrtRules nest) (PrtStateBlockPort, 4) = Some PrtMachineAlternatePort"
  "map_of (PrtRules nest) (PrtStateAlternatePort, 6) = Some PrtMachineAlternatePort"
  "map_of (PrtRules nest) (PrtStateAlternatePort, 7) = Some PrtMachineAlternatePort"
  "map_of (PrtRules nest) (PrtStateAlternatePort, 8) = Some PrtMachineAlternatePort"
  "map_of (PrtRules nest) (PrtStateAlternatePort, 10) = Some PrtMachineAlternateProposed"
  "map_of (PrtRules nest) (PrtStateAlternatePort, 11) = Some (PrtMachineAlternateAgreed nest)"
  "map_of (PrtRules nest) (PrtStateAlternatePort, 12) = Some (PrtMachineAlternateAgreed nest)"
  "map_of (PrtRules nest) (PrtStateAlternatePort, 49) = Some PrtMachineBackupPort"
  "map_of (PrtRules nest) (PrtStateAlternatePort, 50) = Some PrtMachineAlternatePort"
  by (simp_all add: PrtRules_part PrtRules_fall_def PrtRules_disabled_def PrtRules_root_def
      PrtRules_designated_def PrtRules_alternate_def)

text \<open>The callback of a rule and the states it starts from.\<close>

definition prt_rule_ok :: "(Ctx \<Rightarrow> Ctx) \<Rightarrow> State \<times> Event \<Rightarrow> Ctx Callback \<Rightarrow> bool" where
  "prt_rule_ok nest k f \<longleftrightarrow>
     f = PrtMachineInitPort \<or> f = PrtMachineDisablePort \<or> f = PrtMachineBlockPort
     \<or> f = PrtMachineDisabledPort \<and> fst k \<in> {PrtStateDisablePort, PrtStateDisabledPort}
     \<or> f = PrtMachineAlternatePort \<and> fst k \<in> {PrtStateAlternatePort, PrtStateAlternateAgreed,
          PrtStateAlternateProposed, PrtStateBlockPort, PrtStateBackupPort}
     \<or> (f = PrtMachineAlternateProposed \<or> f = PrtMachineAlternateAgreed nest \<or> f = PrtMachineBackupPort)
          \<and> fst k = PrtStateAlternatePort
     \<or> f = PrtMachineRootPort \<or> f = PrtMachineDesignatedPort
     \<or> (f = PrtMachineRootProposed \<or> f = PrtMachineRootAgreed nest \<or> f = PrtMachineReRoot
          \<or> f = PrtMachineRootForward \<or> f = PrtMachineRootLearn \<or> f = PrtMachineReRooted)
          \<and> fst k = PrtStateRootPort
     \<or> (f = PrtMachineDesignatedPropose nest \<or> f = PrtMachineDesignatedSynced
          \<or> f = PrtMachineDesignatedRetired \<or> f = PrtMachineDesignatedForward
          \<or> f = PrtMachineDesignatedLearn \<or> f = PrtMachineDesignatedDiscard)
          \<and> fst k = PrtStateDesignatedPort"

lemma PrtRules_cases:
  assumes "map_of (PrtRules nest) k = Some f"
  shows "prt_rule_ok nest k f"
  by (rule table_all [OF assms]) (simp add: PrtRules_defs prt_rule_ok_def)

section \<open>The inner event\<close>

lemma prt_nested_eq:
  "prt_nested c =
     (if mBegin (PrtMachineFsm (self c)) \<and> prt_state (self c) \<in> {2..23}
      then prt_upd (SetState PrtStateInitPort) (snd (PrtMachineInitPort (prt_upd (SetEvent prt_inner) c)))
      else c)"
  by (simp add: prt_nested_def ProcessEvent_def AddRules_empty prt_inner_rule prt_get_def case_prod_beta
      Let_def del: atLeastAtMost_iff)

text \<open>Unfolding the inner event once is exact: processing it with the full rules
  is the same as with rules whose own inner events are ignored.\<close>

lemma prt_nested_exact: "snd (PrtProcess prt_inner c) = prt_nested c"
  by (simp add: prt_nested_def PrtProcess_def ProcessEvent_def AddRules_empty prt_inner_rule)

lemma prt_nested_self:
  "self (prt_nested c) =
     (if mBegin (PrtMachineFsm (self c)) \<and> prt_state (self c) \<in> {2..23}
      then init_port (brg c) ((self c)\<lparr>PrtMachineFsm :=
             SetState PrtStateInitPort (SetEvent prt_inner (PrtMachineFsm (self c)))\<rparr>)
      else self c)"
  by (simp add: prt_nested_eq prt_upd_def init_port_def del: atLeastAtMost_iff)

lemma newinfo_cases:
  obtains "self (PrtNotifyNewInfoChanged prt_nested a b c) = self c"
  | m where "self (PrtNotifyNewInfoChanged prt_nested a b c) =
       init_port (brg c) ((self c)\<lparr>PrtMachineFsm := m\<rparr>)"
    and "mlive m = prt_live (self c)" and "mBegin m = mBegin (PrtMachineFsm (self c))"
proof -
  consider "PrtNotifyNewInfoChanged prt_nested a b c = c"
    | "PrtNotifyNewInfoChanged prt_nested a b c = prt_nested c"
    unfolding PrtNotifyNewInfoChanged_def Let_def by metis
  then show thesis
  proof cases
    case 1
    then show ?thesis using that(1) by simp
  next
    case 2
    show ?thesis
    proof (cases "mBegin (PrtMachineFsm (self c)) \<and> prt_state (self c) \<in> {2..23}")
      case True
      with 2 show ?thesis
        by (intro that(2) [of "SetState PrtStateInitPort (SetEvent prt_inner (PrtMachineFsm (self c)))"])
          (simp_all add: prt_nested_self)
    next
      case False
      with 2 show ?thesis
        by (intro that(1)) (auto simp: prt_nested_self)
    qed
  qed
qed

section \<open>What a transition keeps\<close>

definition prt_mask :: "StpPort \<Rightarrow> StpPort" where
  "prt_mask p =
     p\<lparr>Role := PortRoleInvalid, Learn := False, Forward := False, Synced := False, Sync := False,
       ReRoot := False, RrWhileTimer := 0, FdWhileTimer := 0, RbWhileTimer := 0, Proposed := False,
       Proposing := False, EdgeDelayWhileTimer := 0, NewInfo := False, Agree := False, Agreed := False,
       Disputed := False, PrtMachineFsm := nil_machine\<rparr>"

definition prt_peers :: "int32 \<Rightarrow> (int32 \<Rightarrow> StpPort option) \<Rightarrow> int32 \<Rightarrow> StpPort option" where
  "prt_peers own ps i =
     (if i = own then None else map_option (\<lambda>q. q\<lparr>Sync := False, ReRoot := False\<rparr>) (ps i))"

definition prt_view :: "Ctx \<Rightarrow> Bridge \<times> StpPort \<times> (int32 \<Rightarrow> StpPort option)" where
  "prt_view c = (brg c, prt_mask (self c), prt_peers (IfIndex (self c)) (peers c))"

lemma prt_view_upd [simp]: "prt_view (prt_upd g c) = prt_view c"
  by (simp add: prt_view_def prt_upd_def prt_mask_def)

lemma prt_view_self:
  assumes "prt_mask q = prt_mask (self c)" and "IfIndex q = IfIndex (self c)"
  shows "prt_view (c\<lparr>self := q\<rparr>) = prt_view c"
  using assms by (simp add: prt_view_def)

lemma prt_view_tree:
  "prt_view (setSyncTree i c) = prt_view c" "prt_view (setReRootTree i c) = prt_view c"
  by (auto simp: prt_view_def prt_mask_def prt_peers_def option.map_comp comp_def fun_eq_iff)

lemma prt_view_init: "prt_view (snd (PrtMachineInitPort c)) = prt_view c"
  by (simp add: prt_view_def prt_mask_def PrtMachineInitPort_def Let_def)

lemma prt_view_nested [simp]: "prt_view (prt_nested c) = prt_view c"
  by (simp add: prt_nested_eq prt_view_init)

lemma prt_view_newinfo [simp]: "prt_view (PrtNotifyNewInfoChanged prt_nested a b c) = prt_view c"
  by (simp add: PrtNotifyNewInfoChanged_def Let_def)

lemma prt_view_proposing [simp]: "prt_view (notify_proposing a b c) = prt_view c"
  by (simp add: prt_view_def)

lemma prt_view_simple:
  "prt_view (snd (PrtMachineDisablePort c)) = prt_view c"
  "prt_view (snd (PrtMachineDisabledPort c)) = prt_view c"
  "prt_view (snd (PrtMachineRootForward c)) = prt_view c"
  "prt_view (snd (PrtMachineRootLearn c)) = prt_view c"
  "prt_view (snd (PrtMachineReRooted c)) = prt_view c"
  "prt_view (snd (PrtMachineRootPort c)) = prt_view c"
  "prt_view (snd (PrtMachineDesignatedSynced c)) = prt_view c"
  "prt_view (snd (PrtMachineDesignatedRetired c)) = prt_view c"
  "prt_view (snd (PrtMachineDesignatedForward c)) = prt_view c"
  "prt_view (snd (PrtMachineDesignatedLearn c)) = prt_view c"
  "prt_view (snd (PrtMachineDesignatedDiscard c)) = prt_view c"
  "prt_view (snd (PrtMachineDesignatedPort c)) = prt_view c"
  "prt_view (snd (PrtMachineBlockPort c)) = prt_view c"
  "prt_view (snd (PrtMachineBackupPort c)) = prt_view c"
  "prt_view (snd (PrtMachineAlternatePort c)) = prt_view c"
  by (simp_all add: prt_view_def prt_mask_def PrtMachineDisablePort_def PrtMachineDisabledPort_def
      PrtMachineRootForward_def PrtMachineRootLearn_def PrtMachineReRooted_def PrtMachineRootPort_def
      PrtMachineDesignatedSynced_def PrtMachineDesignatedRetired_def
      PrtMachineDesignatedForward_def PrtMachineDesignatedLearn_def PrtMachineDesignatedDiscard_def
      PrtMachineDesignatedPort_def PrtMachineBlockPort_def PrtMachineBackupPort_def
      PrtMachineAlternatePort_def Let_def)

lemma prt_view_nesting:
  "prt_view (snd (PrtMachineRootProposed c)) = prt_view c"
  "prt_view (snd (PrtMachineAlternateProposed c)) = prt_view c"
  "prt_view (snd (PrtMachineReRoot c)) = prt_view c"
  "prt_view (snd (PrtMachineRootAgreed prt_nested c)) = prt_view c"
  "prt_view (snd (PrtMachineAlternateAgreed prt_nested c)) = prt_view c"
  "prt_view (snd (PrtMachineDesignatedPropose prt_nested c)) = prt_view c"
  by (simp_all add: PrtMachineRootProposed_def PrtMachineAlternateProposed_def PrtMachineReRoot_def
      PrtMachineRootAgreed_def PrtMachineAlternateAgreed_def PrtMachineDesignatedPropose_def Let_def
      prt_view_tree prt_view_self prt_mask_def del: setSyncTree_result)

lemma PrtProcess_keeps: "keeps prt_view (\<lambda>c. snd (PrtProcess e c))"
  unfolding PrtProcess_def AddRules_empty
proof (rule prt_slot.process_keeps)
  fix k f c
  assume "map_of (PrtRules prt_nested) k = Some f"
  from PrtRules_cases [OF this] show "prt_view (snd (f c)) = prt_view c"
    unfolding prt_rule_ok_def
    by (elim disjE conjE) (simp_all only: prt_view_init prt_view_simple prt_view_nesting)
qed simp

section \<open>Accepted events\<close>

lemma PrtProcess_refused: "PrtProcess e c = (Some err, c') \<Longrightarrow> c' = c"
  unfolding PrtProcess_def using prt_slot.error_unchanged by blast

lemma PrtProcess_accepted:
  assumes "PrtProcess e c = (None, c')"
  obtains f where "mBegin (PrtMachineFsm (self c))"
    and "map_of (PrtRules prt_nested) (prt_state (self c), e) = Some f"
    and "c' = prt_upd (SetState (fst (f (prt_upd (SetEvent e) c)))) (snd (f (prt_upd (SetEvent e) c)))"
  using prt_slot.accepted [OF assms [unfolded PrtProcess_def AddRules_empty]]
  unfolding prt_get_def by blast

text \<open>The port after the callback \<open>f\<close> of an event has run.\<close>

definition prt_after :: "Event \<Rightarrow> Ctx Callback \<Rightarrow> Ctx \<Rightarrow> StpPort" where
  "prt_after e f c = self (snd (f (prt_upd (SetEvent e) c)))"

lemma PrtProcess_after:
  assumes "PrtProcess e c = (None, c')"
    and "map_of (PrtRules prt_nested) (prt_state (self c), e) = Some f"
  shows "self c' = (prt_after e f c)\<lparr>PrtMachineFsm :=
           SetState (fst (f (prt_upd (SetEvent e) c))) (PrtMachineFsm (prt_after e f c))\<rparr>"
    and "prt_state (self c') = fst (f (prt_upd (SetEvent e) c))"
proof -
  have "c' = prt_upd (SetState (fst (f (prt_upd (SetEvent e) c)))) (snd (f (prt_upd (SetEvent e) c)))"
    using PrtProcess_accepted [OF assms(1)] assms(2) by (metis option.inject)
  then show "self c' = (prt_after e f c)\<lparr>PrtMachineFsm :=
           SetState (fst (f (prt_upd (SetEvent e) c))) (PrtMachineFsm (prt_after e f c))\<rparr>"
    and "prt_state (self c') = fst (f (prt_upd (SetEvent e) c))"
    by (simp_all add: prt_after_def prt_upd_def)
qed

text \<open>The callbacks with an inner event: either it did not happen, or it initialised
  the port in the middle of the transition.\<close>

lemma newinfo_after:
  assumes "self c = q\<lparr>PrtMachineFsm := mm\<rparr>" and "brg c = b"
    and "p = self (PrtNotifyNewInfoChanged prt_nested old new c)"
  obtains m where "p = q\<lparr>PrtMachineFsm := m\<rparr>" | m where "p = init_port b (q\<lparr>PrtMachineFsm := m\<rparr>)"
proof (cases rule: newinfo_cases [of old new c])
  case 1
  then show ?thesis using that(1) [of mm] assms by simp
next
  case (2 m)
  then show ?thesis using that(2) [of m] assms by simp
qed

definition prt_agreed_port :: "StpPort \<Rightarrow> StpPort" where
  "prt_agreed_port p = p\<lparr>Proposed := False, Agree := True, NewInfo := True\<rparr>"

lemma RootAgreed_after:
  obtains m where "prt_after e (PrtMachineRootAgreed prt_nested) c = (prt_agreed_port (self c))\<lparr>Sync := False\<rparr>\<lparr>PrtMachineFsm := m\<rparr>"
  | m where "prt_after e (PrtMachineRootAgreed prt_nested) c =
      init_port (brg c) ((prt_agreed_port (self c))\<lparr>Sync := False\<rparr>\<lparr>PrtMachineFsm := m\<rparr>)"
proof -
  define c2 where "c2 = (prt_upd (SetEvent e) c)\<lparr>self := (self (prt_upd (SetEvent e) c))\<lparr>Proposed := False,
          Sync := False, Agree := True, NewInfo := True\<rparr>\<rparr>"
  have "self c2 = (prt_agreed_port (self c))\<lparr>Sync := False\<rparr>\<lparr>PrtMachineFsm := SetEvent e (PrtMachineFsm (self c))\<rparr>"
    "brg c2 = brg c"
    "prt_after e (PrtMachineRootAgreed prt_nested) c =
       self (PrtNotifyNewInfoChanged prt_nested (NewInfo (self (prt_upd (SetEvent e) c))) True c2)"
    by (simp_all add: c2_def prt_upd_def prt_agreed_port_def prt_after_def PrtMachineRootAgreed_def)
  then show thesis
    by (rule newinfo_after [OF _ _ _ that])
qed

lemma AlternateAgreed_after:
  obtains m where "prt_after e (PrtMachineAlternateAgreed prt_nested) c = (prt_agreed_port (self c))\<lparr>PrtMachineFsm := m\<rparr>"
  | m where "prt_after e (PrtMachineAlternateAgreed prt_nested) c =
      init_port (brg c) ((prt_agreed_port (self c))\<lparr>PrtMachineFsm := m\<rparr>)"
proof -
  define c2 where "c2 = (prt_upd (SetEvent e) c)\<lparr>self := (self (prt_upd (SetEvent e) c))\<lparr>Proposed := False,
          Agree := True, NewInfo := True\<rparr>\<rparr>"
  have "self c2 = (prt_agreed_port (self c))\<lparr>PrtMachineFsm := SetEvent e (PrtMachineFsm (self c))\<rparr>"
    "brg c2 = brg c"
    "prt_after e (PrtMachineAlternateAgreed prt_nested) c =
       self (PrtNotifyNewInfoChanged prt_nested (NewInfo (self (prt_upd (SetEvent e) c))) True c2)"
    by (simp_all add: c2_def prt_upd_def prt_agreed_port_def prt_after_def PrtMachineAlternateAgreed_def)
  then show thesis
    by (rule newinfo_after [OF _ _ _ that])
qed

definition proposing_port :: "Ctx \<Rightarrow> StpPort" where
  "proposing_port c =
     (self c)\<lparr>Proposing := True, EdgeDelayWhileTimer := i32 (EdgeDelay c (self c)), NewInfo := True\<rparr>"

lemma DesignatedPropose_after:
  obtains m where "prt_after e (PrtMachineDesignatedPropose prt_nested) c = (proposing_port c)\<lparr>PrtMachineFsm := m\<rparr>"
  | m where "prt_after e (PrtMachineDesignatedPropose prt_nested) c =
      init_port (brg c) ((proposing_port c)\<lparr>PrtMachineFsm := m\<rparr>)"
proof -
  define c2 where "c2 = (prt_upd (SetEvent e) c)\<lparr>self := (self (prt_upd (SetEvent e) c))\<lparr>Proposing := True,
          EdgeDelayWhileTimer := i32 (EdgeDelay c (self c)), NewInfo := True\<rparr>\<rparr>"
  have ed: "EdgeDelay (prt_upd g c) (self (prt_upd g c)) = EdgeDelay c (self c)" for g
    by (simp add: EdgeDelay_def prt_upd_def)
  have "self c2 = (proposing_port c)\<lparr>PrtMachineFsm := SetEvent e (PrtMachineFsm (self c))\<rparr>"
    "brg c2 = brg c"
    by (simp_all add: c2_def prt_upd_def proposing_port_def)
  moreover have "prt_after e (PrtMachineDesignatedPropose prt_nested) c =
       self (PrtNotifyNewInfoChanged prt_nested (NewInfo (self (prt_upd (SetEvent e) c))) True c2)"
    by (simp add: c2_def prt_after_def PrtMachineDesignatedPropose_def ed)
  ultimately show thesis
    by (rule newinfo_after [OF _ _ _ that])
qed

section \<open>Termination\<close>

text \<open>
  What is left to do in each role.  A root port agrees, answers proposals, learns
  and starts the re-root sequence at most once per run; the inner event undoes
  learning but cannot happen twice.  A designated port proposes once, synchronises,
  retires its re-root flag and clears a dispute, and between these either
  discards or learns and forwards.
\<close>

definition root_work :: "StpPort \<Rightarrow> nat" where
  "root_work p =
     (if Agree p then 0 else 16) + (if Proposed p then 8 else 0) + (if Learn p then 0 else 4)
     + (if Forward p then (if ReRoot p then 1 else 0) else (if ReRoot p then 2 else 3))"

definition designated_blocked :: "StpPort \<Rightarrow> bool" where
  "designated_blocked p \<longleftrightarrow> Sync p \<and> \<not> Synced p \<or> ReRoot p \<and> RrWhileTimer p \<noteq> 0"

definition designated_work :: "StpPort \<Rightarrow> nat" where
  "designated_work p =
     (if Proposing p then 0 else 20)
     + 5 * ((if Synced p \<and> \<not> Sync p then 0 else 1) + (if ReRoot p then 1 else 0) + (if Disputed p then 1 else 0))
     + (if designated_blocked p then (if Learn p \<or> Forward p then 1 else 0)
        else if Learn p then (if Forward p then 0 else if FdWhileTimer p = 0 then 2 else 1)
        else (if FdWhileTimer p = 0 then 3 else 4))"

definition alternate_work :: "StpPort \<Rightarrow> nat" where
  "alternate_work p =
     (if Agree p then 0 else 4) + (if Proposed p then 2 else 0)
     + (if RbWhileTimer p \<noteq> i32 (2 * HelloTime (PortTimes p)) \<and> Role p = PortRoleBackupPort then 1 else 0)"

definition port_rank :: "Bridge \<Rightarrow> State \<Rightarrow> StpPort \<Rightarrow> nat" where
  "port_rank b s p =
     (if s = PrtStateInitPort then 3
      else if s = PrtStateDisablePort then 2
      else if s = PrtStateDisabledPort then
        (if FdWhileTimer p = i32 (MaxAge (PortTimes p)) \<and> \<not> Sync p \<and> \<not> ReRoot p \<and> Synced p then 0 else 1)
      else if s = PrtStateRootPort then
        4 * root_work p + (if RrWhileTimer p = i32 (ForwardingDelay (PortTimes p)) then 0 else 1)
      else if s \<in> {6..11} then 4 * root_work p + 2
      else if s = PrtStateDesignatedPort then 2 * designated_work p
      else if s \<in> {13..18} then 2 * designated_work p + 1
      else if s = PrtStateAlternatePort then
        4 * alternate_work p
        + (if FdWhileTimer p = i32 (ForwardingDelay (PortTimes p)) \<and> \<not> Sync p \<and> \<not> ReRoot p \<and> Synced p then 0 else 1)
      else if s = PrtStateBlockPort then 32
      else 4 * alternate_work p + 2)"

definition prt_rank :: "Ctx \<Rightarrow> nat" where
  "prt_rank c = port_rank (brg c) (prt_state (self c)) (self c)"

lemma port_rank_bound: "port_rank b s p < 128"
  by (simp add: port_rank_def root_work_def designated_work_def alternate_work_def)

text \<open>The configuration the machine needs: the port is listed in its bridge, the
  forwarding delay in use is not zero and the maximum age in use is the bridge's.\<close>

definition prt_wf :: "Ctx \<Rightarrow> bool" where
  "prt_wf c \<longleftrightarrow> IfIndex (self c) \<in> set (StpPorts (brg c)) \<and> ForwardingDelay (PortTimes (self c)) \<noteq> 0
     \<and> MaxAge (PortTimes (self c)) = MaxAge (BridgeTimes (brg c))"

lemma prt_mask_eq:
  assumes "prt_mask p = prt_mask q"
  shows "IfIndex p = IfIndex q" "PortTimes p = PortTimes q" "Selected p = Selected q"
    "UpdtInfo p = UpdtInfo q" "SelectedRole p = SelectedRole q" "RstpVersion p = RstpVersion q"
    "Learning p = Learning q" "Forwarding p = Forwarding q" "OperEdge p = OperEdge q"
    "PstMachineFsm p = PstMachineFsm q"
  using assms [THEN arg_cong, of IfIndex] assms [THEN arg_cong, of PortTimes]
    assms [THEN arg_cong, of Selected] assms [THEN arg_cong, of UpdtInfo]
    assms [THEN arg_cong, of SelectedRole] assms [THEN arg_cong, of RstpVersion]
    assms [THEN arg_cong, of Learning] assms [THEN arg_cong, of Forwarding]
    assms [THEN arg_cong, of OperEdge] assms [THEN arg_cong, of PstMachineFsm]
  by (simp_all add: prt_mask_def)

lemma prt_viewD:
  assumes "prt_view d = prt_view c"
  shows "brg d = brg c" and "prt_mask (self d) = prt_mask (self c)"
    and "j \<noteq> IfIndex (self c) \<Longrightarrow> prt_peers (IfIndex (self c)) (peers d) j = prt_peers (IfIndex (self c)) (peers c) j"
  using assms prt_mask_eq(1) [of "self d" "self c"] by (simp_all add: prt_view_def)

lemma prt_view_wf:
  assumes "prt_view d = prt_view c" and "prt_wf c"
  shows "prt_wf d"
  using prt_mask_eq [OF prt_viewD(2) [OF assms(1)]] prt_viewD(1) [OF assms(1)] assms(2)
  by (simp add: prt_wf_def)

lemma PrtProcess_wf:
  assumes "prt_wf c"
  shows "prt_wf (snd (PrtProcess e c))"
  using keepsD [OF PrtProcess_keeps, of e c] by (rule prt_view_wf) (rule assms)

lemma Prt_step_rank:
  assumes "PrtProcess e c = (None, c')" and "prt_state (self c) = s"
    and "map_of (PrtRules prt_nested) (s, e) = Some f"
  shows "prt_rank c' = port_rank (brg c) (fst (f (prt_upd (SetEvent e) c)))
     ((prt_after e f c)\<lparr>PrtMachineFsm := PrtMachineFsm (self c')\<rparr>)"
proof -
  have "brg c' = brg c"
    using keepsD [OF PrtProcess_keeps, of e c] assms(1) by (simp add: prt_view_def)
  then show ?thesis
    using PrtProcess_after [OF assms(1) assms(3) [folded assms(2)]] by (simp add: prt_rank_def)
qed

text \<open>Reading a chain of guards: the guard of the branch taken holds.\<close>

lemma guardE: "(if b then x else y) = Some e \<Longrightarrow> (b \<Longrightarrow> x = Some e \<Longrightarrow> P) \<Longrightarrow> (y = Some e \<Longrightarrow> P) \<Longrightarrow> P"
  by (auto split: if_splits)

lemma guard_notE:
  "(if b then x else y) = Some e \<Longrightarrow> (b \<Longrightarrow> x = Some e \<Longrightarrow> P) \<Longrightarrow> (\<not> b \<Longrightarrow> y = Some e \<Longrightarrow> P) \<Longrightarrow> P"
  by (auto split: if_splits)

lemma Prt_step_Disabled:
  assumes "PrtPostStateDisabled c = Some e" and "prt_wf c" and "PrtProcess e c = (None, c')"
  shows "prt_rank c' < prt_rank c"
proof -
  consider "e = 5" "FdWhileTimer (self c) \<noteq> i32 (MaxAge (PortTimes (self c)))"
    | "e = 6" "Sync (self c)" | "e = 7" "ReRoot (self c)" | "e = 8" "\<not> Synced (self c)"
    using assms(1) unfolding PrtPostStateDisabled_def Let_def by (elim guardE) simp_all
  moreover have s: "prt_state (self c) = PrtStateDisabledPort"
    using assms(1) by (simp add: PrtPostStateDisabled_def Let_def split: if_splits)
  ultimately show ?thesis
    using assms(2) Prt_step_rank [OF assms(3) s]
    by cases (simp_all add: PrtRules_lookup prt_after_def prt_upd_def prt_rank_def port_rank_def prt_wf_def)
qed

lemma Prt_step_Root:
  assumes "PrtPostStateRootPort c = Some e" and "prt_wf c" and "PrtProcess e c = (None, c')"
  shows "prt_rank c' < prt_rank c"
proof -
  have s: "prt_state (self c) = PrtStateRootPort"
    using assms(1) by (simp add: PrtPostStateRootPort_def Let_def split: if_splits)
  note rank = Prt_step_rank [OF assms(3) s]
  have r: "prt_rank c \<ge> 4 * root_work (self c)"
    by (simp add: prt_rank_def port_rank_def s)
  consider (proposed) "e = 10" "Proposed (self c)"
    | (agreed) "e = 11 \<and> \<not> Agree (self c) \<or> e = 12 \<and> Proposed (self c)"
    | (reroot) "e = 13" "\<not> Forward (self c)" "\<not> ReRoot (self c)"
    | (again) "e = 14" "RrWhileTimer (self c) \<noteq> i32 (ForwardingDelay (PortTimes (self c)))"
    | (rerooted) "e = 15" "ReRoot (self c)" "Forward (self c)"
    | (learn) "e = 16 \<or> e = 17" "\<not> Learn (self c)"
    | (forward) "e = 18 \<or> e = 19" "\<not> Forward (self c)"
    using assms(1) unfolding PrtPostStateRootPort_def Let_def by (elim guardE) simp_all
  then show ?thesis
  proof cases
    case agreed
    then have l: "map_of (PrtRules prt_nested) (PrtStateRootPort, e) = Some (PrtMachineRootAgreed prt_nested)"
      by (auto simp: PrtRules_lookup)
    show ?thesis
      using rank [OF l] r agreed
      by (cases rule: RootAgreed_after [of e c])
        (auto simp: port_rank_def root_work_def prt_agreed_port_def init_port_def split: if_splits)
  next
    case again
    then show ?thesis
      using rank r by (simp add: PrtRules_lookup prt_after_def prt_upd_def prt_rank_def port_rank_def root_work_def s)
  qed (use rank r assms(2) in \<open>auto simp: PrtRules_lookup prt_after_def prt_upd_def port_rank_def
         root_work_def prt_wf_def split: if_splits\<close>)
qed

lemma DesignatedPort_learn_forward_cases:
  assumes "DesignatedPort_learn_forward p = Some e"
  obtains "e \<in> {33, 34, 36, 37, 38}" "\<not> Learn p" "\<not> designated_blocked p"
  | "e = 40" "\<not> Learn p" "FdWhileTimer p \<noteq> 0" "\<not> designated_blocked p"
  | "e = 41" "Learn p" "\<not> Forward p" "FdWhileTimer p = 0" "\<not> designated_blocked p"
  | "e \<in> {40, 42, 43, 44, 45}" "Learn p" "\<not> Forward p" "\<not> designated_blocked p"
  using assms unfolding DesignatedPort_learn_forward_def designated_blocked_def
  by (elim guard_notE [where b = "FdWhileTimer p = 0 \<and> RrWhileTimer p = 0 \<and> \<not> Sync p \<and> \<not> Learn p \<and> Selected p \<and> \<not> UpdtInfo p"]
      guardE) simp_all

lemma Prt_step_Designated:
  assumes "PrtPostStateDesignatedPort c = Some e" and "prt_wf c" and "PrtProcess e c = (None, c')"
  shows "prt_rank c' < prt_rank c"
proof -
  have s: "prt_state (self c) = PrtStateDesignatedPort"
    using assms(1) by (simp add: PrtPostStateDesignatedPort_def Let_def split: if_splits)
  note rank = Prt_step_rank [OF assms(3) s]
  have r: "prt_rank c = 2 * designated_work (self c)"
    by (simp add: prt_rank_def port_rank_def s)
  have rule: "map_of (PrtRules prt_nested) (PrtStateDesignatedPort, e) \<noteq> None"
    by (rule PrtProcess_accepted [OF assms(3)]) (simp add: s)
  have fd: "ForwardingDelay (PortTimes (self c)) \<noteq> 0"
    using assms(2) by (simp add: prt_wf_def)
  consider (propose) "e = 21" "\<not> Proposing (self c)"
    | (synced) "e \<in> {22, 23, 24, 25}" "\<not> Synced (self c) \<or> Sync (self c)"
    | (retired) "e = 26" "ReRoot (self c)"
    | (discard) "e \<in> {27, 28, 29, 30, 31, 32}" "Learn (self c) \<or> Forward (self c)"
        "designated_blocked (self c) \<or> Disputed (self c)"
    | (learn) "e \<in> {33, 36, 37, 38}" "\<not> Learn (self c)" "\<not> designated_blocked (self c)"
    | (early) "e = 40" "\<not> Learn (self c)" "FdWhileTimer (self c) \<noteq> 0" "\<not> designated_blocked (self c)"
    | (wait) "e = 41" "Learn (self c)" "\<not> Forward (self c)" "FdWhileTimer (self c) = 0" "\<not> designated_blocked (self c)"
    | (forward) "e \<in> {40, 42, 43, 44, 45}" "Learn (self c)" "\<not> Forward (self c)" "\<not> designated_blocked (self c)"
    using assms(1) rule unfolding PrtPostStateDesignatedPort_def Let_def
    by (elim guardE DesignatedPort_learn_forward_cases)
      (auto simp: designated_blocked_def PrtRules_lookup)
  then show ?thesis
  proof cases
    case propose
    then have l: "map_of (PrtRules prt_nested) (PrtStateDesignatedPort, e) =
        Some (PrtMachineDesignatedPropose prt_nested)"
      by (simp add: PrtRules_lookup)
    show ?thesis
      using rank [OF l] r propose
      by (cases rule: DesignatedPropose_after [of e c])
        (simp_all add: port_rank_def designated_work_def designated_blocked_def proposing_port_def init_port_def)
  next
    case synced
    then have l: "map_of (PrtRules prt_nested) (PrtStateDesignatedPort, e) = Some PrtMachineDesignatedSynced"
      by (auto simp: PrtRules_lookup)
    show ?thesis
      using rank [OF l] r synced
      by (auto simp: prt_after_def prt_upd_def port_rank_def designated_work_def designated_blocked_def)
  next
    case retired
    then show ?thesis
      using rank r
      by (auto simp: PrtRules_lookup prt_after_def prt_upd_def port_rank_def designated_work_def designated_blocked_def)
  next
    case discard
    then have l: "map_of (PrtRules prt_nested) (PrtStateDesignatedPort, e) = Some PrtMachineDesignatedDiscard"
      by (auto simp: PrtRules_lookup)
    show ?thesis
      using rank [OF l] r discard
      by (auto simp: prt_after_def prt_upd_def port_rank_def designated_work_def designated_blocked_def)
  next
    case learn
    then have l: "map_of (PrtRules prt_nested) (PrtStateDesignatedPort, e) = Some PrtMachineDesignatedLearn"
      by (auto simp: PrtRules_lookup)
    show ?thesis
      using rank [OF l] r learn fd
      by (auto simp: prt_after_def prt_upd_def port_rank_def designated_work_def designated_blocked_def)
  next
    case wait
    then show ?thesis
      using rank r fd
      by (auto simp: PrtRules_lookup prt_after_def prt_upd_def port_rank_def designated_work_def designated_blocked_def)
  next
    case early
    then show ?thesis
      using rank r
      by (auto simp: PrtRules_lookup prt_after_def prt_upd_def port_rank_def designated_work_def designated_blocked_def)
  next
    case forward
    then have l: "map_of (PrtRules prt_nested) (PrtStateDesignatedPort, e) = Some PrtMachineDesignatedForward"
      by (auto simp: PrtRules_lookup)
    show ?thesis
      using rank [OF l] r forward
      by (auto simp: prt_after_def prt_upd_def port_rank_def designated_work_def designated_blocked_def)
  qed
qed

lemma Prt_step_Alternate:
  assumes "PrtPostStateAlternatePort c = Some e" and "prt_wf c" and "PrtProcess e c = (None, c')"
  shows "prt_rank c' < prt_rank c"
proof -
  have s: "prt_state (self c) = PrtStateAlternatePort"
    using assms(1) by (simp add: PrtPostStateAlternatePort_def Let_def split: if_splits)
  note rank = Prt_step_rank [OF assms(3) s]
  have r: "prt_rank c \<ge> 4 * alternate_work (self c)"
    by (simp add: prt_rank_def port_rank_def s)
  consider (proposed) "e = 10" "Proposed (self c)"
    | (agreed) "e = 11 \<and> \<not> Agree (self c) \<or> e = 12 \<and> Proposed (self c)"
    | (again) "e \<in> {6, 7, 8, 50}" "FdWhileTimer (self c) \<noteq> i32 (ForwardingDelay (PortTimes (self c)))
        \<or> Sync (self c) \<or> ReRoot (self c) \<or> \<not> Synced (self c)"
    | (backup) "e = 49" "RbWhileTimer (self c) \<noteq> i32 (2 * HelloTime (PortTimes (self c)))"
        "Role (self c) = PortRoleBackupPort"
    using assms(1) unfolding PrtPostStateAlternatePort_def Let_def by (elim guardE) simp_all
  then show ?thesis
  proof cases
    case agreed
    then have l: "map_of (PrtRules prt_nested) (PrtStateAlternatePort, e) =
        Some (PrtMachineAlternateAgreed prt_nested)"
      by (auto simp: PrtRules_lookup)
    show ?thesis
      using rank [OF l] r agreed
      by (cases rule: AlternateAgreed_after [of e c])
        (auto simp: port_rank_def alternate_work_def prt_agreed_port_def init_port_def split: if_splits)
  next
    case again
    then have l: "map_of (PrtRules prt_nested) (PrtStateAlternatePort, e) = Some PrtMachineAlternatePort"
      by (auto simp: PrtRules_lookup)
    show ?thesis
      using rank [OF l] again
      by (auto simp: prt_after_def prt_upd_def prt_rank_def port_rank_def alternate_work_def s)
  qed (use rank r in \<open>auto simp: PrtRules_lookup prt_after_def prt_upd_def port_rank_def
         alternate_work_def split: if_splits\<close>)
qed

lemma Prt_post_cases:
  assumes "h \<in> set PrtPosts" and "h c = Some e"
  obtains "PrtPostStateDisabled c = Some e" | "PrtPostStateRootPort c = Some e"
  | "PrtPostStateDesignatedPort c = Some e" | "PrtPostStateAlternatePort c = Some e"
  | "prt_state (self c) \<in> {2, 6, 7, 8, 9, 10, 11, 13, 14, 15, 16, 17, 18, 20, 21, 23}" "e = 2"
  | "prt_state (self c) = PrtStateDisablePort \<or> prt_state (self c) = PrtStateBlockPort" "e = 4"
proof -
  have "h \<in> {PrtPostStateDisabled, PrtPostStateRootPort, PrtPostStateDesignatedPort, PrtPostStateAlternatePort}
    \<or> prt_state (self c) \<in> {2, 6, 7, 8, 9, 10, 11, 13, 14, 15, 16, 17, 18, 20, 21, 23} \<and> e = 2
    \<or> (prt_state (self c) = PrtStateDisablePort \<or> prt_state (self c) = PrtStateBlockPort) \<and> e = 4"
    using assms unfolding PrtPosts_def set_simps insert_iff empty_iff
    by (elim disjE)
      (simp_all add: PrtPostStateInitPort_def PrtPostStateDisable_def PrtPostStateRootProposed_def
        PrtPostStateRootAgreed_def PrtPostStateReRoot_def PrtPostStateRootForward_def
        PrtPostStateRootLearn_def PrtPostStateReRooted_def PrtPostStateDesignatedPropose_def
        PrtPostStateDesignatedSynced_def PrtPostStateDesignatedRetired_def
        PrtPostStateDesignatedForward_def PrtPostStateDesignatedLearn_def
        PrtPostStateDesignatedDiscard_def PrtPostStateBlockedPort_def PrtPostStateAlternateProposed_def
        PrtPostStateAlternateAgreed_def PrtPostStateBackupPort_def Let_def split: if_splits)
  then show thesis
    using assms(2) that by blast
qed

lemma Prt_step_fall:
  assumes "prt_state (self c) \<in> {2, 6, 7, 8, 9, 10, 11, 13, 14, 15, 16, 17, 18, 20, 21, 23}"
    and "PrtProcess 2 c = (None, c')"
  shows "prt_rank c' < prt_rank c"
  using assms(1) Prt_step_rank [OF assms(2)]
  by (elim insertE emptyE) (auto simp: PrtRules_lookup prt_after_def prt_upd_def prt_rank_def port_rank_def
      root_work_def designated_work_def designated_blocked_def alternate_work_def)

lemma Prt_post_step:
  assumes "h \<in> set PrtPosts" and "h c = Some e" and "prt_wf c" and "PrtProcess e c = (None, c')"
  shows "prt_rank c' < prt_rank c"
proof (cases rule: Prt_post_cases [OF assms(1,2)])
  case 1
  then show ?thesis by (rule Prt_step_Disabled [OF _ assms(3,4)])
next
  case 2
  then show ?thesis by (rule Prt_step_Root [OF _ assms(3,4)])
next
  case 3
  then show ?thesis by (rule Prt_step_Designated [OF _ assms(3,4)])
next
  case 4
  then show ?thesis by (rule Prt_step_Alternate [OF _ assms(3,4)])
next
  case 5
  then show ?thesis using Prt_step_fall assms(4) by simp
next
  case 6
  then show ?thesis
    using Prt_step_rank [OF assms(4), of PrtStateDisablePort PrtMachineDisabledPort]
      Prt_step_rank [OF assms(4), of PrtStateBlockPort PrtMachineAlternatePort]
    by (elim disjE)
      (simp_all add: PrtRules_lookup prt_after_def prt_upd_def prt_rank_def port_rank_def alternate_work_def)
qed

interpretation prt_post: post_terminates PrtProcess PrtPosts prt_wf prt_rank
proof
  fix h c e c'
  assume a: "h \<in> set PrtPosts" "h c = Some e" "prt_wf c" "PrtProcess e c = (None, c')"
  show "prt_wf c' \<and> prt_rank c' < prt_rank c"
    using Prt_post_step [OF a] PrtProcess_wf [OF a(3), of e] a(4) by simp
qed (rule PrtProcess_refused)

section \<open>Invariants\<close>

text \<open>In the states of a disabled, alternate or backup port neither learning nor
  forwarding is requested; in the two main states the role is the state's.\<close>

definition prt_guarded :: "State \<Rightarrow> StpPort \<Rightarrow> bool" where
  "prt_guarded s p \<longleftrightarrow>
     (s \<in> {PrtStateInitPort, PrtStateDisablePort, PrtStateDisabledPort, PrtStateBlockPort,
         PrtStateAlternatePort, PrtStateAlternateProposed, PrtStateAlternateAgreed, PrtStateBackupPort}
        \<longrightarrow> \<not> Learn p \<and> \<not> Forward p)
     \<and> (s = PrtStateRootPort \<longrightarrow> Role p = PortRoleRootPort)
     \<and> (s = PrtStateDesignatedPort \<longrightarrow> Role p = PortRoleDesignatedPort)"

lemma PrtProcess_guarded:
  assumes "prt_guarded (prt_state (self c)) (self c)"
  shows "prt_guarded (prt_state (self (snd (PrtProcess e c)))) (self (snd (PrtProcess e c)))"
proof (cases "fst (PrtProcess e c)")
  case None
  then obtain c' where c': "PrtProcess e c = (None, c')"
    by (metis prod.collapse)
  obtain f where f: "map_of (PrtRules prt_nested) (prt_state (self c), e) = Some f"
    by (rule PrtProcess_accepted [OF c'])
  note after = PrtProcess_after [OF c' f]
  have "prt_guarded (fst (f (prt_upd (SetEvent e) c))) (prt_after e f c)"
  proof (cases "f = PrtMachineAlternateAgreed prt_nested")
    case True
    then have "prt_state (self c) = PrtStateAlternatePort"
      using PrtRules_cases [OF f] by (auto simp: prt_rule_ok_def dest!: fun_cong [where x = c] arg_cong [where f = fst])
    with True assms show ?thesis
      by (cases rule: AlternateAgreed_after [of e c])
        (simp_all add: prt_guarded_def prt_agreed_port_def init_port_def)
  next
    case False
    with PrtRules_cases [OF f] assms show ?thesis
      unfolding prt_rule_ok_def
      by (elim disjE conjE) (auto simp: prt_guarded_def prt_after_def prt_upd_def init_port_def)
  qed
  then show ?thesis
    using c' after by (simp add: prt_guarded_def)
next
  case (Some err)
  then show ?thesis
    using PrtProcess_refused [of e c err] assms by (metis prod.collapse)
qed

text \<open>The machine stays built and started.\<close>

definition prt_on :: "StpPort \<Rightarrow> bool" where
  "prt_on p \<longleftrightarrow> prt_live p \<and> mBegin (PrtMachineFsm p)"

lemma prt_on_newinfo: "prt_on (self (PrtNotifyNewInfoChanged prt_nested a b c)) = prt_on (self c)"
  by (cases rule: newinfo_cases [of a b c]) (simp_all add: prt_on_def init_port_def)

lemma prt_on_callback:
  assumes "map_of (PrtRules prt_nested) k = Some f"
  shows "prt_on (self (snd (f c))) = prt_on (self c)"
  using PrtRules_cases [OF assms] unfolding prt_rule_ok_def
  by (elim disjE conjE)
    (simp_all add: init_port_def prt_on_newinfo PrtMachineRootAgreed_def PrtMachineAlternateAgreed_def
      PrtMachineDesignatedPropose_def Let_def, simp_all add: prt_on_def)

lemma PrtProcess_on:
  assumes "prt_on (self c)"
  shows "prt_on (self (snd (PrtProcess e c)))"
  unfolding PrtProcess_def AddRules_empty
proof (rule prt_slot.invariant)
  fix f
  assume "map_of (PrtRules prt_nested) (cur_s (prt_get c), e) = Some f"
  from prt_on_callback [OF this, of "prt_upd (SetEvent e) c"] assms
  show "prt_on (self (prt_upd (SetState (fst (f (prt_upd (SetEvent e) c)))) (snd (f (prt_upd (SetEvent e) c)))))"
    by (simp add: prt_on_def prt_upd_def)
qed (rule assms)

lemma PrtProcess_fires:
  assumes "prt_on (self c)" and "map_of (PrtRules prt_nested) (prt_state (self c), e) = Some f"
  obtains c' where "PrtProcess e c = (None, c')"
proof -
  have "fst (PrtProcess e c) = None"
    using assms by (simp add: PrtProcess_def AddRules_empty process_accepts prt_get_def prt_on_def)
  then show thesis
    using that [of "snd (PrtProcess e c)"] by (metis prod.collapse)
qed

lemma PrtMachineMain_returns:
  assumes "prt_wf c" and "prt_guarded (prt_state (self c)) (self c)"
  shows "\<exists>c'. PrtMachineMain 128 e c = Some c' \<and> prt_wf c' \<and> prt_guarded (prt_state (self c')) (self c')
     \<and> prt_view c' = prt_view c"
proof (cases "prt_state (self c) = PrtStateNone \<and> e \<noteq> PrtEventBegin")
  case True
  then show ?thesis
    using assms by (simp add: PrtMachineMain_def emit_def prt_wf_def prt_view_def)
next
  case False
  have "prt_rank (snd (PrtProcess e c)) < 128"
    by (simp add: prt_rank_def port_rank_bound)
  then obtain d where d: "ProcessAndPost PrtProcess PrtPosts 128 e c = Some d"
    using prt_post.process_and_post [of e c 128] PrtProcess_wf [OF assms(1), of e] by auto
  have "prt_guarded (prt_state (self d)) (self d)"
    by (rule ProcessAndPost_inv [OF d]) (simp_all add: PrtProcess_guarded assms(2))
  moreover have "prt_view d = prt_view c"
    by (rule ProcessAndPost_keeps [OF PrtProcess_keeps d])
  moreover have "PrtMachineMain 128 e c = Some d"
    using False d by (auto simp: PrtMachineMain_def)
  ultimately show ?thesis
    using prt_view_wf [OF _ assms(1), of d] by simp
qed

text \<open>The machine fed with a sequence of events.\<close>

primrec prt_run :: "Event list \<Rightarrow> Ctx \<Rightarrow> Ctx option" where
  "prt_run [] c = Some c"
| "prt_run (e # es) c = (case PrtMachineMain 128 e c of None \<Rightarrow> None | Some c' \<Rightarrow> prt_run es c')"

text \<open>C20: For every sequence of events the port role transitions machine returns,
  provided the port is listed in its bridge, the forwarding delay in use is not
  zero and the maximum age in use is the bridge's: 128 rounds of post processing
  are enough for each event.  In every state reached, a port in a disabled,
  alternate or backup state requests neither learning nor forwarding, the root and
  designated states carry their role, and only the variables this machine owns
  (and \<open>Sync\<close> and \<open>ReRoot\<close> of the other ports) have changed.\<close>

theorem Prt_guarded_runs:
  assumes "prt_wf c" and "prt_guarded (prt_state (self c)) (self c)"
  shows "\<exists>c'. prt_run es c = Some c' \<and> prt_guarded (prt_state (self c')) (self c')
     \<and> prt_view c' = prt_view c"
  using assms
proof (induction es arbitrary: c)
  case Nil
  then show ?case by simp
next
  case (Cons e es)
  obtain c1 where c1: "PrtMachineMain 128 e c = Some c1" "prt_wf c1"
    "prt_guarded (prt_state (self c1)) (self c1)" "prt_view c1 = prt_view c"
    using PrtMachineMain_returns [OF Cons.prems] by blast
  then show ?case
    using Cons.IH [OF c1(2,3)] by auto
qed

theorem Prt_guarded_runs_witness:
  "\<exists>c'. prt_run [PrtEventBegin,
        PrtEventSelectedRoleEqualAlternateAndRoleNotEqualSelectedRoleAndSelectedAndNotUpdtInfo]
      (solo (zero_bridge\<lparr>StpPorts := [1]\<rparr>) (zero_port\<lparr>IfIndex := 1, Selected := True,
        SelectedRole := PortRoleAlternatePort, PortTimes := zero_times\<lparr>ForwardingDelay := 15\<rparr>,
        PrtMachineFsm := Start PrtStateNone (new_machine PrtStateNone)\<rparr>)) = Some c'
    \<and> prt_state (self c') = PrtStateAlternatePort \<and> \<not> Learn (self c') \<and> \<not> Forward (self c')"
proof -
  define c where "c = solo (zero_bridge\<lparr>StpPorts := [1]\<rparr>) (zero_port\<lparr>IfIndex := 1, Selected := True,
        SelectedRole := PortRoleAlternatePort, PortTimes := zero_times\<lparr>ForwardingDelay := 15\<rparr>,
        PrtMachineFsm := Start PrtStateNone (new_machine PrtStateNone)\<rparr>)"
  define es where "es = [PrtEventBegin,
        PrtEventSelectedRoleEqualAlternateAndRoleNotEqualSelectedRoleAndSelectedAndNotUpdtInfo]"
  have "prt_wf c" "prt_guarded (prt_state (self c)) (self c)"
    by (simp_all add: c_def prt_wf_def prt_guarded_def solo_def zero_bridge_def zero_port_def zero_times_def)
  from Prt_guarded_runs [OF this, of es]
  obtain c' where c': "prt_run es c = Some c'" "prt_guarded (prt_state (self c')) (self c')"
    by blast
  have "map_option (\<lambda>d. prt_state (self d)) (prt_run es c) = Some PrtStateAlternatePort"
    unfolding c_def es_def by code_simp
  with c' show ?thesis
    unfolding c_def [symmetric] es_def [symmetric] by (auto simp: prt_guarded_def)
qed

section \<open>A root port in a run\<close>

text \<open>Once the machine is in the states of a root port, post processing stays there.\<close>

definition root_states :: "State set" where
  "root_states = {PrtStateRootPort, PrtStateReRoot, PrtStateRootAgreed, PrtStateRootProposed,
     PrtStateRootForward, PrtStateRootLearn, PrtStateReRooted}"

text \<open>The transitions that post processing of a root port can take.\<close>

lemma Prt_root_step:
  assumes "h \<in> set PrtPosts" and "h c = Some e" and "prt_state (self c) \<in> root_states"
    and "PrtProcess e c = (None, c')"
  obtains (main) "e = 2" "map_of (PrtRules prt_nested) (prt_state (self c), e) = Some PrtMachineRootPort"
  | (root) f where "PrtPostStateRootPort c = Some e" "prt_state (self c) = PrtStateRootPort"
      "map_of (PrtRules prt_nested) (prt_state (self c), e) = Some f"
      "f \<in> {PrtMachineRootProposed, PrtMachineRootAgreed prt_nested, PrtMachineReRoot, PrtMachineRootPort,
            PrtMachineReRooted}
       \<or> f = PrtMachineRootLearn \<and> \<not> Learn (self c)
           \<and> (FdWhileTimer (self c) = 0 \<or> ReRooted c (self c) \<and> RbWhileTimer (self c) = 0)
       \<or> f = PrtMachineRootForward \<and> Learn (self c) \<and> \<not> Forward (self c)"
proof (cases rule: Prt_post_cases [OF assms(1,2)])
  case 1
  then show ?thesis
    using assms(3) by (simp add: PrtPostStateDisabled_def root_states_def Let_def split: if_splits)
next
  case 2
  then have s: "prt_state (self c) = PrtStateRootPort"
    by (simp add: PrtPostStateRootPort_def Let_def split: if_splits)
  have "e = 10 \<or> e = 11 \<or> e = 12 \<or> e = 13 \<or> e = 14 \<or> e = 15
    \<or> (e = 16 \<or> e = 17) \<and> \<not> Learn (self c)
        \<and> (FdWhileTimer (self c) = 0 \<or> ReRooted c (self c) \<and> RbWhileTimer (self c) = 0)
    \<or> (e = 18 \<or> e = 19) \<and> Learn (self c) \<and> \<not> Forward (self c)"
    using 2 unfolding PrtPostStateRootPort_def Let_def by (elim guardE) simp_all
  then have "\<exists>f. map_of (PrtRules prt_nested) (prt_state (self c), e) = Some f
     \<and> (f \<in> {PrtMachineRootProposed, PrtMachineRootAgreed prt_nested, PrtMachineReRoot, PrtMachineRootPort,
            PrtMachineReRooted}
       \<or> f = PrtMachineRootLearn \<and> \<not> Learn (self c)
           \<and> (FdWhileTimer (self c) = 0 \<or> ReRooted c (self c) \<and> RbWhileTimer (self c) = 0)
       \<or> f = PrtMachineRootForward \<and> Learn (self c) \<and> \<not> Forward (self c))"
    by (elim disjE conjE) (simp_all add: s PrtRules_lookup)
  then show ?thesis
    using root [OF 2 s] by blast
next
  case 3
  then show ?thesis
    using assms(3) by (simp add: PrtPostStateDesignatedPort_def root_states_def Let_def split: if_splits)
next
  case 4
  then show ?thesis
    using assms(3) by (simp add: PrtPostStateAlternatePort_def root_states_def Let_def split: if_splits)
next
  case 5
  then show ?thesis
    using assms(3) by (intro main) (auto simp: root_states_def PrtRules_lookup)
next
  case 6
  then show ?thesis
    using assms(3) by (auto simp: root_states_def)
qed

text \<open>A settled, started machine in these states rests in \<open>RootPort\<close> with nothing to do.\<close>

lemma Prt_root_settled:
  assumes "settled PrtProcess PrtPosts c" and "prt_on (self c)" and "prt_state (self c) \<in> root_states"
  shows "prt_state (self c) = PrtStateRootPort" and "PrtPostStateRootPort c = None"
proof -
  have acc: "fst (PrtProcess e c) = None" if "map_of (PrtRules prt_nested) (prt_state (self c), e) \<noteq> None" for e
    using that assms(2) by (simp add: PrtProcess_def AddRules_empty process_accepts prt_get_def prt_on_def)
  have rest: "h c = None" if "h \<in> set PrtPosts"
      and "\<And>e. h c = Some e \<Longrightarrow> map_of (PrtRules prt_nested) (prt_state (self c), e) \<noteq> None" for h
    using assms(1) that acc by (force simp: settled_def split: option.splits)
  have fall: "h c = None" if "h \<in> {PrtPostStateRootProposed, PrtPostStateRootAgreed, PrtPostStateReRoot,
      PrtPostStateRootForward, PrtPostStateRootLearn, PrtPostStateReRooted}" (is "h \<in> ?H") for h
  proof (rule rest)
    show "h \<in> set PrtPosts" using that by (auto simp: PrtPosts_def)
    show "map_of (PrtRules prt_nested) (prt_state (self c), e) \<noteq> None" if "h c = Some e" for e
      using \<open>h \<in> ?H\<close> that
      by (auto simp: PrtPostStateRootProposed_def PrtPostStateRootAgreed_def PrtPostStateReRoot_def
          PrtPostStateRootForward_def PrtPostStateRootLearn_def PrtPostStateReRooted_def Let_def
          PrtRules_lookup split: if_splits)
  qed
  show s: "prt_state (self c) = PrtStateRootPort"
    using fall [of PrtPostStateRootProposed] fall [of PrtPostStateRootAgreed] fall [of PrtPostStateReRoot]
      fall [of PrtPostStateRootForward] fall [of PrtPostStateRootLearn] fall [of PrtPostStateReRooted] assms(2,3)
    by (auto simp: root_states_def prt_on_def PrtPostStateRootProposed_def PrtPostStateRootAgreed_def
        PrtPostStateReRoot_def PrtPostStateRootForward_def PrtPostStateRootLearn_def
        PrtPostStateReRooted_def Let_def split: if_splits)
  show "PrtPostStateRootPort c = None"
  proof (rule rest)
    show "PrtPostStateRootPort \<in> set PrtPosts" by (simp add: PrtPosts_def)
    show "map_of (PrtRules prt_nested) (prt_state (self c), e) \<noteq> None" if "PrtPostStateRootPort c = Some e" for e
    proof -
      have "e \<in> {10, 11, 12, 13, 14, 15, 16, 17, 18, 19}"
        using that unfolding PrtPostStateRootPort_def Let_def by (elim guardE) simp_all
      then show ?thesis
        by (elim insertE emptyE) (simp_all add: s PrtRules_lookup)
    qed
  qed
qed

lemma prt_root_rule:
  assumes "s \<in> {2..23}"
  shows "map_of (PrtRules nest) (s, 9) = Some PrtMachineRootPort"
proof -
  have "s \<in> set [2..23]"
    using assms by (simp only: set_upto)
  moreover have "list_all (\<lambda>s. map_of (PrtRules_root nest) (s, 9) = Some PrtMachineRootPort) [2..23]"
    by (simp add: PrtRules_root_def upto_rec1)
  ultimately have "map_of (PrtRules_root nest) (s, 9) = Some PrtMachineRootPort"
    unfolding list_all_iff by blast
  then show ?thesis
    by (simp add: PrtRules_part)
qed

lemma rr_quiet_view:
  assumes "prt_view d = prt_view c"
  shows "rr_quiet d (IfIndex (self c)) j = rr_quiet c (IfIndex (self c)) j"
proof (cases "j = IfIndex (self c)")
  case True
  then show ?thesis by (simp add: rr_quiet_def)
next
  case False
  have i: "IfIndex (self d) = IfIndex (self c)"
    using prt_mask_eq(1) [OF prt_viewD(2) [OF assms]] .
  have "map_option (\<lambda>q. q\<lparr>Sync := False, ReRoot := False\<rparr>) (peers d j)
      = map_option (\<lambda>q. q\<lparr>Sync := False, ReRoot := False\<rparr>) (peers c j)"
    using prt_viewD(3) [OF assms False] False by (simp add: prt_peers_def)
  from this [THEN arg_cong, of "map_option RrWhileTimer"]
  have "map_option RrWhileTimer (peers d j) = map_option RrWhileTimer (peers c j)"
    by (simp add: option.map_comp comp_def)
  with False i show ?thesis
    by (auto simp: rr_quiet_def StpFindPortByIfIndex_def split: option.splits)
qed

lemma ReRooted_view:
  assumes "prt_view d = prt_view c"
  shows "ReRooted d (self d) \<longleftrightarrow>
    RrWhileTimer (self d) \<noteq> 0 \<and> list_all (rr_quiet c (IfIndex (self c))) (StpPorts (brg c))"
  using prt_mask_eq(1) [OF prt_viewD(2) [OF assms]] prt_viewD(1) [OF assms] rr_quiet_view [OF assms]
  by (simp add: ReRooted_def rerooted_loop_iff list_all_iff)

text \<open>Every run from the states of a root port ends in \<open>RootPort\<close> and keeps what the
  transitions of a root port keep.\<close>

lemma Prt_root_run:
  assumes "prt_wf c" and "prt_on (self c)" and "prt_state (self c) \<in> root_states" and "K c"
    and K: "\<And>d e d' f. K d \<Longrightarrow> prt_view d = prt_view c \<Longrightarrow> PrtProcess e d = (None, d') \<Longrightarrow>
        map_of (PrtRules prt_nested) (prt_state (self d), e) = Some f \<Longrightarrow>
        f \<in> {PrtMachineRootProposed, PrtMachineRootAgreed prt_nested, PrtMachineReRoot, PrtMachineRootPort,
            PrtMachineReRooted}
        \<or> f = PrtMachineRootLearn \<and> \<not> Learn (self d)
           \<and> (FdWhileTimer (self d) = 0 \<or> ReRooted d (self d) \<and> RbWhileTimer (self d) = 0)
        \<or> f = PrtMachineRootForward \<and> Learn (self d) \<and> \<not> Forward (self d) \<Longrightarrow> K d'"
  shows "\<exists>d. ProcessPost PrtProcess PrtPosts 128 c = Some d \<and> K d \<and> prt_view d = prt_view c \<and> prt_on (self d)
     \<and> prt_state (self d) = PrtStateRootPort \<and> PrtPostStateRootPort d = None"
proof -
  have "prt_rank c < 128"
    by (simp add: prt_rank_def port_rank_bound)
  then obtain d where d: "ProcessPost PrtProcess PrtPosts 128 c = Some d" "settled PrtProcess PrtPosts d"
    using prt_post.returns [OF assms(1), of 128] by blast
  have "prt_on (self d) \<and> prt_state (self d) \<in> root_states \<and> K d \<and> prt_view d = prt_view c"
  proof (rule ProcessPost_inv [OF d(1)])
    fix h e x
    assume h: "h \<in> set PrtPosts" "h x = Some e"
      and I: "prt_on (self x) \<and> prt_state (self x) \<in> root_states \<and> K x \<and> prt_view x = prt_view c"
    have v: "prt_view (snd (PrtProcess e x)) = prt_view c"
      using keepsD [OF PrtProcess_keeps, of e x] I by simp
    show "prt_on (self (snd (PrtProcess e x))) \<and> prt_state (self (snd (PrtProcess e x))) \<in> root_states
        \<and> K (snd (PrtProcess e x)) \<and> prt_view (snd (PrtProcess e x)) = prt_view c"
    proof (cases "fst (PrtProcess e x)")
      case None
      then have p: "PrtProcess e x = (None, snd (PrtProcess e x))"
        by (metis prod.collapse)
      obtain f where f: "map_of (PrtRules prt_nested) (prt_state (self x), e) = Some f"
        "f \<in> {PrtMachineRootProposed, PrtMachineRootAgreed prt_nested, PrtMachineReRoot, PrtMachineRootPort,
            PrtMachineReRooted}
        \<or> f = PrtMachineRootLearn \<and> \<not> Learn (self x)
           \<and> (FdWhileTimer (self x) = 0 \<or> ReRooted x (self x) \<and> RbWhileTimer (self x) = 0)
        \<or> f = PrtMachineRootForward \<and> Learn (self x) \<and> \<not> Forward (self x)"
        by (rule Prt_root_step [OF h _ p]) (use I in blast)+
      have "prt_state (self (snd (PrtProcess e x))) \<in> root_states"
        using PrtProcess_after(2) [OF p f(1)] f(2) by (auto simp: root_states_def)
      then show ?thesis
        using K [OF _ _ p f] I v PrtProcess_on [of x e] by simp
    next
      case (Some err)
      then show ?thesis
        using PrtProcess_refused [of e x err] I by (metis prod.collapse)
    qed
  qed (use assms(2-4) in simp)
  then show ?thesis
    using d Prt_root_settled [of d] by blast
qed

lemma Prt_root_rb:
  assumes "RbWhileTimer (self d) = 0" and "PrtProcess e d = (None, d')"
    and "map_of (PrtRules prt_nested) (prt_state (self d), e) = Some f"
    and "f \<in> {PrtMachineRootProposed, PrtMachineRootAgreed prt_nested, PrtMachineReRoot, PrtMachineRootPort,
          PrtMachineReRooted}
      \<or> f = PrtMachineRootLearn \<and> \<not> Learn (self d)
         \<and> (FdWhileTimer (self d) = 0 \<or> ReRooted d (self d) \<and> RbWhileTimer (self d) = 0)
      \<or> f = PrtMachineRootForward \<and> Learn (self d) \<and> \<not> Forward (self d)"
  shows "RbWhileTimer (self d') = 0"
proof -
  have "RbWhileTimer (prt_after e (PrtMachineRootAgreed prt_nested) d) = 0"
    by (cases rule: RootAgreed_after [of e d]) (simp_all add: prt_agreed_port_def init_port_def assms(1))
  with assms(1,4) have "RbWhileTimer (prt_after e f d) = 0"
    by (elim disjE conjE insertE emptyE) (simp_all, simp_all add: prt_after_def prt_upd_def)
  then show ?thesis
    using PrtProcess_after(1) [OF assms(2,3)] by simp
qed

text \<open>C21: Rapid transition of a new root port.  When a port is selected as root port,
  its backup timer is not running and no other port of the bridge was root port
  recently (no other \<open>RrWhileTimer\<close> is running), one event takes it all the way:
  the machine returns in state \<open>RootPort\<close> with learning and forwarding requested,
  the pending proposal answered and the re-root flag retired, without waiting for
  any timer, whatever the other flags were and even if the inner event
  re-initialised the port on the way.\<close>

theorem Prt_rapid_root:
  assumes "prt_wf c" and "prt_on (self c)" and "prt_state (self c) \<in> {2..23}"
    and "Selected (self c)" and "\<not> UpdtInfo (self c)" and "RstpVersion (self c)"
    and "RbWhileTimer (self c) = 0"
    and "list_all (rr_quiet c (IfIndex (self c))) (StpPorts (brg c))"
  shows "\<exists>c'. PrtMachineMain 128
      PrtEventSelectedRoleEqualRootPortAndRoleNotEqualSelectedRoleAndSelectedAndNotUpdtInfo c = Some c'
    \<and> prt_state (self c') = PrtStateRootPort \<and> Learn (self c') \<and> Forward (self c')
    \<and> \<not> Proposed (self c') \<and> \<not> ReRoot (self c')"
proof -
  obtain c1 where c1: "PrtProcess 9 c = (None, c1)"
    using PrtProcess_fires [OF assms(2) prt_root_rule [OF assms(3)]] .
  note a = PrtProcess_after [OF c1 prt_root_rule [OF assms(3)]]
  have v: "prt_view c1 = prt_view c" and on: "prt_on (self c1)" and wf: "prt_wf c1"
    using keepsD [OF PrtProcess_keeps, of 9 c] PrtProcess_on [OF assms(2), of 9] PrtProcess_wf [OF assms(1), of 9] c1
    by simp_all
  have s: "prt_state (self c1) \<in> root_states" and rb: "RbWhileTimer (self c1) = 0"
    using a assms(7) by (simp_all add: root_states_def prt_after_def prt_upd_def)
  have "\<exists>d. ProcessPost PrtProcess PrtPosts 128 c1 = Some d \<and> RbWhileTimer (self d) = 0 \<and> prt_view d = prt_view c1 \<and> prt_on (self d)
     \<and> prt_state (self d) = PrtStateRootPort \<and> PrtPostStateRootPort d = None"
    by (rule Prt_root_run [where K = "\<lambda>d. RbWhileTimer (self d) = 0", OF wf on s rb])
      (rule Prt_root_rb)
  then obtain d where d: "ProcessPost PrtProcess PrtPosts 128 c1 = Some d" "RbWhileTimer (self d) = 0"
    "prt_view d = prt_view c" "prt_state (self d) = PrtStateRootPort" "PrtPostStateRootPort d = None"
    "prt_on (self d)"
    using v by auto
  note m = prt_mask_eq [OF prt_viewD(2) [OF d(3)]]
  have none: "RrWhileTimer (self d) = i32 (ForwardingDelay (PortTimes (self d)))" "\<not> Proposed (self d)"
    "\<not> (ReRoot (self d) \<and> Forward (self d))" "ReRooted d (self d) \<Longrightarrow> Learn (self d) \<and> Forward (self d)"
    using d(2,4-6) m assms(4-6) by (auto simp: PrtPostStateRootPort_def prt_on_def Let_def split: if_splits)
  moreover have "ReRooted d (self d)"
    using ReRooted_view [OF d(3)] none(1) assms(1,8) m by (simp add: prt_wf_def)
  moreover have "PrtMachineMain 128 9 c = Some d"
    using c1 d(1) assms(3) by (auto simp: PrtMachineMain_def ProcessAndPost_def)
  ultimately show ?thesis
    using d(4) by blast
qed

theorem Prt_rapid_root_witness:
  "\<exists>c'. PrtMachineMain 128
      PrtEventSelectedRoleEqualRootPortAndRoleNotEqualSelectedRoleAndSelectedAndNotUpdtInfo
      (solo (zero_bridge\<lparr>StpPorts := [1]\<rparr>) (zero_port\<lparr>IfIndex := 1, Selected := True, RstpVersion := True,
        SelectedRole := PortRoleRootPort, Proposed := True, PortTimes := zero_times\<lparr>ForwardingDelay := 15\<rparr>,
        PrtMachineFsm := Start PrtStateDisabledPort (new_machine PrtStateNone)\<rparr>)) = Some c'
    \<and> prt_state (self c') = PrtStateRootPort \<and> Learn (self c') \<and> Forward (self c')
    \<and> \<not> Proposed (self c') \<and> \<not> ReRoot (self c')"
  by (rule Prt_rapid_root) (simp_all add: prt_wf_def prt_on_def rr_quiet_def solo_def zero_bridge_def
      zero_port_def zero_times_def new_machine_def)

section \<open>What the inner event does to a forwarding root port\<close>

lemma Prt_agree_inner:
  assumes "prt_on (self c)" and "prt_state (self c) = PrtStateRootPort" and "\<not> NewInfo (self c)"
    and "ptx_live (self c)" and "ptx_state (self c) = PtxmStateIdle" and "SendRSTP (self c)"
    and "TxCount (self c) < TxHoldCount (brg c)" and "HelloWhenTimer (self c) \<noteq> 0"
    and "Selected (self c)" and "\<not> UpdtInfo (self c)"
    and p: "PrtProcess PrtEventProposedAndAgreeAndSelectedAndNotUpdtInfo c = (None, c')"
  shows "\<not> Learn (self c')" and "\<not> Forward (self c')"
    and "FdWhileTimer (self c') = i32 (MaxAge (BridgeTimes (brg c)))" and "prt_state (self c') = PrtStateRootAgreed"
    and "Forward (self c) \<Longrightarrow> pst_live (self c) \<Longrightarrow> pst_state (self c) = PstStateForwarding \<Longrightarrow>
        Send PstEvents (IfIndex (self c)) PstEventNotForward None \<in> set (out c')"
proof -
  define c1 where "c1 = prt_upd (SetEvent 12) c"
  define c2 where "c2 = c1\<lparr>self := (self c1)\<lparr>Proposed := False, Sync := False, Agree := True, NewInfo := True\<rparr>\<rparr>"
  have n: "snd (PrtMachineRootAgreed prt_nested c1) = prt_nested c2"
    using assms(1-10)
    by (simp add: PrtMachineRootAgreed_def PrtNotifyNewInfoChanged_def Let_def c1_def c2_def prt_upd_def)
  have l: "map_of (PrtRules prt_nested) (prt_state (self c), 12) = Some (PrtMachineRootAgreed prt_nested)"
    by (simp add: assms(2) PrtRules_lookup)
  have r: "self (prt_nested c2) = init_port (brg c) ((self c2)\<lparr>PrtMachineFsm :=
             SetState PrtStateInitPort (SetEvent prt_inner (PrtMachineFsm (self c2)))\<rparr>)"
    using assms(1,2) by (simp add: prt_nested_self c2_def c1_def prt_upd_def prt_on_def)
  show "\<not> Learn (self c')" "\<not> Forward (self c')"
    "FdWhileTimer (self c') = i32 (MaxAge (BridgeTimes (brg c)))" "prt_state (self c') = PrtStateRootAgreed"
    using PrtProcess_after [OF p l] r n by (simp_all add: prt_after_def c1_def [symmetric] init_port_def)
  assume f: "Forward (self c)" "pst_live (self c)" "pst_state (self c) = PstStateForwarding"
  have "c' = prt_upd (SetState PrtStateRootAgreed) (prt_nested c2)"
    by (rule PrtProcess_accepted [OF p]) (auto simp: l c1_def [symmetric] n)
  moreover have "Send PstEvents (IfIndex (self c)) PstEventNotForward None \<in> set (out (prt_nested c2))"
    using assms(1,2) f
    by (simp add: prt_nested_eq c2_def c1_def prt_upd_def prt_on_def PrtMachineInitPort_def Let_def
        PrtNotifyForwardChanged_def PrtNotifyLearnChanged_def PrtNotifyRoleChanged_def emit_def
        forward_changed_events_def to_pst_def)
  ultimately show "Send PstEvents (IfIndex (self c)) PstEventNotForward None \<in> set (out c')"
    by (simp add: prt_upd_def)
qed

text \<open>A root port that neither learns nor forwards keeps waiting while its forward delay
  timer runs and another port was root recently.\<close>

lemma Prt_root_waits:
  assumes "\<not> Learn (self d) \<and> \<not> Forward (self d) \<and> FdWhileTimer (self d) = t" and "t \<noteq> 0"
    and "t = i32 (MaxAge (BridgeTimes (brg d)))" and "\<not> ReRooted d (self d)"
    and "PrtProcess e d = (None, d')" and "map_of (PrtRules prt_nested) (prt_state (self d), e) = Some f"
    and "f \<in> {PrtMachineRootProposed, PrtMachineRootAgreed prt_nested, PrtMachineReRoot, PrtMachineRootPort,
          PrtMachineReRooted}
      \<or> f = PrtMachineRootLearn \<and> \<not> Learn (self d)
         \<and> (FdWhileTimer (self d) = 0 \<or> ReRooted d (self d) \<and> RbWhileTimer (self d) = 0)
      \<or> f = PrtMachineRootForward \<and> Learn (self d) \<and> \<not> Forward (self d)"
  shows "\<not> Learn (self d') \<and> \<not> Forward (self d') \<and> FdWhileTimer (self d') = t"
proof -
  define ok where "ok = (\<lambda>p :: StpPort. \<not> Learn p \<and> \<not> Forward p \<and> FdWhileTimer p = t)"
  have "ok (prt_after e (PrtMachineRootAgreed prt_nested) d)"
    by (cases rule: RootAgreed_after [of e d])
      (use assms(1,3) in \<open>simp_all add: ok_def prt_agreed_port_def init_port_def\<close>)
  with assms(1,2,4,7) have "ok (prt_after e f d)"
    by (elim disjE conjE insertE emptyE) (simp_all, simp_all add: ok_def prt_after_def prt_upd_def)
  then show ?thesis
    using PrtProcess_after(1) [OF assms(5,6)] by (simp add: ok_def)
qed

lemma Prt_root_stays_down:
  assumes "prt_wf c" and "prt_on (self c)" and "prt_state (self c) \<in> root_states"
    and "\<not> Learn (self c)" and "\<not> Forward (self c)"
    and "FdWhileTimer (self c) = i32 (MaxAge (BridgeTimes (brg c)))" and "MaxAge (BridgeTimes (brg c)) \<noteq> 0"
    and "\<not> list_all (rr_quiet c (IfIndex (self c))) (StpPorts (brg c))"
  shows "\<exists>d. ProcessPost PrtProcess PrtPosts 128 c = Some d \<and> prt_state (self d) = PrtStateRootPort
     \<and> \<not> Learn (self d) \<and> \<not> Forward (self d)"
proof -
  define t where "t = i32 (MaxAge (BridgeTimes (brg c)))"
  have k: "\<not> Learn (self c) \<and> \<not> Forward (self c) \<and> FdWhileTimer (self c) = t"
    using assms(4-6) by (simp add: t_def)
  have "\<exists>d. ProcessPost PrtProcess PrtPosts 128 c = Some d
      \<and> (\<not> Learn (self d) \<and> \<not> Forward (self d) \<and> FdWhileTimer (self d) = t)
      \<and> prt_view d = prt_view c \<and> prt_on (self d)
      \<and> prt_state (self d) = PrtStateRootPort \<and> PrtPostStateRootPort d = None"
  proof (rule Prt_root_run [where K = "\<lambda>d. \<not> Learn (self d) \<and> \<not> Forward (self d) \<and> FdWhileTimer (self d) = t",
        OF assms(1-3) k])
    fix d e d' f
    assume kd: "\<not> Learn (self d) \<and> \<not> Forward (self d) \<and> FdWhileTimer (self d) = t"
      and v: "prt_view d = prt_view c"
    assume s: "PrtProcess e d = (None, d')" "map_of (PrtRules prt_nested) (prt_state (self d), e) = Some f"
      "f \<in> {PrtMachineRootProposed, PrtMachineRootAgreed prt_nested, PrtMachineReRoot, PrtMachineRootPort,
            PrtMachineReRooted}
        \<or> f = PrtMachineRootLearn \<and> \<not> Learn (self d)
           \<and> (FdWhileTimer (self d) = 0 \<or> ReRooted d (self d) \<and> RbWhileTimer (self d) = 0)
        \<or> f = PrtMachineRootForward \<and> Learn (self d) \<and> \<not> Forward (self d)"
    show "\<not> Learn (self d') \<and> \<not> Forward (self d') \<and> FdWhileTimer (self d') = t"
      by (rule Prt_root_waits [OF kd _ _ _ s])
        (use ReRooted_view [OF v] prt_viewD(1) [OF v] assms(7,8) in \<open>simp_all add: t_def\<close>)
  qed
  then show ?thesis
    by blast
qed

text \<open>C22: Sending an agreement takes a forwarding root port down.  \<open>NotifyNewInfoChanged\<close>
  hands the transmit machine's event number to the role transitions machine, where
  that number means \<open>SelectedRole = DisabledPort\<close>, so the port is initialised in the
  middle of answering a proposal.  If the transmit machine is idle and may send, and
  another port was root recently, the run ends in state \<open>RootPort\<close> with learning and
  forwarding withdrawn, and the port state machine is told to stop forwarding.\<close>

theorem Prt_agreement_stops_forwarding:
  assumes "prt_wf c" and "prt_on (self c)" and "prt_state (self c) = PrtStateRootPort"
    and "Selected (self c)" and "\<not> UpdtInfo (self c)"
    and "Forward (self c)" and "pst_live (self c)" and "pst_state (self c) = PstStateForwarding"
    and "\<not> NewInfo (self c)" and "ptx_live (self c)" and "ptx_state (self c) = PtxmStateIdle"
    and "SendRSTP (self c)" and "TxCount (self c) < TxHoldCount (brg c)" and "HelloWhenTimer (self c) \<noteq> 0"
    and "MaxAge (BridgeTimes (brg c)) \<noteq> 0"
    and "\<not> list_all (rr_quiet c (IfIndex (self c))) (StpPorts (brg c))"
  shows "(\<exists>c'. PrtMachineMain 128 PrtEventProposedAndAgreeAndSelectedAndNotUpdtInfo c = Some c'
        \<and> prt_state (self c') = PrtStateRootPort \<and> \<not> Learn (self c') \<and> \<not> Forward (self c'))
    \<and> Send PstEvents (IfIndex (self c)) PstEventNotForward None
        \<in> set (out (snd (PrtProcess PrtEventProposedAndAgreeAndSelectedAndNotUpdtInfo c)))"
proof -
  have l: "map_of (PrtRules prt_nested) (prt_state (self c), 12) = Some (PrtMachineRootAgreed prt_nested)"
    by (simp add: assms(3) PrtRules_lookup)
  obtain c1 where c1: "PrtProcess 12 c = (None, c1)"
    by (rule PrtProcess_fires [OF assms(2) l])
  note a = Prt_agree_inner [OF assms(2,3,9-14,4,5) c1]
  have v: "prt_view c1 = prt_view c" and on: "prt_on (self c1)" and wf: "prt_wf c1"
    using keepsD [OF PrtProcess_keeps, of 12 c] PrtProcess_on [OF assms(2), of 12] PrtProcess_wf [OF assms(1), of 12] c1
    by simp_all
  have "\<exists>d. ProcessPost PrtProcess PrtPosts 128 c1 = Some d \<and> prt_state (self d) = PrtStateRootPort
     \<and> \<not> Learn (self d) \<and> \<not> Forward (self d)"
    by (rule Prt_root_stays_down [OF wf on])
      (use a(1-4) assms(15,16) prt_viewD(1) [OF v] rr_quiet_view [OF v] prt_mask_eq(1) [OF prt_viewD(2) [OF v]]
       in \<open>simp_all add: root_states_def list_all_iff\<close>)
  then show ?thesis
    using c1 assms(3) a(5) [OF assms(6-8)] by (auto simp: PrtMachineMain_def ProcessAndPost_def)
qed

theorem Prt_agreement_stops_forwarding_witness:
  "\<exists>c'. PrtMachineMain 128 PrtEventProposedAndAgreeAndSelectedAndNotUpdtInfo
      ((solo (zero_bridge\<lparr>StpPorts := [1, 2], BridgeTimes := zero_times\<lparr>MaxAge := 20\<rparr>, TxHoldCount := 6\<rparr>)
         (zero_port\<lparr>IfIndex := 1, Selected := True, Learn := True, Forward := True, Proposed := True,
           Agree := True, SendRSTP := True, HelloWhenTimer := 2,
           PortTimes := zero_times\<lparr>ForwardingDelay := 15, MaxAge := 20\<rparr>,
           PrtMachineFsm := Start PrtStateRootPort (new_machine PrtStateNone),
           PstMachineFsm := Start PstStateForwarding (new_machine PstStateNone),
           PtxmMachineFsm := Start PtxmStateIdle (new_machine PtxmStateNone)\<rparr>))
         \<lparr>peers := [2 \<mapsto> zero_port\<lparr>IfIndex := 2, RrWhileTimer := 3\<rparr>]\<rparr>) = Some c'
    \<and> \<not> Forward (self c')"
proof -
  define c where "c = (solo (zero_bridge\<lparr>StpPorts := [1, 2], BridgeTimes := zero_times\<lparr>MaxAge := 20\<rparr>, TxHoldCount := 6\<rparr>)
         (zero_port\<lparr>IfIndex := 1, Selected := True, Learn := True, Forward := True, Proposed := True,
           Agree := True, SendRSTP := True, HelloWhenTimer := 2,
           PortTimes := zero_times\<lparr>ForwardingDelay := 15, MaxAge := 20\<rparr>,
           PrtMachineFsm := Start PrtStateRootPort (new_machine PrtStateNone),
           PstMachineFsm := Start PstStateForwarding (new_machine PstStateNone),
           PtxmMachineFsm := Start PtxmStateIdle (new_machine PtxmStateNone)\<rparr>))
         \<lparr>peers := [2 \<mapsto> zero_port\<lparr>IfIndex := 2, RrWhileTimer := 3\<rparr>]\<rparr>"
  have "(\<exists>c'. PrtMachineMain 128 PrtEventProposedAndAgreeAndSelectedAndNotUpdtInfo c = Some c'
        \<and> prt_state (self c') = PrtStateRootPort \<and> \<not> Learn (self c') \<and> \<not> Forward (self c'))
    \<and> Send PstEvents (IfIndex (self c)) PstEventNotForward None
        \<in> set (out (snd (PrtProcess PrtEventProposedAndAgreeAndSelectedAndNotUpdtInfo c)))"
    by (rule Prt_agreement_stops_forwarding)
      (simp_all add: c_def prt_wf_def prt_on_def rr_quiet_def solo_def zero_bridge_def
      zero_port_def zero_times_def new_machine_def StpFindPortByIfIndex_def)
  then show ?thesis
    unfolding c_def by blast
qed

section \<open>Divergence\<close>

text \<open>C23: A disabled port whose maximum age in use differs from the bridge's makes the
  machine recurse without end: \<open>DisabledPort\<close> loads \<open>FdWhileTimer\<close> from the bridge's
  times, while post processing compares it with the port's and fires again.  No
  amount of fuel is enough.\<close>

theorem Prt_disabled_diverges:
  assumes "prt_on (self c)" and "prt_state (self c) = PrtStateDisabledPort"
    and "Selected (self c)" and "\<not> UpdtInfo (self c)"
    and "MaxAge (PortTimes (self c)) \<noteq> MaxAge (BridgeTimes (brg c))"
    and "e \<in> {PrtEventFdWhileNotEqualMaxAgeAndSelectedAndNotUpdtInfo, PrtEventSyncAndSelectedAndNotUpdtInfo,
         PrtEventReRootAndSelectedAndNotUpdtInfo, PrtEventNotSyncedAndSelectedAndNotUpdtInfo}"
  shows "PrtMachineMain n e c = None"
proof -
  define S where "S = (\<lambda>d. prt_on (self d) \<and> prt_state (self d) = PrtStateDisabledPort
    \<and> FdWhileTimer (self d) = i32 (MaxAge (BridgeTimes (brg d))) \<and> prt_view d = prt_view c)"
  have step: "\<exists>d'. PrtProcess e d = (None, d') \<and> S d'"
    if d: "prt_on (self d)" "prt_state (self d) = PrtStateDisabledPort" "prt_view d = prt_view c"
      and e: "e \<in> {5, 6, 7, 8}" for d e
  proof -
    have l: "map_of (PrtRules prt_nested) (prt_state (self d), e) = Some PrtMachineDisabledPort"
      using d(2) e by (elim insertE emptyE) (simp_all add: PrtRules_lookup)
    obtain d' where d': "PrtProcess e d = (None, d')"
      by (rule PrtProcess_fires [OF d(1) l])
    have "prt_view d' = prt_view d" and "prt_on (self d')"
      using keepsD [OF PrtProcess_keeps, of e d] PrtProcess_on [OF d(1), of e] d' by simp_all
    then show ?thesis
      using d' PrtProcess_after [OF d' l] d(3) prt_viewD(1) [of d' d]
      by (simp add: S_def prt_after_def prt_upd_def)
  qed
  obtain c1 where c1: "PrtProcess e c = (None, c1)" "S c1"
    using step [OF assms(1,2) refl assms(6)] by blast
  have "ProcessPost PrtProcess PrtPosts n c1 = None"
  proof (rule ProcessPost_diverges [where S = S, OF c1(2)])
    fix d
    assume d: "S d"
    have m: "Selected (self d)" "\<not> UpdtInfo (self d)" "MaxAge (PortTimes (self d)) \<noteq> MaxAge (BridgeTimes (brg d))"
      using d prt_viewD(1) [of d c] prt_mask_eq [OF prt_viewD(2), of d c] assms(3-5) by (simp_all add: S_def)
    have "PrtPostStateDisabled d = Some 5"
      using d m by (auto simp: S_def PrtPostStateDisabled_def prt_on_def Let_def)
    moreover have "\<forall>g \<in> set [PrtPostStateInitPort, PrtPostStateDisable]. g d = None"
      using d by (simp add: S_def PrtPostStateInitPort_def PrtPostStateDisable_def Let_def)
    moreover have "PrtPosts = [PrtPostStateInitPort, PrtPostStateDisable] @ PrtPostStateDisabled # drop 3 PrtPosts"
      by (simp add: PrtPosts_def)
    moreover have "\<exists>d'. PrtProcess 5 d = (None, d') \<and> S d'"
      using step [of d 5] d by (simp add: S_def)
    ultimately show "\<exists>h e c' gs ks. PrtPosts = gs @ h # ks \<and> (\<forall>g \<in> set gs. g d = None)
       \<and> h d = Some e \<and> PrtProcess e d = (None, c') \<and> S c'"
      by metis
  qed
  then show ?thesis
    using c1 assms(2) by (simp add: PrtMachineMain_def ProcessAndPost_def)
qed

theorem Prt_disabled_diverges_witness:
  "\<forall>n. PrtMachineMain n PrtEventSyncAndSelectedAndNotUpdtInfo
     (solo (zero_bridge\<lparr>StpPorts := [1], BridgeTimes := zero_times\<lparr>MaxAge := 20\<rparr>\<rparr>)
       (zero_port\<lparr>IfIndex := 1, Selected := True, Sync := True,
          PortTimes := zero_times\<lparr>MaxAge := 40\<rparr>,
          PrtMachineFsm := Start PrtStateDisabledPort (new_machine PrtStateNone)\<rparr>)) = None"
  by (intro allI Prt_disabled_diverges) (simp_all add: prt_on_def solo_def zero_bridge_def
      zero_port_def zero_times_def new_machine_def)


end
