(* ===== verification/Stp_Tcm.thy ===== *)
theory Stp_Tcm
  imports Stp_Tree
begin

text \<open>
  The topology change machine, \<open>l2/stp/protocol/tcmfsm.go\<close> (17.31): it detects that
  a port starts to forward, acknowledges and propagates topology changes to the
  other ports of the bridge and flushes learned addresses.  \<open>FlushFdb\<close> runs in a
  goroutine of its own: the handler only starts it (\<open>GoFlushFdb\<close>), and the
  definition \<open>FlushFdb\<close> is what it does when it runs.
\<close>

section \<open>Notifications\<close>

definition tc_newinfo_events :: "Ctx \<Rightarrow> StpPort \<Rightarrow> StpOut list" where
  "tc_newinfo_events c p =
    (if ptx_state p = PtxmStateIdle
     then if SendRSTP p \<and> NewInfo p \<and> TxCount p < TxHoldCount (brg c) \<and> HelloWhenTimer p \<noteq> 0
          then to_ptx p PtxmEventSendRSTPAndNewInfoAndTxCountLessThanTxHoldCoundAndHelloWhenNotEqualZeroAndSelectedAndNotUpdtInfo
          else if \<not> SendRSTP p \<and> NewInfo p \<and> Role p = PortRoleRootPort \<and> TxCount p < TxHoldCount (brg c) \<and> HelloWhenTimer p \<noteq> 0
          then to_ptx p PtxmEventNotSendRSTPAndNewInfoAndRootPortAndTxCountLessThanTxHoldCountAndHellWhenNotEqualZeroAndSelectedAndNotUpdtInfo
          else if \<not> SendRSTP p \<and> NewInfo p \<and> Role p = PortRoleDesignatedPort \<and> TxCount p < TxHoldCount (brg c) \<and> HelloWhenTimer p \<noteq> 0
          then to_ptx p PtxmEventNotSendRSTPAndNewInfoAndDesignatedPortAndTxCountLessThanTxHoldCountAndHellWhenNotEqualZeroAndSelectedAndNotUpdtInfo
          else []
     else [])"

text \<open>The notification dereferences the transmit machine without a nil check.\<close>

definition TcNotifyNewInfoChanged :: "bool \<Rightarrow> bool \<Rightarrow> Ctx \<Rightarrow> Ctx" where
  "TcNotifyNewInfoChanged oldnewinfo newnewinfo c =
     (if oldnewinfo \<noteq> newnewinfo then
        if \<not> ptx_live (self c) then panic c
        else emit (tc_newinfo_events c (self c)) c
      else c)"

definition tcprop_changed_events :: "StpPort \<Rightarrow> bool \<Rightarrow> bool \<Rightarrow> StpOut list" where
  "tcprop_changed_events p oldtcprop newtcprop =
    (if oldtcprop \<noteq> newtcprop
     then if tc_state p = TcStateActive
     then if newtcprop \<and> \<not> OperEdge p
          then to_tc p TcEventTcPropAndNotOperEdge
          else []
     else if tc_state p = TcStateLearning
     then if newtcprop
          then to_tc p TcEventTcProp
          else []
     else []
     else [])"

definition NotifyFdbFlush :: "Ctx \<Rightarrow> Ctx" where
  "NotifyFdbFlush c = emit [GoFlushFdb (IfIndex (self c))] (c\<lparr>self := (self c)\<lparr>FdbFlush := True\<rparr>\<rparr>)"

definition FlushFdb :: "Ctx \<Rightarrow> Ctx" where
  "FlushFdb c =
     (let c = emit [FlushStgFdb (StgId (brg c)) (IfIndex (self c))] c;
          c = c\<lparr>self := (self c)\<lparr>FdbFlush := False\<rparr>\<rparr>;
          p = self c
      in if Learn p \<and> tc_live p \<and> tc_state p = TcStateInactive
         then emit (to_tc p TcEventLearnAndNotFdbFlush) c else c)"

definition NotifyTcAckChanged :: "bool \<Rightarrow> Ctx \<Rightarrow> Ctx" where
  "NotifyTcAckChanged val c = TcNotifyNewInfoChanged False True c"

definition NotifyTcWhileChanged :: "int32 \<Rightarrow> Ctx \<Rightarrow> Ctx" where
  "NotifyTcWhileChanged val c = c\<lparr>self := (self c)\<lparr>TcWhileTimer := val\<rparr>\<rparr>"

section \<open>Actions\<close>

abbreviation (input) BridgeHelloTimeDefault :: int32 where "BridgeHelloTimeDefault \<equiv> 2"

definition newTcWhile :: "Ctx \<Rightarrow> bool \<times> Ctx" where
  "newTcWhile c =
     (let p = self c in
      if TcWhileTimer p = 0 then
        if SendRSTP p then
          (True, TcNotifyNewInfoChanged (NewInfo p) True
             (c\<lparr>self := p\<lparr>TcWhileTimer := BridgeHelloTimeDefault + 1, NewInfo := True\<rparr>\<rparr>))
        else
          (False, c\<lparr>self := p\<lparr>TcWhileTimer := i32 (MaxAge (PortTimes p) + ForwardingDelay (PortTimes p))\<rparr>\<rparr>)
      else (False, c))"

text \<open>The loop notifies each other port at once, as a method of that port's machine, and
  then resets its \<open>TcProp\<close>.\<close>

definition NotifyTcPropChanged :: "StpPort \<Rightarrow> bool \<Rightarrow> bool \<Rightarrow> Ctx \<Rightarrow> Ctx" where
  "NotifyTcPropChanged port oldtcprop newtcprop c =
     (if \<not> tc_live port then panic c else emit (tcprop_changed_events port oldtcprop newtcprop) c)"

definition tcprop_port :: "int32 \<Rightarrow> Ctx \<Rightarrow> Ctx" where
  "tcprop_port pId c =
     (if pId \<noteq> IfIndex (self c) then
        case StpFindPortByIfIndex c pId of
          None \<Rightarrow> c
        | Some port \<Rightarrow>
            upd_port pId (\<lambda>q. q\<lparr>TcProp := False\<rparr>) (NotifyTcPropChanged port (TcProp port) True c)
      else c)"

definition setTcPropTree :: "Ctx \<Rightarrow> Ctx" where
  "setTcPropTree c = fold tcprop_port (StpPorts (brg c)) c"

definition TcMachineInactive :: "Ctx Callback" where
  "TcMachineInactive c =
     (TcStateInactive, NotifyFdbFlush (c\<lparr>self := (self c)\<lparr>TcWhileTimer := 0, TcAck := False\<rparr>\<rparr>))"

definition TcMachineLearning :: "Ctx Callback" where
  "TcMachineLearning c =
     (TcStateLearning,
      c\<lparr>self := (self c)\<lparr>RcvdTc := False, RcvdTcn := False, RcvdTcAck := False, TcProp := False\<rparr>\<rparr>)"

definition TcMachineDetected :: "Ctx Callback" where
  "TcMachineDetected c =
     (let (newinfonotificationsent, c) = newTcWhile c;
          c = setTcPropTree c;
          oldnewinfo = NewInfo (self c);
          c = c\<lparr>self := (self c)\<lparr>NewInfo := True\<rparr>\<rparr>
      in (TcStateDetected,
          if \<not> newinfonotificationsent then TcNotifyNewInfoChanged oldnewinfo True c else c))"

definition TcMachineActive :: "Ctx Callback" where
  "TcMachineActive c = (TcStateActive, c)"

definition TcMachineNotifiedTcn :: "Ctx Callback" where
  "TcMachineNotifiedTcn c = (TcStateNotifiedTcn, snd (newTcWhile c))"

definition TcMachineNotifiedTc :: "Ctx Callback" where
  "TcMachineNotifiedTc c =
     (let c = c\<lparr>self := (self c)\<lparr>RcvdTcn := False, RcvdTc := False\<rparr>\<rparr>;
          ack = (Role (self c) = PortRoleDesignatedPort);
          c = (if ack then c\<lparr>self := (self c)\<lparr>TcAck := True\<rparr>\<rparr> else c);
          c = setTcPropTree c
      in (TcStateNotifiedTc, if ack then NotifyTcAckChanged True c else c))"

definition TcMachinePropagating :: "Ctx Callback" where
  "TcMachinePropagating c =
     (let c = snd (newTcWhile c)
      in (TcStatePropagating, NotifyFdbFlush (c\<lparr>self := (self c)\<lparr>TcProp := False\<rparr>\<rparr>)))"

definition TcMachineAcknowledged :: "Ctx Callback" where
  "TcMachineAcknowledged c =
     (TcStateAcknowledged, NotifyTcWhileChanged 0 (c\<lparr>self := (self c)\<lparr>RcvdTcAck := False\<rparr>\<rparr>))"

definition TcRules :: "((State \<times> Event) \<times> Ctx Callback) list" where
  "TcRules =
     [ ((TcStateNone, TcEventBegin), TcMachineInactive),
       ((TcStateInactive, TcEventBegin), TcMachineInactive),
       ((TcStateLearning, TcEventBegin), TcMachineInactive),
       ((TcStateDetected, TcEventBegin), TcMachineInactive),
       ((TcStateActive, TcEventBegin), TcMachineInactive),
       ((TcStateNotifiedTcn, TcEventBegin), TcMachineInactive),
       ((TcStateNotifiedTc, TcEventBegin), TcMachineInactive),
       ((TcStatePropagating, TcEventBegin), TcMachineInactive),
       ((TcStateAcknowledged, TcEventBegin), TcMachineInactive),
       ((TcStateLearning, TcEventRoleNotEqualRootPortAndRoleNotEqualDesignatedPortAndNotLearnAndNotLearningAndNotRcvdTcAndNotRcvdTcnAndNotRcvdTcAckAndNotTcProp), TcMachineInactive),
       ((TcStateInactive, TcEventLearnAndNotFdbFlush), TcMachineLearning),
       ((TcStateLearning, TcEventRcvdTc), TcMachineLearning),
       ((TcStateActive, TcEventRcvdTc), TcMachineNotifiedTc),
       ((TcStateLearning, TcEventRcvdTcn), TcMachineLearning),
       ((TcStateActive, TcEventRcvdTcn), TcMachineNotifiedTcn),
       ((TcStateLearning, TcEventRcvdTcAck), TcMachineLearning),
       ((TcStateActive, TcEventRcvdTcAck), TcMachineAcknowledged),
       ((TcStateLearning, TcEventTcProp), TcMachineLearning),
       ((TcStateLearning, TcEventRoleEqualRootPortAndForwardAndNotOperEdge), TcMachineDetected),
       ((TcStateLearning, TcEventRoleEqualDesignatedPortAndForwardAndNotOperEdge), TcMachineDetected),
       ((TcStateDetected, TcEventUnconditionalFallThrough), TcMachineActive),
       ((TcStateNotifiedTcn, TcEventUnconditionalFallThrough), TcMachineNotifiedTc),
       ((TcStateNotifiedTc, TcEventUnconditionalFallThrough), TcMachineActive),
       ((TcStatePropagating, TcEventUnconditionalFallThrough), TcMachineActive),
       ((TcStateAcknowledged, TcEventUnconditionalFallThrough), TcMachineActive),
       ((TcStateActive, TcEventRoleNotEqualRootPortAndRoleNotEqualDesignatedPort), TcMachineLearning),
       ((TcStateActive, TcEventOperEdge), TcMachineLearning),
       ((TcStateActive, TcEventTcPropAndNotOperEdge), TcMachinePropagating) ]"

definition TcProcess :: "Ctx Process" where
  "TcProcess = ProcessEvent tc_get tc_upd (AddRules TcRules Map.empty)"

definition TcPostStateInactive :: "Ctx Post" where
  "TcPostStateInactive c =
    (let p = self c in
     if tc_state p = TcStateInactive \<and> Learn p \<and> \<not> FdbFlush p
     then Some TcEventLearnAndNotFdbFlush
     else None)"

definition TcPostStateLearning :: "Ctx Post" where
  "TcPostStateLearning c =
    (let p = self c in
     if tc_state p = TcStateLearning
     then if (Role p = PortRoleRootPort \<or> Role p = PortRoleDesignatedPort) \<and> Forward p \<and> \<not> OperEdge p
          then if Role p = PortRoleRootPort
               then Some TcEventRoleEqualRootPortAndForwardAndNotOperEdge
               else Some TcEventRoleEqualDesignatedPortAndForwardAndNotOperEdge
          else if RcvdTc p
          then Some TcEventRcvdTc
          else if RcvdTcn p
          then Some TcEventRcvdTcn
          else if RcvdTcAck p
          then Some TcEventRcvdTcAck
          else if TcProp p
          then Some TcEventTcProp
          else None
     else None)"

definition TcPostStateActive :: "Ctx Post" where
  "TcPostStateActive c =
    (let p = self c in
     if tc_state p = TcStateActive
     then if Role p \<noteq> PortRoleRootPort \<and> Role p \<noteq> PortRoleDesignatedPort
          then Some TcEventRoleNotEqualRootPortAndRoleNotEqualDesignatedPort
          else if OperEdge p
          then Some TcEventOperEdge
          else if RcvdTcn p
          then Some TcEventRcvdTcn
          else if RcvdTc p
          then Some TcEventRcvdTc
          else if TcProp p \<and> \<not> OperEdge p
          then Some TcEventTcPropAndNotOperEdge
          else if RcvdTcAck p
          then Some TcEventRcvdTcAck
          else None
     else None)"

definition TcPostStateDetected :: "Ctx Post" where
  "TcPostStateDetected c =
    (let p = self c in
     if tc_state p = TcStateDetected
     then Some TcEventUnconditionalFallThrough
     else None)"

definition TcPostStateNotifiedTcn :: "Ctx Post" where
  "TcPostStateNotifiedTcn c =
    (let p = self c in
     if tc_state p = TcStateNotifiedTcn
     then Some TcEventUnconditionalFallThrough
     else None)"

definition TcPostStateNotifiedTc :: "Ctx Post" where
  "TcPostStateNotifiedTc c =
    (let p = self c in
     if tc_state p = TcStateNotifiedTc
     then Some TcEventUnconditionalFallThrough
     else None)"

definition TcPostStatePropagating :: "Ctx Post" where
  "TcPostStatePropagating c =
    (let p = self c in
     if tc_state p = TcStatePropagating
     then Some TcEventUnconditionalFallThrough
     else None)"

definition TcPostStateAcknowledged :: "Ctx Post" where
  "TcPostStateAcknowledged c =
    (let p = self c in
     if tc_state p = TcStateAcknowledged
     then Some TcEventUnconditionalFallThrough
     else None)"

definition TcPosts :: "Ctx Post list" where
  "TcPosts =
     [TcPostStateInactive, TcPostStateLearning, TcPostStateActive, TcPostStateDetected,
      TcPostStateNotifiedTcn, TcPostStateNotifiedTc, TcPostStatePropagating, TcPostStateAcknowledged]"

definition TcMachineMain :: "nat \<Rightarrow> Event \<Rightarrow> Ctx \<Rightarrow> Ctx option" where
  "TcMachineMain n e c =
     (if tc_state (self c) = TcStateNone \<and> e \<noteq> TcEventBegin
      then Some (emit (to_tc (self c) e) c)
      else ProcessAndPost TcProcess TcPosts n e c)"

section \<open>Results of the callbacks\<close>

lemma TcNotify_result [simp]:
  "self (TcNotifyNewInfoChanged a b c) = self c" "brg (TcNotifyNewInfoChanged a b c) = brg c"
  "peers (TcNotifyNewInfoChanged a b c) = peers c"
  "self (NotifyTcAckChanged d c) = self c" "brg (NotifyTcAckChanged d c) = brg c"
  "peers (NotifyTcAckChanged d c) = peers c"
  "self (NotifyFdbFlush c) = (self c)\<lparr>FdbFlush := True\<rparr>" "brg (NotifyFdbFlush c) = brg c"
  "peers (NotifyFdbFlush c) = peers c"
  "self (NotifyTcWhileChanged t c) = (self c)\<lparr>TcWhileTimer := t\<rparr>" "brg (NotifyTcWhileChanged t c) = brg c"
  "peers (NotifyTcWhileChanged t c) = peers c"
  by (simp_all add: TcNotifyNewInfoChanged_def NotifyTcAckChanged_def NotifyFdbFlush_def
      NotifyTcWhileChanged_def emit_def panic_def)

definition tc_while_port :: "StpPort \<Rightarrow> StpPort" where
  "tc_while_port p =
     (if TcWhileTimer p = 0 then
        if SendRSTP p then p\<lparr>TcWhileTimer := BridgeHelloTimeDefault + 1, NewInfo := True\<rparr>
        else p\<lparr>TcWhileTimer := i32 (MaxAge (PortTimes p) + ForwardingDelay (PortTimes p))\<rparr>
      else p)"

lemma newTcWhile_result [simp]:
  "self (snd (newTcWhile c)) = tc_while_port (self c)" "brg (snd (newTcWhile c)) = brg c"
  "peers (snd (newTcWhile c)) = peers c"
  by (simp_all add: newTcWhile_def tc_while_port_def Let_def)

lemma NotifyTcPropChanged_result [simp]:
  "self (NotifyTcPropChanged q a b c) = self c" "brg (NotifyTcPropChanged q a b c) = brg c"
  "peers (NotifyTcPropChanged q a b c) = peers c"
  by (simp_all add: NotifyTcPropChanged_def emit_def panic_def)

lemma tcprop_port_result [simp]:
  "self (tcprop_port i c) = self c" "brg (tcprop_port i c) = brg c"
  "peers (tcprop_port i c) =
     (if i = IfIndex (self c) then peers c
      else (peers c)(i := map_option (\<lambda>q. q\<lparr>TcProp := False\<rparr>) (peers c i)))"
  by (cases "peers c i"; simp add: tcprop_port_def upd_port_def StpFindPortByIfIndex_def fun_upd_idem)+

lemma fold_tcprop_result:
  "self (fold tcprop_port ids c) = self c" "brg (fold tcprop_port ids c) = brg c"
  "peers (fold tcprop_port ids c) j =
     (if j \<in> set ids \<and> j \<noteq> IfIndex (self c) then map_option (\<lambda>q. q\<lparr>TcProp := False\<rparr>) (peers c j)
      else peers c j)"
  by (induction ids arbitrary: c) (auto simp: option.map_comp comp_def)

lemma setTcPropTree_result [simp]:
  "self (setTcPropTree c) = self c" "brg (setTcPropTree c) = brg c"
  "peers (setTcPropTree c) j =
     (if j \<in> set (StpPorts (brg c)) \<and> j \<noteq> IfIndex (self c)
      then map_option (\<lambda>q. q\<lparr>TcProp := False\<rparr>) (peers c j) else peers c j)"
  by (simp_all add: setTcPropTree_def fold_tcprop_result)

lemma TcMachine_result [simp]:
  "fst (TcMachineInactive c) = TcStateInactive"
  "self (snd (TcMachineInactive c)) = (self c)\<lparr>TcWhileTimer := 0, TcAck := False, FdbFlush := True\<rparr>"
  "fst (TcMachineLearning c) = TcStateLearning"
  "self (snd (TcMachineLearning c)) =
     (self c)\<lparr>RcvdTc := False, RcvdTcn := False, RcvdTcAck := False, TcProp := False\<rparr>"
  "fst (TcMachineDetected c) = TcStateDetected"
  "self (snd (TcMachineDetected c)) = (tc_while_port (self c))\<lparr>NewInfo := True\<rparr>"
  "fst (TcMachineActive c) = TcStateActive" "snd (TcMachineActive c) = c"
  "fst (TcMachineNotifiedTcn c) = TcStateNotifiedTcn"
  "self (snd (TcMachineNotifiedTcn c)) = tc_while_port (self c)"
  "fst (TcMachineNotifiedTc c) = TcStateNotifiedTc"
  "self (snd (TcMachineNotifiedTc c)) =
     (if Role (self c) = PortRoleDesignatedPort then (self c)\<lparr>RcvdTcn := False, RcvdTc := False, TcAck := True\<rparr>
      else (self c)\<lparr>RcvdTcn := False, RcvdTc := False\<rparr>)"
  "fst (TcMachinePropagating c) = TcStatePropagating"
  "self (snd (TcMachinePropagating c)) = (tc_while_port (self c))\<lparr>TcProp := False, FdbFlush := True\<rparr>"
  "fst (TcMachineAcknowledged c) = TcStateAcknowledged"
  "self (snd (TcMachineAcknowledged c)) = (self c)\<lparr>RcvdTcAck := False, TcWhileTimer := 0\<rparr>"
  by (simp_all add: TcMachineInactive_def TcMachineLearning_def TcMachineDetected_def TcMachineActive_def
      TcMachineNotifiedTcn_def TcMachineNotifiedTc_def TcMachinePropagating_def TcMachineAcknowledged_def
      case_prod_beta Let_def)

lemma tc_while_port_fields [simp]:
  "RcvdTc (tc_while_port p) = RcvdTc p" "RcvdTcn (tc_while_port p) = RcvdTcn p"
  "RcvdTcAck (tc_while_port p) = RcvdTcAck p" "TcProp (tc_while_port p) = TcProp p"
  "Role (tc_while_port p) = Role p" "OperEdge (tc_while_port p) = OperEdge p"
  "Forward (tc_while_port p) = Forward p" "Learn (tc_while_port p) = Learn p"
  "TcMachineFsm (tc_while_port p) = TcMachineFsm p"
  by (simp_all add: tc_while_port_def)

section \<open>What a transition keeps\<close>

lemma TcRules_cases:
  assumes "map_of TcRules k = Some f"
  shows "f \<in> {TcMachineInactive, TcMachineLearning, TcMachineDetected, TcMachineActive,
    TcMachineNotifiedTcn, TcMachineNotifiedTc, TcMachinePropagating, TcMachineAcknowledged}"
  by (rule table_all [OF assms]) (simp add: TcRules_def)

definition tc_mask :: "StpPort \<Rightarrow> StpPort" where
  "tc_mask p =
     p\<lparr>RcvdTc := False, RcvdTcn := False, RcvdTcAck := False, TcProp := False, TcAck := False,
       TcWhileTimer := 0, FdbFlush := False, NewInfo := False, TcMachineFsm := nil_machine\<rparr>"

definition tc_peers :: "int32 \<Rightarrow> (int32 \<Rightarrow> StpPort option) \<Rightarrow> int32 \<Rightarrow> StpPort option" where
  "tc_peers own ps i = (if i = own then None else map_option (\<lambda>q. q\<lparr>TcProp := False\<rparr>) (ps i))"

definition tc_view :: "Ctx \<Rightarrow> Bridge \<times> StpPort \<times> (int32 \<Rightarrow> StpPort option)" where
  "tc_view c = (brg c, tc_mask (self c), tc_peers (IfIndex (self c)) (peers c))"

lemma tc_mask_while: "tc_mask (tc_while_port p) = tc_mask p" "IfIndex (tc_while_port p) = IfIndex p"
  by (simp_all add: tc_mask_def tc_while_port_def)

lemma TcMachine_rest [simp]:
  "brg (snd (TcMachineInactive c)) = brg c" "brg (snd (TcMachineLearning c)) = brg c"
  "brg (snd (TcMachineDetected c)) = brg c" "brg (snd (TcMachineNotifiedTcn c)) = brg c"
  "brg (snd (TcMachineNotifiedTc c)) = brg c" "brg (snd (TcMachinePropagating c)) = brg c"
  "brg (snd (TcMachineAcknowledged c)) = brg c"
  "peers (snd (TcMachineInactive c)) = peers c" "peers (snd (TcMachineLearning c)) = peers c"
  "peers (snd (TcMachineNotifiedTcn c)) = peers c" "peers (snd (TcMachinePropagating c)) = peers c"
  "peers (snd (TcMachineAcknowledged c)) = peers c"
  by (simp_all add: TcMachineInactive_def TcMachineLearning_def TcMachineDetected_def TcMachineActive_def
      TcMachineNotifiedTcn_def TcMachineNotifiedTc_def TcMachinePropagating_def TcMachineAcknowledged_def
      case_prod_beta Let_def)

lemma TcMachine_peers [simp]:
  "tc_peers (IfIndex (self c)) (peers (snd (TcMachineDetected c))) = tc_peers (IfIndex (self c)) (peers c)"
  "tc_peers (IfIndex (self c)) (peers (snd (TcMachineNotifiedTc c))) = tc_peers (IfIndex (self c)) (peers c)"
  by (auto simp: tc_peers_def fun_eq_iff TcMachineDetected_def TcMachineNotifiedTc_def case_prod_beta Let_def
      option.map_comp comp_def tc_mask_while)

lemma TcRules_keep:
  assumes "map_of TcRules k = Some f"
  shows "tc_view (snd (f c)) = tc_view c"
  using TcRules_cases [OF assms]
  by (elim insertE emptyE)
    (simp_all add: tc_view_def tc_mask_while, simp_all add: tc_mask_def tc_while_port_def)

lemma TcProcess_keeps: "keeps tc_view (\<lambda>c. snd (TcProcess e c))"
  unfolding TcProcess_def AddRules_empty
  by (rule tc_slot.process_keeps) (auto simp: TcRules_keep, simp add: tc_view_def tc_upd_def tc_mask_def)

section \<open>Post processing\<close>

text \<open>What the machine still has to handle: the pending topology change flags.\<close>

definition tc_flags :: "StpPort \<Rightarrow> nat" where
  "tc_flags p =
     (if RcvdTc p then 1 else 0) + (if RcvdTcn p then 1 else 0) + (if RcvdTcAck p then 1 else 0)
     + (if TcProp p then 1 else 0)"

text \<open>Only a root or designated port that is not an edge port stays active.\<close>

definition tc_active_role :: "StpPort \<Rightarrow> bool" where
  "tc_active_role p \<longleftrightarrow> (Role p = PortRoleRootPort \<or> Role p = PortRoleDesignatedPort) \<and> \<not> OperEdge p"

definition tc_port_rank :: "State \<Rightarrow> StpPort \<Rightarrow> nat" where
  "tc_port_rank s p =
     (if s = TcStateInactive then 30
      else if s = TcStateLearning then (if tc_active_role p then 20 else 0) + (if tc_flags p = 0 then 0 else 1)
      else if s = TcStateDetected then 19
      else if s = TcStateNotifiedTcn then
        4 * ((if RcvdTcAck p then 1 else 0) + (if TcProp p then 1 else 0)) + (if tc_active_role p then 2 else 7)
      else if s = TcStateActive then 4 * tc_flags p + (if tc_active_role p then 0 else 2)
      else 4 * tc_flags p + (if tc_active_role p then 1 else 3))"

definition tc_rank :: "Ctx \<Rightarrow> nat" where
  "tc_rank c = tc_port_rank (tc_state (self c)) (self c)"

lemma tc_rank_bound: "tc_rank c < 31"
  by (simp add: tc_rank_def tc_port_rank_def tc_flags_def)

lemma TcProcess_refused: "TcProcess e c = (Some err, c') \<Longrightarrow> c' = c"
  unfolding TcProcess_def using tc_slot.error_unchanged by blast

lemma TcProcess_accepted:
  assumes "TcProcess e c = (None, c')" and "map_of TcRules (tc_state (self c), e) = Some f"
  shows "c' = tc_upd (SetState (fst (f (tc_upd (SetEvent e) c)))) (snd (f (tc_upd (SetEvent e) c)))"
  using tc_slot.accepted [OF assms(1) [unfolded TcProcess_def AddRules_empty]] assms(2)
  unfolding tc_get_def by (metis option.inject)

lemma Tc_choice:
  assumes "h \<in> set TcPosts" and "h c = Some e"
  obtains "tc_state (self c) = TcStateInactive" "e = TcEventLearnAndNotFdbFlush"
  | "tc_state (self c) = TcStateLearning" "e = 9 \<or> e = 10" "tc_active_role (self c)"
  | "tc_state (self c) = TcStateLearning" "e \<in> {5, 6, 7, 8}" "tc_flags (self c) \<noteq> 0"
  | "tc_state (self c) = TcStateActive" "e = 12 \<or> e = 13" "\<not> tc_active_role (self c)"
  | "tc_state (self c) = TcStateActive" "e = 6" "RcvdTcn (self c)" "tc_active_role (self c)"
  | "tc_state (self c) = TcStateActive" "e = 5" "RcvdTc (self c)" "tc_active_role (self c)"
  | "tc_state (self c) = TcStateActive" "e = 11" "TcProp (self c)" "tc_active_role (self c)"
  | "tc_state (self c) = TcStateActive" "e = 7" "RcvdTcAck (self c)" "tc_active_role (self c)"
  | "tc_state (self c) \<in> {TcStateDetected, TcStateNotifiedTcn, TcStateNotifiedTc, TcStatePropagating,
       TcStateAcknowledged}" "e = TcEventUnconditionalFallThrough"
  using assms unfolding TcPosts_def
  by (auto simp: TcPostStateInactive_def TcPostStateLearning_def TcPostStateActive_def TcPostStateDetected_def
      TcPostStateNotifiedTcn_def TcPostStateNotifiedTc_def TcPostStatePropagating_def
      TcPostStateAcknowledged_def Let_def tc_active_role_def tc_flags_def split: if_splits)

lemma TcRules_lookup [stp_table]:
  "map_of TcRules (TcStateInactive, TcEventLearnAndNotFdbFlush) = Some TcMachineLearning"
  "map_of TcRules (TcStateLearning, 9) = Some TcMachineDetected"
  "map_of TcRules (TcStateLearning, 10) = Some TcMachineDetected"
  "map_of TcRules (TcStateLearning, 5) = Some TcMachineLearning"
  "map_of TcRules (TcStateLearning, 6) = Some TcMachineLearning"
  "map_of TcRules (TcStateLearning, 7) = Some TcMachineLearning"
  "map_of TcRules (TcStateLearning, 8) = Some TcMachineLearning"
  "map_of TcRules (TcStateActive, 12) = Some TcMachineLearning"
  "map_of TcRules (TcStateActive, 13) = Some TcMachineLearning"
  "map_of TcRules (TcStateActive, 6) = Some TcMachineNotifiedTcn"
  "map_of TcRules (TcStateActive, 5) = Some TcMachineNotifiedTc"
  "map_of TcRules (TcStateActive, 11) = Some TcMachinePropagating"
  "map_of TcRules (TcStateActive, 7) = Some TcMachineAcknowledged"
  "map_of TcRules (TcStateDetected, TcEventUnconditionalFallThrough) = Some TcMachineActive"
  "map_of TcRules (TcStateNotifiedTcn, TcEventUnconditionalFallThrough) = Some TcMachineNotifiedTc"
  "map_of TcRules (TcStateNotifiedTc, TcEventUnconditionalFallThrough) = Some TcMachineActive"
  "map_of TcRules (TcStatePropagating, TcEventUnconditionalFallThrough) = Some TcMachineActive"
  "map_of TcRules (TcStateAcknowledged, TcEventUnconditionalFallThrough) = Some TcMachineActive"
  by (simp_all add: TcRules_def)

lemma tc_port_rank_machine: "tc_port_rank s (p\<lparr>TcMachineFsm := m\<rparr>) = tc_port_rank s p"
  by (simp add: tc_port_rank_def tc_flags_def tc_active_role_def)

lemma Tc_step_rank:
  assumes "TcProcess e c = (None, c')" and "tc_state (self c) = s" and "map_of TcRules (s, e) = Some f"
  shows "tc_rank c' = tc_port_rank (fst (f (tc_upd (SetEvent e) c))) (self (snd (f (tc_upd (SetEvent e) c))))"
  using TcProcess_accepted [OF assms(1)] assms(2,3)
  by (simp add: tc_rank_def tc_upd_def tc_port_rank_machine)

lemma Tc_post_step:
  assumes "h \<in> set TcPosts" and "h c = Some e" and "TcProcess e c = (None, c')"
  shows "tc_rank c' < tc_rank c"
proof -
  note step = Tc_step_rank [OF assms(3)]
  have upd: "self (tc_upd g c) = (self c)\<lparr>TcMachineFsm := g (TcMachineFsm (self c))\<rparr>" for g
    by (simp add: tc_upd_def)
  note rank = tc_rank_def tc_port_rank_def tc_flags_def tc_active_role_def
  show ?thesis
  proof (cases rule: Tc_choice [OF assms(1,2)])
    case 1
    then show ?thesis using step [OF 1(1)] by (simp add: TcRules_lookup upd rank)
  next
    case 2
    then have "map_of TcRules (TcStateLearning, e) = Some TcMachineDetected"
      by (auto simp: TcRules_lookup)
    from step [OF 2(1) this] 2 show ?thesis
      by (simp add: tc_rank_def tc_port_rank_def)
  next
    case 3
    then have "map_of TcRules (TcStateLearning, e) = Some TcMachineLearning"
      by (auto simp: TcRules_lookup)
    from step [OF 3(1) this] 3 show ?thesis
      by (simp add: upd rank)
  next
    case 4
    then have "map_of TcRules (TcStateActive, e) = Some TcMachineLearning"
      by (auto simp: TcRules_lookup)
    from step [OF 4(1) this] 4 show ?thesis
      by (simp add: upd tc_rank_def tc_port_rank_def, simp add: tc_flags_def tc_active_role_def)
  next
    case 9
    then show ?thesis
      using step by (elim insertE emptyE) (simp_all add: TcRules_lookup upd rank)
  qed (use step in \<open>simp_all add: TcRules_lookup upd rank\<close>)
qed

definition tc_begun :: "Ctx \<Rightarrow> bool" where
  "tc_begun c \<longleftrightarrow> mBegin (TcMachineFsm (self c))"

lemma TcProcess_begun:
  assumes "TcProcess e c = (None, c')"
  shows "tc_begun c'" and "tc_begun c"
proof -
  obtain f where f: "mBegin (TcMachineFsm (self c))" "map_of TcRules (tc_state (self c), e) = Some f"
    using tc_slot.accepted [OF assms [unfolded TcProcess_def AddRules_empty]] unfolding tc_get_def by blast
  then show "tc_begun c"
    by (simp add: tc_begun_def)
  show "tc_begun c'"
    using TcProcess_accepted [OF assms f(2)] TcRules_cases [OF f(2)] f(1)
    by (elim insertE emptyE) (simp_all add: tc_begun_def tc_upd_def)
qed

interpretation tc_post: post_terminates TcProcess TcPosts tc_begun tc_rank
  by unfold_locales (auto dest: Tc_post_step TcProcess_begun TcProcess_refused)

text \<open>Where a settled machine can rest.\<close>

definition tc_rest :: "StpPort \<Rightarrow> bool" where
  "tc_rest p \<longleftrightarrow>
     tc_state p = TcStateInactive \<and> (Learn p \<longrightarrow> FdbFlush p)
     \<or> tc_state p = TcStateLearning \<and> tc_flags p = 0 \<and> \<not> (tc_active_role p \<and> Forward p)
     \<or> tc_state p = TcStateActive \<and> tc_flags p = 0 \<and> tc_active_role p"

lemma Tc_settled:
  assumes "settled TcProcess TcPosts c" and "tc_begun c" and "tc_state (self c) \<in> {2..9}"
  shows "tc_rest (self c)"
proof -
  have acc: "h c \<noteq> Some e" if "h \<in> set TcPosts" and "map_of TcRules (tc_state (self c), e) \<noteq> None" for h e
    using assms(1,2) that
    by (force simp: settled_def TcProcess_def AddRules_empty process_accepts tc_get_def tc_begun_def
        split: option.splits)
  have none: "h c = None" if "h \<in> set TcPosts" for h
  proof (rule ccontr)
    assume "h c \<noteq> None"
    then obtain e where e: "h c = Some e" by blast
    then have "map_of TcRules (tc_state (self c), e) \<noteq> None"
      by (cases rule: Tc_choice [OF that e]) (auto simp: TcRules_lookup)
    then show False
      using acc [OF that] e by blast
  qed
  have "tc_state (self c) \<in> {TcStateInactive, TcStateLearning, TcStateActive}"
    using none [of TcPostStateDetected] none [of TcPostStateNotifiedTcn] none [of TcPostStateNotifiedTc]
      none [of TcPostStatePropagating] none [of TcPostStateAcknowledged] assms(3)
    by (simp add: TcPosts_def TcPostStateDetected_def TcPostStateNotifiedTcn_def TcPostStateNotifiedTc_def
        TcPostStatePropagating_def TcPostStateAcknowledged_def Let_def split: if_splits) linarith
  then show ?thesis
    using none [of TcPostStateInactive] none [of TcPostStateLearning] none [of TcPostStateActive]
    by (auto simp: TcPosts_def TcPostStateInactive_def TcPostStateLearning_def TcPostStateActive_def
        tc_rest_def tc_flags_def tc_active_role_def Let_def split: if_splits)
qed

lemma TcProcess_range:
  assumes "TcProcess e c = (None, c')"
  shows "tc_state (self c') \<in> {2..9}"
proof -
  obtain f where f: "map_of TcRules (tc_state (self c), e) = Some f"
    using tc_slot.accepted [OF assms [unfolded TcProcess_def AddRules_empty]] unfolding tc_get_def by blast
  show ?thesis
    using TcProcess_accepted [OF assms f] TcRules_cases [OF f]
    by (elim insertE emptyE) (simp_all add: tc_upd_def)
qed

text \<open>C24: Every event of the topology change machine returns (31 rounds of post
  processing are enough).  If the event was accepted the machine rests in
  \<open>Inactive\<close>, \<open>Learning\<close> or \<open>Active\<close>, with no pending topology change flag in the
  last two, and it is \<open>Active\<close> only as a root or designated port that is not an edge
  port.  Of the port only the topology change variables and \<open>NewInfo\<close> changed, of
  the other ports only \<open>TcProp\<close>, of the bridge nothing.\<close>

theorem Tcm_returns:
  assumes "tc_state (self c) \<noteq> TcStateNone \<or> e = TcEventBegin"
  shows "\<exists>c'. TcMachineMain 31 e c = Some c' \<and> tc_view c' = tc_view c
     \<and> (fst (TcProcess e c) = None \<longrightarrow> tc_rest (self c'))
     \<and> (fst (TcProcess e c) \<noteq> None \<longrightarrow> c' = c)"
proof -
  obtain d where d: "ProcessAndPost TcProcess TcPosts 31 e c = Some d"
    "fst (TcProcess e c) = None \<longrightarrow> tc_begun d \<and> settled TcProcess TcPosts d"
    "fst (TcProcess e c) \<noteq> None \<longrightarrow> d = c"
    using tc_post.process_and_post [of e c 31] TcProcess_begun(1) [of e c] tc_rank_bound
    by (metis prod.collapse)
  have "tc_rest (self d)" if acc: "fst (TcProcess e c) = None"
  proof -
    have "TcProcess e c = (None, snd (TcProcess e c))"
      using acc by (metis prod.collapse)
    then have 1: "tc_state (self (snd (TcProcess e c))) \<in> {2..9}"
      by (rule TcProcess_range)
    have "tc_state (self d) \<in> {2..9}"
    proof (rule ProcessAndPost_inv [where I = "\<lambda>x. tc_state (self x) \<in> {2..9}", OF d(1) 1])
      fix h :: "Ctx Post" and e and x :: Ctx
      assume "tc_state (self x) \<in> {2..9}"
      then show "tc_state (self (snd (TcProcess e x))) \<in> {2..9}"
        using TcProcess_range [of e x] TcProcess_refused [of e x]
        by (cases "fst (TcProcess e x)") (metis prod.collapse)+
    qed
    then show ?thesis
      using Tc_settled d(2) acc by blast
  qed
  then show ?thesis
    using d(1,3) ProcessAndPost_keeps [OF TcProcess_keeps d(1)] assms by (auto simp: TcMachineMain_def)
qed

theorem Tcm_returns_witness:
  "\<exists>c'. TcMachineMain 31 TcEventLearnAndNotFdbFlush
      (solo zero_bridge (zero_port\<lparr>Role := PortRoleRootPort, Learn := True, Forward := True, SendRSTP := True,
        RcvdTc := True, TcMachineFsm := Start TcStateInactive (new_machine TcStateNone),
        PtxmMachineFsm := new_machine PtxmStateNone\<rparr>)) = Some c'
    \<and> tc_state (self c') = TcStateActive \<and> tc_rest (self c') \<and> TcWhileTimer (self c') = 3"
proof -
  define c where "c = solo zero_bridge (zero_port\<lparr>Role := PortRoleRootPort, Learn := True, Forward := True,
        SendRSTP := True, RcvdTc := True, TcMachineFsm := Start TcStateInactive (new_machine TcStateNone),
        PtxmMachineFsm := new_machine PtxmStateNone\<rparr>)"
  have "tc_state (self c) \<noteq> TcStateNone \<or> TcEventLearnAndNotFdbFlush = TcEventBegin"
    by (simp add: c_def solo_def)
  from Tcm_returns [OF this]
  obtain c' where c': "TcMachineMain 31 TcEventLearnAndNotFdbFlush c = Some c'"
    "fst (TcProcess TcEventLearnAndNotFdbFlush c) = None \<longrightarrow> tc_rest (self c')"
    by (elim exE conjE) simp
  moreover have "fst (TcProcess TcEventLearnAndNotFdbFlush c) = None"
    by (simp add: c_def TcProcess_def AddRules_empty process_accepts tc_get_def TcRules_def solo_def)
  moreover have "map_option (\<lambda>d. (tc_state (self d), TcWhileTimer (self d)))
      (TcMachineMain 31 TcEventLearnAndNotFdbFlush c) = Some (TcStateActive, 3)"
    unfolding c_def by code_simp
  ultimately show ?thesis
    unfolding c_def [symmetric] by simp
qed

section \<open>Propagation to the other ports\<close>

text \<open>What the machine of another port is sent when a topology change is propagated.\<close>

definition tcprop_message :: "int32 \<Rightarrow> StpPort \<Rightarrow> StpOut list" where
  "tcprop_message i q =
     (if TcProp q then []
      else if tc_state q = TcStateActive \<and> \<not> OperEdge q then [Send TcEvents i TcEventTcPropAndNotOperEdge None]
      else if tc_state q = TcStateLearning then [Send TcEvents i TcEventTcProp None]
      else [])"

definition tc_peer_ok :: "Ctx \<Rightarrow> int32 \<Rightarrow> bool" where
  "tc_peer_ok c i \<longleftrightarrow> (case peers c i of None \<Rightarrow> True | Some q \<Rightarrow> tc_live q \<and> IfIndex q = i)"

lemma tcprop_port_out:
  assumes "tc_peer_ok c i"
  shows "out (tcprop_port i c) = out c @ (if i = IfIndex (self c) then [] else
      case peers c i of None \<Rightarrow> [] | Some q \<Rightarrow> tcprop_message i q)"
    and "panicked (tcprop_port i c) = panicked c"
  using assms
  by (auto simp: tcprop_port_def tc_peer_ok_def StpFindPortByIfIndex_def NotifyTcPropChanged_def
      tcprop_changed_events_def tcprop_message_def emit_def to_tc_def split: option.splits)

lemma tc_peer_ok_step: "tc_peer_ok c j \<Longrightarrow> tc_peer_ok (tcprop_port i c) j"
  by (auto simp: tc_peer_ok_def split: option.splits)

lemma tcprop_fold_out:
  assumes "distinct ids" and "list_all (tc_peer_ok c) ids"
  shows "out (fold tcprop_port ids c) = out c @ concat (map (\<lambda>i. if i = IfIndex (self c) then [] else
      case peers c i of None \<Rightarrow> [] | Some q \<Rightarrow> tcprop_message i q) ids)
    \<and> panicked (fold tcprop_port ids c) = panicked c"
  using assms
proof (induction ids arbitrary: c)
  case Nil
  then show ?case by simp
next
  case (Cons i ids)
  have ok: "list_all (tc_peer_ok (tcprop_port i c)) ids"
    using Cons.prems(2) by (auto simp: list_all_iff tc_peer_ok_step)
  have eq: "map (\<lambda>j. if j = IfIndex (self c) then [] else
        case peers (tcprop_port i c) j of None \<Rightarrow> [] | Some q \<Rightarrow> tcprop_message j q) ids
      = map (\<lambda>j. if j = IfIndex (self c) then [] else
        case peers c j of None \<Rightarrow> [] | Some q \<Rightarrow> tcprop_message j q) ids"
    using Cons.prems(1) by (intro map_cong refl) auto
  show ?case
    using Cons.IH [OF _ ok] Cons.prems tcprop_port_out [of c i] eq by simp
qed

text \<open>C25: Propagating a topology change visits every other port of the bridge once:
  a port whose machine is active (and not at an edge) or learning is sent one event,
  in the order of the port list, and nothing else is sent.  Afterwards \<open>TcProp\<close> is
  false on every other port, where the standard's \<open>setTcPropTree\<close> makes it true:
  the event is the only trace of the change, and a port in any other state, or one
  whose flag was set, is told nothing.\<close>

theorem Tcm_propagation:
  assumes "distinct (StpPorts (brg c))" and "list_all (tc_peer_ok c) (StpPorts (brg c))"
  shows "out (setTcPropTree c) = out c @ concat (map (\<lambda>i. if i = IfIndex (self c) then [] else
      case peers c i of None \<Rightarrow> [] | Some q \<Rightarrow> tcprop_message i q) (StpPorts (brg c)))
    \<and> panicked (setTcPropTree c) = panicked c
    \<and> list_all (\<lambda>i. i = IfIndex (self c) \<or>
        (case peers (setTcPropTree c) i of None \<Rightarrow> True | Some q \<Rightarrow> \<not> TcProp q)) (StpPorts (brg c))"
  using tcprop_fold_out [OF assms]
  by (auto simp: setTcPropTree_def list_all_iff fold_tcprop_result split: option.splits)

theorem Tcm_propagation_witness:
  "out (setTcPropTree
      ((solo (zero_bridge\<lparr>StpPorts := [1, 2, 3]\<rparr>) (zero_port\<lparr>IfIndex := 1\<rparr>))
        \<lparr>peers := [2 \<mapsto> zero_port\<lparr>IfIndex := 2, TcMachineFsm := Start TcStateActive (new_machine TcStateNone)\<rparr>,
                  3 \<mapsto> zero_port\<lparr>IfIndex := 3, TcMachineFsm := Start TcStateDetected (new_machine TcStateNone)\<rparr>]\<rparr>))
    = [Send TcEvents 2 TcEventTcPropAndNotOperEdge None]"
proof -
  define c where "c = (solo (zero_bridge\<lparr>StpPorts := [1, 2, 3]\<rparr>) (zero_port\<lparr>IfIndex := 1\<rparr>))
        \<lparr>peers := [2 \<mapsto> zero_port\<lparr>IfIndex := 2, TcMachineFsm := Start TcStateActive (new_machine TcStateNone)\<rparr>,
                  3 \<mapsto> zero_port\<lparr>IfIndex := 3, TcMachineFsm := Start TcStateDetected (new_machine TcStateNone)\<rparr>]\<rparr>"
  have "distinct (StpPorts (brg c))" "list_all (tc_peer_ok c) (StpPorts (brg c))"
    by (simp_all add: c_def solo_def tc_peer_ok_def new_machine_def zero_port_def zero_bridge_def Start_def SetState_def)
  from Tcm_propagation [OF this] show ?thesis
    unfolding c_def [symmetric] by (simp add: c_def solo_def tcprop_message_def zero_port_def zero_bridge_def)
qed

end
