(* ===== verification/Stp_Prs.thy ===== *)
theory Stp_Prs
  imports Stp_Tree
begin

text \<open>
  The port role selection machine, \<open>l2/stp/protocol/prsfsm.go\<close> (17.28): the one
  machine of the bridge.  It reads the information every port holds, picks the
  root bridge and the root port, gives every port its role and tells the role
  transition machines.  The machine belongs to the bridge, so no port of the
  context is distinguished: ports are read with \<open>StpFindPortByIfIndex\<close> and written
  with \<open>upd_port\<close>.
\<close>

section \<open>Deferred notifications\<close>

text \<open>Go evaluates the arguments of a deferred call when \<open>defer\<close> is reached and runs
  the calls when the function returns, last in, first out.  A list of them has the
  newest at its head.\<close>

datatype PrsDefer =
    DeferSelectedRoleChanged int32 PortRole PortRole
  | DeferUpdtInfoChanged int32 bool bool
  | DeferSelectedChanged int32 bool bool

primrec prs_defer_port :: "PrsDefer \<Rightarrow> int32" where
  "prs_defer_port (DeferSelectedRoleChanged i old new) = i"
| "prs_defer_port (DeferUpdtInfoChanged i old new) = i"
| "prs_defer_port (DeferSelectedChanged i old new) = i"

primrec prs_notify :: "PrsDefer \<Rightarrow> Ctx \<Rightarrow> StpPort \<Rightarrow> StpOut list" where
  "prs_notify (DeferSelectedRoleChanged i old new) c p = NotifySelectedRoleChanged p old new"
| "prs_notify (DeferUpdtInfoChanged i old new) c p =
     NotifyUpdtInfoChanged PrsMachineModuleStr p old new"
| "prs_notify (DeferSelectedChanged i old new) c p =
     NotifySelectedChanged c PrsMachineModuleStr p old new"

definition run_defer :: "PrsDefer \<Rightarrow> Ctx \<Rightarrow> Ctx" where
  "run_defer d c =
     (case StpFindPortByIfIndex c (prs_defer_port d) of
        None \<Rightarrow> c
      | Some p \<Rightarrow> emit (prs_notify d c p) c)"

abbreviation run_defers :: "PrsDefer list \<Rightarrow> Ctx \<Rightarrow> Ctx" where
  "run_defers \<equiv> fold run_defer"

text \<open>\<open>defer p.NotifySelectedRoleChanged(..., p.SelectedRole, r); p.SelectedRole = r\<close> and
  the same for \<open>UpdtInfo\<close>.\<close>

definition select_role :: "PortRole \<Rightarrow> int32 \<Rightarrow> StpPort \<times> PrsDefer list \<Rightarrow> StpPort \<times> PrsDefer list" where
  "select_role r i x =
     ((fst x)\<lparr>SelectedRole := r\<rparr>, DeferSelectedRoleChanged i (SelectedRole (fst x)) r # snd x)"

definition set_updtinfo :: "bool \<Rightarrow> int32 \<Rightarrow> StpPort \<times> PrsDefer list \<Rightarrow> StpPort \<times> PrsDefer list" where
  "set_updtinfo v i x =
     ((fst x)\<lparr>UpdtInfo := v\<rparr>, DeferUpdtInfoChanged i (UpdtInfo (fst x)) v # snd x)"

section \<open>Clearing and disabling\<close>

definition clearReselectTree :: "Ctx \<Rightarrow> Ctx" where
  "clearReselectTree c =
     fst (tree_loop (\<lambda>_ _. [] :: PrsDefer list) (\<lambda>p. p\<lparr>Reselect := False\<rparr>) (StpPorts (brg c)) c)"

definition updtRoleDisabledTree :: "Ctx \<Rightarrow> Ctx" where
  "updtRoleDisabledTree c =
     (let (c', ds) = tree_loop
            (\<lambda>i p. [DeferSelectedRoleChanged i (SelectedRole p) PortRoleDisabledPort])
            (\<lambda>p. p\<lparr>SelectedRole := PortRoleDisabledPort\<rparr>) (StpPorts (brg c)) c
      in run_defers ds c')"

section \<open>The root path vector\<close>

text \<open>The local variables of the first loop of \<open>updtRolesTree\<close>.\<close>

record RootSel =
  tmpVector :: PriorityVector
  rootPortId :: int32
  rootTimes :: Times

text \<open>\<open>p.Priority<<8 | p.PortId\<close>, a 16 bit value.\<close>

definition local_id :: "StpPort \<Rightarrow> uint16" where
  "local_id p = push_bit 8 (Priority p) OR PortId p"

definition root_start :: "Bridge \<Rightarrow> RootSel" where
  "root_start b =
     \<lparr>tmpVector = zero_pv\<lparr>RootBridgeId := DesignatedBridgeId (BridgePriority b),
        DesignatedBridgeId := DesignatedBridgeId (BridgePriority b)\<rparr>,
      rootPortId = 0, rootTimes = BridgeTimes b\<rparr>"

definition consider_port :: "Ctx \<Rightarrow> StpPort \<Rightarrow> RootSel \<Rightarrow> RootSel" where
  "consider_port c p s =
     (if InfoIs p = PortInfoStateReceived then
        let pv = PortPriority p;
            t = tmpVector s;
            compare = CompareBridgeId (RootBridgeId pv) (RootBridgeId t);
            tmpCost = RootPathCost pv + PortPathCost p
        in if compare = -1 then
             s\<lparr>tmpVector := t\<lparr>RootBridgeId := RootBridgeId pv, RootPathCost := tmpCost,
                 DesignatedBridgeId := DesignatedBridgeId pv, DesignatedPortId := DesignatedPortId pv\<rparr>,
               rootPortId := i32 (local_id p), rootTimes := PortTimes p\<rparr>
           else if compare = 0 then
             if tmpCost < RootPathCost t then
               s\<lparr>tmpVector := t\<lparr>RootPathCost := tmpCost, DesignatedBridgeId := DesignatedBridgeId pv,
                   DesignatedPortId := DesignatedPortId pv\<rparr>,
                 rootPortId := i32 (local_id p)\<rparr>
             else if tmpCost = RootPathCost t then
               if DesignatedPortId pv < DesignatedPortId t then
                 s\<lparr>tmpVector := t\<lparr>DesignatedPortId := DesignatedPortId pv\<rparr>,
                   rootPortId := i32 (local_id p)\<rparr>
               else if DesignatedPortId pv = DesignatedPortId t then
                 case StpFindPortByIfIndex c (rootPortId s) of
                   None \<Rightarrow> s
                 | Some rp \<Rightarrow>
                     let rootId = i32 (push_bit 8 (Priority rp) OR PortId p);
                         localPortId = i32 (push_bit 8 (Priority p) OR PortId p)
                     in if sint localPortId < sint rootId then s\<lparr>rootPortId := i32 (local_id p)\<rparr>
                        else s\<lparr>rootPortId := rootId\<rparr>
               else s
             else s
           else s
      else s)"

definition find_root :: "Ctx \<Rightarrow> RootSel" where
  "find_root c = fold (consider_port c) (bridge_ports c) (root_start (brg c))"

definition set_root :: "RootSel \<Rightarrow> Bridge \<Rightarrow> Bridge" where
  "set_root s b =
     (let old = RootBridgeId (BridgePriority b);
          new = RootBridgeId (tmpVector s);
          bp = (BridgePriority b)\<lparr>RootBridgeId := new, RootPathCost := RootPathCost (tmpVector s)\<rparr>
      in if rootPortId s \<noteq> 0 then
           b\<lparr>OldRootBridgeIdentifier :=
               (if CompareBridgeAddr (GetBridgeAddrFromBridgeId old) (GetBridgeAddrFromBridgeId new) \<noteq> 0
                then old else OldRootBridgeIdentifier b),
             BridgePriority := bp,
             RootTimes := (rootTimes s)\<lparr>MessageAge := MessageAge (rootTimes s) + 1\<rparr>,
             RootPortId := rootPortId s\<rparr>
         else
           b\<lparr>OldRootBridgeIdentifier :=
               (if CompareBridgeAddr (GetBridgeAddrFromBridgeId (BridgeIdentifier b))
                     (GetBridgeAddrFromBridgeId new) \<noteq> 0
                then old else OldRootBridgeIdentifier b),
             BridgePriority := bp, RootTimes := rootTimes s, RootPortId := 0\<rparr>)"

section \<open>The role of every port\<close>

text \<open>The chain of conditions of the second loop.  \<open>b\<close> is the bridge with its
  \<open>DesignatedPortId\<close> cleared, \<open>x\<close> the port and the calls deferred so far.  The case
  of received information that is not the root port's compares with the two port
  identifiers put back.\<close>

definition received_role ::
  "BridgeId \<Rightarrow> uint16 \<Rightarrow> Bridge \<Rightarrow> int32 \<Rightarrow> StpPort \<times> PrsDefer list \<Rightarrow> StpPort \<times> PrsDefer list" where
  "received_role myBridgeId desgPortId b i x =
     (let p = fst x;
          bp = (BridgePriority b)\<lparr>DesignatedPortId := local_id p\<rparr>;
          pv = (PortPriority p)\<lparr>DesignatedPortId := desgPortId\<rparr>
      in if IsDesignatedPriorytVectorNotHigherThanPortPriorityVector False bp pv then
           if CompareBridgeAddr (GetBridgeAddrFromBridgeId (DesignatedBridgeId pv))
                (GetBridgeAddrFromBridgeId myBridgeId) \<noteq> 0
           then set_updtinfo False i (select_role PortRoleAlternatePort i x)
           else if local_id p \<noteq> DesignatedPortId pv
           then set_updtinfo False i (select_role PortRoleBackupPort i x)
           else set_updtinfo True i (select_role PortRoleDesignatedPort i x)
         else set_updtinfo True i (select_role PortRoleDesignatedPort i x))"

definition role_case ::
  "BridgeId \<Rightarrow> int32 \<Rightarrow> uint16 \<Rightarrow> Bridge \<Rightarrow> int32 \<Rightarrow> StpPort \<times> PrsDefer list \<Rightarrow> StpPort \<times> PrsDefer list" where
  "role_case myBridgeId rootPort desgPortId b i x =
     (let p = fst x in
      if BridgeAssurance p \<and> \<not> OperEdge p \<and> BridgeAssuranceInconsistant p
      then select_role PortRoleAlternatePort i (set_updtinfo False i x)
      else if \<not> PortEnabled p \<or> InfoIs p = PortInfoStateDisabled
      then select_role PortRoleDisabledPort i x
      else if InfoIs p = PortInfoStateAged
      then select_role PortRoleDesignatedPort i (set_updtinfo True i x)
      else if InfoIs p = PortInfoStateMine
      then if BridgePriority b = PortPriority p \<and> desgPortId = local_id p
           then if PortTimes p \<noteq> RootTimes b
                then set_updtinfo True i (select_role PortRoleDesignatedPort i x)
                else select_role PortRoleDesignatedPort i x
           else set_updtinfo True i (select_role PortRoleDesignatedPort i x)
      else if InfoIs p = PortInfoStateReceived
      then if rootPort = i32 (local_id p)
           then set_updtinfo False i (select_role PortRoleRootPort i x)
           else received_role myBridgeId desgPortId b i x
      else x)"

text \<open>The whole body of the second loop for one port: times, the cleared port
  identifiers, the role, and the identifiers restored.\<close>

definition assign_role ::
  "BridgeId \<Rightarrow> int32 \<Rightarrow> Bridge \<Rightarrow> int32 \<Rightarrow> StpPort \<Rightarrow> StpPort \<times> PrsDefer list" where
  "assign_role myBridgeId rootPort b i p =
     (let desgPortId = DesignatedPortId (PortPriority p);
          brgPortId = BridgePortId (PortPriority p);
          p1 = p\<lparr>PortTimes := (RootTimes b)\<lparr>HelloTime := HelloTime (BridgeTimes b)\<rparr>,
                 PortPriority := (PortPriority p)\<lparr>DesignatedPortId := 0, BridgePortId := 0\<rparr>\<rparr>;
          b1 = b\<lparr>BridgePriority := (BridgePriority b)\<lparr>DesignatedPortId := 0\<rparr>\<rparr>;
          (p2, ds) = role_case myBridgeId rootPort desgPortId b1 i (p1, [])
      in (p2\<lparr>PortPriority := (PortPriority p2)\<lparr>DesignatedPortId := desgPortId, BridgePortId := brgPortId\<rparr>\<rparr>,
          ds))"

text \<open>What the body leaves in \<open>b.BridgePriority.DesignatedPortId\<close>: the identifier of the
  port when the comparison of received information took place, zero otherwise.\<close>

definition left_desg_id :: "int32 \<Rightarrow> StpPort \<Rightarrow> uint16" where
  "left_desg_id rootPort p =
     (if \<not> (BridgeAssurance p \<and> \<not> OperEdge p \<and> BridgeAssuranceInconsistant p)
         \<and> PortEnabled p \<and> InfoIs p = PortInfoStateReceived \<and> rootPort \<noteq> i32 (local_id p)
      then local_id p else 0)"

definition roles_port ::
  "BridgeId \<Rightarrow> int32 \<Rightarrow> int32 \<Rightarrow> Ctx \<times> PrsDefer list \<Rightarrow> Ctx \<times> PrsDefer list" where
  "roles_port myBridgeId rootPort pId x =
     (let c = fst x; b = brg c in
      case StpFindPortByIfIndex c pId of
        None \<Rightarrow> x
      | Some p \<Rightarrow>
          ((upd_port pId (\<lambda>q. fst (assign_role myBridgeId rootPort b pId q)) c)
             \<lparr>brg := b\<lparr>BridgePriority :=
                (BridgePriority b)\<lparr>DesignatedPortId := left_desg_id rootPort p\<rparr>\<rparr>\<rparr>,
           snd (assign_role myBridgeId rootPort b pId p) @ snd x))"

definition updtRolesTree :: "Ctx \<Rightarrow> Ctx" where
  "updtRolesTree c =
     (let s = find_root c;
          myBridgeId = DesignatedBridgeId (BridgePriority (brg c));
          c1 = c\<lparr>brg := set_root s (brg c)\<rparr>;
          (c2, ds) = fold (roles_port myBridgeId (rootPortId s)) (StpPorts (brg c)) (c1, [])
      in run_defers ds c2)"

section \<open>Selection\<close>

definition setSelectedTree :: "Ctx \<Rightarrow> Ctx" where
  "setSelectedTree c =
     (if list_ex Reselect (bridge_ports c) then c
      else let (c', ds) = tree_loop (\<lambda>i p. [DeferSelectedChanged i (Selected p) True])
                 (\<lambda>p. p\<lparr>Selected := True\<rparr>) (StpPorts (brg c)) c
           in run_defers ds c')"

section \<open>The machine\<close>

definition prs_get :: "Ctx \<Rightarrow> FsmMachine" where
  "prs_get c = PrsMachineFsm (brg c)"

definition prs_upd :: "(FsmMachine \<Rightarrow> FsmMachine) \<Rightarrow> Ctx \<Rightarrow> Ctx" where
  "prs_upd f c = c\<lparr>brg := (brg c)\<lparr>PrsMachineFsm := f (PrsMachineFsm (brg c))\<rparr>\<rparr>"

interpretation prs: machine_slot prs_get prs_upd
  by unfold_locales (simp_all add: prs_get_def prs_upd_def)

definition PrsMachineInitBridge :: "Ctx Callback" where
  "PrsMachineInitBridge c = (PrsStateInitBridge, updtRoleDisabledTree c)"

definition PrsMachineRoleSelection :: "Ctx Callback" where
  "PrsMachineRoleSelection c =
     (PrsStateRoleSelection, setSelectedTree (updtRolesTree (clearReselectTree c)))"

definition PrsRules :: "((State \<times> Event) \<times> Ctx Callback) list" where
  "PrsRules =
     [ ((PrsStateNone, PrsEventBegin), PrsMachineInitBridge),
       ((PrsStateInitBridge, PrsEventUnconditionallFallThrough), PrsMachineRoleSelection),
       ((PrsStateRoleSelection, PrsEventReselect), PrsMachineRoleSelection) ]"

definition PrsProcess :: "Ctx Process" where
  "PrsProcess = ProcessEvent prs_get prs_upd (AddRules PrsRules Map.empty)"

definition PrsMachineFSMBuild :: "Bridge \<Rightarrow> Bridge" where
  "PrsMachineFSMBuild b = b\<lparr>PrsMachineFsm := Start PrsStateNone (new_machine PrsStateNone)\<rparr>"

definition PrsMachineMain :: "Event \<Rightarrow> Ctx \<Rightarrow> Ctx" where
  "PrsMachineMain e c =
     (case PrsProcess e c of
        (Some rv, c') \<Rightarrow> c'
      | (None, c') \<Rightarrow>
          if cur_s (prs_get c') = PrsStateInitBridge
          then snd (PrsProcess PrsEventUnconditionallFallThrough c')
          else c')"


section \<open>Running the deferred calls\<close>

text \<open>The deferred calls only send; every one of them adds the notification of its
  port, computed on the ports as the loop left them.\<close>

lemma emit_look [simp]: "StpFindPortByIfIndex (emit xs c) i = StpFindPortByIfIndex c i"
  by (simp add: StpFindPortByIfIndex_def emit_def)

lemma emit_parts [simp]:
  "brg (emit xs c) = brg c" "self (emit xs c) = self c" "peers (emit xs c) = peers c"
  "panicked (emit xs c) = panicked c" "out (emit xs c) = out c @ xs"
  by (simp_all add: emit_def)

lemma run_defer_parts [simp]:
  "brg (run_defer d c) = brg c" "self (run_defer d c) = self c" "peers (run_defer d c) = peers c"
  "panicked (run_defer d c) = panicked c"
  by (simp_all add: run_defer_def split: option.splits)

lemma run_defer_look [simp]:
  "StpFindPortByIfIndex (run_defer d c) i = StpFindPortByIfIndex c i"
  by (simp add: StpFindPortByIfIndex_def)

lemma run_defers_parts [simp]:
  "brg (run_defers ds c) = brg c" "self (run_defers ds c) = self c"
  "peers (run_defers ds c) = peers c" "panicked (run_defers ds c) = panicked c"
  by (induction ds arbitrary: c) simp_all

lemma run_defers_look [simp]:
  "StpFindPortByIfIndex (run_defers ds c) i = StpFindPortByIfIndex c i"
  by (simp add: StpFindPortByIfIndex_def)

lemma run_defers_bridge_ports [simp]: "bridge_ports (run_defers ds c) = bridge_ports c"
proof -
  have "StpFindPortByIfIndex (run_defers ds c) = StpFindPortByIfIndex c" by (rule ext) simp
  then show ?thesis by (simp add: bridge_ports_def)
qed

lemma run_defers_out_mono: "set (out c) \<subseteq> set (out (run_defers ds c))"
proof (induction ds arbitrary: c)
  case (Cons d ds)
  have "set (out c) \<subseteq> set (out (run_defer d c))"
    by (auto simp: run_defer_def split: option.splits)
  then show ?case using Cons.IH [of "run_defer d c"] by (metis order.trans fold_simps(2))
qed simp

text \<open>A deferred change of the selected role reaches the role transition machine.\<close>

lemma run_defers_role_event:
  assumes "DeferSelectedRoleChanged i old new \<in> set ds" and "StpFindPortByIfIndex c i = Some p"
  shows "set (NotifySelectedRoleChanged p old new) \<subseteq> set (out (run_defers ds c))"
  using assms
proof (induction ds arbitrary: c)
  case (Cons d ds)
  show ?case
  proof (cases "d = DeferSelectedRoleChanged i old new")
    case True
    then have "set (NotifySelectedRoleChanged p old new) \<subseteq> set (out (run_defer d c))"
      using Cons.prems(2) by (simp add: run_defer_def)
    then show ?thesis using run_defers_out_mono [of "run_defer d c" ds] by (metis order.trans fold_simps(2))
  next
    case False
    then have "DeferSelectedRoleChanged i old new \<in> set ds" using Cons.prems(1) by auto
    moreover have "StpFindPortByIfIndex (run_defer d c) i = Some p"
      using Cons.prems(2) by simp
    ultimately show ?thesis using Cons.IH [of "run_defer d c"] by simp
  qed
qed simp

section \<open>The root path vector is a minimum\<close>

text \<open>What the first loop minimises: root identifier, path cost through the port,
  designated port identifier.  The sum of the costs wraps at 32 bits.\<close>

type_synonym root_key = "BridgeId \<times> uint32 \<times> uint16"

definition root_key :: "StpPort \<Rightarrow> root_key" where
  "root_key p = (RootBridgeId (PortPriority p), RootPathCost (PortPriority p) + PortPathCost p,
     DesignatedPortId (PortPriority p))"

definition sel_key :: "RootSel \<Rightarrow> root_key" where
  "sel_key s = (RootBridgeId (tmpVector s), RootPathCost (tmpVector s), DesignatedPortId (tmpVector s))"

definition own_key :: "Bridge \<Rightarrow> root_key" where
  "own_key b = (DesignatedBridgeId (BridgePriority b), 0, 0)"

definition received_ports :: "Ctx \<Rightarrow> StpPort list" where
  "received_ports c = filter (\<lambda>p. InfoIs p = PortInfoStateReceived) (bridge_ports c)"

lemma compare_is [simp]:
  "CompareBridgeId x y = -1 \<longleftrightarrow> x < y" "- 1 = CompareBridgeId x y \<longleftrightarrow> x < y"
  by (auto simp: CompareBridgeId_order)

lemma sel_key_start [simp]: "sel_key (root_start b) = own_key b"
  by (simp add: sel_key_def root_start_def own_key_def zero_pv_def)

lemma consider_skips: "InfoIs p \<noteq> PortInfoStateReceived \<Longrightarrow> consider_port c p s = s"
  by (simp add: consider_port_def)

lemma consider_key:
  assumes "InfoIs p = PortInfoStateReceived"
  shows "sel_key (consider_port c p s) = min (root_key p) (sel_key s)"
  using assms
  unfolding consider_port_def sel_key_def root_key_def Let_def
  by (auto simp: min_def less_eq_prod_def le_less split: option.splits)

lemma fold_filter_skip:
  assumes "\<And>x s. \<not> P x \<Longrightarrow> f x s = s"
  shows "fold f xs s = fold f (filter P xs) s"
  by (induction xs arbitrary: s) (simp_all add: assms)

lemma find_root_received:
  "find_root c = fold (consider_port c) (received_ports c) (root_start (brg c))"
  unfolding find_root_def received_ports_def by (rule fold_filter_skip) (rule consider_skips)

lemma fold_consider_key:
  assumes "\<forall>p \<in> set ps. InfoIs p = PortInfoStateReceived"
  shows "sel_key (fold (consider_port c) ps s) = Min (set (sel_key s # map root_key ps))"
proof -
  have "sel_key (fold (consider_port c) ps s) = fold min (map root_key ps) (sel_key s)"
    using assms
  proof (induction ps arbitrary: s)
    case (Cons p ps)
    then show ?case by (simp add: consider_key)
  qed simp
  then show ?thesis by (simp only: Min.set_eq_fold)
qed

lemma find_root_key:
  "sel_key (find_root c) = Min (insert (own_key (brg c)) (root_key ` set (received_ports c)))"
  unfolding find_root_received
  by (subst fold_consider_key) (auto simp: received_ports_def)

text \<open>The port the loop settles on.  The tie break looks the identifier of the best
  port up as if it were an interface index; \<open>no_clash\<close> says that this finds nothing,
  as with the default priority, whose identifiers are above the interface indices.\<close>

definition no_clash :: "Ctx \<Rightarrow> bool" where
  "no_clash c \<longleftrightarrow> StpFindPortByIfIndex c 0 = None
     \<and> list_all (\<lambda>p. StpFindPortByIfIndex c (i32 (local_id p)) = None) (received_ports c)"

lemma consider_port_id:
  assumes "InfoIs p = PortInfoStateReceived" and "StpFindPortByIfIndex c (rootPortId s) = None"
  shows "rootPortId (consider_port c p s) =
    (if root_key p < sel_key s then i32 (local_id p) else rootPortId s)"
  using assms
  unfolding consider_port_def sel_key_def root_key_def Let_def by (auto simp: le_less)

definition root_choice :: "root_key \<Rightarrow> StpPort list \<Rightarrow> RootSel \<Rightarrow> bool" where
  "root_choice k0 ps s \<longleftrightarrow>
     (rootPortId s = 0 \<and> sel_key s = k0)
     \<or> (\<exists>p \<in> set ps. rootPortId s = i32 (local_id p) \<and> sel_key s = root_key p \<and> root_key p < k0)"

lemma consider_choice:
  assumes "root_choice k0 ps s" and "sel_key s \<le> k0" and "p \<in> set ps"
    and "InfoIs p = PortInfoStateReceived"
    and "StpFindPortByIfIndex c 0 = None" and "\<forall>q \<in> set ps. StpFindPortByIfIndex c (i32 (local_id q)) = None"
  shows "root_choice k0 ps (consider_port c p s) \<and> sel_key (consider_port c p s) \<le> k0"
proof -
  have "StpFindPortByIfIndex c (rootPortId s) = None"
    using assms(1,5,6) by (auto simp: root_choice_def)
  note id = consider_port_id [OF assms(4) this] and key = consider_key [OF assms(4), of c s]
  show ?thesis
  proof (cases "root_key p < sel_key s")
    case True
    then show ?thesis using assms(2,3) by (auto simp: root_choice_def id key min_def)
  next
    case False
    then have "min (root_key p) (sel_key s) = sel_key s" by (simp add: min_def)
    then show ?thesis using assms(1,2) False by (simp add: root_choice_def id key)
  qed
qed

lemma find_root_choice:
  assumes "no_clash c"
  shows "root_choice (own_key (brg c)) (received_ports c) (find_root c)"
proof -
  let ?I = "\<lambda>s. root_choice (own_key (brg c)) (received_ports c) s \<and> sel_key s \<le> own_key (brg c)"
  have "?I (find_root c)"
    unfolding find_root_received
  proof (rule fold_inv)
    show "?I (root_start (brg c))"
      by (simp add: root_choice_def) (simp add: root_start_def)
  next
    fix p s
    assume "p \<in> set (received_ports c)" "?I s"
    then show "?I (consider_port c p s)"
      using assms
      by (intro consider_choice) (auto simp: no_clash_def list_all_iff received_ports_def)
  qed
  then show ?thesis by blast
qed

section \<open>The role of one port\<close>

text \<open>The role 17.21.25 asks for, over the lexicographic order of priority vectors;
  \<open>bp\<close> is the priority vector of the bridge.\<close>

definition role_spec :: "BridgeId \<Rightarrow> int32 \<Rightarrow> PriorityVector \<Rightarrow> StpPort \<Rightarrow> PortRole" where
  "role_spec my rootPort bp p =
     (let pv = PortPriority p in
      if BridgeAssurance p \<and> \<not> OperEdge p \<and> BridgeAssuranceInconsistant p then PortRoleAlternatePort
      else if \<not> PortEnabled p \<or> InfoIs p = PortInfoStateDisabled then PortRoleDisabledPort
      else if InfoIs p \<noteq> PortInfoStateReceived then PortRoleDesignatedPort
      else if i32 (local_id p) = rootPort then PortRoleRootPort
      else if pv_key pv < pv_key (bp\<lparr>DesignatedPortId := local_id p\<rparr>)
              \<and> GetBridgeAddrFromBridgeId (DesignatedBridgeId pv) \<noteq> GetBridgeAddrFromBridgeId my
      then PortRoleAlternatePort
      else if pv_key pv < pv_key (bp\<lparr>DesignatedPortId := local_id p\<rparr>)
              \<and> local_id p \<noteq> DesignatedPortId pv
      then PortRoleBackupPort
      else PortRoleDesignatedPort)"

definition updt_spec :: "Bridge \<Rightarrow> PortRole \<Rightarrow> StpPort \<Rightarrow> bool" where
  "updt_spec b r p =
     (if BridgeAssurance p \<and> \<not> OperEdge p \<and> BridgeAssuranceInconsistant p then False
      else if \<not> PortEnabled p \<or> InfoIs p = PortInfoStateDisabled then UpdtInfo p
      else if InfoIs p = PortInfoStateReceived then r = PortRoleDesignatedPort
      else if InfoIs p = PortInfoStateMine then
        UpdtInfo p \<or> \<not> (pv_key (PortPriority p) = pv_key ((BridgePriority b)\<lparr>DesignatedPortId := local_id p\<rparr>)
                       \<and> BridgePortId (BridgePriority b) = 0
                       \<and> HelloTime (RootTimes b) = HelloTime (BridgeTimes b))
      else True)"

lemma role_case_keeps:
  assumes "\<And>r p. v (p\<lparr>SelectedRole := r\<rparr>) = v p" and "\<And>u p. v (p\<lparr>UpdtInfo := u\<rparr>) = v p"
  shows "v (fst (role_case my rp d b i x)) = v (fst x)"
  by (simp add: role_case_def received_role_def Let_def select_role_def set_updtinfo_def assms)

lemma assign_role_keeps [simp]:
  "IfIndex (fst (assign_role my rp b i p)) = IfIndex p"
  "Reselect (fst (assign_role my rp b i p)) = Reselect p"
  "Selected (fst (assign_role my rp b i p)) = Selected p"
  "Priority (fst (assign_role my rp b i p)) = Priority p"
  "PortId (fst (assign_role my rp b i p)) = PortId p"
  "PrtMachineFsm (fst (assign_role my rp b i p)) = PrtMachineFsm p"
  by (simp_all add: assign_role_def Let_def case_prod_beta role_case_keeps)

lemma local_id_assign [simp]: "local_id (fst (assign_role my rp b i p)) = local_id p"
  by (simp add: local_id_def)

text \<open>The body of the loop reads the bridge up to the identifier it clears first.\<close>

definition no_desg :: "Bridge \<Rightarrow> Bridge" where
  "no_desg b = b\<lparr>BridgePriority := (BridgePriority b)\<lparr>DesignatedPortId := 0\<rparr>\<rparr>"

lemma assign_role_no_desg: "assign_role my rp b i p = assign_role my rp (no_desg b) i p"
  by (simp add: assign_role_def no_desg_def)

lemma no_desg_set [simp]:
  "no_desg (b\<lparr>BridgePriority := (BridgePriority b)\<lparr>DesignatedPortId := x\<rparr>\<rparr>) = no_desg b"
  by (simp add: no_desg_def)

lemma pv_key_desg: "pv_key (v\<lparr>DesignatedPortId := x\<rparr>) =
    (RootBridgeId v, RootPathCost v, DesignatedBridgeId v, x)"
  by (simp add: pv_key_def)

lemma assign_role_role:
  assumes "my = DesignatedBridgeId (BridgePriority b)"
  shows "SelectedRole (fst (assign_role my rp b i p)) = role_spec my rp (BridgePriority b) p"
  by (cases "InfoIs p")
    (auto simp: assign_role_def role_case_def received_role_def role_spec_def Let_def case_prod_beta
      select_role_def set_updtinfo_def local_id_def superior_iff pv_same_designated_def pv_key_def assms
      IsDesignatedPriorytVectorNotHigherThanPortPriorityVector_def
      IsMsgPriorityVectorTheSameOrWorseThanPortPriorityVector_def)

lemma assign_role_defers:
  "DeferSelectedRoleChanged i (SelectedRole p) (SelectedRole (fst (assign_role my rp b i p)))
     \<in> set (snd (assign_role my rp b i p))"
  by (cases "InfoIs p")
    (auto simp: assign_role_def role_case_def received_role_def Let_def case_prod_beta
      select_role_def set_updtinfo_def)

lemma times_eq_hello: "(t\<lparr>HelloTime := h\<rparr> = t) = (HelloTime t = (h :: uint16))"
  by (cases t) auto

lemma pv_cleared_eq:
  "(v\<lparr>DesignatedPortId := 0\<rparr> = w\<lparr>DesignatedPortId := 0, BridgePortId := 0\<rparr>) =
    (RootBridgeId v = RootBridgeId w \<and> RootPathCost v = RootPathCost w
     \<and> DesignatedBridgeId v = DesignatedBridgeId w \<and> BridgePortId v = 0)"
  for v w :: PriorityVector
  by (cases v; cases w) auto

lemma local_id_upd [simp]: "local_id (p\<lparr>PortTimes := t, PortPriority := v\<rparr>) = local_id p"
  by (simp add: local_id_def)

lemma assign_role_updt:
  assumes "my = DesignatedBridgeId (BridgePriority b)"
  shows "UpdtInfo (fst (assign_role my rp b i p)) =
    updt_spec b (role_spec my rp (BridgePriority b) p) p"
proof (cases "InfoIs p = PortInfoStateReceived")
  case True
  then have "UpdtInfo (fst (assign_role my rp b i p)) =
      updt_spec b (SelectedRole (fst (assign_role my rp b i p))) p"
    by (simp add: assign_role_def role_case_def received_role_def updt_spec_def Let_def case_prod_beta
      select_role_def set_updtinfo_def)
  then show ?thesis by (simp only: assign_role_role [OF assms])
next
  case False
  show ?thesis
  proof (cases "InfoIs p = PortInfoStateMine")
    case True
    then show ?thesis
      by (simp add: assign_role_def role_case_def updt_spec_def Let_def case_prod_beta select_role_def
        set_updtinfo_def pv_key_def pv_cleared_eq times_eq_hello) metis
  next
    case other: False
    with False show ?thesis
      by (cases "InfoIs p") (simp_all add: assign_role_def role_case_def updt_spec_def Let_def
        case_prod_beta select_role_def set_updtinfo_def)
  qed
qed

section \<open>All roles\<close>

lemma brg_look [simp]: "StpFindPortByIfIndex (c\<lparr>brg := b\<rparr>) i = StpFindPortByIfIndex c i"
  by (simp add: StpFindPortByIfIndex_def)

lemma roles_port_look:
  "StpFindPortByIfIndex (fst (roles_port my rp i x)) j =
    (if j = i then map_option (\<lambda>p. fst (assign_role my rp (brg (fst x)) j p)) (StpFindPortByIfIndex (fst x) j)
     else StpFindPortByIfIndex (fst x) j)"
  by (auto simp: roles_port_def Let_def ctx_ports.look_upd split: option.splits)

lemma roles_port_brg: "no_desg (brg (fst (roles_port my rp i x))) = no_desg (brg (fst x))"
  by (simp add: roles_port_def Let_def split: option.splits)

lemma roles_port_rest [simp]:
  "out (fst (roles_port my rp i x)) = out (fst x)"
  "panicked (fst (roles_port my rp i x)) = panicked (fst x)"
  by (simp_all add: roles_port_def Let_def split: option.splits)

lemma roles_port_defers:
  "set (snd (roles_port my rp i x)) = set (snd x) \<union>
    (case StpFindPortByIfIndex (fst x) i of None \<Rightarrow> {}
     | Some p \<Rightarrow> set (snd (assign_role my rp (brg (fst x)) i p)))"
  by (auto simp: roles_port_def Let_def split: option.splits)

lemma roles_fold:
  assumes "distinct ids" and "no_desg (brg (fst x)) = no_desg b"
  shows "StpFindPortByIfIndex (fst (fold (roles_port my rp) ids x)) j =
      (if j \<in> set ids then map_option (\<lambda>p. fst (assign_role my rp b j p)) (StpFindPortByIfIndex (fst x) j)
       else StpFindPortByIfIndex (fst x) j)
    \<and> no_desg (brg (fst (fold (roles_port my rp) ids x))) = no_desg b
    \<and> set (snd (fold (roles_port my rp) ids x)) = set (snd x) \<union>
        (\<Union>i \<in> set ids. case StpFindPortByIfIndex (fst x) i of None \<Rightarrow> {}
           | Some p \<Rightarrow> set (snd (assign_role my rp b i p)))"
  using assms
proof (induction ids arbitrary: x)
  case Nil
  then show ?case by simp
next
  case (Cons i ids)
  let ?x = "roles_port my rp i x"
  have a: "assign_role my rp (brg (fst x)) = assign_role my rp b"
    using Cons.prems(2) by (intro ext) (metis assign_role_no_desg)
  have IH: "StpFindPortByIfIndex (fst (fold (roles_port my rp) ids ?x)) j =
      (if j \<in> set ids then map_option (\<lambda>p. fst (assign_role my rp b j p)) (StpFindPortByIfIndex (fst ?x) j)
       else StpFindPortByIfIndex (fst ?x) j)"
    "no_desg (brg (fst (fold (roles_port my rp) ids ?x))) = no_desg b"
    "set (snd (fold (roles_port my rp) ids ?x)) = set (snd ?x) \<union>
        (\<Union>i \<in> set ids. case StpFindPortByIfIndex (fst ?x) i of None \<Rightarrow> {}
           | Some p \<Rightarrow> set (snd (assign_role my rp b i p)))"
    using Cons.IH [of ?x] Cons.prems by (simp_all add: roles_port_brg)
  have other: "StpFindPortByIfIndex (fst ?x) k = StpFindPortByIfIndex (fst x) k" if "k \<in> set ids" for k
    using that Cons.prems(1) by (auto simp: roles_port_look)
  have "(\<Union>k \<in> set ids. case StpFindPortByIfIndex (fst ?x) k of None \<Rightarrow> {}
           | Some p \<Rightarrow> set (snd (assign_role my rp b k p))) =
        (\<Union>k \<in> set ids. case StpFindPortByIfIndex (fst x) k of None \<Rightarrow> {}
           | Some p \<Rightarrow> set (snd (assign_role my rp b k p)))"
    using other by (intro SUP_cong) simp_all
  then show ?case
    using IH Cons.prems(1) roles_port_defers [of my rp i x, unfolded a] roles_port_look [of my rp i x j, unfolded a]
    by (cases "j = i") (simp_all add: Un_assoc)
qed


lemma set_root_fields [simp]:
  "RootPortId (set_root s b) = rootPortId s"
  "BridgePriority (set_root s b) = (BridgePriority b)
     \<lparr>RootBridgeId := RootBridgeId (tmpVector s), RootPathCost := RootPathCost (tmpVector s)\<rparr>"
  "StpPorts (set_root s b) = StpPorts b" "PrsMachineFsm (set_root s b) = PrsMachineFsm b"
  "BridgeTimes (set_root s b) = BridgeTimes b"
  by (simp_all add: set_root_def Let_def)

lemma roles_fold_rest [simp]:
  "out (fst (fold (roles_port my rp) ids x)) = out (fst x)"
  "panicked (fst (fold (roles_port my rp) ids x)) = panicked (fst x)"
  by (induction ids arbitrary: x) simp_all

lemma no_desg_eq:
  assumes "no_desg b = no_desg b'"
  shows "BridgeIdentifier b = BridgeIdentifier b'" "BridgeTimes b = BridgeTimes b'"
    "RootPortId b = RootPortId b'" "RootTimes b = RootTimes b'" "StpPorts b = StpPorts b'"
    "PrsMachineFsm b = PrsMachineFsm b'"
    "RootBridgeId (BridgePriority b) = RootBridgeId (BridgePriority b')"
    "RootPathCost (BridgePriority b) = RootPathCost (BridgePriority b')"
    "DesignatedBridgeId (BridgePriority b) = DesignatedBridgeId (BridgePriority b')"
    "BridgePortId (BridgePriority b) = BridgePortId (BridgePriority b')"
  using arg_cong [OF assms, of "BridgeIdentifier"]
    arg_cong [OF assms, of "BridgeTimes"]
    arg_cong [OF assms, of "RootPortId"]
    arg_cong [OF assms, of "RootTimes"]
    arg_cong [OF assms, of "StpPorts"]
    arg_cong [OF assms, of "PrsMachineFsm"]
    arg_cong [OF assms, of "\<lambda>x. RootBridgeId (BridgePriority x)"]
    arg_cong [OF assms, of "\<lambda>x. RootPathCost (BridgePriority x)"]
    arg_cong [OF assms, of "\<lambda>x. DesignatedBridgeId (BridgePriority x)"]
    arg_cong [OF assms, of "\<lambda>x. BridgePortId (BridgePriority x)"]
  by (simp_all add: no_desg_def)

text \<open>The context after \<open>updtRolesTree\<close>: what it writes to the bridge, to every port
  and to the channels.\<close>

lemma roles_fold_brg: "no_desg (brg (fst (fold (roles_port my rp) ids x))) = no_desg (brg (fst x))"
  by (induction ids arbitrary: x) (simp_all add: roles_port_brg)

lemma updtRolesTree_brg: "no_desg (brg (updtRolesTree c)) = no_desg (set_root (find_root c) (brg c))"
  by (simp add: updtRolesTree_def Let_def case_prod_beta roles_fold_brg)

lemmas updtRolesTree_bridge = no_desg_eq [OF updtRolesTree_brg]

lemma updtRolesTree_look:
  assumes "distinct (StpPorts (brg c))" and "i \<in> set (StpPorts (brg c))"
  shows "StpFindPortByIfIndex (updtRolesTree c) i =
    map_option (\<lambda>p. fst (assign_role (DesignatedBridgeId (BridgePriority (brg c))) (rootPortId (find_root c))
        (set_root (find_root c) (brg c)) i p)) (StpFindPortByIfIndex c i)"
  using roles_fold [OF assms(1), of "(c\<lparr>brg := set_root (find_root c) (brg c)\<rparr>, [])"
      "set_root (find_root c) (brg c)" "DesignatedBridgeId (BridgePriority (brg c))" "rootPortId (find_root c)" i]
    assms(2)
  by (simp add: updtRolesTree_def Let_def case_prod_beta)

lemma updtRolesTree_notifies:
  assumes "distinct (StpPorts (brg c))" and "i \<in> set (StpPorts (brg c))"
    and "StpFindPortByIfIndex c i = Some p" and "StpFindPortByIfIndex (updtRolesTree c) i = Some p'"
  shows "set (NotifySelectedRoleChanged p' (SelectedRole p) (SelectedRole p')) \<subseteq> set (out (updtRolesTree c))"
proof -
  let ?my = "DesignatedBridgeId (BridgePriority (brg c))" and ?rp = "rootPortId (find_root c)"
    and ?b = "set_root (find_root c) (brg c)"
  let ?x = "fold (roles_port ?my ?rp) (StpPorts (brg c)) (c\<lparr>brg := ?b\<rparr>, [])"
  have u: "updtRolesTree c = run_defers (snd ?x) (fst ?x)"
    by (simp add: updtRolesTree_def Let_def case_prod_beta)
  have p': "p' = fst (assign_role ?my ?rp ?b i p)"
    using updtRolesTree_look [OF assms(1,2)] assms(3,4) by simp
  have "DeferSelectedRoleChanged i (SelectedRole p) (SelectedRole p') \<in> set (snd (assign_role ?my ?rp ?b i p))"
    unfolding p' by (rule assign_role_defers)
  then have "DeferSelectedRoleChanged i (SelectedRole p) (SelectedRole p') \<in> set (snd ?x)"
    using roles_fold [OF assms(1), of "(c\<lparr>brg := ?b\<rparr>, [])" ?b ?my ?rp i] assms(2,3) by force
  moreover have "StpFindPortByIfIndex (fst ?x) i = Some p'" using assms(4) by (simp add: u)
  ultimately show ?thesis unfolding u by (rule run_defers_role_event)
qed

section \<open>Reselection of all ports\<close>

lemma bridge_ports_set:
  "set (bridge_ports c) = {p. \<exists>i \<in> set (StpPorts (brg c)). StpFindPortByIfIndex c i = Some p}"
  by (force simp: bridge_ports_def List.map_filter_def)

lemma clearReselectTree_look:
  "StpFindPortByIfIndex (clearReselectTree c) i =
    (if i \<in> set (StpPorts (brg c)) then map_option (\<lambda>p. p\<lparr>Reselect := False\<rparr>) (StpFindPortByIfIndex c i)
     else StpFindPortByIfIndex c i)"
  unfolding clearReselectTree_def by (rule ctx_ports.loop_look) simp_all

lemma clearReselectTree_rest [simp]:
  "brg (clearReselectTree c) = brg c" "out (clearReselectTree c) = out c"
  by (simp_all add: clearReselectTree_def)

lemma updtRoleDisabledTree_look:
  "StpFindPortByIfIndex (updtRoleDisabledTree c) i =
    (if i \<in> set (StpPorts (brg c))
     then map_option (\<lambda>p. p\<lparr>SelectedRole := PortRoleDisabledPort\<rparr>) (StpFindPortByIfIndex c i)
     else StpFindPortByIfIndex c i)"
  unfolding updtRoleDisabledTree_def Let_def case_prod_beta run_defers_look
  by (rule ctx_ports.loop_look) simp_all

lemma updtRoleDisabledTree_brg [simp]: "brg (updtRoleDisabledTree c) = brg c"
  by (simp add: updtRoleDisabledTree_def Let_def case_prod_beta)

lemma tree_loop_defer_first:
  assumes "i \<in> set ids" and "StpFindPortByIfIndex c i = Some p" and "\<And>p. IfIndex (f p) = IfIndex p"
  shows "set (d i p) \<subseteq> set (snd (tree_loop d f ids c))"
  using assms(1,2)
proof (induction ids arbitrary: c)
  case (Cons j ids)
  show ?case
  proof (cases "j = i")
    case True
    then show ?thesis using Cons.prems(2) by (simp add: case_prod_beta Let_def)
  next
    case False
    then have i: "i \<in> set ids" using Cons.prems(1) by simp
    show ?thesis
    proof (cases "StpFindPortByIfIndex c j")
      case None
      then show ?thesis using Cons.IH [OF i Cons.prems(2)] by simp
    next
      case (Some q)
      have "StpFindPortByIfIndex (upd_port j f c) i = Some p"
        using False Cons.prems(2) assms(3) by (simp add: ctx_ports.look_upd)
      then show ?thesis using Cons.IH [OF i] Some by (auto simp: case_prod_beta Let_def)
    qed
  qed
qed simp

lemma updtRoleDisabledTree_notifies:
  assumes "i \<in> set (StpPorts (brg c))" and "StpFindPortByIfIndex c i = Some p"
  shows "set (NotifySelectedRoleChanged p (SelectedRole p) PortRoleDisabledPort)
    \<subseteq> set (out (updtRoleDisabledTree c))"
proof -
  let ?d = "\<lambda>i p. [DeferSelectedRoleChanged i (SelectedRole p) PortRoleDisabledPort]"
  let ?x = "tree_loop ?d (\<lambda>p. p\<lparr>SelectedRole := PortRoleDisabledPort\<rparr>) (StpPorts (brg c)) c"
  have u: "updtRoleDisabledTree c = run_defers (snd ?x) (fst ?x)"
    by (simp add: updtRoleDisabledTree_def Let_def case_prod_beta)
  have "DeferSelectedRoleChanged i (SelectedRole p) PortRoleDisabledPort \<in> set (snd ?x)"
    using tree_loop_defer_first [OF assms, where d = ?d and f = "\<lambda>p. p\<lparr>SelectedRole := PortRoleDisabledPort\<rparr>"]
    by simp
  moreover have "StpFindPortByIfIndex (fst ?x) i = Some (p\<lparr>SelectedRole := PortRoleDisabledPort\<rparr>)"
    using updtRoleDisabledTree_look [of c i] assms by (simp add: u)
  ultimately have "set (NotifySelectedRoleChanged (p\<lparr>SelectedRole := PortRoleDisabledPort\<rparr>)
      (SelectedRole p) PortRoleDisabledPort) \<subseteq> set (out (updtRoleDisabledTree c))"
    unfolding u by (rule run_defers_role_event)
  then show ?thesis by (simp add: NotifySelectedRoleChanged_def to_prt_def)
qed

lemma setSelectedTree_look:
  assumes "\<forall>i \<in> set (StpPorts (brg c)). \<forall>p. StpFindPortByIfIndex c i = Some p \<longrightarrow> \<not> Reselect p"
  shows "StpFindPortByIfIndex (setSelectedTree c) i =
    (if i \<in> set (StpPorts (brg c)) then map_option (\<lambda>p. p\<lparr>Selected := True\<rparr>) (StpFindPortByIfIndex c i)
     else StpFindPortByIfIndex c i)"
proof -
  have "\<not> list_ex Reselect (bridge_ports c)"
    using assms by (auto simp: list_ex_iff bridge_ports_set)
  then have "setSelectedTree c = (let (c', ds) = tree_loop (\<lambda>i p. [DeferSelectedChanged i (Selected p) True])
      (\<lambda>p. p\<lparr>Selected := True\<rparr>) (StpPorts (brg c)) c in run_defers ds c')"
    by (simp add: setSelectedTree_def)
  then show ?thesis
    unfolding Let_def case_prod_beta by (simp only: run_defers_look) (rule ctx_ports.loop_look, simp_all)
qed

lemma setSelectedTree_brg [simp]: "brg (setSelectedTree c) = brg c"
  by (simp add: setSelectedTree_def Let_def case_prod_beta)

lemma setSelectedTree_out: "set (out c) \<subseteq> set (out (setSelectedTree c))"
  using run_defers_out_mono [of "fst (tree_loop (\<lambda>i p. [DeferSelectedChanged i (Selected p) True])
      (\<lambda>p. p\<lparr>Selected := True\<rparr>) (StpPorts (brg c)) c)"]
  by (simp add: setSelectedTree_def Let_def case_prod_beta)

lemma updtRolesTree_out: "set (out c) \<subseteq> set (out (updtRolesTree c))"
  using run_defers_out_mono [of "fst (fold (roles_port (DesignatedBridgeId (BridgePriority (brg c)))
      (rootPortId (find_root c))) (StpPorts (brg c)) (c\<lparr>brg := set_root (find_root c) (brg c)\<rparr>, []))"]
  by (simp add: updtRolesTree_def Let_def case_prod_beta)

text \<open>The event that tells the role transition machine its new role.\<close>

definition role_event :: "PortRole \<Rightarrow> Event" where
  "role_event r =
     (if r = PortRoleDisabledPort
      then PrtEventSelectedRoleEqualDisabledPortAndRoleNotEqualSelectedRoleAndSelectedAndNotUpdtInfo
      else if r = PortRoleRootPort
      then PrtEventSelectedRoleEqualRootPortAndRoleNotEqualSelectedRoleAndSelectedAndNotUpdtInfo
      else if r = PortRoleDesignatedPort
      then PrtEventSelectedRoleEqualDesignatedPortAndRoleNotEqualSelectedRoleAndSelectedAndNotUpdtInfo
      else if r = PortRoleAlternatePort
      then PrtEventSelectedRoleEqualAlternateAndRoleNotEqualSelectedRoleAndSelectedAndNotUpdtInfo
      else PrtEventSelectedRoleEqualBackupPortAndRoleNotEqualSelectedRoleAndSelectedAndNotUpdtInfo)"

lemma role_spec_range:
  "role_spec my rp bp p \<in> {PortRoleDisabledPort, PortRoleRootPort, PortRoleDesignatedPort,
     PortRoleAlternatePort, PortRoleBackupPort}"
  by (simp add: role_spec_def Let_def)

lemma role_change_event:
  assumes "r \<in> {PortRoleDisabledPort, PortRoleRootPort, PortRoleDesignatedPort,
     PortRoleAlternatePort, PortRoleBackupPort}" and "old \<noteq> r" and "prt_live p"
  shows "NotifySelectedRoleChanged p old r = [Send PrtEvents (IfIndex p) (role_event r) None]"
  using assms by (auto simp: NotifySelectedRoleChanged_def role_event_def to_prt_def)

lemma role_spec_cong:
  assumes "RootBridgeId bp = RootBridgeId bp'" "RootPathCost bp = RootPathCost bp'"
    "DesignatedBridgeId bp = DesignatedBridgeId bp'"
  shows "role_spec my rp bp p = role_spec my rp bp' p"
  by (simp only: role_spec_def pv_key_desg Let_def assms)

lemma local_id_flags [simp]:
  "local_id (p\<lparr>Reselect := x\<rparr>) = local_id p" "local_id (p\<lparr>SelectedRole := r\<rparr>) = local_id p"
  "local_id (p\<lparr>Selected := x\<rparr>) = local_id p"
  by (simp_all add: local_id_def)

lemma role_spec_upd [simp]:
  "role_spec my rp bp (p\<lparr>Reselect := x\<rparr>) = role_spec my rp bp p"
  "role_spec my rp bp (p\<lparr>SelectedRole := r\<rparr>) = role_spec my rp bp p"
  unfolding role_spec_def local_id_flags Let_def by simp_all

text \<open>What one pass of role selection does to a listed port.\<close>

definition selected_port :: "Ctx \<Rightarrow> StpPort \<Rightarrow> Ctx \<Rightarrow> StpPort \<Rightarrow> bool" where
  "selected_port c p c' p' \<longleftrightarrow>
     Selected p' \<and> \<not> Reselect p' \<and> local_id p' = local_id p
     \<and> SelectedRole p' = role_spec (DesignatedBridgeId (BridgePriority (brg c))) (RootPortId (brg c'))
           (BridgePriority (brg c')) p
     \<and> (prt_live p \<and> SelectedRole p' \<noteq> SelectedRole p
          \<longrightarrow> Send PrtEvents (IfIndex p) (role_event (SelectedRole p')) None \<in> set (out c'))"

lemma RoleSelection_port:
  assumes d: "distinct (StpPorts (brg c))" and i: "i \<in> set (StpPorts (brg c))"
    and p: "StpFindPortByIfIndex c i = Some p"
  shows "\<exists>p'. StpFindPortByIfIndex (snd (PrsMachineRoleSelection c)) i = Some p'
    \<and> selected_port c p (snd (PrsMachineRoleSelection c)) p'"
proof -
  let ?c1 = "clearReselectTree c"
  let ?c2 = "updtRolesTree ?c1"
  let ?c3 = "setSelectedTree ?c2"
  let ?my = "DesignatedBridgeId (BridgePriority (brg c))"
  let ?p1 = "p\<lparr>Reselect := False\<rparr>"
  define p2 where "p2 = fst (assign_role ?my (rootPortId (find_root ?c1)) (set_root (find_root ?c1) (brg c)) i ?p1)"
  have ports: "StpPorts (brg ?c2) = StpPorts (brg c)" by (simp add: updtRolesTree_bridge)
  have look: "StpFindPortByIfIndex ?c2 j = map_option (\<lambda>q. fst (assign_role ?my (rootPortId (find_root ?c1))
      (set_root (find_root ?c1) (brg c)) j (q\<lparr>Reselect := False\<rparr>))) (StpFindPortByIfIndex c j)"
    if "j \<in> set (StpPorts (brg c))" for j
    using updtRolesTree_look [of ?c1 j] d that
    by (simp add: clearReselectTree_look option.map_comp comp_def)
  have l2: "StpFindPortByIfIndex ?c2 i = Some p2" using look [OF i] p by (simp add: p2_def)
  have "\<forall>j \<in> set (StpPorts (brg ?c2)). \<forall>q. StpFindPortByIfIndex ?c2 j = Some q \<longrightarrow> \<not> Reselect q"
    unfolding ports using look by auto
  from setSelectedTree_look [OF this, of i]
  have l3: "StpFindPortByIfIndex ?c3 i = Some (p2\<lparr>Selected := True\<rparr>)"
    using i l2 by (simp add: ports)
  have role: "SelectedRole p2 = role_spec ?my (RootPortId (brg ?c3)) (BridgePriority (brg ?c3)) p"
    using role_spec_cong [of "BridgePriority (brg ?c2)" "BridgePriority (set_root (find_root ?c1) (brg c))"]
    by (simp add: p2_def assign_role_role updtRolesTree_bridge)
  have "set (NotifySelectedRoleChanged p2 (SelectedRole p) (SelectedRole p2)) \<subseteq> set (out ?c3)"
    using updtRolesTree_notifies [of ?c1 i ?p1 p2] d i p l2 setSelectedTree_out [of ?c2]
    by (auto simp: clearReselectTree_look)
  then have "prt_live p \<and> SelectedRole p2 \<noteq> SelectedRole p
      \<longrightarrow> Send PrtEvents (IfIndex p) (role_event (SelectedRole p2)) None \<in> set (out ?c3)"
    using role_change_event [of "SelectedRole p2" "SelectedRole p" p2] role_spec_range [of ?my] role
    by (auto simp: p2_def)
  then show ?thesis
    using l3 role by (simp add: PrsMachineRoleSelection_def selected_port_def) (simp add: p2_def)
qed

section \<open>The machine\<close>

lemma prs_upd_parts [simp]:
  "StpFindPortByIfIndex (prs_upd f c) i = StpFindPortByIfIndex c i"
  "StpPorts (brg (prs_upd f c)) = StpPorts (brg c)" "out (prs_upd f c) = out c"
  "BridgePriority (brg (prs_upd f c)) = BridgePriority (brg c)"
  "RootPortId (brg (prs_upd f c)) = RootPortId (brg c)"
  by (simp_all add: prs_upd_def)

lemma selected_port_prs [simp]:
  "selected_port (prs_upd f c) p c' p' = selected_port c p c' p'"
  "selected_port c p (prs_upd f c') p' = selected_port c p c' p'"
  by (simp_all add: selected_port_def)

lemma prs_get_kept [simp]:
  "prs_get (updtRoleDisabledTree c) = prs_get c"
  "prs_get (snd (PrsMachineRoleSelection c)) = prs_get c"
  by (simp_all add: prs_get_def PrsMachineRoleSelection_def updtRolesTree_bridge)

lemma fst_PrsMachine [simp]:
  "fst (PrsMachineInitBridge c) = PrsStateInitBridge"
  "fst (PrsMachineRoleSelection c) = PrsStateRoleSelection"
  by (simp_all add: PrsMachineInitBridge_def PrsMachineRoleSelection_def)

lemma PrsProcess_fires:
  assumes "mBegin (prs_get c)" and "map_of PrsRules (cur_s (prs_get c), e) = Some f"
  shows "PrsProcess e c =
    (None, prs_upd (SetState (fst (f (prs_upd (SetEvent e) c)))) (snd (f (prs_upd (SetEvent e) c))))"
  using prs.fires [of c "AddRules PrsRules Map.empty" e f] assms
  by (simp add: PrsProcess_def AddRules_empty)

text \<open>After \<open>PrsEventBegin\<close> all ports are first put into the disabled role, then
  selected; \<open>PrsEventReselect\<close> selects again.\<close>

definition prs_disabled :: "Event \<Rightarrow> Ctx \<Rightarrow> Ctx" where
  "prs_disabled e c =
     (if e = PrsEventBegin
      then prs_upd (SetEvent PrsEventUnconditionallFallThrough)
             (prs_upd (SetState PrsStateInitBridge) (updtRoleDisabledTree (prs_upd (SetEvent e) c)))
      else prs_upd (SetEvent e) c)"

lemma PrsMachineMain_run:
  assumes "mBegin (prs_get c)"
    and "(cur_s (prs_get c), e) \<in> {(PrsStateNone, PrsEventBegin), (PrsStateRoleSelection, PrsEventReselect)}"
  shows "PrsMachineMain e c =
    prs_upd (SetState PrsStateRoleSelection) (snd (PrsMachineRoleSelection (prs_disabled e c)))"
proof (cases "e = PrsEventBegin")
  case True
  then have s: "cur_s (prs_get c) = PrsStateNone" using assms(2) by auto
  let ?c1 = "prs_upd (SetState PrsStateInitBridge) (updtRoleDisabledTree (prs_upd (SetEvent PrsEventBegin) c))"
  have "PrsProcess PrsEventBegin c = (None, ?c1)"
    using PrsProcess_fires [OF assms(1), of PrsEventBegin PrsMachineInitBridge] s
    by (simp add: PrsRules_def) (simp add: PrsMachineInitBridge_def)
  moreover have "PrsProcess PrsEventUnconditionallFallThrough ?c1 = (None,
      prs_upd (SetState PrsStateRoleSelection)
        (snd (PrsMachineRoleSelection (prs_upd (SetEvent PrsEventUnconditionallFallThrough) ?c1))))"
    using PrsProcess_fires [of ?c1 PrsEventUnconditionallFallThrough PrsMachineRoleSelection] assms(1)
    by (simp add: PrsRules_def prs.get_upd)
  ultimately show ?thesis
    using True by (simp add: PrsMachineMain_def prs_disabled_def prs.get_upd)
next
  case False
  then have s: "cur_s (prs_get c) = PrsStateRoleSelection" "e = PrsEventReselect" using assms(2) by auto
  then show ?thesis
    using PrsProcess_fires [OF assms(1), of e PrsMachineRoleSelection]
    by (simp add: PrsMachineMain_def prs_disabled_def prs.get_upd PrsRules_def)
qed

lemma prs_disabled_parts [simp]:
  "StpPorts (brg (prs_disabled e c)) = StpPorts (brg c)"
  "BridgePriority (brg (prs_disabled e c)) = BridgePriority (brg c)"
  by (simp_all add: prs_disabled_def)

lemma PrsMachineMain_port:
  assumes "mBegin (prs_get c)" and "distinct (StpPorts (brg c))"
    and "(cur_s (prs_get c), e) \<in> {(PrsStateNone, PrsEventBegin), (PrsStateRoleSelection, PrsEventReselect)}"
    and "i \<in> set (StpPorts (brg c))" and "StpFindPortByIfIndex c i = Some p"
  shows "\<exists>p'. StpFindPortByIfIndex (PrsMachineMain e c) i = Some p' \<and> selected_port c p (PrsMachineMain e c) p'"
proof -
  let ?d = "prs_disabled e c"
  let ?r = "snd (PrsMachineRoleSelection ?d)"
  obtain p1 where p1: "StpFindPortByIfIndex ?d i = Some p1" and eq: "p1 = p \<or> p1 = p\<lparr>SelectedRole := PortRoleDisabledPort\<rparr>"
    and ev: "p1 \<noteq> p \<Longrightarrow> set (NotifySelectedRoleChanged p (SelectedRole p) PortRoleDisabledPort) \<subseteq> set (out ?d)"
    using assms(4,5) updtRoleDisabledTree_notifies [of i "prs_upd (SetEvent e) c" p]
    by (cases "e = PrsEventBegin") (auto simp: prs_disabled_def updtRoleDisabledTree_look)
  obtain p' where p': "StpFindPortByIfIndex ?r i = Some p'" and sel: "selected_port ?d p1 ?r p'"
    using RoleSelection_port [of ?d i p1] assms(2,4) p1 by auto
  have mono: "set (out ?d) \<subseteq> set (out ?r)"
    using updtRolesTree_out [of "clearReselectTree ?d"] setSelectedTree_out
    by (fastforce simp: PrsMachineRoleSelection_def)
  have "selected_port c p ?r p'"
  proof (cases "p1 = p")
    case True
    then show ?thesis using sel unfolding selected_port_def prs_disabled_parts by metis
  next
    case False
    have fields: "local_id p1 = local_id p" "IfIndex p1 = IfIndex p" "PrtMachineFsm p1 = PrtMachineFsm p"
      "SelectedRole p1 = PortRoleDisabledPort" "role_spec my rp bp p1 = role_spec my rp bp p" for my rp bp
      using eq False by auto
    have "Send PrtEvents (IfIndex p) (role_event PortRoleDisabledPort) None \<in> set (out ?r)"
      if "prt_live p" "SelectedRole p \<noteq> PortRoleDisabledPort"
      using role_change_event [of PortRoleDisabledPort "SelectedRole p" p] that ev [OF False] mono by auto
    then show ?thesis using sel unfolding selected_port_def fields prs_disabled_parts by metis
  qed
  then show ?thesis
    using p' by (simp add: PrsMachineMain_run [OF assms(1,3)])
qed

lemma role_spec_not_root: "i32 (local_id p) \<noteq> rp \<Longrightarrow> role_spec my rp bp p \<noteq> PortRoleRootPort"
  unfolding role_spec_def Let_def by simp

text \<open>A bridge with two ports towards a better root, the second one cheaper.\<close>

definition prs_port :: "int32 \<Rightarrow> uint16 \<Rightarrow> uint32 \<Rightarrow> StpPort" where
  "prs_port i n cost = zero_port\<lparr>IfIndex := i, PortEnabled := True, InfoIs := PortInfoStateReceived,
     Priority := 0x80, PortId := n, PortPathCost := cost,
     PortPriority := zero_pv\<lparr>RootBridgeId := BridgeId 0x10 0 0 0 0 0 0 1, RootPathCost := 100,
       DesignatedBridgeId := BridgeId 0x80 0 0 0 0 0 0 7, DesignatedPortId := 0x8003\<rparr>,
     PrtMachineFsm := new_machine PrtStateDisabledPort\<rparr>"

definition prs_bridge :: Bridge where
  "prs_bridge = PrsMachineFSMBuild (zero_bridge\<lparr>BridgeIdentifier := BridgeId 0x80 0 0 0 0 0 0 9,
     BridgePriority := zero_pv\<lparr>RootBridgeId := BridgeId 0x80 0 0 0 0 0 0 9,
       DesignatedBridgeId := BridgeId 0x80 0 0 0 0 0 0 9\<rparr>, StpPorts := [1, 2]\<rparr>)"

definition prs_ctx :: Ctx where
  "prs_ctx = (solo prs_bridge (prs_port 1 1 200))\<lparr>peers := [2 \<mapsto> prs_port 2 2 100]\<rparr>"

text \<open>C26: The root of the spanning tree the bridge believes in: after
  \<open>updtRolesTree\<close> the root identifier and root path cost of the bridge are those of
  the lexicographic minimum of its own vector and the vectors all ports received,
  with the cost of the receiving port added (wrapping at 32 bits).\<close>

theorem Prs_root_is_minimum:
  "\<exists>d. (RootBridgeId (BridgePriority (brg (updtRolesTree c))),
         RootPathCost (BridgePriority (brg (updtRolesTree c))), d)
     = Min (insert (own_key (brg c)) (root_key ` set (received_ports c)))"
  unfolding find_root_key [symmetric] by (simp add: sel_key_def updtRolesTree_bridge)

text \<open>C27: The root port: unless some identifier of a port is also an interface index,
  the bridge has no root port exactly when no port received a vector better than its
  own, and otherwise its root port is a port that received the minimal vector.\<close>

theorem Prs_root_port:
  assumes "no_clash c"
  shows "let b' = brg (updtRolesTree c);
             m = Min (insert (own_key (brg c)) (root_key ` set (received_ports c)))
    in if m = own_key (brg c) then RootPortId b' = 0
       else \<exists>p \<in> set (received_ports c). root_key p = m \<and> RootPortId b' = i32 (local_id p)"
  using find_root_choice [OF assms] unfolding find_root_key [symmetric] root_choice_def Let_def
  by (auto simp: updtRolesTree_bridge)

theorem Prs_root_port_witness:
  "no_clash prs_ctx
   \<and> (let b' = brg (updtRolesTree prs_ctx);
           m = Min (insert (own_key (brg prs_ctx)) (root_key ` set (received_ports prs_ctx)))
      in if m = own_key (brg prs_ctx) then RootPortId b' = 0
         else \<exists>p \<in> set (received_ports prs_ctx). root_key p = m \<and> RootPortId b' = i32 (local_id p))
   \<and> RootPortId (brg (updtRolesTree prs_ctx)) = 0x8002"
proof -
  have nc: "no_clash prs_ctx" by code_simp
  have "RootPortId (brg (updtRolesTree prs_ctx)) = 0x8002" by code_simp
  with nc Prs_root_port [OF nc] show ?thesis by blast
qed

text \<open>C28: Role selection, started by \<open>PrsEventBegin\<close> or repeated by
  \<open>PrsEventReselect\<close>, ends in \<open>RoleSelection\<close> with every listed port selected, not
  waiting for reselection and in the role 17.21.25 prescribes for the information it
  holds; a port whose role changed has been sent the event for its new role; two ports
  are both root port only if their port identifiers are equal.\<close>

theorem Prs_selects:
  assumes "mBegin (prs_get c)" and "distinct (StpPorts (brg c))"
    and "(cur_s (prs_get c), e) \<in> {(PrsStateNone, PrsEventBegin), (PrsStateRoleSelection, PrsEventReselect)}"
  shows "cur_s (prs_get (PrsMachineMain e c)) = PrsStateRoleSelection
    \<and> (\<forall>i \<in> set (StpPorts (brg c)). \<forall>p. StpFindPortByIfIndex c i = Some p \<longrightarrow>
         (\<exists>p'. StpFindPortByIfIndex (PrsMachineMain e c) i = Some p'
              \<and> selected_port c p (PrsMachineMain e c) p'
              \<and> (SelectedRole p' = PortRoleRootPort \<longrightarrow>
                   i32 (local_id p) = RootPortId (brg (PrsMachineMain e c)))))"
proof (intro conjI ballI allI impI)
  show "cur_s (prs_get (PrsMachineMain e c)) = PrsStateRoleSelection"
    by (simp add: PrsMachineMain_run [OF assms(1,3)] prs.get_upd)
next
  fix i p
  assume "i \<in> set (StpPorts (brg c))" "StpFindPortByIfIndex c i = Some p"
  from PrsMachineMain_port [OF assms this]
  show "\<exists>p'. StpFindPortByIfIndex (PrsMachineMain e c) i = Some p'
      \<and> selected_port c p (PrsMachineMain e c) p'
      \<and> (SelectedRole p' = PortRoleRootPort \<longrightarrow> i32 (local_id p) = RootPortId (brg (PrsMachineMain e c)))"
    using role_spec_not_root [of p] unfolding selected_port_def by metis
qed

theorem Prs_selects_witness:
  "mBegin (prs_get prs_ctx) \<and> distinct (StpPorts (brg prs_ctx))
   \<and> cur_s (prs_get (PrsMachineMain PrsEventBegin prs_ctx)) = PrsStateRoleSelection
   \<and> map (\<lambda>i. map_option SelectedRole (StpFindPortByIfIndex (PrsMachineMain PrsEventBegin prs_ctx) i)) [1, 2]
     = [Some PortRoleAlternatePort, Some PortRoleRootPort]"
proof -
  have a: "mBegin (prs_get prs_ctx)" by code_simp
  have d: "distinct (StpPorts (brg prs_ctx))" by code_simp
  have s: "(cur_s (prs_get prs_ctx), PrsEventBegin)
      \<in> {(PrsStateNone, PrsEventBegin), (PrsStateRoleSelection, PrsEventReselect)}" by code_simp
  have "map (\<lambda>i. map_option SelectedRole (StpFindPortByIfIndex (PrsMachineMain PrsEventBegin prs_ctx) i)) [1, 2]
     = [Some PortRoleAlternatePort, Some PortRoleRootPort]"
    by code_simp
  with a d Prs_selects [OF a d s] show ?thesis by blast
qed

end
