(* ===== verification/Stp_Config.thy ===== *)
theory Stp_Config
  imports Stp_Prs "HOL-Library.AList"
begin

text \<open>
  Configuration of bridges and ports: \<open>l2/stp/protocol/config.go\<close> with the constructors
  and destructors of \<open>bridge.go\<close> and \<open>port.go\<close>.  The global tables of the process are the
  record \<open>StpDb\<close>; every entry point returns an outcome and the new tables.  What the
  code asks of its surroundings (link state and hardware groups of the plugins, packet
  capture, port numbers, speeds, the switch address) is the record \<open>Env\<close>.

  The tables hold pointers.  A port is named by the key of \<open>PortMapTable\<close>, a bridge by the
  key of \<open>BridgeMapTable\<close>, and the list tables hold these names.  \<open>BEGIN\<close> waits until the
  machines have answered the events it sends; here the events stay in \<open>sent\<close>.
\<close>

section \<open>Data\<close>

record StpBridgeConfig =
  bc_IfIndex :: int32
  bc_Address :: string
  bc_Priority :: uint16
  bc_MaxAge :: uint16
  bc_HelloTime :: uint16
  bc_ForwardDelay :: uint16
  bc_ForceVersion :: int32
  bc_TxHoldCount :: int32
  bc_Vlan :: uint16
  bc_DebugLevel :: int

record StpPortConfig =
  pc_IfIndex :: int32
  pc_Priority :: uint16
  pc_Enable :: bool
  pc_PathCost :: int32
  pc_ProtocolMigration :: int32
  pc_AdminPointToPoint :: int32
  pc_AdminEdgePort :: bool
  pc_AdminPathCost :: int32
  pc_BrgIfIndex :: int32
  pc_BridgeAssurance :: bool
  pc_BpduGuard :: bool
  pc_BpduGuardInterval :: int32

text \<open>The interface of an asicd plugin as this package uses it, and the rest of the
  surroundings: whether a capture handle opens, \<open>pluginCommon.GetIdFromIfIndex\<close>, the
  speed in \<open>PortConfigMap\<close> (zero for an unknown port), \<open>StpBridgeMac\<close>.\<close>

record Plugin =
  GetPortLinkStatus :: "int32 \<Rightarrow> bool"
  CreateStgBridge :: "uint16 \<Rightarrow> int32"

record Env =
  plugins :: "Plugin list"
  opens :: "int32 \<Rightarrow> bool"
  GetIdFromIfIndex :: "int32 \<Rightarrow> uint16"
  speed :: "int32 \<Rightarrow> int32"
  StpBridgeMac :: Mac

type_synonym PortMapKey = "int32 \<times> int32"

record StpDb =
  PortMapTable :: "PortMapKey \<Rightarrow> StpPort option"
  PortListTable :: "PortMapKey list"
  BridgeMapTable :: "(uint16 \<times> Bridge) list"
  BridgeListTable :: "uint16 list"
  StpPortConfigMap :: "int32 \<Rightarrow> StpPortConfig option"
  StpBridgeConfigMap :: "(int32 \<times> StpBridgeConfig) list"
  sent :: "(int32 \<times> StpOut) list"
  DeletedStg :: "(int32 \<times> uint16) list"

definition empty_db :: StpDb where
  "empty_db = \<lparr>PortMapTable = Map.empty, PortListTable = [], BridgeMapTable = [], BridgeListTable = [],
     StpPortConfigMap = Map.empty, StpBridgeConfigMap = [], sent = [], DeletedStg = []\<rparr>"

datatype ConfigError =
    BridgeExists | InvalidPriority | InvalidMaxAge | InvalidHelloTime | InvalidForwardDelay
  | InvalidForceVersion | InvalidTxHoldCount | InvalidVlan | NoSuchBridge
  | PortExists | InvalidPortPriority | InvalidPathCost | BpduGuardNotEdge | BridgeAssuranceEdge
  | NoSuchPort

text \<open>\<open>Panic\<close>: the goroutine dereferences nil.\<close>

datatype Outcome = Ok | Err ConfigError | Panic

section \<open>Tables\<close>

definition StpFindBridgeById :: "StpDb \<Rightarrow> uint16 \<Rightarrow> Bridge option" where
  "StpFindBridgeById db vlan = map_of (BridgeMapTable db) vlan"

definition StpFindBridgeByIfIndex :: "StpDb \<Rightarrow> int32 \<Rightarrow> Bridge option" where
  "StpFindBridgeByIfIndex db i = map_option snd (List.find (\<lambda>(k, b). i = BrgIfIndex b) (BridgeMapTable db))"

definition upd_bridge :: "uint16 \<Rightarrow> (Bridge \<Rightarrow> Bridge) \<Rightarrow> StpDb \<Rightarrow> StpDb" where
  "upd_bridge v f db = db\<lparr>BridgeMapTable := map (\<lambda>(k, b). (k, if k = v then f b else b)) (BridgeMapTable db)\<rparr>"

definition upd_dbport :: "PortMapKey \<Rightarrow> (StpPort \<Rightarrow> StpPort) \<Rightarrow> StpDb \<Rightarrow> StpDb" where
  "upd_dbport k f db = db\<lparr>PortMapTable := (PortMapTable db)(k := map_option f (PortMapTable db k))\<rparr>"

definition db_emit :: "int32 \<Rightarrow> StpOut list \<Rightarrow> StpDb \<Rightarrow> StpDb" where
  "db_emit bId xs db = db\<lparr>sent := sent db @ map (Pair bId) xs\<rparr>"

text \<open>A send to the role selection machine of the bridge, if it runs.\<close>

definition send_reselect :: "int32 \<Rightarrow> StpDb \<Rightarrow> StpDb" where
  "send_reselect bId db =
     (case StpFindBridgeByIfIndex db bId of
        Some b \<Rightarrow> if mlive (PrsMachineFsm b) then db_emit bId [Send PrsEvents 0 PrsEventReselect None] db else db
      | None \<Rightarrow> db)"

definition StpPortConfigGet :: "StpDb \<Rightarrow> int32 \<Rightarrow> StpPortConfig option" where
  "StpPortConfigGet db pId = StpPortConfigMap db pId"

definition StpBrgConfigGet :: "StpDb \<Rightarrow> int32 \<Rightarrow> StpBridgeConfig option" where
  "StpBrgConfigGet db bId = map_of (StpBridgeConfigMap db) bId"

definition StpBrgConfigDelete :: "int32 \<Rightarrow> StpDb \<Rightarrow> Outcome \<times> StpDb" where
  "StpBrgConfigDelete bId db =
     (if StpBrgConfigGet db bId \<noteq> None
      then (Ok, db\<lparr>StpBridgeConfigMap := AList.delete bId (StpBridgeConfigMap db)\<rparr>)
      else (Err NoSuchBridge, db))"

text \<open>The configuration is saved with a zero bridge index.\<close>

definition StpPortConfigSave :: "StpPortConfig \<Rightarrow> bool \<Rightarrow> StpDb \<Rightarrow> StpDb" where
  "StpPortConfigSave c update db =
     (let c0 = c\<lparr>pc_BrgIfIndex := 0\<rparr> in
      case StpPortConfigMap db (pc_IfIndex c) of
        None \<Rightarrow> db\<lparr>StpPortConfigMap := (StpPortConfigMap db)(pc_IfIndex c \<mapsto> c0)\<rparr>
      | Some old \<Rightarrow>
          if \<not> update \<and> c0 \<noteq> old then db
          else if update then db\<lparr>StpPortConfigMap := (StpPortConfigMap db)(pc_IfIndex c \<mapsto> c0)\<rparr>
          else db)"

definition StpBrgConfigSave :: "StpBridgeConfig \<Rightarrow> StpDb \<Rightarrow> StpDb" where
  "StpBrgConfigSave c db = db\<lparr>StpBridgeConfigMap := AList.update (i32 (bc_Vlan c)) c (StpBridgeConfigMap db)\<rparr>"

definition StpPortConfigDelete :: "int32 \<Rightarrow> StpDb \<Rightarrow> StpDb" where
  "StpPortConfigDelete pId db = db\<lparr>StpPortConfigMap := (StpPortConfigMap db)(pId := None)\<rparr>"

abbreviation (input) DEFAULT_STP_BRIDGE_VLAN :: uint16 where "DEFAULT_STP_BRIDGE_VLAN \<equiv> 0"

section \<open>Checks\<close>

text \<open>The error for an existing default bridge is created and dropped.\<close>

definition StpBrgConfigParamCheck :: "StpBridgeConfig \<Rightarrow> bool \<Rightarrow> StpDb \<Rightarrow> Outcome \<times> StpDb" where
  "StpBrgConfigParamCheck c create db =
     (if create \<and> (StpFindBridgeByIfIndex db (i32 (bc_Vlan c)) \<noteq> None
                     \<or> StpBrgConfigGet db (i32 (bc_Vlan c)) \<noteq> None)
         \<and> bc_Vlan c \<noteq> DEFAULT_STP_BRIDGE_VLAN
      then (Err BridgeExists, db)
      else if bc_Priority c mod 4096 \<noteq> 0 \<or> bc_Priority c > 61440 then (Err InvalidPriority, db)
      else if bc_MaxAge c < 6 \<or> bc_MaxAge c > 40 then (Err InvalidMaxAge, db)
      else if bc_HelloTime c < 1 \<or> bc_HelloTime c > 2 then (Err InvalidHelloTime, db)
      else if bc_ForwardDelay c < 3 \<or> bc_ForwardDelay c > 30 then (Err InvalidForwardDelay, db)
      else if bc_ForceVersion c \<noteq> 1 \<and> bc_ForceVersion c \<noteq> 2 then (Err InvalidForceVersion, db)
      else if sint (bc_TxHoldCount c) < 1 \<or> sint (bc_TxHoldCount c) > 10 then (Err InvalidTxHoldCount, db)
      else if bc_Vlan c \<noteq> 0 \<and> bc_Vlan c > 4095 then (Err InvalidVlan, db)
      else (Ok, StpBrgConfigSave c db))"

definition StpPortConfigParamCheck :: "StpPortConfig \<Rightarrow> bool \<Rightarrow> bool \<Rightarrow> StpDb \<Rightarrow> Outcome \<times> StpDb" where
  "StpPortConfigParamCheck c update create db =
     (if StpFindBridgeByIfIndex db (pc_BrgIfIndex c) = None \<and> StpBrgConfigGet db (pc_BrgIfIndex c) = None
      then (Err NoSuchBridge, db)
      else if create \<and> PortMapTable db (pc_IfIndex c, pc_BrgIfIndex c) \<noteq> None then (Err PortExists, db)
      else if pc_Priority c mod 16 \<noteq> 0 \<or> pc_Priority c > 240 then (Err InvalidPortPriority, db)
      else if sint (pc_AdminPathCost c) < 1 \<or> sint (pc_AdminPathCost c) > 200000000
      then (Err InvalidPathCost, db)
      else if \<not> pc_AdminEdgePort c \<and> pc_BpduGuard c then (Err BpduGuardNotEdge, db)
      else if pc_AdminEdgePort c \<and> pc_BridgeAssurance c then (Err BridgeAssuranceEdge, db)
      else (Ok, StpPortConfigSave c update db))"

section \<open>Bridges\<close>

definition NewStpBridge :: "Env \<Rightarrow> StpBridgeConfig \<Rightarrow> Bridge" where
  "NewStpBridge env c =
     (let vlan = bc_Vlan c;
          bridgeId = CreateBridgeId (StpBridgeMac env) (bc_Priority c)
                       (if vlan = DEFAULT_STP_BRIDGE_VLAN then 0 else vlan);
          times = \<lparr>ForwardingDelay = bc_ForwardDelay c, HelloTime = bc_HelloTime c,
                   MaxAge = bc_MaxAge c, MessageAge = 0\<rparr>
      in zero_bridge\<lparr>Begin := True, ForceVersion := 2, BridgeIdentifier := bridgeId,
           BridgePriority := \<lparr>RootBridgeId = bridgeId, RootPathCost = 0, DesignatedBridgeId = bridgeId,
             DesignatedPortId = 0, BridgePortId = 0\<rparr>,
           BridgeTimes := times, RootPortId := 0, RootTimes := times,
           TxHoldCount := scast (bc_TxHoldCount c), Vlan := vlan, DebugLevel := bc_DebugLevel c,
           BrgIfIndex := (if vlan = 0 then i32 DEFAULT_STP_BRIDGE_VLAN else i32 vlan),
           StgId := fold (\<lambda>client _. CreateStgBridge client vlan) (plugins env) 0\<rparr>)"

definition add_bridge :: "Bridge \<Rightarrow> StpDb \<Rightarrow> StpDb" where
  "add_bridge b db = db\<lparr>BridgeMapTable := AList.update (Vlan b) b (BridgeMapTable db),
     BridgeListTable := BridgeListTable db @ [Vlan b]\<rparr>"

definition BEGIN_bridge :: "bool \<Rightarrow> uint16 \<Rightarrow> StpDb \<Rightarrow> StpDb" where
  "BEGIN_bridge restart v db =
     (let db = (if restart then db else upd_bridge v PrsMachineFSMBuild db);
          db = (case StpFindBridgeById db v of
                  Some b \<Rightarrow> if mlive (PrsMachineFsm b)
                            then db_emit (BrgIfIndex b) [Send PrsEvents 0 PrsEventBegin None] db else db
                | None \<Rightarrow> db)
      in upd_bridge v (\<lambda>b. b\<lparr>Begin := False\<rparr>) db)"

definition StpBridgeCreate :: "Env \<Rightarrow> StpBridgeConfig \<Rightarrow> StpDb \<Rightarrow> Outcome \<times> StpDb" where
  "StpBridgeCreate env c db =
     (case StpFindBridgeById db (bc_Vlan c) of
        None \<Rightarrow> (Ok, BEGIN_bridge False (bc_Vlan c) (add_bridge (NewStpBridge env c) db))
      | Some b \<Rightarrow> (Err BridgeExists, db))"

section \<open>Ports\<close>

definition CreateRxTx :: "Env \<Rightarrow> StpPort \<Rightarrow> StpPort" where
  "CreateRxTx env p = (if \<not> portHandle p \<and> opens env (IfIndex p) then p\<lparr>portHandle := True\<rparr> else p)"

definition DeleteRxTx :: "StpPort \<Rightarrow> StpPort" where
  "DeleteRxTx p = p\<lparr>portHandle := False\<rparr>"

definition auto_path_cost :: "int32 \<Rightarrow> uint32" where
  "auto_path_cost s =
     (if s = 10 then 200000000 else if s = 100 then 20000000 else if s = 1000 then 2000000
      else if s = 10000 then 200000 else if s = 100000 then 20000 else if s = 1000000 then 2000
      else if s = 10000000 then 200 else if s = 100000000 then 20 else if s = 1000000000 then 2 else 0)"

text \<open>The record of a new port on bridge \<open>b\<close>.  The first plugin decides whether an enabled
  port is up.\<close>

definition NewStpPort :: "Env \<Rightarrow> Bridge \<Rightarrow> StpPortConfig \<Rightarrow> StpPort" where
  "NewStpPort env b c =
     (let enabled = (if pc_Enable c then
                       (case plugins env of [] \<Rightarrow> True | cl # _ \<Rightarrow> GetPortLinkStatus cl (pc_IfIndex c))
                     else False);
          rstp = (sint (ForceVersion b) \<ge> 2);
          t = RootTimes b;
          p = zero_port\<lparr>IfIndex := pc_IfIndex c, AutoEdgePort := False, AdminPathCost := pc_AdminPathCost c,
            AdminPointToPointMAC := sint (pc_AdminPointToPoint c),
            PortId := GetIdFromIfIndex env (pc_IfIndex c), Priority := pc_Priority c,
            AdminPortEnabled := pc_Enable c, PortEnabled := enabled, PortPathCost := ucast (pc_PathCost c),
            Role := PortRoleDisabledPort, SelectedRole := PortRoleDisabledPort, PortTimes := t,
            SendRSTP := rstp, RcvdRSTP := rstp, RstpVersion := rstp, Mcheck := rstp,
            EdgeDelayWhileTimer := MigrateTimeDefault, FdWhileTimer := i32 (ForwardingDelay t),
            HelloWhenTimer := i32 (HelloTime t), MdelayWhiletimer := MigrateTimeDefault,
            RbWhileTimer := i32 (HelloTime t * 2), RcvdInfoWhiletimer := i32 (HelloTime t * 3),
            RrWhileTimer := i32 (MaxAge t), TcWhileTimer := i32 (HelloTime t),
            BAWhileTimer := i32 (HelloTime t * 3), PortBrgIfIndex := pc_BrgIfIndex c,
            AdminEdge := pc_AdminEdgePort c,
            PortPriority := \<lparr>RootBridgeId = BridgeIdentifier b, RootPathCost = 0,
              DesignatedBridgeId = BridgeIdentifier b,
              DesignatedPortId = GetIdFromIfIndex env (pc_IfIndex c) OR push_bit 8 (pc_Priority c),
              BridgePortId = 0\<rparr>,
            BridgeAssurance := pc_BridgeAssurance c, BpduGuard := pc_BpduGuard c,
            BpduGuardInterval := pc_BpduGuardInterval c\<rparr>;
          p = (if pc_AdminPathCost c = 0 then p\<lparr>PortPathCost := auto_path_cost (speed env (pc_IfIndex c))\<rparr> else p)
      in if PortEnabled p then CreateRxTx env p else p)"

definition add_port :: "PortMapKey \<Rightarrow> StpPort \<Rightarrow> StpDb \<Rightarrow> StpDb" where
  "add_port k p db = db\<lparr>PortMapTable := (PortMapTable db)(k \<mapsto> p), PortListTable := PortListTable db @ [k]\<rparr>"

text \<open>The machines of the port are stopped and it leaves both tables; nothing refers to its
  record afterwards.  The list has one entry per port.\<close>

definition DelStpPort :: "PortMapKey \<Rightarrow> StpDb \<Rightarrow> StpDb" where
  "DelStpPort k db = db\<lparr>PortMapTable := (PortMapTable db)(k := None), PortListTable := remove1 k (PortListTable db)\<rparr>"

definition begin_machines :: "StpPort \<Rightarrow> StpPort" where
  "begin_machines p = p\<lparr>
     PtmMachineFsm := Start PtmStateNone (new_machine PtmStateNone),
     PrxmMachineFsm := Start PrxmStateNone (new_machine PrxmStateNone),
     PpmmMachineFsm := Start PpmmStateNone (new_machine PpmmStateNone),
     PtxmMachineFsm := Start PtxmStateNone (new_machine PtxmStateNone),
     PimMachineFsm := Start PimStateNone (new_machine PimStateNone),
     BdmMachineFsm := Start BdmStateNone (new_machine BdmStateNone),
     PrtMachineFsm := Start PrtStateNone (new_machine PrtStateNone),
     TcMachineFsm := Start TcStateNone (new_machine TcStateNone),
     PstMachineFsm := Start PstStateNone (new_machine PstStateNone)\<rparr>"

definition begin_events :: "StpPort \<Rightarrow> StpOut list" where
  "begin_events p =
     (if prx_live p then [Send PrxmEvents (IfIndex p) PrxmEventBegin None] else [])
     @ (if mlive (PtmMachineFsm p) then [Send PtmEvents (IfIndex p) PtmEventBegin None] else [])
     @ (if ppmm_live p then [Send PpmmEvents (IfIndex p) PpmmEventBegin None] else [])
     @ (if ptx_live p then to_ptx p PtxmEventBegin else [])
     @ (if pim_live p then to_pim p PimEventBegin None else [])
     @ (if bdm_live p then to_bdm p (if AdminEdge p then BdmEventBeginAdminEdge else BdmEventBeginNotAdminEdge) else [])
     @ (if prt_live p then to_prt p PrtEventBegin else [])
     @ (if tc_live p then to_tc p TcEventBegin else [])
     @ (if pst_live p then to_pst p PstEventBegin else [])"

definition BEGIN_port :: "bool \<Rightarrow> PortMapKey \<Rightarrow> StpDb \<Rightarrow> StpDb" where
  "BEGIN_port restart k db =
     (let db = (if restart then db else upd_dbport k begin_machines db) in
      case PortMapTable db k of
        Some p \<Rightarrow> db_emit (snd k) (begin_events p) db
      | None \<Rightarrow> db)"

definition IsAdminEdgePort :: "PortMapKey \<Rightarrow> StpPort \<Rightarrow> StpDb \<Rightarrow> bool" where
  "IsAdminEdgePort k p db =
     list_ex (\<lambda>k'. k' \<noteq> k \<and> map_option IfIndex (PortMapTable db k') = Some (IfIndex p)
                  \<and> (AdminEdge p \<or> OperEdge p)) (PortListTable db)"

text \<open>After \<open>BEGIN\<close>, an edge port makes the loop over all other ports send to its own
  machine.\<close>

definition admin_edge_events :: "PortMapKey \<Rightarrow> StpPort \<Rightarrow> StpDb \<Rightarrow> StpOut list" where
  "admin_edge_events k p db =
     (if bdm_live p then
        if \<not> AdminEdge p \<and> IsAdminEdgePort k p db then to_bdm p BdmEventBeginAdminEdge
        else if AdminEdge p \<and> \<not> IsAdminEdgePort k p db
        then concat (map (\<lambda>_. to_bdm p BdmEventBeginAdminEdge) (filter (\<lambda>k'. k' \<noteq> k) (PortListTable db)))
        else []
      else [])"

definition StpPortAddToBridge :: "int32 \<Rightarrow> int32 \<Rightarrow> StpDb \<Rightarrow> StpDb" where
  "StpPortAddToBridge pId brgifindex db =
     (case (PortMapTable db (pId, brgifindex), StpFindBridgeByIfIndex db brgifindex) of
        (Some p, Some b) \<Rightarrow>
          (let db = upd_dbport (pId, brgifindex) (\<lambda>p. p\<lparr>PortBridgeId := BridgeIdentifier b\<rparr>) db;
               db = upd_bridge (Vlan b) (\<lambda>b. b\<lparr>StpPorts := StpPorts b @ [pId]\<rparr>) db;
               db = BEGIN_port False (pId, brgifindex) db
           in case PortMapTable db (pId, brgifindex) of
                Some p \<Rightarrow> db_emit brgifindex (admin_edge_events (pId, brgifindex) p db) db
              | None \<Rightarrow> db)
      | _ \<Rightarrow> db)"

definition StpPortCreate :: "Env \<Rightarrow> StpPortConfig \<Rightarrow> StpDb \<Rightarrow> Outcome \<times> StpDb" where
  "StpPortCreate env c db =
     (if PortMapTable db (pc_IfIndex c, pc_BrgIfIndex c) = None then
        (let db = StpPortConfigSave c False db in
         case StpFindBridgeByIfIndex db (pc_BrgIfIndex c) of
           Some b \<Rightarrow> (Ok, StpPortAddToBridge (pc_IfIndex c) (pc_BrgIfIndex c)
                             (add_port (pc_IfIndex c, BrgIfIndex b) (NewStpPort env b c) db))
         | None \<Rightarrow> (Ok, db))
      else (Err PortExists, db))"

text \<open>\<open>p.NotifyPortEnabled\<close>, which reads the root times of the bridge.\<close>

definition notify_enabled :: "PortMapKey \<Rightarrow> bool \<Rightarrow> bool \<Rightarrow> StpDb \<Rightarrow> StpDb" where
  "notify_enabled k old new db =
     (case PortMapTable db k of
        Some p \<Rightarrow>
          (let t = (case StpFindBridgeByIfIndex db (snd k) of Some b \<Rightarrow> RootTimes b | None \<Rightarrow> zero_times);
               (p', ev) = NotifyPortEnabled t p old new
           in db_emit (snd k) ev (upd_dbport k (\<lambda>_. p') db))
      | None \<Rightarrow> db)"

abbreviation set_enabled :: "PortMapKey \<Rightarrow> bool \<Rightarrow> StpDb \<Rightarrow> StpDb" where
  "set_enabled k v \<equiv> upd_dbport k (\<lambda>p. p\<lparr>PortEnabled := v\<rparr>)"

definition StpPortDelFromBridge :: "int32 \<Rightarrow> int32 \<Rightarrow> StpDb \<Rightarrow> StpDb" where
  "StpPortDelFromBridge pId brgifindex db =
     (case (PortMapTable db (pId, brgifindex), StpFindBridgeByIfIndex db brgifindex) of
        (Some p, Some b) \<Rightarrow>
          upd_bridge (Vlan b) (\<lambda>b. b\<lparr>StpPorts := remove1 (IfIndex p) (StpPorts b)\<rparr>)
            (set_enabled (pId, brgifindex) False (notify_enabled (pId, brgifindex) (PortEnabled p) False db))
      | _ \<Rightarrow> db)"

definition StpPortDelete :: "StpPortConfig \<Rightarrow> StpDb \<Rightarrow> Outcome \<times> StpDb" where
  "StpPortDelete c db =
     (case PortMapTable db (pc_IfIndex c, pc_BrgIfIndex c) of
        Some p \<Rightarrow>
          (let db = (case StpFindBridgeByIfIndex db (PortBrgIfIndex p) of
                       Some b \<Rightarrow> StpPortDelFromBridge (pc_IfIndex c) (PortBrgIfIndex p) db
                     | None \<Rightarrow> db)
           in (Ok, StpPortConfigDelete (pc_IfIndex c) (DelStpPort (pc_IfIndex c, pc_BrgIfIndex c) db)))
      | None \<Rightarrow> (Err NoSuchPort, db))"

text \<open>The list of bridges loses the entries with the identifier of the deleted one; when
  it has a single entry the hardware group is not deleted.\<close>

definition del_from_list :: "Env \<Rightarrow> Bridge \<Rightarrow> StpDb \<Rightarrow> StpDb" where
  "del_from_list env b db =
     (let same = (\<lambda>v. map_option BridgeIdentifier (map_of (BridgeMapTable db) v) = Some (BridgeIdentifier b))
      in if length (BridgeListTable db) = 1 then db\<lparr>BridgeListTable := filter (\<lambda>v. \<not> same v) (BridgeListTable db)\<rparr>
         else db\<lparr>BridgeListTable := filter (\<lambda>v. \<not> same v) (BridgeListTable db),
                 DeletedStg := DeletedStg db @
                   concat (map (\<lambda>_. map (\<lambda>_. (StgId b, Vlan b)) (plugins env)) (filter same (BridgeListTable db)))\<rparr>)"

definition del_ports :: "int32 \<Rightarrow> int32 list \<Rightarrow> StpDb \<Rightarrow> StpDb" where
  "del_ports bi ids db =
     fold (\<lambda>pId db. case PortMapTable db (pId, bi) of Some p \<Rightarrow> DelStpPort (pId, bi) db | None \<Rightarrow> db) ids db"

definition DelStpBridge :: "Env \<Rightarrow> Bridge \<Rightarrow> bool \<Rightarrow> StpDb \<Rightarrow> StpDb" where
  "DelStpBridge env b force db =
     (if \<not> force \<and> StpPorts b \<noteq> [] then db
      else let db = (if force then del_ports (BrgIfIndex b) (StpPorts b) db else db);
               db = del_from_list env b db
           in db\<lparr>BridgeMapTable := AList.delete (Vlan b) (BridgeMapTable db)\<rparr>)"

definition StpBridgeDelete :: "Env \<Rightarrow> StpBridgeConfig \<Rightarrow> StpDb \<Rightarrow> Outcome \<times> StpDb" where
  "StpBridgeDelete env c db =
     (case StpFindBridgeById db (bc_Vlan c) of
        Some b \<Rightarrow>
          (let db = DelStpBridge env b True db
           in (Ok, if list_ex (\<lambda>(k, btmp). bc_Vlan btmp = bc_Vlan c) (StpBridgeConfigMap db)
                   then snd (StpBrgConfigDelete (i32 (bc_Vlan c)) db) else db))
      | None \<Rightarrow> (Err NoSuchBridge, db))"

section \<open>Link and administrative state\<close>

definition StpPortEnable :: "Env \<Rightarrow> int32 \<Rightarrow> int32 \<Rightarrow> bool \<Rightarrow> StpDb \<Rightarrow> Outcome \<times> StpDb" where
  "StpPortEnable env pId bId enable db =
     (let k = (pId, bId); set_admin = upd_dbport k (\<lambda>p. p\<lparr>AdminPortEnabled := enable\<rparr>) in
      case PortMapTable db k of
        Some p \<Rightarrow>
          (Ok,
           if AdminPortEnabled p \<noteq> enable then
             if AdminPortEnabled p then
               set_admin (if PortEnabled p
                          then set_enabled k False (notify_enabled k (PortEnabled p) False db) else db)
             else if list_ex (\<lambda>client. GetPortLinkStatus client pId) (plugins env)
             then notify_enabled k (PortEnabled p) True (set_admin (set_enabled k True db))
             else set_admin db
           else db)
      | None \<Rightarrow> (Err NoSuchPort, db))"

text \<open>The ports of an interface, on every bridge, in the order of the list.\<close>

definition ports_on :: "int32 \<Rightarrow> StpDb \<Rightarrow> PortMapKey list" where
  "ports_on pId db = filter (\<lambda>k. map_option IfIndex (PortMapTable db k) = Some pId) (PortListTable db)"

definition old_enabled :: "PortMapKey \<Rightarrow> StpDb \<Rightarrow> bool" where
  "old_enabled k db = (case PortMapTable db k of Some p \<Rightarrow> PortEnabled p | None \<Rightarrow> False)"

definition admin_up :: "PortMapKey \<Rightarrow> StpDb \<Rightarrow> bool" where
  "admin_up k db = (case PortMapTable db k of Some p \<Rightarrow> AdminPortEnabled p | None \<Rightarrow> False)"

text \<open>The notifications are deferred: they run after the loop, the last port's first.\<close>

definition StpPortLinkUp :: "Env \<Rightarrow> int32 \<Rightarrow> StpDb \<Rightarrow> StpDb" where
  "StpPortLinkUp env pId db =
     fold (\<lambda>k. notify_enabled k (old_enabled k db) True)
       (rev (filter (\<lambda>k. admin_up k db) (ports_on pId db)))
       (fold (\<lambda>k db'. (if admin_up k db then set_enabled k True else (\<lambda>x. x)) (upd_dbport k (CreateRxTx env) db'))
          (ports_on pId db) db)"

definition StpPortLinkDown :: "int32 \<Rightarrow> StpDb \<Rightarrow> StpDb" where
  "StpPortLinkDown pId db =
     fold (\<lambda>k. notify_enabled k (old_enabled k db) False) (rev (ports_on pId db))
       (fold (\<lambda>k db'. set_enabled k False (upd_dbport k DeleteRxTx db')) (ports_on pId db) db)"

section \<open>Changing the configuration of a bridge\<close>

text \<open>The setters change a copy of the saved configuration and check it, which saves it;
  without a saved configuration they dereference nil.\<close>

definition with_config ::
  "int32 \<Rightarrow> (StpBridgeConfig \<Rightarrow> StpBridgeConfig) \<Rightarrow> (StpDb \<Rightarrow> StpDb) \<Rightarrow> StpDb \<Rightarrow> Outcome \<times> StpDb" where
  "with_config bId f k db =
     (case StpBrgConfigGet db bId of
        None \<Rightarrow> (Panic, db)
      | Some c \<Rightarrow>
          (case StpBrgConfigParamCheck (f c) False db of
             (Ok, db') \<Rightarrow> (Ok, k db')
           | (e, db') \<Rightarrow> (e, db')))"

definition each_port :: "Bridge \<Rightarrow> (StpPort \<Rightarrow> StpPort) \<Rightarrow> StpDb \<Rightarrow> StpDb" where
  "each_port b f db = fold (\<lambda>pId. upd_dbport (pId, BrgIfIndex b) f) (StpPorts b) db"

definition StpBrgPrioritySet :: "int32 \<Rightarrow> uint16 \<Rightarrow> StpDb \<Rightarrow> Outcome \<times> StpDb" where
  "StpBrgPrioritySet bId priority db =
     (case StpFindBridgeByIfIndex db bId of
        Some b \<Rightarrow>
          if GetBridgePriorityFromBridgeId (BridgeIdentifier b) \<noteq> priority then
            with_config bId (\<lambda>c. c\<lparr>bc_Priority := priority\<rparr>)
              (\<lambda>db. let nid = CreateBridgeId (GetBridgeAddrFromBridgeId (BridgeIdentifier b)) priority
                                (GetBridgeVlanFromBridgeId (BridgeIdentifier b));
                        db = upd_bridge (Vlan b) (\<lambda>b. b\<lparr>BridgeIdentifier := nid,
                               BridgePriority := (BridgePriority b)\<lparr>DesignatedBridgeId := nid\<rparr>\<rparr>) db
                    in send_reselect bId (each_port b (\<lambda>p. p\<lparr>Selected := False, Reselect := True\<rparr>) db)) db
          else (Ok, db)
      | None \<Rightarrow> (Err NoSuchBridge, db))"

definition StpBrgForceVersion :: "int32 \<Rightarrow> int32 \<Rightarrow> StpDb \<Rightarrow> Outcome \<times> StpDb" where
  "StpBrgForceVersion bId version db =
     (case StpFindBridgeByIfIndex db bId of
        Some b \<Rightarrow>
          if ForceVersion b \<noteq> version then
            with_config bId (\<lambda>c. c\<lparr>bc_ForceVersion := version\<rparr>)
              (\<lambda>db. fold (\<lambda>pId db. BEGIN_port True (pId, BrgIfIndex b)
                             (upd_dbport (pId, BrgIfIndex b) (\<lambda>p. p\<lparr>RstpVersion := (version \<noteq> 1)\<rparr>) db))
                      (StpPorts b) (upd_bridge (Vlan b) (\<lambda>b. b\<lparr>ForceVersion := version\<rparr>) db)) db
          else (Ok, db)
      | None \<Rightarrow> (Err NoSuchBridge, db))"

text \<open>The three times are handled alike: the bridge's own value always, the root and port
  values when the bridge is the root.\<close>

definition set_time :: "int32 \<Rightarrow> (StpBridgeConfig \<Rightarrow> StpBridgeConfig) \<Rightarrow> (Times \<Rightarrow> Times) \<Rightarrow> StpDb \<Rightarrow> Outcome \<times> StpDb" where
  "set_time bId fc ft db =
     (case StpFindBridgeByIfIndex db bId of
        Some b \<Rightarrow>
          with_config bId fc
            (\<lambda>db. let db = upd_bridge (Vlan b) (\<lambda>b. b\<lparr>BridgeTimes := ft (BridgeTimes b)\<rparr>) db
                  in if RootPortId b = 0
                     then each_port b (\<lambda>p. p\<lparr>PortTimes := ft (PortTimes p)\<rparr>)
                            (upd_bridge (Vlan b) (\<lambda>b. b\<lparr>RootTimes := ft (RootTimes b)\<rparr>) db)
                     else db) db
      | None \<Rightarrow> (Err NoSuchBridge, db))"

definition StpBrgForwardDelaySet :: "int32 \<Rightarrow> uint16 \<Rightarrow> StpDb \<Rightarrow> Outcome \<times> StpDb" where
  "StpBrgForwardDelaySet bId fwddelay =
     set_time bId (\<lambda>c. c\<lparr>bc_ForwardDelay := fwddelay\<rparr>) (\<lambda>t. t\<lparr>ForwardingDelay := fwddelay\<rparr>)"

definition StpBrgHelloTimeSet :: "int32 \<Rightarrow> uint16 \<Rightarrow> StpDb \<Rightarrow> Outcome \<times> StpDb" where
  "StpBrgHelloTimeSet bId hellotime =
     set_time bId (\<lambda>c. c\<lparr>bc_HelloTime := hellotime\<rparr>) (\<lambda>t. t\<lparr>HelloTime := hellotime\<rparr>)"

definition StpBrgMaxAgeSet :: "int32 \<Rightarrow> uint16 \<Rightarrow> StpDb \<Rightarrow> Outcome \<times> StpDb" where
  "StpBrgMaxAgeSet bId maxage =
     set_time bId (\<lambda>c. c\<lparr>bc_MaxAge := maxage\<rparr>) (\<lambda>t. t\<lparr>MaxAge := maxage\<rparr>)"

definition StpBrgTxHoldCountSet :: "int32 \<Rightarrow> uint16 \<Rightarrow> StpDb \<Rightarrow> Outcome \<times> StpDb" where
  "StpBrgTxHoldCountSet bId txholdcount db =
     (case StpFindBridgeByIfIndex db bId of
        Some b \<Rightarrow>
          with_config bId (\<lambda>c. c\<lparr>bc_TxHoldCount := i32 txholdcount\<rparr>)
            (upd_bridge (Vlan b) (\<lambda>b. b\<lparr>TxHoldCount := ucast txholdcount\<rparr>)) db
      | None \<Rightarrow> (Ok, db))"

section \<open>Changing the configuration of a port\<close>

definition StpPortPrioritySet :: "int32 \<Rightarrow> int32 \<Rightarrow> uint16 \<Rightarrow> StpDb \<Rightarrow> Outcome \<times> StpDb" where
  "StpPortPrioritySet pId bId priority db =
     (case PortMapTable db (pId, bId) of
        Some p \<Rightarrow>
          (Ok, if Priority p \<noteq> priority
               then send_reselect bId
                 (upd_dbport (pId, bId) (\<lambda>p. p\<lparr>Priority := priority, Selected := False, Reselect := True\<rparr>) db)
               else db)
      | None \<Rightarrow> (Err NoSuchPort, db))"

definition StpPortPortPathCostSet :: "int32 \<Rightarrow> int32 \<Rightarrow> uint32 \<Rightarrow> StpDb \<Rightarrow> Outcome \<times> StpDb" where
  "StpPortPortPathCostSet pId bId pathcost db = (Ok, db)"

definition StpPortAdminEdgeSet :: "int32 \<Rightarrow> int32 \<Rightarrow> bool \<Rightarrow> StpDb \<Rightarrow> Outcome \<times> StpDb" where
  "StpPortAdminEdgeSet pId bId adminedge db =
     (case PortMapTable db (pId, bId) of
        Some p \<Rightarrow>
          (let db = upd_dbport (pId, bId) (\<lambda>p. p\<lparr>AdminEdge := adminedge\<rparr>) db in
           if OperEdge p \<noteq> adminedge then
             if bdm_live p
             then (Ok, db_emit bId (to_bdm p (if adminedge then BdmEventBeginAdminEdge else BdmEventBeginNotAdminEdge)) db)
             else (Panic, db)
           else (Ok, db))
      | None \<Rightarrow> (Err NoSuchPort, db))"

definition StpPortProtocolMigrationSet :: "int32 \<Rightarrow> int32 \<Rightarrow> bool \<Rightarrow> StpDb \<Rightarrow> Outcome \<times> StpDb" where
  "StpPortProtocolMigrationSet pId bId protocolmigration db =
     (case PortMapTable db (pId, bId) of
        Some p \<Rightarrow>
          if Mcheck p \<noteq> protocolmigration then
            if protocolmigration \<and> \<not> ppmm_live p then (Panic, db)
            else (Ok, upd_dbport (pId, bId) (\<lambda>p. p\<lparr>Mcheck := protocolmigration\<rparr>)
                    (db_emit bId (if protocolmigration then [Send PpmmEvents (IfIndex p) PpmmEventMcheck None] else []) db))
          else (Ok, db)
      | None \<Rightarrow> (Err NoSuchPort, db))"

definition StpPortBpduGuardSet :: "int32 \<Rightarrow> int32 \<Rightarrow> bool \<Rightarrow> StpDb \<Rightarrow> Outcome \<times> StpDb" where
  "StpPortBpduGuardSet pId bId bpduguard db =
     (case PortMapTable db (pId, bId) of
        Some p \<Rightarrow> (Ok, if BpduGuard p \<noteq> bpduguard
                       then upd_dbport (pId, bId) (\<lambda>p. p\<lparr>BpduGuard := bpduguard\<rparr>) db else db)
      | None \<Rightarrow> (Err NoSuchPort, db))"

definition StpPortBridgeAssuranceSet :: "int32 \<Rightarrow> int32 \<Rightarrow> bool \<Rightarrow> StpDb \<Rightarrow> Outcome \<times> StpDb" where
  "StpPortBridgeAssuranceSet pId bId bridgeassurance db =
     (case PortMapTable db (pId, bId) of
        Some p \<Rightarrow>
          (Ok, if BridgeAssurance p \<noteq> bridgeassurance \<and> \<not> OperEdge p
               then let t = (case StpFindBridgeByIfIndex db bId of Some b \<Rightarrow> RootTimes b | None \<Rightarrow> zero_times)
                    in upd_dbport (pId, bId) (\<lambda>p. p\<lparr>BridgeAssurance := bridgeassurance,
                         BridgeAssuranceInconsistant := False, BAWhileTimer := i32 (HelloTime t * 3)\<rparr>) db
               else db)
      | None \<Rightarrow> (Err NoSuchPort, db))"

section \<open>What holds of the tables\<close>

definition times_ok :: "Times \<Rightarrow> bool" where
  "times_ok t \<longleftrightarrow> 6 \<le> MaxAge t \<and> MaxAge t \<le> 40 \<and> 1 \<le> HelloTime t \<and> HelloTime t \<le> 2
     \<and> 3 \<le> ForwardingDelay t \<and> ForwardingDelay t \<le> 30"

definition config_ok :: "StpBridgeConfig \<Rightarrow> bool" where
  "config_ok c \<longleftrightarrow>
     bc_Priority c mod 4096 = 0 \<and> bc_Priority c \<le> 61440 \<and> 6 \<le> bc_MaxAge c \<and> bc_MaxAge c \<le> 40
     \<and> 1 \<le> bc_HelloTime c \<and> bc_HelloTime c \<le> 2 \<and> 3 \<le> bc_ForwardDelay c \<and> bc_ForwardDelay c \<le> 30
     \<and> (bc_ForceVersion c = 1 \<or> bc_ForceVersion c = 2)
     \<and> 1 \<le> sint (bc_TxHoldCount c) \<and> sint (bc_TxHoldCount c) \<le> 10 \<and> bc_Vlan c \<le> 4095"

definition bridge_ok :: "uint16 \<Rightarrow> Bridge \<Rightarrow> bool" where
  "bridge_ok v b \<longleftrightarrow>
     Vlan b = v \<and> BrgIfIndex b = i32 v \<and> v \<le> 4095 \<and> GetBridgeVlanFromBridgeId (BridgeIdentifier b) = v
     \<and> distinct (StpPorts b) \<and> times_ok (BridgeTimes b) \<and> 1 \<le> TxHoldCount b \<and> TxHoldCount b \<le> 10"

definition port_ok :: "PortMapKey \<Rightarrow> StpPort \<Rightarrow> bool" where
  "port_ok k p \<longleftrightarrow> (IfIndex p, PortBrgIfIndex p) = k \<and> bdm_live p \<and> ppmm_live p"

abbreviation brgs :: "StpDb \<Rightarrow> uint16 \<Rightarrow> Bridge option" where
  "brgs db \<equiv> map_of (BridgeMapTable db)"

text \<open>\<open>ports_ok\<close> leaves open which keys still have to appear in a bridge: between the
  creation of a port and its addition to the bridge it is in the tables only.\<close>

definition bridges_ok :: "StpDb \<Rightarrow> bool" where
  "bridges_ok db \<longleftrightarrow>
     distinct (map fst (BridgeMapTable db)) \<and> (\<forall>v b. brgs db v = Some b \<longrightarrow> bridge_ok v b)
     \<and> distinct (BridgeListTable db) \<and> set (BridgeListTable db) = dom (brgs db)"

definition ports_ok :: "StpDb \<Rightarrow> bool" where
  "ports_ok db \<longleftrightarrow>
     distinct (PortListTable db) \<and> set (PortListTable db) = dom (PortMapTable db)
     \<and> (\<forall>k p. PortMapTable db k = Some p \<longrightarrow> port_ok k p)"

definition attached :: "StpDb \<Rightarrow> bool" where
  "attached db \<longleftrightarrow>
     (\<forall>i bi. (i, bi) \<in> dom (PortMapTable db) \<longleftrightarrow>
        (\<exists>v b. brgs db v = Some b \<and> bi = i32 v \<and> i \<in> set (StpPorts b)))"

definition configs_ok :: "StpDb \<Rightarrow> bool" where
  "configs_ok db \<longleftrightarrow>
     (\<forall>v. brgs db v \<noteq> None \<longrightarrow> StpBrgConfigGet db (i32 v) \<noteq> None)
     \<and> (\<forall>k c. StpBrgConfigGet db k = Some c \<longrightarrow> config_ok c \<and> k = i32 (bc_Vlan c))"

definition db_ok :: "StpDb \<Rightarrow> bool" where
  "db_ok db \<longleftrightarrow> bridges_ok db \<and> ports_ok db \<and> attached db \<and> configs_ok db"

lemma empty_db_ok: "db_ok empty_db"
  by (simp add: db_ok_def bridges_ok_def ports_ok_def attached_def configs_ok_def empty_db_def
      StpBrgConfigGet_def)

lemma find_bridge_iff:
  assumes "bridges_ok db"
  shows "StpFindBridgeByIfIndex db i = Some b \<longleftrightarrow> brgs db (Vlan b) = Some b \<and> i = i32 (Vlan b)"
proof -
  have ok: "k = Vlan b' \<and> BrgIfIndex b' = i32 k" if "(k, b') \<in> set (BridgeMapTable db)" for k b'
    using assms that by (auto simp: bridges_ok_def bridge_ok_def map_of_eq_Some_iff)
  have d: "distinct (map fst (BridgeMapTable db))" using assms by (simp add: bridges_ok_def)
  show ?thesis
  proof
    assume "StpFindBridgeByIfIndex db i = Some b"
    then obtain k where "(k, b) \<in> set (BridgeMapTable db)" "i = BrgIfIndex b"
      by (auto simp: StpFindBridgeByIfIndex_def find_Some_iff in_set_conv_nth) (metis snd_conv)
    then show "brgs db (Vlan b) = Some b \<and> i = i32 (Vlan b)"
      using ok d by (auto simp: map_of_eq_Some_iff)
  next
    assume r: "brgs db (Vlan b) = Some b \<and> i = i32 (Vlan b)"
    then have m: "(Vlan b, b) \<in> set (BridgeMapTable db)" by (simp add: map_of_SomeD)
    have "List.find (\<lambda>(k, b). i = BrgIfIndex b) (BridgeMapTable db) \<noteq> None"
      unfolding find_None_iff using m ok [OF m] r by (metis (mono_tags, lifting) case_prod_conv)
    then obtain k' b' where f: "List.find (\<lambda>(k, b). i = BrgIfIndex b) (BridgeMapTable db) = Some (k', b')"
      by auto
    then have "(k', b') \<in> set (BridgeMapTable db)" "i = BrgIfIndex b'"
      by (auto simp: find_Some_iff in_set_conv_nth)
    then have "k' = Vlan b" using ok r by (metis i32_inj)
    then have "b' = b"
      using \<open>(k', b') \<in> set (BridgeMapTable db)\<close> m d by (metis map_of_eq_Some_iff option.inject)
    then show "StpFindBridgeByIfIndex db i = Some b" using f by (simp add: StpFindBridgeByIfIndex_def)
  qed
qed

lemma brgs_upd_bridge: "brgs (upd_bridge v f db) w = (if w = v then map_option f (brgs db w) else brgs db w)"
proof -
  have "map_of (map (\<lambda>(k, b). (k, if k = v then f b else b)) xs) w =
      (if w = v then map_option f (map_of xs w) else map_of xs w)" for xs :: "(uint16 \<times> Bridge) list"
    by (induction xs) auto
  then show ?thesis by (simp add: upd_bridge_def)
qed

lemma upd_bridge_rest [simp]:
  "map fst (BridgeMapTable (upd_bridge v f db)) = map fst (BridgeMapTable db)"
  "BridgeListTable (upd_bridge v f db) = BridgeListTable db"
  "PortMapTable (upd_bridge v f db) = PortMapTable db" "PortListTable (upd_bridge v f db) = PortListTable db"
  "StpBrgConfigGet (upd_bridge v f db) = StpBrgConfigGet db"
  by (auto simp: upd_bridge_def StpBrgConfigGet_def)

lemma dom_upd_bridge [simp]: "dom (brgs (upd_bridge v f db)) = dom (brgs db)"
  by (auto simp: dom_def brgs_upd_bridge)

text \<open>Writes that keep the names and the lists keep the tables well formed.\<close>

lemma db_ok_upd_bridge:
  assumes "db_ok db" and "\<And>b. brgs db v = Some b \<Longrightarrow> bridge_ok v b \<Longrightarrow> bridge_ok v (f b) \<and> StpPorts (f b) = StpPorts b"
  shows "db_ok (upd_bridge v f db)"
proof -
  have "bridges_ok (upd_bridge v f db)"
    using assms by (auto simp: db_ok_def bridges_ok_def brgs_upd_bridge)
  moreover have "attached (upd_bridge v f db)"
    using assms by (fastforce simp: db_ok_def attached_def brgs_upd_bridge bridges_ok_def)
  ultimately show ?thesis
    using assms(1) by (auto simp: db_ok_def ports_ok_def configs_ok_def brgs_upd_bridge)
qed

lemma upd_dbport_rest [simp]:
  "BridgeMapTable (upd_dbport k f db) = BridgeMapTable db" "BridgeListTable (upd_dbport k f db) = BridgeListTable db"
  "PortListTable (upd_dbport k f db) = PortListTable db" "dom (PortMapTable (upd_dbport k f db)) = dom (PortMapTable db)"
  "StpBrgConfigGet (upd_dbport k f db) = StpBrgConfigGet db"
  by (auto simp: upd_dbport_def StpBrgConfigGet_def)

lemma db_ok_upd_dbport:
  assumes "db_ok db" and "\<And>p. PortMapTable db k = Some p \<Longrightarrow> port_ok k p \<Longrightarrow> port_ok k (f p)"
  shows "db_ok (upd_dbport k f db)"
proof -
  have "ports_ok (upd_dbport k f db)"
    using assms unfolding db_ok_def ports_ok_def upd_dbport_rest
    by (auto simp: upd_dbport_def split: if_splits)
  then show ?thesis
    using assms(1) by (simp add: db_ok_def bridges_ok_def attached_def configs_ok_def)
qed

lemma db_emit_rest [simp]:
  "BridgeMapTable (db_emit i xs db) = BridgeMapTable db" "BridgeListTable (db_emit i xs db) = BridgeListTable db"
  "PortListTable (db_emit i xs db) = PortListTable db" "PortMapTable (db_emit i xs db) = PortMapTable db"
  "StpBrgConfigGet (db_emit i xs db) = StpBrgConfigGet db"
  by (auto simp: db_emit_def StpBrgConfigGet_def)

lemma db_ok_same:
  assumes "db_ok db" and "BridgeMapTable db' = BridgeMapTable db" "BridgeListTable db' = BridgeListTable db"
    "PortListTable db' = PortListTable db" "PortMapTable db' = PortMapTable db"
    "StpBrgConfigGet db' = StpBrgConfigGet db"
  shows "db_ok db'"
  using assms by (simp add: db_ok_def bridges_ok_def ports_ok_def attached_def configs_ok_def)

lemma db_ok_emit [simp]: "db_ok db \<Longrightarrow> db_ok (db_emit i xs db)"
  by (erule db_ok_same) simp_all

lemma db_ok_reselect [simp]: "db_ok db \<Longrightarrow> db_ok (send_reselect i db)"
  by (auto simp: send_reselect_def split: option.splits)

lemma db_ok_port_config [simp]:
  "db_ok db \<Longrightarrow> db_ok (StpPortConfigSave c u db)" "db_ok db \<Longrightarrow> db_ok (StpPortConfigDelete i db)"
  by (erule db_ok_same; simp add: StpPortConfigSave_def StpPortConfigDelete_def StpBrgConfigGet_def Let_def
      fun_eq_iff split: option.splits)+

lemma db_ok_each_port:
  assumes "db_ok db" and "\<And>k p. port_ok k p \<Longrightarrow> port_ok k (f p)"
  shows "db_ok (each_port b f db)"
  unfolding each_port_def by (rule fold_inv) (use assms in \<open>auto intro: db_ok_upd_dbport\<close>)

lemma NotifyPortEnabled_keeps:
  "port_ok k (fst (NotifyPortEnabled t p old new)) = port_ok k p"
  by (simp add: NotifyPortEnabled_def port_ok_def Let_def)

lemma db_ok_notify [simp]: "db_ok db \<Longrightarrow> db_ok (notify_enabled k old new db)"
  by (auto simp: notify_enabled_def Let_def case_prod_beta NotifyPortEnabled_keeps
      intro!: db_ok_emit db_ok_upd_dbport split: option.splits)

lemma db_ok_set_enabled [simp]: "db_ok db \<Longrightarrow> db_ok (set_enabled k v db)"
  by (rule db_ok_upd_dbport) (simp_all add: port_ok_def)

section \<open>The check of a bridge configuration\<close>

lemma one_le_word [simp]: "1 \<le> x \<longleftrightarrow> x \<noteq> 0" for x :: "'a::len word"
  by (metis leD leI word_less_1 word_not_simps(1))

definition brg_config_free :: "StpBridgeConfig \<Rightarrow> StpDb \<Rightarrow> bool" where
  "brg_config_free c db \<longleftrightarrow> bc_Vlan c = DEFAULT_STP_BRIDGE_VLAN
     \<or> (StpFindBridgeByIfIndex db (i32 (bc_Vlan c)) = None \<and> StpBrgConfigGet db (i32 (bc_Vlan c)) = None)"

lemma brg_check:
  "fst (StpBrgConfigParamCheck c create db) = Ok \<longleftrightarrow> config_ok c \<and> (create \<longrightarrow> brg_config_free c db)"
  "snd (StpBrgConfigParamCheck c create db) =
     (if fst (StpBrgConfigParamCheck c create db) = Ok then StpBrgConfigSave c db else db)"
  "fst (StpBrgConfigParamCheck c create db) \<noteq> Panic"
  by (auto simp: StpBrgConfigParamCheck_def config_ok_def brg_config_free_def not_less not_le)

lemma config_save [simp]:
  "BridgeMapTable (StpBrgConfigSave c db) = BridgeMapTable db"
  "BridgeListTable (StpBrgConfigSave c db) = BridgeListTable db"
  "PortListTable (StpBrgConfigSave c db) = PortListTable db" "PortMapTable (StpBrgConfigSave c db) = PortMapTable db"
  "StpBrgConfigGet (StpBrgConfigSave c db) k = (if k = i32 (bc_Vlan c) then Some c else StpBrgConfigGet db k)"
  by (auto simp: StpBrgConfigSave_def StpBrgConfigGet_def update_conv')

lemma db_ok_config_save: "db_ok db \<Longrightarrow> config_ok c \<Longrightarrow> db_ok (StpBrgConfigSave c db)"
  by (auto simp: db_ok_def bridges_ok_def ports_ok_def attached_def configs_ok_def)

section \<open>Every operation keeps the tables well formed\<close>

definition safe :: "Outcome \<times> StpDb \<Rightarrow> bool" where
  "safe r \<longleftrightarrow> fst r \<noteq> Panic \<and> db_ok (snd r)"

lemma safe_pair [simp]: "safe (e, db) \<longleftrightarrow> e \<noteq> Panic \<and> db_ok db"
  by (simp add: safe_def)

lemma safe_with_config:
  assumes "db_ok db" and "StpBrgConfigGet db bId = Some c"
    and "config_ok (f c) \<Longrightarrow> db_ok (StpBrgConfigSave (f c) db) \<Longrightarrow> db_ok (k (StpBrgConfigSave (f c) db))"
  shows "safe (with_config bId f k db)"
proof -
  obtain e db' where ch: "StpBrgConfigParamCheck (f c) False db = (e, db')" by fastforce
  then have "e = Ok \<longleftrightarrow> config_ok (f c)" "db' = (if e = Ok then StpBrgConfigSave (f c) db else db)" "e \<noteq> Panic"
    using brg_check [of "f c" False db] by simp_all
  then show ?thesis
    using assms ch db_ok_config_save [of db "f c"] by (cases e) (auto simp: with_config_def)
qed

lemma db_okE:
  assumes "db_ok db"
  obtains "bridges_ok db" "ports_ok db" "attached db" "configs_ok db"
  using assms by (simp add: db_ok_def)

lemma found_bridge:
  assumes "db_ok db" and "StpFindBridgeByIfIndex db i = Some b"
  shows "brgs db (Vlan b) = Some b" "i = i32 (Vlan b)" "bridge_ok (Vlan b) b"
    "\<exists>c. StpBrgConfigGet db i = Some c"
proof -
  show b: "brgs db (Vlan b) = Some b" and i: "i = i32 (Vlan b)"
    using assms find_bridge_iff [of db i b] by (simp_all add: db_ok_def)
  show "bridge_ok (Vlan b) b" using b assms(1) unfolding db_ok_def bridges_ok_def by blast
  show "\<exists>c. StpBrgConfigGet db i = Some c"
    using b i assms(1) unfolding db_ok_def configs_ok_def by (metis not_None_eq option.discI)
qed

lemma find_by_vlan:
  assumes "db_ok db" and "brgs db v = Some b"
  shows "StpFindBridgeByIfIndex db (i32 v) = Some b" "Vlan b = v"
proof -
  show v: "Vlan b = v" using assms unfolding db_ok_def bridges_ok_def bridge_ok_def by blast
  show "StpFindBridgeByIfIndex db (i32 v) = Some b"
    using assms find_bridge_iff [of db "i32 v" b] v by (simp add: db_ok_def)
qed

lemma and_vlan: "v AND 0xfff = v" if "v \<le> 4095" for v :: uint16
proof -
  have "v < 2 ^ 12" using that by (simp add: word_le_nat_alt word_less_nat_alt)
  then have "take_bit 12 v = v" by (metis less_mask_eq take_bit_eq_mask)
  then show ?thesis by (simp add: take_bit_eq_mask mask_eq_exp_minus_1)
qed

lemma vlan_of_new_id: "v \<le> 4095 \<Longrightarrow> GetBridgeVlanFromBridgeId (CreateBridgeId a prio v) = v"
proof -
  assume "v \<le> 4095"
  moreover have "GetBridgeVlanFromBridgeId (CreateBridgeId a prio v) = v AND 0xfff"
    by (simp add: GetBridgeVlanFromBridgeId_def CreateBridgeId_def, rule word_bits_eqI)
      (simp add: bits_eval, simp add: eval_nat_numeral)
  ultimately show ?thesis by (simp add: and_vlan)
qed

lemma tx_hold_range:
  assumes "1 \<le> sint (i32 x)" and "sint (i32 x) \<le> 10"
  shows "(ucast x :: uint64) \<noteq> 0" "(ucast x :: uint64) \<le> 10"
proof -
  have "uint x < 2 ^ 16" by (rule order_less_le_trans [OF uint_bounded]) simp
  then have "sint (i32 x) = uint x"
    unfolding i32_def signed_ucast_eq
    by (intro signed_take_bit_int_eq_self) (simp_all add: order_trans [of _ 0])
  then have u: "1 \<le> uint x" "uint x \<le> 10" using assms by simp_all
  have "int (unat x) = uint x" by simp
  with u have n: "1 \<le> unat x" "unat x \<le> 10" by linarith+
  have "unat (ucast x :: uint64) = unat x" using n by (simp add: unsigned_ucast_eq take_bit_nat_eq_self)
  then show "(ucast x :: uint64) \<noteq> 0" "(ucast x :: uint64) \<le> 10"
    using n by (auto simp: word_le_nat_alt)
qed

lemma tx_hold_signed:
  assumes "1 \<le> sint x" and "sint x \<le> 10"
  shows "(scast (x :: int32) :: uint64) \<noteq> 0" "(scast x :: uint64) \<le> 10"
proof -
  have "sint (scast x :: uint64) = sint x"
    using assms by (simp add: signed_scast_eq signed_take_bit_int_eq_self)
  then have "uint (scast x :: uint64) = sint x"
    using assms by (simp add: uint_sint take_bit_int_eq_self)
  then show "(scast x :: uint64) \<noteq> 0" "(scast x :: uint64) \<le> 10"
    using assms by (auto simp: word_le_def)
qed

lemma bridge_ok_times:
  assumes "bridge_ok v b" and "times_ok t"
  shows "bridge_ok v (b\<lparr>BridgeTimes := t\<rparr>)" "bridge_ok v (b\<lparr>RootTimes := t'\<rparr>)"
  using assms by (simp_all add: bridge_ok_def)

lemma safe_set_time:
  assumes "db_ok db"
    and "\<And>c t. config_ok c \<Longrightarrow> config_ok (fc c) \<Longrightarrow> times_ok t \<Longrightarrow> times_ok (ft t)"
  shows "safe (set_time bId fc ft db)"
proof (cases "StpFindBridgeByIfIndex db bId")
  case None
  then show ?thesis using assms(1) by (simp add: set_time_def)
next
  case (Some b)
  then obtain c where c: "StpBrgConfigGet db bId = Some c" using found_bridge(4) [OF assms(1) Some] by blast
  then have cok: "config_ok c" using assms(1) unfolding db_ok_def configs_ok_def by blast
  have "db_ok ((\<lambda>db. let db = upd_bridge (Vlan b) (\<lambda>b. b\<lparr>BridgeTimes := ft (BridgeTimes b)\<rparr>) db
                  in if RootPortId b = 0
                     then each_port b (\<lambda>p. p\<lparr>PortTimes := ft (PortTimes p)\<rparr>)
                            (upd_bridge (Vlan b) (\<lambda>b. b\<lparr>RootTimes := ft (RootTimes b)\<rparr>) db)
                     else db) d)"
    if "db_ok d" "config_ok (fc c)" for d
  proof -
    have "db_ok (upd_bridge (Vlan b) (\<lambda>b. b\<lparr>BridgeTimes := ft (BridgeTimes b)\<rparr>) d)"
      using that by (intro db_ok_upd_bridge) (auto simp: bridge_ok_def assms(2) [OF cok that(2)])
    moreover have "db_ok (each_port b (\<lambda>p. p\<lparr>PortTimes := ft (PortTimes p)\<rparr>)
        (upd_bridge (Vlan b) (\<lambda>b. b\<lparr>RootTimes := ft (RootTimes b)\<rparr>)
          (upd_bridge (Vlan b) (\<lambda>b. b\<lparr>BridgeTimes := ft (BridgeTimes b)\<rparr>) d)))"
      using that by (intro db_ok_each_port db_ok_upd_bridge)
        (auto simp: bridge_ok_def port_ok_def assms(2) [OF cok that(2)])
    ultimately show ?thesis by (simp add: Let_def)
  qed
  then show ?thesis
    using safe_with_config [OF assms(1) c] Some by (simp add: set_time_def)
qed

lemma safe_time_setters:
  assumes "db_ok db"
  shows "safe (StpBrgForwardDelaySet bId x db)" "safe (StpBrgHelloTimeSet bId x db)" "safe (StpBrgMaxAgeSet bId x db)"
  using assms by (auto simp: StpBrgForwardDelaySet_def StpBrgHelloTimeSet_def StpBrgMaxAgeSet_def
      times_ok_def config_ok_def intro!: safe_set_time)

lemma safe_TxHoldCountSet:
  assumes "db_ok db"
  shows "safe (StpBrgTxHoldCountSet bId x db)"
proof (cases "StpFindBridgeByIfIndex db bId")
  case None
  then show ?thesis using assms by (simp add: StpBrgTxHoldCountSet_def)
next
  case (Some b)
  then obtain c where c: "StpBrgConfigGet db bId = Some c" using found_bridge(4) [OF assms Some] by blast
  have "db_ok (upd_bridge (Vlan b) (\<lambda>b. b\<lparr>TxHoldCount := ucast x\<rparr>) d)"
    if "db_ok d" "config_ok (c\<lparr>bc_TxHoldCount := i32 x\<rparr>)" for d
    using that tx_hold_range [of x] by (intro db_ok_upd_bridge) (auto simp: bridge_ok_def config_ok_def)
  then show ?thesis
    using safe_with_config [OF assms c] Some by (simp add: StpBrgTxHoldCountSet_def)
qed

lemma safe_BrgPrioritySet:
  assumes "db_ok db"
  shows "safe (StpBrgPrioritySet bId x db)"
proof (cases "StpFindBridgeByIfIndex db bId")
  case None
  then show ?thesis using assms by (simp add: StpBrgPrioritySet_def)
next
  case (Some b)
  then obtain c where c: "StpBrgConfigGet db bId = Some c" using found_bridge(4) [OF assms Some] by blast
  have bok: "bridge_ok (Vlan b) b" using found_bridge(3) [OF assms Some] .
  let ?nid = "CreateBridgeId (GetBridgeAddrFromBridgeId (BridgeIdentifier b)) x
      (GetBridgeVlanFromBridgeId (BridgeIdentifier b))"
  have nid: "GetBridgeVlanFromBridgeId ?nid = Vlan b"
    using bok by (simp add: bridge_ok_def vlan_of_new_id)
  have "db_ok (send_reselect bId (each_port b (\<lambda>p. p\<lparr>Selected := False, Reselect := True\<rparr>)
      (upd_bridge (Vlan b) (\<lambda>b. b\<lparr>BridgeIdentifier := ?nid,
         BridgePriority := (BridgePriority b)\<lparr>DesignatedBridgeId := ?nid\<rparr>\<rparr>) d)))"
    if "db_ok d" for d
    using that nid by (intro db_ok_reselect db_ok_each_port db_ok_upd_bridge) (auto simp: bridge_ok_def port_ok_def)
  then show ?thesis
    using safe_with_config [OF assms c] Some assms by (simp add: StpBrgPrioritySet_def Let_def)
qed

lemma db_ok_begin_port_restart: "db_ok db \<Longrightarrow> db_ok (BEGIN_port True k db)"
  by (simp add: BEGIN_port_def split: option.splits)

lemma safe_ForceVersion:
  assumes "db_ok db"
  shows "safe (StpBrgForceVersion bId x db)"
proof (cases "StpFindBridgeByIfIndex db bId")
  case None
  then show ?thesis using assms by (simp add: StpBrgForceVersion_def)
next
  case (Some b)
  then obtain c where c: "StpBrgConfigGet db bId = Some c" using found_bridge(4) [OF assms Some] by blast
  have "db_ok (fold (\<lambda>pId db. BEGIN_port True (pId, BrgIfIndex b)
        (upd_dbport (pId, BrgIfIndex b) (\<lambda>p. p\<lparr>RstpVersion := (x \<noteq> 1)\<rparr>) db))
      (StpPorts b) (upd_bridge (Vlan b) (\<lambda>b. b\<lparr>ForceVersion := x\<rparr>) d))"
    if "db_ok d" for d
  proof (rule fold_inv [where P = db_ok])
    show "db_ok (upd_bridge (Vlan b) (\<lambda>b. b\<lparr>ForceVersion := x\<rparr>) d)"
      using that by (intro db_ok_upd_bridge) (auto simp: bridge_ok_def)
  qed (intro db_ok_begin_port_restart db_ok_upd_dbport, auto simp: port_ok_def)
  then show ?thesis
    using safe_with_config [OF assms c] Some assms by (simp add: StpBrgForceVersion_def)
qed

lemma port_of_key:
  assumes "db_ok db" and "PortMapTable db k = Some p"
  shows "port_ok k p"
  using assms unfolding db_ok_def ports_ok_def by blast

lemma safe_port_setters:
  assumes "db_ok db"
  shows "safe (StpPortPrioritySet i bi prio db)" "safe (StpPortPortPathCostSet i bi cost db)"
    "safe (StpPortAdminEdgeSet i bi v db)" "safe (StpPortProtocolMigrationSet i bi v db)"
    "safe (StpPortBpduGuardSet i bi v db)" "safe (StpPortBridgeAssuranceSet i bi v db)"
    "safe (StpPortEnable env i bi v db)"
proof -
  note d = db_ok_reselect db_ok_emit db_ok_notify db_ok_upd_dbport
  show "safe (StpPortPrioritySet i bi prio db)"
    using assms by (auto simp: StpPortPrioritySet_def port_ok_def intro!: d split: option.splits)
  show "safe (StpPortPortPathCostSet i bi cost db)"
    using assms by (simp add: StpPortPortPathCostSet_def)
  show "safe (StpPortAdminEdgeSet i bi v db)"
    using assms port_of_key [OF assms, of "(i, bi)"]
    by (auto simp: StpPortAdminEdgeSet_def port_ok_def Let_def intro!: d split: option.splits)
  show "safe (StpPortProtocolMigrationSet i bi v db)"
    using assms port_of_key [OF assms, of "(i, bi)"]
    by (auto simp: StpPortProtocolMigrationSet_def port_ok_def intro!: d split: option.splits)
  show "safe (StpPortBpduGuardSet i bi v db)"
    using assms by (auto simp: StpPortBpduGuardSet_def port_ok_def intro!: d split: option.splits)
  show "safe (StpPortBridgeAssuranceSet i bi v db)"
    using assms by (auto simp: StpPortBridgeAssuranceSet_def port_ok_def Let_def intro!: d split: option.splits)
  show "safe (StpPortEnable env i bi v db)"
    using assms by (auto simp: StpPortEnable_def Let_def port_ok_def intro!: d split: option.splits)
qed

lemma db_ok_link:
  assumes "db_ok db"
  shows "db_ok (StpPortLinkUp env i db)" "db_ok (StpPortLinkDown i db)"
proof -
  have up: "db_ok (fold (\<lambda>k db'. (if admin_up k db then set_enabled k True else (\<lambda>x. x)) (upd_dbport k (CreateRxTx env) db'))
      ks d)" if "db_ok d" for ks d
    by (rule fold_inv [where P = db_ok, OF that])
      (auto simp: CreateRxTx_def port_ok_def intro!: db_ok_upd_dbport)
  show "db_ok (StpPortLinkUp env i db)"
    unfolding StpPortLinkUp_def by (rule fold_inv [where P = db_ok, OF up [OF assms]]) simp
  have down: "db_ok (fold (\<lambda>k db'. set_enabled k False (upd_dbport k DeleteRxTx db')) ks d)" if "db_ok d" for ks d
    by (rule fold_inv [where P = db_ok, OF that])
      (auto simp: DeleteRxTx_def port_ok_def intro!: db_ok_upd_dbport)
  show "db_ok (StpPortLinkDown i db)"
    unfolding StpPortLinkDown_def by (rule fold_inv [where P = db_ok, OF down [OF assms]]) simp
qed

section \<open>Creation and deletion\<close>

lemma db_ok_attach:
  assumes ok: "db_ok db" and b: "brgs db v = Some b" and new: "PortMapTable db (i, i32 v) = None"
    and p: "port_ok (i, i32 v) p"
  shows "db_ok (upd_bridge v (\<lambda>b. b\<lparr>StpPorts := StpPorts b @ [i]\<rparr>) (add_port (i, i32 v) p db))" (is "db_ok ?d")
proof -
  have notin: "i \<notin> set (StpPorts b)"
    using ok b new unfolding db_ok_def attached_def dom_def by blast
  have br: "brgs ?d w = (if w = v then Some (b\<lparr>StpPorts := StpPorts b @ [i]\<rparr>) else brgs db w)" for w
    using b by (simp add: brgs_upd_bridge add_port_def)
  have "bridge_ok v b" using ok b unfolding db_ok_def bridges_ok_def by blast
  then have "bridge_ok v (b\<lparr>StpPorts := StpPorts b @ [i]\<rparr>)" using notin by (simp add: bridge_ok_def)
  moreover have "dom (brgs ?d) = dom (brgs db)" by (simp add: add_port_def)
  ultimately have "bridges_ok ?d"
    using ok unfolding db_ok_def bridges_ok_def br by (simp add: add_port_def)
  moreover have "ports_ok ?d"
    using ok new p unfolding db_ok_def ports_ok_def by (auto simp: add_port_def split: if_splits)
  moreover have "attached ?d"
    using ok b unfolding db_ok_def attached_def br by (auto simp: add_port_def split: if_splits)
  moreover have "configs_ok ?d"
    using ok unfolding db_ok_def configs_ok_def br by (auto simp: add_port_def StpBrgConfigGet_def b)
  ultimately show ?thesis by (simp add: db_ok_def)
qed

lemma add_port_updates:
  "upd_dbport k f (upd_bridge v g (upd_dbport k h (add_port k p db))) = upd_bridge v g (add_port k (f (h p)) db)"
  by (simp add: upd_dbport_def upd_bridge_def add_port_def)

lemma db_ok_AddToBridge:
  assumes ok: "db_ok db" and b: "brgs db v = Some b" and new: "PortMapTable db (i, i32 v) = None"
    and p: "IfIndex p = i" "PortBrgIfIndex p = i32 v"
  shows "db_ok (StpPortAddToBridge i (i32 v) (add_port (i, i32 v) p db))"
proof -
  let ?k = "(i, i32 v)"
  let ?d = "add_port ?k p db"
  have f: "StpFindBridgeByIfIndex ?d (i32 v) = Some b" "Vlan b = v"
    using find_by_vlan [OF ok b] by (simp_all add: StpFindBridgeByIfIndex_def add_port_def)
  have l: "PortMapTable ?d ?k = Some p" by (simp add: add_port_def)
  have "db_ok (upd_dbport ?k begin_machines (upd_bridge v (\<lambda>b. b\<lparr>StpPorts := StpPorts b @ [i]\<rparr>)
      (upd_dbport ?k (\<lambda>p. p\<lparr>PortBridgeId := BridgeIdentifier b\<rparr>) ?d)))"
    unfolding add_port_updates
    by (rule db_ok_attach [OF ok b new]) (simp add: port_ok_def p begin_machines_def Start_def new_machine_def SetState_def)
  then show ?thesis
    using f l by (simp add: StpPortAddToBridge_def BEGIN_port_def Let_def split: option.splits)
qed

lemma NewStpPort_key [simp]:
  "IfIndex (NewStpPort env b c) = pc_IfIndex c" "PortBrgIfIndex (NewStpPort env b c) = pc_BrgIfIndex c"
  by (simp_all add: NewStpPort_def Let_def CreateRxTx_def)

lemma safe_PortCreate:
  assumes "db_ok db"
  shows "safe (StpPortCreate env c db)"
proof (cases "PortMapTable db (pc_IfIndex c, pc_BrgIfIndex c)")
  case (Some p)
  then show ?thesis using assms by (simp add: StpPortCreate_def)
next
  case new: None
  let ?d = "StpPortConfigSave c False db"
  have d: "db_ok ?d" using assms by simp
  have same: "PortMapTable ?d = PortMapTable db"
    by (simp add: StpPortConfigSave_def Let_def split: option.splits)
  show ?thesis
  proof (cases "StpFindBridgeByIfIndex ?d (pc_BrgIfIndex c)")
    case None
    then show ?thesis using d new by (simp add: StpPortCreate_def)
  next
    case (Some b)
    note fb = found_bridge [OF d Some]
    have "BrgIfIndex b = pc_BrgIfIndex c" using fb(2,3) by (simp add: bridge_ok_def)
    then show ?thesis
      using db_ok_AddToBridge [OF d fb(1), of "pc_IfIndex c" "NewStpPort env b c"] new Some fb(2)
      by (simp add: StpPortCreate_def same)
  qed
qed

lemma db_ok_detach:
  assumes ok: "db_ok db" and b: "brgs db v = Some b"
  shows "db_ok (DelStpPort (i, i32 v) (upd_bridge v (\<lambda>b. b\<lparr>StpPorts := remove1 i (StpPorts b)\<rparr>) db))" (is "db_ok ?d")
proof -
  have br: "brgs ?d w = (if w = v then Some (b\<lparr>StpPorts := remove1 i (StpPorts b)\<rparr>) else brgs db w)" for w
    using b by (simp add: brgs_upd_bridge DelStpPort_def)
  have bok: "bridge_ok v b" using ok b unfolding db_ok_def bridges_ok_def by blast
  then have "bridge_ok v (b\<lparr>StpPorts := remove1 i (StpPorts b)\<rparr>)" by (simp add: bridge_ok_def)
  moreover have "dom (brgs ?d) = dom (brgs db)" by (simp add: DelStpPort_def)
  ultimately have "bridges_ok ?d"
    using ok unfolding db_ok_def bridges_ok_def br by (simp add: DelStpPort_def)
  moreover have "ports_ok ?d"
    using ok unfolding db_ok_def ports_ok_def by (auto simp: DelStpPort_def split: if_splits)
  moreover have "attached ?d"
    using ok b bok unfolding db_ok_def attached_def br
    by (auto simp: DelStpPort_def bridge_ok_def split: if_splits)
  moreover have "configs_ok ?d"
    using ok unfolding db_ok_def configs_ok_def br by (auto simp: DelStpPort_def upd_bridge_def StpBrgConfigGet_def b)
  ultimately show ?thesis by (simp add: db_ok_def)
qed

lemma notify_rest [simp]: "BridgeMapTable (notify_enabled k old new db) = BridgeMapTable db"
  by (simp add: notify_enabled_def Let_def case_prod_beta split: option.splits)

lemma safe_PortDelete:
  assumes "db_ok db"
  shows "safe (StpPortDelete c db)"
proof (cases "PortMapTable db (pc_IfIndex c, pc_BrgIfIndex c)")
  case None
  then show ?thesis using assms by (simp add: StpPortDelete_def)
next
  case (Some p)
  let ?k = "(pc_IfIndex c, pc_BrgIfIndex c)"
  have key: "IfIndex p = pc_IfIndex c" "PortBrgIfIndex p = pc_BrgIfIndex c"
    using port_of_key [OF assms Some] by (simp_all add: port_ok_def)
  obtain v b where b: "brgs db v = Some b" and v: "pc_BrgIfIndex c = i32 v"
    using assms Some unfolding db_ok_def attached_def by blast
  note fb = find_by_vlan [OF assms b]
  let ?d = "set_enabled ?k False (notify_enabled ?k (PortEnabled p) False db)"
  have "db_ok (DelStpPort ?k (upd_bridge v (\<lambda>b. b\<lparr>StpPorts := remove1 (pc_IfIndex c) (StpPorts b)\<rparr>) ?d))"
    using db_ok_detach [of ?d v b "pc_IfIndex c"] assms b by (simp add: v)
  then show ?thesis
    using Some fb by (simp add: StpPortDelete_def StpPortDelFromBridge_def key v)
qed

lemma NewStpBridge_ok: "config_ok c \<Longrightarrow> bridge_ok (bc_Vlan c) (NewStpBridge env c)"
  by (auto simp: bridge_ok_def NewStpBridge_def Let_def config_ok_def times_ok_def vlan_of_new_id zero_bridge_def
      tx_hold_signed)

lemma NewStpBridge_ports [simp]: "StpPorts (NewStpBridge env c) = []" "Vlan (NewStpBridge env c) = bc_Vlan c"
  by (simp_all add: NewStpBridge_def Let_def zero_bridge_def)

lemma db_ok_BEGIN_bridge: "db_ok db \<Longrightarrow> db_ok (BEGIN_bridge restart v db)"
  by (auto simp: BEGIN_bridge_def Let_def bridge_ok_def PrsMachineFSMBuild_def
      intro!: db_ok_upd_bridge db_ok_emit split: option.splits)

lemma safe_BridgeCreate:
  assumes ok: "db_ok db" and c: "config_ok c" "StpBrgConfigGet db (i32 (bc_Vlan c)) \<noteq> None"
  shows "safe (StpBridgeCreate env c db)"
proof (cases "brgs db (bc_Vlan c)")
  case (Some b)
  then show ?thesis using ok by (simp add: StpBridgeCreate_def StpFindBridgeById_def)
next
  case None
  let ?b = "NewStpBridge env c"
  let ?d = "add_bridge ?b db"
  have br: "brgs ?d = (brgs db)(bc_Vlan c \<mapsto> ?b)" by (simp add: add_bridge_def update_conv')
  have "bridges_ok ?d"
    using ok NewStpBridge_ok [OF c(1)] None unfolding db_ok_def bridges_ok_def br
    by (auto simp: add_bridge_def distinct_update)
  moreover have "(\<exists>v b. brgs ?d v = Some b \<and> bi = i32 v \<and> i \<in> set (StpPorts b)) =
      (\<exists>v b. brgs db v = Some b \<and> bi = i32 v \<and> i \<in> set (StpPorts b))" for i bi
    unfolding br using None
    by (metis (no_types, lifting) NewStpBridge_ports(1) empty_iff fun_upd_apply list.set(1) option.distinct(1) option.inject)
  then have "attached ?d"
    using ok unfolding db_ok_def attached_def by (simp add: add_bridge_def)
  moreover have "ports_ok ?d" using ok unfolding db_ok_def ports_ok_def by (simp add: add_bridge_def)
  moreover have "configs_ok ?d"
    using ok c(2) unfolding db_ok_def configs_ok_def br by (auto simp: add_bridge_def StpBrgConfigGet_def)
  ultimately have "db_ok ?d" by (simp add: db_ok_def)
  then show ?thesis
    using None by (simp add: StpBridgeCreate_def StpFindBridgeById_def db_ok_BEGIN_bridge)
qed


text \<open>Deleting a bridge deletes the ports it lists, which are all of its ports.\<close>

lemma del_ports_rest [simp]:
  "BridgeMapTable (del_ports bi ids db) = BridgeMapTable db"
  "BridgeListTable (del_ports bi ids db) = BridgeListTable db"
  "StpBridgeConfigMap (del_ports bi ids db) = StpBridgeConfigMap db"
  unfolding del_ports_def by (induction ids arbitrary: db) (simp_all add: DelStpPort_def split: option.splits)

lemma del_ports_map:
  "PortMapTable (del_ports bi ids db) k = (if snd k = bi \<and> fst k \<in> set ids then None else PortMapTable db k)"
  unfolding del_ports_def
  by (induction ids arbitrary: db) (auto simp: DelStpPort_def split: option.splits)

lemma del_ports_list:
  assumes "distinct (PortListTable db)" and "set (PortListTable db) = dom (PortMapTable db)"
  shows "distinct (PortListTable (del_ports bi ids db))
    \<and> set (PortListTable (del_ports bi ids db)) = dom (PortMapTable (del_ports bi ids db))"
  unfolding del_ports_def
  by (rule fold_inv [where P = "\<lambda>d. distinct (PortListTable d) \<and> set (PortListTable d) = dom (PortMapTable d)"])
    (use assms in \<open>auto simp: DelStpPort_def split: option.splits\<close>)

lemma config_delete [simp]:
  "BridgeMapTable (snd (StpBrgConfigDelete k db)) = BridgeMapTable db"
  "BridgeListTable (snd (StpBrgConfigDelete k db)) = BridgeListTable db"
  "PortListTable (snd (StpBrgConfigDelete k db)) = PortListTable db"
  "PortMapTable (snd (StpBrgConfigDelete k db)) = PortMapTable db"
  "StpBrgConfigGet (snd (StpBrgConfigDelete k db)) j = (if j = k then None else StpBrgConfigGet db j)"
  by (auto simp: StpBrgConfigDelete_def StpBrgConfigGet_def delete_conv')

lemma db_ok_config_delete:
  assumes "db_ok db" and "brgs db v = None"
  shows "db_ok (snd (StpBrgConfigDelete (i32 v) db))"
proof -
  have "configs_ok (snd (StpBrgConfigDelete (i32 v) db))"
    using assms unfolding db_ok_def configs_ok_def config_delete by (metis i32_inj option.distinct(1))
  then show ?thesis using assms(1) by (simp add: db_ok_def bridges_ok_def ports_ok_def attached_def)
qed

lemma safe_BridgeDelete:
  assumes ok: "db_ok db"
  shows "safe (StpBridgeDelete env c db)"
proof (cases "brgs db (bc_Vlan c)")
  case None
  then show ?thesis using ok by (simp add: StpBridgeDelete_def StpFindBridgeById_def)
next
  case (Some b)
  let ?v = "bc_Vlan c"
  have bok: "bridge_ok w b'" if "brgs db w = Some b'" for w b'
    using ok that unfolding db_ok_def bridges_ok_def by blast
  have vb: "Vlan b = ?v" "BrgIfIndex b = i32 ?v" using bok [OF Some] by (simp_all add: bridge_ok_def)
  have same: "map_option BridgeIdentifier (brgs db w) = Some (BridgeIdentifier b) \<longleftrightarrow> w = ?v" for w
    using bok [OF Some] bok [of w] Some by (auto simp: bridge_ok_def)
  let ?d = "DelStpBridge env b True db"
  have br: "brgs ?d w = (if w = ?v then None else brgs db w)" for w
    by (simp add: DelStpBridge_def del_from_list_def Let_def vb delete_conv')
  have pm: "PortMapTable ?d k = (if snd k = i32 ?v \<and> fst k \<in> set (StpPorts b) then None else PortMapTable db k)" for k
    by (simp add: DelStpBridge_def del_from_list_def Let_def vb del_ports_map)
  have pl: "PortListTable ?d = PortListTable (del_ports (i32 ?v) (StpPorts b) db)"
    by (simp add: DelStpBridge_def del_from_list_def Let_def vb)
  have bl: "BridgeListTable ?d = filter (\<lambda>w. w \<noteq> ?v) (BridgeListTable db)"
    unfolding DelStpBridge_def del_from_list_def Let_def del_ports_rest if_True same by (simp add: vb)
  have bm: "BridgeMapTable ?d = AList.delete ?v (BridgeMapTable db)"
    by (simp add: DelStpBridge_def del_from_list_def Let_def vb)
  have cm: "StpBridgeConfigMap ?d = StpBridgeConfigMap db"
    by (simp add: DelStpBridge_def del_from_list_def Let_def vb)
  have "bridges_ok ?d"
    using ok unfolding db_ok_def bridges_ok_def br bl by (auto simp: bm distinct_delete split: if_splits)
  moreover have "ports_ok ?d"
  proof -
    have "dom (PortMapTable ?d) = dom (PortMapTable (del_ports (i32 ?v) (StpPorts b) db))"
      by (auto simp: dom_def pm del_ports_map)
    then show ?thesis
      using ok del_ports_list [of db "i32 ?v" "StpPorts b"] unfolding db_ok_def ports_ok_def pl pm by auto
  qed
  moreover have "attached ?d"
    unfolding attached_def
  proof (intro allI)
    fix i bi
    have "(i, bi) \<in> dom (PortMapTable db) \<longleftrightarrow> (\<exists>w b'. brgs db w = Some b' \<and> bi = i32 w \<and> i \<in> set (StpPorts b'))"
      using ok unfolding db_ok_def attached_def by blast
    moreover have "(\<exists>w b'. brgs ?d w = Some b' \<and> bi = i32 w \<and> i \<in> set (StpPorts b')) \<longleftrightarrow>
        (\<exists>w b'. w \<noteq> ?v \<and> brgs db w = Some b' \<and> bi = i32 w \<and> i \<in> set (StpPorts b'))"
      by (metis br option.distinct(1))
    moreover have "(i, bi) \<in> dom (PortMapTable ?d) \<longleftrightarrow>
        (i, bi) \<in> dom (PortMapTable db) \<and> \<not> (bi = i32 ?v \<and> i \<in> set (StpPorts b))"
      by (auto simp: dom_def pm)
    ultimately show "(i, bi) \<in> dom (PortMapTable ?d) \<longleftrightarrow>
        (\<exists>w b'. brgs ?d w = Some b' \<and> bi = i32 w \<and> i \<in> set (StpPorts b'))"
      using Some by (metis i32_inj option.inject)
  qed
  moreover have "configs_ok ?d"
    using ok unfolding db_ok_def configs_ok_def br by (auto simp: StpBrgConfigGet_def cm split: if_splits)
  ultimately have d: "db_ok ?d" by (simp add: db_ok_def)
  from d have "db_ok (snd (StpBrgConfigDelete (i32 ?v) ?d))" by (rule db_ok_config_delete) (simp add: br)
  with d show ?thesis
    using Some by (simp add: StpBridgeDelete_def StpFindBridgeById_def Let_def)
qed


end
