(* ===== verification/Stp_Server.thy ===== *)
theory Stp_Server
  imports Stp_Config
begin

text \<open>
  The management side: the request handlers of \<open>l2/stp/rpc/stphandler.go\<close> and the server
  goroutine of \<open>l2/stp/server/server.go\<close>.  A request is converted, checked against the
  tables and turned into messages; the server takes the messages from an unbuffered
  channel, one after the other, and calls \<open>Stp_Config\<close>.  The request objects are generated
  code: their numbers are integers of whatever width, and the names of their fields, which
  the update handlers read by reflection, are a parameter.  \<open>GetIfIndexFromIntfRef\<close> is a
  parameter as well.
\<close>

section \<open>Requests\<close>

record StpBridgeInstance =
  t_Vlan :: int
  t_Address :: string
  t_Priority :: int
  t_MaxAge :: int
  t_HelloTime :: int
  t_ForwardDelay :: int
  t_ForceVersion :: int
  t_TxHoldCount :: int

record StpPortObj =
  t_pVlan :: int
  t_IntfRef :: string
  t_pPriority :: int
  t_AdminState :: string
  t_PathCost :: int
  t_ProtocolMigration :: int
  t_AdminPointToPoint :: int
  t_AdminEdgePort :: int
  t_AdminPathCost :: int
  t_BridgeAssurance :: int
  t_BpduGuard :: int
  t_BpduGuardInterval :: int

text \<open>The fields \<open>IfIndex\<close> and \<open>DebugLevel\<close> are not set: they keep the zero value.\<close>

definition ConvertThriftBrgConfigToStpBrgConfig :: "StpBridgeInstance \<Rightarrow> StpBridgeConfig" where
  "ConvertThriftBrgConfigToStpBrgConfig config =
     \<lparr>bc_IfIndex = 0, bc_Address = t_Address config, bc_Priority = word_of_int (t_Priority config),
      bc_MaxAge = word_of_int (t_MaxAge config), bc_HelloTime = word_of_int (t_HelloTime config),
      bc_ForwardDelay = word_of_int (t_ForwardDelay config),
      bc_ForceVersion = word_of_int (t_ForceVersion config),
      bc_TxHoldCount = word_of_int (t_TxHoldCount config), bc_Vlan = word_of_int (t_Vlan config),
      bc_DebugLevel = 0\<rparr>"

definition ConvertInt32ToBool :: "int \<Rightarrow> bool" where
  "ConvertInt32ToBool val = (if val = 2 then False else True)"

definition ConvertBoolToInt32 :: "bool \<Rightarrow> int" where
  "ConvertBoolToInt32 val = (if val then 1 else 2)"

definition ConvertThriftPortConfigToStpPortConfig ::
  "(string \<Rightarrow> int32) \<Rightarrow> StpPortObj \<Rightarrow> StpPortConfig" where
  "ConvertThriftPortConfigToStpPortConfig intfRef config =
     \<lparr>pc_IfIndex = intfRef (t_IntfRef config), pc_Priority = word_of_int (t_pPriority config),
      pc_Enable = (t_AdminState config = ''UP''), pc_PathCost = word_of_int (t_PathCost config),
      pc_ProtocolMigration = word_of_int (t_ProtocolMigration config),
      pc_AdminPointToPoint = word_of_int (t_AdminPointToPoint config),
      pc_AdminEdgePort = ConvertInt32ToBool (t_AdminEdgePort config),
      pc_AdminPathCost = word_of_int (t_AdminPathCost config),
      pc_BrgIfIndex = word_of_int (t_pVlan config),
      pc_BridgeAssurance = ConvertInt32ToBool (t_BridgeAssurance config),
      pc_BpduGuard = ConvertInt32ToBool (t_BpduGuard config),
      pc_BpduGuardInterval = word_of_int (t_BpduGuardInterval config)\<rparr>"

text \<open>The port state of the management model.\<close>

definition GetPortState :: "StpPort \<Rightarrow> int" where
  "GetPortState p =
     (if \<not> PortEnabled p then 1 else if Forwarding p then 5 else if Learning p then 4
      else if PortEnabled p \<and> \<not> Learning p \<and> \<not> Forwarding p then 2 else 0)"

section \<open>The server\<close>

datatype STPConfigMsgType =
    STPConfigMsgCreateBridge | STPConfigMsgDeleteBridge | STPConfigMsgUpdateBridgeMaxAge
  | STPConfigMsgUpdateBridgeHelloTime | STPConfigMsgUpdateBridgeForwardDelay
  | STPConfigMsgUpdateBridgeTxHoldCount | STPConfigMsgUpdateBridgePriority
  | STPConfigMsgUpdateBridgeForceVersion | STPConfigMsgUpdateBridgeDebugLevel
  | STPConfigMsgCreatePort | STPConfigMsgDeletePort | STPConfigMsgUpdatePortPriority
  | STPConfigMsgUpdatePortEnable | STPConfigMsgUpdatePortPathCost
  | STPConfigMsgUpdatePortProtocolMigration | STPConfigMsgUpdatePortAdminPointToPoint
  | STPConfigMsgUpdatePortAdminEdge | STPConfigMsgUpdatePortAdminPathCost
  | STPConfigMsgUpdatePortBpduGuard | STPConfigMsgUpdatePortBridgeAssurance
  | STPConfigMsgGlobalEnable | STPConfigMsgGlobalDisable

text \<open>\<open>Msgdata\<close> is an interface value; a failed type assertion panics.\<close>

datatype Msgdata = BrgData StpBridgeConfig | PortData StpPortConfig | PortObjData StpPortObj

type_synonym STPConfig = "STPConfigMsgType \<times> Msgdata"

definition on_brg :: "Msgdata \<Rightarrow> (StpBridgeConfig \<Rightarrow> StpDb \<Rightarrow> Outcome \<times> StpDb) \<Rightarrow> StpDb \<Rightarrow> Outcome \<times> StpDb" where
  "on_brg d f db = (case d of BrgData c \<Rightarrow> f c db | _ \<Rightarrow> (Panic, db))"

definition on_port :: "Msgdata \<Rightarrow> (StpPortConfig \<Rightarrow> StpDb \<Rightarrow> Outcome \<times> StpDb) \<Rightarrow> StpDb \<Rightarrow> Outcome \<times> StpDb" where
  "on_port d f db = (case d of PortData c \<Rightarrow> f c db | _ \<Rightarrow> (Panic, db))"

fun processStpConfig :: "Env \<Rightarrow> STPConfig \<Rightarrow> StpDb \<Rightarrow> Outcome \<times> StpDb" where
  "processStpConfig env (STPConfigMsgCreateBridge, d) db = on_brg d (StpBridgeCreate env) db"
| "processStpConfig env (STPConfigMsgDeleteBridge, d) db = on_brg d (StpBridgeDelete env) db"
| "processStpConfig env (STPConfigMsgUpdateBridgeMaxAge, d) db =
     on_brg d (\<lambda>c. StpBrgMaxAgeSet (bc_IfIndex c) (bc_MaxAge c)) db"
| "processStpConfig env (STPConfigMsgUpdateBridgeHelloTime, d) db =
     on_brg d (\<lambda>c. StpBrgHelloTimeSet (bc_IfIndex c) (bc_HelloTime c)) db"
| "processStpConfig env (STPConfigMsgUpdateBridgeForwardDelay, d) db =
     on_brg d (\<lambda>c. StpBrgForwardDelaySet (bc_IfIndex c) (bc_ForwardDelay c)) db"
| "processStpConfig env (STPConfigMsgUpdateBridgeTxHoldCount, d) db =
     on_brg d (\<lambda>c. StpBrgTxHoldCountSet (bc_IfIndex c) (ucast (bc_TxHoldCount c))) db"
| "processStpConfig env (STPConfigMsgUpdateBridgePriority, d) db =
     on_brg d (\<lambda>c. StpBrgPrioritySet (bc_IfIndex c) (bc_Priority c)) db"
| "processStpConfig env (STPConfigMsgUpdateBridgeForceVersion, d) db =
     on_brg d (\<lambda>c. StpBrgForceVersion (bc_IfIndex c) (bc_ForceVersion c)) db"
| "processStpConfig env (STPConfigMsgCreatePort, d) db = on_port d (StpPortCreate env) db"
| "processStpConfig env (STPConfigMsgDeletePort, d) db = on_port d StpPortDelete db"
| "processStpConfig env (STPConfigMsgUpdatePortPriority, d) db =
     on_port d (\<lambda>c. StpPortPrioritySet (pc_IfIndex c) (pc_BrgIfIndex c) (pc_Priority c)) db"
| "processStpConfig env (STPConfigMsgUpdatePortEnable, d) db =
     on_port d (\<lambda>c. StpPortEnable env (pc_IfIndex c) (pc_BrgIfIndex c) (pc_Enable c)) db"
| "processStpConfig env (STPConfigMsgUpdatePortPathCost, d) db =
     on_port d (\<lambda>c. StpPortPortPathCostSet (pc_IfIndex c) (pc_BrgIfIndex c) (ucast (pc_PathCost c))) db"
| "processStpConfig env (STPConfigMsgUpdatePortProtocolMigration, d) db =
     on_port d (\<lambda>c. StpPortProtocolMigrationSet (pc_IfIndex c) (pc_BrgIfIndex c) (pc_ProtocolMigration c = 1)) db"
| "processStpConfig env (STPConfigMsgUpdatePortAdminEdge, d) db =
     on_port d (\<lambda>c. StpPortAdminEdgeSet (pc_IfIndex c) (pc_BrgIfIndex c) (pc_AdminEdgePort c)) db"
| "processStpConfig env (STPConfigMsgUpdatePortBpduGuard, d) db =
     on_port d (\<lambda>c. StpPortBpduGuardSet (pc_IfIndex c) (pc_BrgIfIndex c) (pc_BpduGuard c)) db"
| "processStpConfig env (STPConfigMsgUpdatePortBridgeAssurance, d) db =
     on_port d (\<lambda>c. StpPortBridgeAssuranceSet (pc_IfIndex c) (pc_BrgIfIndex c) (pc_BridgeAssurance c)) db"
| "processStpConfig env (m, d) db = (Ok, db)"

definition processLinkDownEvent :: "int32 \<Rightarrow> StpDb \<Rightarrow> StpDb" where
  "processLinkDownEvent linkId db = StpPortLinkDown linkId db"

definition processLinkUpEvent :: "Env \<Rightarrow> int32 \<Rightarrow> StpDb \<Rightarrow> StpDb" where
  "processLinkUpEvent env linkId db = StpPortLinkUp env linkId db"

text \<open>The server ignores errors; a panic ends the process, which is \<open>None\<close>.\<close>

fun serve :: "Env \<Rightarrow> STPConfig list \<Rightarrow> StpDb \<Rightarrow> StpDb option" where
  "serve env [] db = Some db"
| "serve env (m # ms) db =
     (case processStpConfig env m db of
        (Panic, db') \<Rightarrow> None
      | (_, db') \<Rightarrow> serve env ms db')"

section \<open>Request handlers\<close>

datatype GlobalState = STP_GLOBAL_INIT | STP_GLOBAL_ENABLE | STP_GLOBAL_DISABLE | STP_GLOBAL_DISABLE_PENDING

record Mgmt =
  db :: StpDb
  StpGlobalState :: GlobalState

text \<open>What a handler gives: its two results, the messages it sends, the tables after its
  own checks.\<close>

record Reply =
  rv :: bool
  err :: Outcome
  msgs :: "STPConfig list"
  st :: Mgmt

definition CreateStpBridgeInstance :: "StpBridgeInstance \<Rightarrow> Mgmt \<Rightarrow> Reply" where
  "CreateStpBridgeInstance config s =
     (let brgconfig = ConvertThriftBrgConfigToStpBrgConfig config;
          brgconfig = (if bc_Vlan brgconfig = 0 then brgconfig\<lparr>bc_Vlan := DEFAULT_STP_BRIDGE_VLAN\<rparr> else brgconfig);
          (e, d) = StpBrgConfigParamCheck brgconfig True (db s);
          s' = s\<lparr>db := d\<rparr>
      in if e = Ok
         then \<lparr>rv = True, err = e,
               msgs = (if StpGlobalState s = STP_GLOBAL_ENABLE
                       then [(STPConfigMsgCreateBridge, BrgData brgconfig)] else []), st = s'\<rparr>
         else \<lparr>rv = False, err = e, msgs = [], st = s'\<rparr>)"

definition DeleteStpBridgeInstance :: "StpBridgeInstance \<Rightarrow> Mgmt \<Rightarrow> Reply" where
  "DeleteStpBridgeInstance config s =
     \<lparr>rv = True, err = Ok,
      msgs = (if StpGlobalState s = STP_GLOBAL_ENABLE \<or> StpGlobalState s = STP_GLOBAL_DISABLE_PENDING
              then [(STPConfigMsgDeleteBridge, BrgData (ConvertThriftBrgConfigToStpBrgConfig config))] else []),
      st = s\<rparr>"

text \<open>One message per changed attribute that has a message type; indexing beyond the set
  of attributes panics, which is \<open>None\<close>.\<close>

fun attr_msgs :: "(string \<Rightarrow> STPConfigMsgType option) \<Rightarrow> Msgdata \<Rightarrow> string list \<Rightarrow> bool list \<Rightarrow> STPConfig list option" where
  "attr_msgs attrMap d [] attrset = Some []"
| "attr_msgs attrMap d (f # fs) [] = None"
| "attr_msgs attrMap d (f # fs) (a # as) =
     map_option (\<lambda>ms. (case if a then attrMap f else None of Some m \<Rightarrow> (m, d) # ms | None \<Rightarrow> ms))
       (attr_msgs attrMap d fs as)"

definition brg_attrMap :: "string \<Rightarrow> STPConfigMsgType option" where
  "brg_attrMap = map_of
     [(''MaxAge'', STPConfigMsgUpdateBridgeMaxAge), (''HelloTime'', STPConfigMsgUpdateBridgeHelloTime),
      (''ForwardDelay'', STPConfigMsgUpdateBridgeForwardDelay), (''TxHoldCount'', STPConfigMsgUpdateBridgeTxHoldCount),
      (''Priority'', STPConfigMsgUpdateBridgePriority), (''ForceVersion'', STPConfigMsgUpdateBridgeForceVersion)]"

definition UpdateStpBridgeInstance ::
  "string list \<Rightarrow> StpBridgeInstance \<Rightarrow> StpBridgeInstance \<Rightarrow> bool list \<Rightarrow> Mgmt \<Rightarrow> Reply" where
  "UpdateStpBridgeInstance objFields origconfig updateconfig attrset s =
     (let brgconfig = ConvertThriftBrgConfigToStpBrgConfig updateconfig;
          (e, d) = StpBrgConfigParamCheck brgconfig False (db s);
          s' = s\<lparr>db := d\<rparr>
      in if e \<noteq> Ok then \<lparr>rv = False, err = e, msgs = [], st = s'\<rparr>
         else if StpGlobalState s = STP_GLOBAL_ENABLE then
           if StpFindBridgeById d (word_of_int (t_Vlan origconfig)) = None
           then \<lparr>rv = False, err = Err NoSuchBridge, msgs = [], st = s'\<rparr>
           else (case attr_msgs brg_attrMap (BrgData brgconfig) objFields attrset of
                   None \<Rightarrow> \<lparr>rv = False, err = Panic, msgs = [], st = s'\<rparr>
                 | Some ms \<Rightarrow> \<lparr>rv = True, err = Ok, msgs = ms, st = s'\<rparr>)
         else \<lparr>rv = True, err = Ok, msgs = [], st = s'\<rparr>)"

definition CreateStpPort :: "(string \<Rightarrow> int32) \<Rightarrow> StpPortObj \<Rightarrow> Mgmt \<Rightarrow> Reply" where
  "CreateStpPort intfRef config s =
     (let portconfig = ConvertThriftPortConfigToStpPortConfig intfRef config;
          (e, d) = StpPortConfigParamCheck portconfig False True (db s);
          s' = s\<lparr>db := d\<rparr>
      in if t_AdminState config = ''UP'' then
           if e = Ok
           then \<lparr>rv = True, err = e,
                 msgs = (if StpGlobalState s = STP_GLOBAL_ENABLE
                         then [(STPConfigMsgCreatePort, PortData portconfig)] else []), st = s'\<rparr>
           else \<lparr>rv = False, err = e, msgs = [], st = s'\<rparr>
         else \<lparr>rv = True, err = e, msgs = [], st = s'\<rparr>)"

text \<open>The message carries the request object, not the converted configuration.\<close>

definition DeleteStpPort :: "(string \<Rightarrow> int32) \<Rightarrow> StpPortObj \<Rightarrow> Mgmt \<Rightarrow> Reply" where
  "DeleteStpPort intfRef config s =
     \<lparr>rv = True, err = Ok,
      msgs = (if StpGlobalState s = STP_GLOBAL_ENABLE
                 \<and> PortMapTable (db s) (intfRef (t_IntfRef config), word_of_int (t_pVlan config)) \<noteq> None
              then [(STPConfigMsgDeletePort, PortObjData config)] else []),
      st = s\<rparr>"

definition port_attrMap :: "string \<Rightarrow> STPConfigMsgType option" where
  "port_attrMap = map_of
     [(''Priority'', STPConfigMsgUpdatePortPriority), (''AdminState'', STPConfigMsgUpdatePortEnable),
      (''PathCost'', STPConfigMsgUpdatePortPathCost), (''ProtocolMigration'', STPConfigMsgUpdatePortProtocolMigration),
      (''AdminPointToPoint'', STPConfigMsgUpdatePortAdminPointToPoint), (''AdminEdge'', STPConfigMsgUpdatePortAdminEdge),
      (''AdminPathCost'', STPConfigMsgUpdatePortAdminPathCost), (''BpduGuard'', STPConfigMsgUpdatePortBpduGuard),
      (''BridgeAssurance'', STPConfigMsgUpdatePortBridgeAssurance)]"

text \<open>The first loop stops at the field \<open>AdminState\<close>, whether it changed or not.\<close>

definition UpdateStpPort ::
  "(string \<Rightarrow> int32) \<Rightarrow> string list \<Rightarrow> StpPortObj \<Rightarrow> StpPortObj \<Rightarrow> bool list \<Rightarrow> Mgmt \<Rightarrow> Reply" where
  "UpdateStpPort intfRef objFields origconfig updateconfig attrset s =
     (let portconfig = ConvertThriftPortConfigToStpPortConfig intfRef updateconfig;
          (e, d) = StpPortConfigParamCheck portconfig True False (db s);
          s' = s\<lparr>db := d\<rparr>
      in if e \<noteq> Ok then \<lparr>rv = False, err = e, msgs = [], st = s'\<rparr>
         else if StpGlobalState s = STP_GLOBAL_ENABLE then
           if PortMapTable d (intfRef (t_IntfRef origconfig), word_of_int (t_pVlan origconfig)) = None
              \<and> t_AdminState updateconfig = ''DOWN''
           then \<lparr>rv = True, err = Ok, msgs = [], st = s'\<rparr>
           else let s' = s'\<lparr>db := StpPortConfigSave portconfig True d\<rparr>
                in if list_ex (\<lambda>f. f = ''AdminState'') objFields
                   then \<lparr>rv = True, err = Ok,
                         msgs = [(if t_AdminState updateconfig = ''UP'' then STPConfigMsgCreatePort
                                  else STPConfigMsgDeletePort, PortData portconfig)], st = s'\<rparr>
                   else (case attr_msgs port_attrMap (PortData portconfig) objFields attrset of
                           None \<Rightarrow> \<lparr>rv = False, err = Panic, msgs = [], st = s'\<rparr>
                         | Some ms \<Rightarrow> \<lparr>rv = True, err = Ok, msgs = ms, st = s'\<rparr>)
         else \<lparr>rv = True, err = Ok, msgs = [], st = s'\<rparr>)"

section \<open>Requests against the tables\<close>

text \<open>A request is handled, then its messages are served.  Link notifications reach the
  server on a channel of their own.\<close>

datatype Request =
    CreateBridgeReq StpBridgeInstance
  | DeleteBridgeReq StpBridgeInstance
  | UpdateBridgeReq "string list" StpBridgeInstance StpBridgeInstance "bool list"
  | CreatePortReq StpPortObj
  | DeletePortReq StpPortObj
  | UpdatePortReq "string list" StpPortObj StpPortObj "bool list"
  | GlobalReq GlobalState
  | LinkUpReq int32
  | LinkDownReq int32

fun reply :: "(string \<Rightarrow> int32) \<Rightarrow> Request \<Rightarrow> Mgmt \<Rightarrow> Reply" where
  "reply intfRef (CreateBridgeReq c) s = CreateStpBridgeInstance c s"
| "reply intfRef (DeleteBridgeReq c) s = DeleteStpBridgeInstance c s"
| "reply intfRef (UpdateBridgeReq fs o1 u a) s = UpdateStpBridgeInstance fs o1 u a s"
| "reply intfRef (CreatePortReq c) s = CreateStpPort intfRef c s"
| "reply intfRef (DeletePortReq c) s = DeleteStpPort intfRef c s"
| "reply intfRef (UpdatePortReq fs o1 u a) s = UpdateStpPort intfRef fs o1 u a s"
| "reply intfRef (GlobalReq g) s = \<lparr>rv = True, err = Ok, msgs = [], st = s\<lparr>StpGlobalState := g\<rparr>\<rparr>"
| "reply intfRef (LinkUpReq i) s = \<lparr>rv = True, err = Ok, msgs = [], st = s\<rparr>"
| "reply intfRef (LinkDownReq i) s = \<lparr>rv = True, err = Ok, msgs = [], st = s\<rparr>"

fun link_event :: "Env \<Rightarrow> Request \<Rightarrow> StpDb \<Rightarrow> StpDb" where
  "link_event env (LinkUpReq i) d = processLinkUpEvent env i d"
| "link_event env (LinkDownReq i) d = processLinkDownEvent i d"
| "link_event env r d = d"

definition handle :: "Env \<Rightarrow> (string \<Rightarrow> int32) \<Rightarrow> Request \<Rightarrow> Mgmt \<Rightarrow> Mgmt option" where
  "handle env intfRef r s =
     (let rep = reply intfRef r s in
      if err rep = Panic then None
      else map_option (\<lambda>d. (st rep)\<lparr>db := link_event env r d\<rparr>) (serve env (msgs rep) (db (st rep))))"

fun handle_all :: "Env \<Rightarrow> (string \<Rightarrow> int32) \<Rightarrow> Request list \<Rightarrow> Mgmt \<Rightarrow> Mgmt option" where
  "handle_all env intfRef [] s = Some s"
| "handle_all env intfRef (r # rs) s =
     (case handle env intfRef r s of None \<Rightarrow> None | Some s' \<Rightarrow> handle_all env intfRef rs s')"

section \<open>Serving keeps the tables well formed\<close>

definition brg_msg :: "STPConfigMsgType \<Rightarrow> bool" where
  "brg_msg m \<longleftrightarrow> m \<in> {STPConfigMsgCreateBridge, STPConfigMsgDeleteBridge, STPConfigMsgUpdateBridgeMaxAge,
     STPConfigMsgUpdateBridgeHelloTime, STPConfigMsgUpdateBridgeForwardDelay, STPConfigMsgUpdateBridgeTxHoldCount,
     STPConfigMsgUpdateBridgePriority, STPConfigMsgUpdateBridgeForceVersion}"

definition port_msg :: "STPConfigMsgType \<Rightarrow> bool" where
  "port_msg m \<longleftrightarrow> m \<in> {STPConfigMsgCreatePort, STPConfigMsgDeletePort, STPConfigMsgUpdatePortPriority,
     STPConfigMsgUpdatePortEnable, STPConfigMsgUpdatePortPathCost, STPConfigMsgUpdatePortProtocolMigration,
     STPConfigMsgUpdatePortAdminPointToPoint, STPConfigMsgUpdatePortAdminEdge, STPConfigMsgUpdatePortAdminPathCost,
     STPConfigMsgUpdatePortBpduGuard, STPConfigMsgUpdatePortBridgeAssurance}"

definition msg_ok :: "StpDb \<Rightarrow> STPConfig \<Rightarrow> bool" where
  "msg_ok d m \<longleftrightarrow>
     (case snd m of
        BrgData c \<Rightarrow> brg_msg (fst m) \<and>
          (fst m = STPConfigMsgCreateBridge \<longrightarrow> config_ok c \<and> StpBrgConfigGet d (i32 (bc_Vlan c)) \<noteq> None)
      | PortData c \<Rightarrow> port_msg (fst m)
      | PortObjData c \<Rightarrow> False)"

lemma process_safe:
  assumes "db_ok d" and "msg_ok d m"
  shows "safe (processStpConfig env m d)"
proof (cases m)
  case (Pair t x)
  show ?thesis
    using assms unfolding Pair
    by (cases t; cases x)
      (simp_all add: msg_ok_def brg_msg_def port_msg_def on_brg_def on_port_def safe_time_setters
        safe_TxHoldCountSet safe_BrgPrioritySet safe_ForceVersion safe_port_setters safe_PortCreate
        safe_PortDelete safe_BridgeCreate safe_BridgeDelete)
qed

text \<open>Updates need nothing of the tables, so any number of them can be served.\<close>

definition update_msg :: "STPConfig \<Rightarrow> bool" where
  "update_msg m \<longleftrightarrow> (case snd m of
     BrgData c \<Rightarrow> brg_msg (fst m) \<and> fst m \<noteq> STPConfigMsgCreateBridge
   | PortData c \<Rightarrow> port_msg (fst m) | PortObjData c \<Rightarrow> False)"

lemma update_msg_ok: "update_msg m \<Longrightarrow> msg_ok d m"
  by (auto simp: update_msg_def msg_ok_def split: Msgdata.splits)

lemma serve_one:
  assumes "db_ok d" and "msg_ok d m"
  shows "\<exists>d'. serve env [m] d = Some d' \<and> db_ok d'"
  using process_safe [OF assms, of env]
  by (auto simp: safe_def split: prod.splits Outcome.splits)

lemma serve_updates:
  assumes "db_ok d" and "list_all update_msg ms"
  shows "\<exists>d'. serve env ms d = Some d' \<and> db_ok d'"
  using assms
proof (induction ms arbitrary: d)
  case (Cons m ms)
  obtain e d' where p: "processStpConfig env m d = (e, d')" by fastforce
  have "e \<noteq> Panic" "db_ok d'"
    using process_safe [OF Cons.prems(1) update_msg_ok, of m env] Cons.prems(2) p by simp_all
  then show ?case using Cons.IH [of d'] Cons.prems(2) p by (cases e) simp_all
qed simp

lemma attr_msgs_length:
  "length fs \<le> length as \<Longrightarrow> \<exists>ms. attr_msgs am d fs as = Some ms"
  by (induction am d fs as rule: attr_msgs.induct) auto

lemma attr_msgs_update:
  assumes "attr_msgs am x fs as = Some ms" and "\<And>f t. am f = Some t \<Longrightarrow> update_msg (t, x)"
  shows "list_all update_msg ms"
  using assms
  by (induction am x fs as arbitrary: ms rule: attr_msgs.induct) (auto split: option.splits if_splits)

lemma brg_attrMap_update: "brg_attrMap f = Some t \<Longrightarrow> update_msg (t, BrgData c)"
  by (auto simp: brg_attrMap_def update_msg_def brg_msg_def split: if_splits)

lemma brg_attrMap_not_delete: "brg_attrMap f = Some t \<Longrightarrow> t \<noteq> STPConfigMsgDeleteBridge"
  by (auto simp: brg_attrMap_def split: if_splits)

lemma port_attrMap_update: "port_attrMap f = Some t \<Longrightarrow> update_msg (t, PortData c)"
  by (auto simp: port_attrMap_def update_msg_def port_msg_def split: if_splits)

lemma check_keeps_ok:
  assumes "db_ok d"
  shows "db_ok (snd (StpBrgConfigParamCheck c create d))" "db_ok (snd (StpPortConfigParamCheck pc u create d))"
  using assms brg_check(1,2) [of c create d] db_ok_config_save [of d c]
  by (simp, simp add: StpPortConfigParamCheck_def)

lemma check_not_panic [simp]:
  "fst (StpBrgConfigParamCheck c create d) \<noteq> Panic" "fst (StpPortConfigParamCheck pc u create d) \<noteq> Panic"
  by (rule brg_check) (simp add: StpPortConfigParamCheck_def)

lemma serve_nil: "db_ok d \<Longrightarrow> \<exists>d'. serve env [] d = Some d' \<and> db_ok d'"
  by simp

text \<open>Requests the server survives: no deletion of a port, and attribute sets that cover
  all fields.\<close>

definition tame :: "Request \<Rightarrow> bool" where
  "tame r \<longleftrightarrow> (case r of
     DeletePortReq c \<Rightarrow> False
   | UpdateBridgeReq fs o1 u a \<Rightarrow> length fs \<le> length a
   | UpdatePortReq fs o1 u a \<Rightarrow> length fs \<le> length a
   | _ \<Rightarrow> True)"

lemma reply_served:
  assumes ok: "db_ok (db s)" and "tame r"
  shows "err (reply intfRef r s) \<noteq> Panic
    \<and> (\<exists>d'. serve env (msgs (reply intfRef r s)) (db (st (reply intfRef r s))) = Some d' \<and> db_ok d')"
proof (cases r)
  case (CreateBridgeReq c)
  let ?c = "ConvertThriftBrgConfigToStpBrgConfig c"
  obtain e d where ch: "StpBrgConfigParamCheck ?c True (db s) = (e, d)" by fastforce
  have d: "db_ok d" "e \<noteq> Panic" using check_keeps_ok(1) [OF ok, of ?c True] check_not_panic(1) [of ?c True "db s"] ch by simp_all
  have c: "e = Ok \<Longrightarrow> config_ok ?c \<and> StpBrgConfigGet d (i32 (bc_Vlan ?c)) \<noteq> None"
    using brg_check(1,2) [of ?c True "db s"] ch by simp
  have id: "(if bc_Vlan ?c = 0 then ?c\<lparr>bc_Vlan := 0\<rparr> else ?c) = ?c" by (cases ?c) simp
  show ?thesis
    using d c serve_one [OF d(1), of "(STPConfigMsgCreateBridge, BrgData ?c)" env]
    unfolding CreateBridgeReq reply.simps CreateStpBridgeInstance_def Let_def id ch
    by (simp add: msg_ok_def brg_msg_def)
next
  case (DeleteBridgeReq c)
  then show ?thesis
    using ok serve_updates [OF ok, of "[(STPConfigMsgDeleteBridge, BrgData (ConvertThriftBrgConfigToStpBrgConfig c))]" env]
    by (simp add: DeleteStpBridgeInstance_def update_msg_def brg_msg_def)
next
  case (UpdateBridgeReq fs o1 u a)
  let ?c = "ConvertThriftBrgConfigToStpBrgConfig u"
  obtain e d where ch: "StpBrgConfigParamCheck ?c False (db s) = (e, d)" by fastforce
  have d: "db_ok d" "e \<noteq> Panic" using check_keeps_ok(1) [OF ok, of ?c False] check_not_panic(1) [of ?c False "db s"] ch by simp_all
  obtain ms where ms: "attr_msgs brg_attrMap (BrgData ?c) fs a = Some ms"
    using attr_msgs_length [of fs a] assms(2) UpdateBridgeReq by (auto simp: tame_def)
  have "list_all update_msg ms" using attr_msgs_update [OF ms] brg_attrMap_update by blast
  then show ?thesis
    using d serve_updates [OF d(1)] ms
    unfolding UpdateBridgeReq reply.simps UpdateStpBridgeInstance_def Let_def ch by simp
next
  case (CreatePortReq c)
  let ?c = "ConvertThriftPortConfigToStpPortConfig intfRef c"
  obtain e d where ch: "StpPortConfigParamCheck ?c False True (db s) = (e, d)" by fastforce
  have d: "db_ok d" "e \<noteq> Panic"
    using check_keeps_ok(2) [OF ok, of ?c False True] check_not_panic(2) [of ?c False True "db s"] ch by simp_all
  show ?thesis
    using d serve_updates [OF d(1), of "[(STPConfigMsgCreatePort, PortData ?c)]" env]
    unfolding CreatePortReq reply.simps CreateStpPort_def Let_def ch
    by (simp add: update_msg_def port_msg_def)
next
  case (UpdatePortReq fs o1 u a)
  let ?c = "ConvertThriftPortConfigToStpPortConfig intfRef u"
  obtain e d where ch: "StpPortConfigParamCheck ?c True False (db s) = (e, d)" by fastforce
  have d: "db_ok d" "e \<noteq> Panic"
    using check_keeps_ok(2) [OF ok, of ?c True False] check_not_panic(2) [of ?c True False "db s"] ch by simp_all
  have d': "db_ok (StpPortConfigSave ?c True d)" using d(1) by simp
  obtain ms where ms: "attr_msgs port_attrMap (PortData ?c) fs a = Some ms"
    using attr_msgs_length [of fs a] assms(2) UpdatePortReq by (auto simp: tame_def)
  have "list_all update_msg ms" using attr_msgs_update [OF ms] port_attrMap_update by blast
  then show ?thesis
    using d serve_updates [OF d'] ms
      serve_updates [OF d', of "[(STPConfigMsgCreatePort, PortData ?c)]" env]
      serve_updates [OF d', of "[(STPConfigMsgDeletePort, PortData ?c)]" env]
    unfolding UpdatePortReq reply.simps UpdateStpPort_def Let_def ch
    by (simp add: update_msg_def port_msg_def)
qed (use assms in \<open>simp_all add: tame_def\<close>)

lemma link_event_ok: "db_ok d \<Longrightarrow> db_ok (link_event env r d)"
  by (cases r) (simp_all add: processLinkUpEvent_def processLinkDownEvent_def db_ok_link)

lemma handle_ok:
  assumes "db_ok (db s)" and "tame r"
  shows "\<exists>s'. handle env intfRef r s = Some s' \<and> db_ok (db s')"
  using reply_served [OF assms, of intfRef env] link_event_ok by (auto simp: handle_def Let_def)

lemma handle_all_ok:
  assumes "list_all tame rs" and "db_ok (db s)"
  shows "\<exists>s'. handle_all env intfRef rs s = Some s' \<and> db_ok (db s')"
  using assms
proof (induction rs arbitrary: s)
  case (Cons r rs)
  then obtain s' where "handle env intfRef r s = Some s'" "db_ok (db s')"
    using handle_ok [of s r env intfRef] by auto
  then show ?case using Cons.IH [of s'] Cons.prems(1) by simp
qed simp


text \<open>Three requests: the default bridge, a second bridge, a port on it.\<close>

definition srv_bridge :: "int \<Rightarrow> StpBridgeInstance" where
  "srv_bridge v = \<lparr>t_Vlan = v, t_Address = [], t_Priority = 32768, t_MaxAge = 20, t_HelloTime = 2,
     t_ForwardDelay = 15, t_ForceVersion = 2, t_TxHoldCount = 6\<rparr>"

definition srv_port :: StpPortObj where
  "srv_port = \<lparr>t_pVlan = 100, t_IntfRef = [], t_pPriority = 128, t_AdminState = ''UP'', t_PathCost = 20000,
     t_ProtocolMigration = 0, t_AdminPointToPoint = 0, t_AdminEdgePort = 2, t_AdminPathCost = 20000,
     t_BridgeAssurance = 2, t_BpduGuard = 2, t_BpduGuardInterval = 0\<rparr>"

definition srv_env :: Env where
  "srv_env = \<lparr>plugins = [], opens = (\<lambda>_. True), GetIdFromIfIndex = (\<lambda>i. ucast i), speed = (\<lambda>_. 0),
     StpBridgeMac = Mac 0 1 2 3 4 5\<rparr>"

definition srv_reqs :: "Request list" where
  "srv_reqs = [GlobalReq STP_GLOBAL_ENABLE, CreateBridgeReq (srv_bridge 0), CreateBridgeReq (srv_bridge 100),
     CreatePortReq srv_port]"

definition srv_start :: Mgmt where
  "srv_start = \<lparr>db = empty_db, StpGlobalState = STP_GLOBAL_INIT\<rparr>"


section \<open>Requests that miss their target\<close>

text \<open>C32: Deleting an existing port through the management interface ends the process: the
  handler sends the request object where the server asserts a port configuration.\<close>

theorem Server_delete_port_panics:
  assumes "StpGlobalState s = STP_GLOBAL_ENABLE"
    and "PortMapTable (db s) (intfRef (t_IntfRef config), word_of_int (t_pVlan config)) \<noteq> None"
  shows "handle env intfRef (DeletePortReq config) s = None"
  using assms by (simp add: handle_def DeleteStpPort_def on_port_def)

text \<open>The tables after the three requests.\<close>

definition srv_state :: Mgmt where
  "srv_state = the (handle_all srv_env (\<lambda>_. 5) srv_reqs srv_start)"

theorem Server_delete_port_panics_witness:
  "StpGlobalState srv_state = STP_GLOBAL_ENABLE \<and> PortMapTable (db srv_state) (5, 100) \<noteq> None
   \<and> handle srv_env (\<lambda>_. 5) (DeletePortReq srv_port) srv_state = None"
proof -
  have g: "StpGlobalState srv_state = STP_GLOBAL_ENABLE" by code_simp
  have "PortMapTable (db srv_state) (5, 100) \<noteq> None" by code_simp
  then show ?thesis
    using g Server_delete_port_panics [of srv_state "\<lambda>_. 5" srv_port srv_env] by (simp add: srv_port_def)
qed

lemma with_config_brgs:
  assumes "\<And>d. brgs (k d) v = brgs d v"
  shows "brgs (snd (with_config bId f k d)) v = brgs d v"
proof (cases "StpBrgConfigGet d bId")
  case (Some c)
  obtain e d' where ch: "StpBrgConfigParamCheck (f c) False d = (e, d')" by fastforce
  then have "brgs d' v = brgs d v" using brg_check(2) [of "f c" False d] by simp
  then show ?thesis using Some ch by (cases e) (simp_all add: with_config_def assms)
qed (simp add: with_config_def)

lemma each_port_brgs [simp]: "BridgeMapTable (each_port b f d) = BridgeMapTable d"
  unfolding each_port_def by (rule fold_inv [where P = "\<lambda>x. BridgeMapTable x = BridgeMapTable d"]) simp_all

lemma BEGIN_port_brgs [simp]: "BridgeMapTable (BEGIN_port r k d) = BridgeMapTable d"
  by (simp add: BEGIN_port_def Let_def split: option.splits)

lemma send_reselect_brgs [simp]: "BridgeMapTable (send_reselect i d) = BridgeMapTable d"
  by (simp add: send_reselect_def split: option.splits)

lemma force_ports_brgs [simp]:
  "BridgeMapTable (fold (\<lambda>pId db. BEGIN_port True (pId, bi) (upd_dbport (pId, bi) g db)) ids d) = BridgeMapTable d"
  by (rule fold_inv [where P = "\<lambda>x. BridgeMapTable x = BridgeMapTable d"]) simp_all

text \<open>Every update message names the bridge with index zero, because the conversion never
  sets the index.\<close>

lemma update_other_bridge:
  assumes ok: "db_ok d" and v: "v \<noteq> 0" and m: "update_msg (t, BrgData c)" "t \<noteq> STPConfigMsgDeleteBridge"
    and c: "bc_IfIndex c = 0"
  shows "brgs (snd (processStpConfig env (t, BrgData c) d)) v = brgs d v"
proof (cases "StpFindBridgeByIfIndex d 0")
  case None
  then show ?thesis
    using m c by (cases t) (simp_all add: update_msg_def brg_msg_def on_brg_def StpBrgMaxAgeSet_def
        StpBrgHelloTimeSet_def StpBrgForwardDelaySet_def set_time_def StpBrgTxHoldCountSet_def
        StpBrgPrioritySet_def StpBrgForceVersion_def)
next
  case (Some b)
  have "Vlan b = 0" using found_bridge(2) [OF ok Some] by simp
  then have o: "brgs (upd_bridge (Vlan b) f x) v = brgs x v" for f x using v by (simp add: brgs_upd_bridge)
  show ?thesis
    using m c Some by (cases t) (simp_all add: update_msg_def brg_msg_def on_brg_def StpBrgMaxAgeSet_def
        StpBrgHelloTimeSet_def StpBrgForwardDelaySet_def set_time_def StpBrgTxHoldCountSet_def
        StpBrgPrioritySet_def StpBrgForceVersion_def with_config_brgs o Let_def)
qed

lemma serve_other_bridge:
  assumes "db_ok d" and "v \<noteq> 0" and "bc_IfIndex c = 0"
    and "\<forall>m \<in> set ms. snd m = BrgData c \<and> update_msg m \<and> fst m \<noteq> STPConfigMsgDeleteBridge"
    and "serve env ms d = Some d'"
  shows "brgs d' v = brgs d v"
  using assms
proof (induction ms arbitrary: d)
  case (Cons m ms)
  obtain t where m: "m = (t, BrgData c)" "update_msg (t, BrgData c)" "t \<noteq> STPConfigMsgDeleteBridge"
    using Cons.prems(4) by (cases m) auto
  obtain e d1 where p: "processStpConfig env m d = (e, d1)" by fastforce
  have "db_ok d1" using process_safe [OF Cons.prems(1) update_msg_ok, of m env] m p by simp
  moreover have "brgs d1 v = brgs d v"
    using update_other_bridge [OF Cons.prems(1,2) m(2,3) Cons.prems(3), of env] m p by simp
  moreover have "serve env ms d1 = Some d'" using Cons.prems(5) p by (cases e) simp_all
  ultimately show ?case using Cons.IH [of d1] Cons.prems(2,3,4) by simp
qed simp

lemma attr_msgs_data:
  "attr_msgs am x fs as = Some ms \<Longrightarrow> m \<in> set ms \<Longrightarrow> snd m = x \<and> (\<exists>f. am f = Some (fst m))"
  by (induction am x fs as arbitrary: ms rule: attr_msgs.induct) (auto split: option.splits if_splits, blast)

text \<open>C31: An update of a bridge instance never changes the bridge it names, unless that is
  the default bridge: whatever attributes are set, every other bridge is the same
  afterwards, because the converted configuration carries index zero and the setters look
  the bridge up by that index.\<close>

theorem Server_update_misses:
  assumes "db_ok (db s)" and "handle env intfRef (UpdateBridgeReq fs o1 u a) s = Some s'" and "v \<noteq> 0"
  shows "StpFindBridgeById (db s') v = StpFindBridgeById (db s) v"
proof -
  let ?c = "ConvertThriftBrgConfigToStpBrgConfig u"
  let ?r = "UpdateStpBridgeInstance fs o1 u a s"
  have i: "bc_IfIndex ?c = 0" by (simp add: ConvertThriftBrgConfigToStpBrgConfig_def)
  obtain e d where ch: "StpBrgConfigParamCheck ?c False (db s) = (e, d)" by fastforce
  have d: "db_ok d" using check_keeps_ok(1) [OF assms(1), of ?c False] ch by simp
  have same: "brgs d v = brgs (db s) v" using brg_check(2) [of ?c False "db s"] ch by simp
  have st: "db (st ?r) = d"
    by (simp add: UpdateStpBridgeInstance_def Let_def ch split: option.splits)
  have ms: "\<forall>m \<in> set (msgs ?r). snd m = BrgData ?c \<and> update_msg m \<and> fst m \<noteq> STPConfigMsgDeleteBridge"
  proof
    fix m
    assume "m \<in> set (msgs ?r)"
    then obtain ms where "attr_msgs brg_attrMap (BrgData ?c) fs a = Some ms" "m \<in> set ms"
      by (auto simp: UpdateStpBridgeInstance_def Let_def ch split: option.splits if_splits)
    then obtain f where m: "snd m = BrgData ?c" "brg_attrMap f = Some (fst m)"
      using attr_msgs_data by blast
    then show "snd m = BrgData ?c \<and> update_msg m \<and> fst m \<noteq> STPConfigMsgDeleteBridge"
      using brg_attrMap_update [OF m(2), of ?c] brg_attrMap_not_delete [OF m(2)] by (cases m) simp
  qed
  obtain d' where "serve env (msgs ?r) d = Some d'" "db s' = d'"
    using assms(2) st by (auto simp: handle_def Let_def split: if_splits)
  then show ?thesis
    using serve_other_bridge [OF d assms(3) i ms] same by (simp add: StpFindBridgeById_def)
qed

lemma srv_state_ok: "db_ok (db srv_state)"
proof -
  have "list_all tame srv_reqs" by code_simp
  then show ?thesis
    using handle_all_ok [of srv_reqs srv_start srv_env "\<lambda>_. 5"] empty_db_ok
    by (auto simp: srv_state_def srv_start_def)
qed

definition srv_update :: Request where
  "srv_update = UpdateBridgeReq [''MaxAge''] (srv_bridge 100) ((srv_bridge 100)\<lparr>t_MaxAge := 30\<rparr>) [True]"

text \<open>Raising the maximum age of bridge 100 raises that of the default bridge.\<close>

theorem Server_update_misses_witness:
  "db_ok (db srv_state)
   \<and> (\<exists>s'. handle srv_env (\<lambda>_. 5) srv_update srv_state = Some s'
        \<and> StpFindBridgeById (db s') 100 = StpFindBridgeById (db srv_state) 100)
   \<and> map_option (\<lambda>s. map (\<lambda>v. map_option (\<lambda>b. MaxAge (BridgeTimes b)) (StpFindBridgeById (db s) v)) [0, 100])
       (handle srv_env (\<lambda>_. 5) srv_update srv_state) = Some [Some 30, Some 20]"
proof -
  have r: "map_option (\<lambda>s. map (\<lambda>v. map_option (\<lambda>b. MaxAge (BridgeTimes b)) (StpFindBridgeById (db s) v)) [0, 100])
       (handle srv_env (\<lambda>_. 5) srv_update srv_state) = Some [Some 30, Some 20]"
    by code_simp
  then obtain s' where s': "handle srv_env (\<lambda>_. 5) srv_update srv_state = Some s'"
    by auto
  then have "StpFindBridgeById (db s') 100 = StpFindBridgeById (db srv_state) 100"
    using Server_update_misses [OF srv_state_ok s' [unfolded srv_update_def], of 100] by simp
  with r s' srv_state_ok show ?thesis by blast
qed

text \<open>An update of an existing port that leaves it administratively up changes no port and no
  bridge and sends nothing, whatever attributes it sets: the handler stops at the field
  \<open>AdminState\<close> of the request type and asks the server to create the port again, which the
  server refuses.  (With the state down the handler asks for the deletion of the port.)\<close>

lemma Server_update_port_ignored:
  assumes "''AdminState'' \<in> set fs" and "t_AdminState u = ''UP''"
    and "PortMapTable (db s) (intfRef (t_IntfRef u), word_of_int (t_pVlan u)) \<noteq> None"
    and "handle env intfRef (UpdatePortReq fs o1 u a) s = Some s'"
  shows "PortMapTable (db s') = PortMapTable (db s) \<and> BridgeMapTable (db s') = BridgeMapTable (db s)
    \<and> sent (db s') = sent (db s)"
proof -
  let ?c = "ConvertThriftPortConfigToStpPortConfig intfRef u"
  have save: "PortMapTable (StpPortConfigSave ?c x d) = PortMapTable d"
    "BridgeMapTable (StpPortConfigSave ?c x d) = BridgeMapTable d" "sent (StpPortConfigSave ?c x d) = sent d" for x d
    by (simp_all add: StpPortConfigSave_def Let_def split: option.splits)
  obtain e d where ch: "StpPortConfigParamCheck ?c True False (db s) = (e, d)" by fastforce
  then have d: "PortMapTable d = PortMapTable (db s)" "BridgeMapTable d = BridgeMapTable (db s)" "sent d = sent (db s)"
    by (auto simp: StpPortConfigParamCheck_def save split: if_splits)
  have key: "pc_IfIndex ?c = intfRef (t_IntfRef u)" "pc_BrgIfIndex ?c = word_of_int (t_pVlan u)"
    by (simp_all add: ConvertThriftPortConfigToStpPortConfig_def)
  have up: "list_ex (\<lambda>f. f = ''AdminState'') fs" using assms(1) by (auto simp: list_ex_iff)
  have "StpPortCreate env ?c (StpPortConfigSave ?c True d) = (Err PortExists, StpPortConfigSave ?c True d)"
    using assms(3) unfolding StpPortCreate_def save d key by (simp only: if_False)
  then show ?thesis
    using assms(2,4) d save up
    by (auto simp: handle_def UpdateStpPort_def Let_def ch on_port_def split: if_splits)
qed

end
