(* ===== verification/Stp_Rx.thy ===== *)
theory Stp_Rx
  imports Stp_Server Stp_Prx
begin

text \<open>
  Reception of frames, \<open>l2/stp/protocol/rx.go\<close>: from a decoded packet to the receive machine
  of a port.  Decoding belongs to the packet library: a packet is the layers it found,
  and the constants of the library are the record \<open>RxLayers\<close>.  \<open>None\<close> is a run time panic (a
  failed type assertion, an index out of range, a call on a nil layer), which ends the
  process.
\<close>

section \<open>Packets\<close>

record RxLayers =
  BpduDMAC :: Mac
  BpduPVSTDMAC :: Mac
  RSTPProtocolIdentifier :: uint16
  PVSTProtocolVersion :: uint8
  BPDUTypePVST :: uint8
  BPDUTopologyLength :: nat
  STPProtocolLength :: nat
  PVSTProtocolLength :: nat

text \<open>A BPDU or PVST layer: its bytes, its protocol identifier and the decoded struct,
  whose constructor is the dynamic type of the layer.\<close>

record RxLayer =
  Contents :: "uint8 list"
  ProtocolId :: uint16
  layer_pdu :: Pdu

record Packet =
  SrcMAC :: Mac
  DstMAC :: Mac
  isEthernet :: bool
  isLLC :: bool
  bpduLayer :: "RxLayer option"
  pvstLayer :: "RxLayer option"

section \<open>Finding the port\<close>

definition IsValidStpPort :: "StpDb \<Rightarrow> int32 \<Rightarrow> bool" where
  "IsValidStpPort D pId \<longleftrightarrow>
     list_ex (\<lambda>k. case PortMapTable D k of None \<Rightarrow> False | Some p \<Rightarrow> IfIndex p = pId) (PortListTable D)"

definition mac_bytes :: "Mac \<Rightarrow> uint8 list" where
  "mac_bytes m = [mac0 m, mac1 m, mac2 m, mac3 m, mac4 m, mac5 m]"

text \<open>The comparison byte by byte, left to right, stopping at the first difference; an
  interface without an address (an unknown port) has no byte to index.\<close>

fun same_bytes :: "uint8 list \<Rightarrow> uint8 list \<Rightarrow> bool option" where
  "same_bytes [] hs = Some True"
| "same_bytes (s # ss) [] = None"
| "same_bytes (s # ss) (h # hs) = (if s = h then same_bytes ss hs else Some False)"

text \<open>The first bridge of the list with the interface, the VLAN and the port.\<close>

definition find_brg_port :: "StpDb \<Rightarrow> int32 \<Rightarrow> int32 \<Rightarrow> uint16 \<Rightarrow> PortMapKey option" where
  "find_brg_port D pId bId vlan =
     map_option (\<lambda>v. (pId, bId))
       (List.find
          (\<lambda>v. case StpFindBridgeById D v of
                None \<Rightarrow> False
              | Some b \<Rightarrow> BrgIfIndex b = bId \<and> Vlan b = vlan \<and> PortMapTable D (pId, BrgIfIndex b) \<noteq> None)
          (BridgeListTable D))"

definition rx_vlan :: "RxLayers \<Rightarrow> RxLayer option \<Rightarrow> uint16 option" where
  "rx_vlan R l =
     (case l of
        None \<Rightarrow> Some DEFAULT_STP_BRIDGE_VLAN
      | Some x \<Rightarrow>
          (case layer_pdu x of
             PVST b origVlan \<Rightarrow>
               Some (if ProtocolVersionId b = PVSTProtocolVersion R then origVlan else DEFAULT_STP_BRIDGE_VLAN)
           | _ \<Rightarrow> None))"

definition GetBrgPort ::
  "(int32 \<Rightarrow> uint8 list) \<Rightarrow> RxLayers \<Rightarrow> StpDb \<Rightarrow> int32 \<Rightarrow> int32 \<Rightarrow> Packet \<Rightarrow> PortMapKey option option" where
  "GetBrgPort HardwareAddr R D pId bId packet =
     (if \<not> isEthernet packet \<or> \<not> isLLC packet \<or> bpduLayer packet = None \<and> pvstLayer packet = None
      then Some None
      else
        case same_bytes (mac_bytes (SrcMAC packet)) (HardwareAddr pId) of
          None \<Rightarrow> None
        | Some own \<Rightarrow>
            if own then Some None
            else if IsValidStpPort D pId then
              map_option (find_brg_port D pId bId) (rx_vlan R (pvstLayer packet))
            else Some None)"

section \<open>Validation\<close>

text \<open>The three branches on the type byte of a BPDU layer.\<close>

definition validate_stp :: "Layers \<Rightarrow> RxLayers \<Rightarrow> Bridge \<Rightarrow> StpPort \<Rightarrow> RxLayer \<Rightarrow> BPDURxType option" where
  "validate_stp L R b p x =
     (case layer_pdu x of
        STP stp \<Rightarrow>
          Some (if BPDUTopologyLength R \<le> length (Contents x) \<and> BPDUType stp = BPDUTypeSTP L then
                  if ProtocolId x = RSTPProtocolIdentifier R \<and> STPProtocolLength R \<le> length (Contents x)
                     \<and> bpduMsgAge stp < bpduMaxAge stp
                     \<and> bpduBridgeId stp \<noteq> DesignatedBridgeId (BridgePriority b)
                     \<and> bpduPortId stp \<noteq> wire_port_id p
                  then BPDURxTypeSTP else BPDURxTypeUnknown
                else BPDURxTypeUnknownBPDU)
      | _ \<Rightarrow> None)"

definition validate_rstp :: "Layers \<Rightarrow> RxLayers \<Rightarrow> RxLayer \<Rightarrow> BPDURxType option" where
  "validate_rstp L R x =
     (case layer_pdu x of
        RSTP rstp \<Rightarrow>
          Some (if BPDUTopologyLength R \<le> length (Contents x) \<and> ProtocolId x = RSTPProtocolIdentifier R then
                  if BPDUType rstp = BPDUTypeRSTP L then BPDURxTypeRSTP else BPDURxTypeUnknown
                else BPDURxTypeUnknownBPDU)
      | _ \<Rightarrow> None)"

definition validate_topo :: "Layers \<Rightarrow> RxLayers \<Rightarrow> RxLayer \<Rightarrow> BPDURxType option" where
  "validate_topo L R x =
     (case layer_pdu x of
        BPDUTopology version bpdutype \<Rightarrow>
          Some (if BPDUTopologyLength R \<le> length (Contents x) \<and> ProtocolId x = RSTPProtocolIdentifier R then
                  if bpdutype = BPDUTypeTopoChange L then BPDURxTypeTopo else BPDURxTypeUnknown
                else BPDURxTypeUnknownBPDU)
      | _ \<Rightarrow> None)"

definition validate_pvst :: "RxLayers \<Rightarrow> RxLayer \<Rightarrow> BPDURxType option" where
  "validate_pvst R x =
     (case layer_pdu x of
        PVST pvst origVlan \<Rightarrow>
          Some (if BPDUTopologyLength R \<le> length (Contents x) \<and> ProtocolId x = RSTPProtocolIdentifier R then
                  if BPDUType pvst = BPDUTypePVST R \<and> PVSTProtocolLength R \<le> length (Contents x)
                  then BPDURxTypePVST else BPDURxTypeUnknownBPDU
                else BPDURxTypeUnknown)
      | _ \<Rightarrow> None)"

definition ValidateBPDUFrame ::
  "Layers \<Rightarrow> RxLayers \<Rightarrow> Bridge \<Rightarrow> StpPort \<Rightarrow> Packet \<Rightarrow> BPDURxType option" where
  "ValidateBPDUFrame L R b p packet =
     (if DstMAC packet = BpduDMAC R then
        (case bpduLayer packet of
           None \<Rightarrow> None
         | Some x \<Rightarrow>
             if length (Contents x) \<le> 3 then None
             else if Contents x ! 3 = BPDUTypeSTP L then validate_stp L R b p x
             else if Contents x ! 3 = BPDUTypeRSTP L then validate_rstp L R x
             else if Contents x ! 3 = BPDUTypeTopoChange L then validate_topo L R x
             else Some BPDURxTypeUnknownBPDU)
      else if DstMAC packet = BpduPVSTDMAC R then
        (case pvstLayer packet of None \<Rightarrow> None | Some x \<Rightarrow> validate_pvst R x)
      else Some BPDURxTypeUnknown)"

section \<open>Delivery\<close>

text \<open>The frame put on the channel of the receive machine, if that runs.\<close>

definition ProcessBpduFrame ::
  "PortMapKey \<Rightarrow> BPDURxType \<Rightarrow> Packet \<Rightarrow> StpDb \<Rightarrow> StpDb \<times> RxBpduPdu option" where
  "ProcessBpduFrame k ptype packet D =
     (let D = upd_dbport k (\<lambda>p. p\<lparr>RcvdBPDU := True\<rparr>) D in
      case PortMapTable D k of
        None \<Rightarrow> (D, None)
      | Some p \<Rightarrow>
          if prx_live p then
            (D, map_option (\<lambda>x. \<lparr>rx_pdu = layer_pdu x, rx_ptype = ptype\<rparr>)
                   (if pvstLayer packet = None then bpduLayer packet else pvstLayer packet))
          else (D, None))"

text \<open>One packet from the capture channel of a port.  \<open>p.b\<close> is the bridge of the port.\<close>

definition BpduRxMain ::
  "Layers \<Rightarrow> RxLayers \<Rightarrow> (int32 \<Rightarrow> uint8 list) \<Rightarrow> int32 \<Rightarrow> int32 \<Rightarrow> Packet \<Rightarrow> StpDb
     \<Rightarrow> (StpDb \<times> RxBpduPdu option) option" where
  "BpduRxMain L R HardwareAddr pId bId packet D =
     (case GetBrgPort HardwareAddr R D pId bId packet of
        None \<Rightarrow> None
      | Some None \<Rightarrow> Some (D, None)
      | Some (Some k) \<Rightarrow>
          (case (PortMapTable D k, StpFindBridgeByIfIndex D (snd k)) of
             (Some p, Some b) \<Rightarrow>
               (case ValidateBPDUFrame L R b p packet of
                  None \<Rightarrow> None
                | Some ptype \<Rightarrow>
                    Some (if ptype = BPDURxTypeUnknown then (D, None)
                          else ProcessBpduFrame k ptype packet D))
           | _ \<Rightarrow> None))"

section \<open>Results\<close>

lemma same_bytes_eq: "length ss = length hs \<Longrightarrow> same_bytes ss hs = Some (ss = hs)"
  by (induction ss hs rule: list_induct2) auto

lemma find_brg_port_ok:
  assumes "db_ok D" and "StpFindBridgeById D v = Some b" and "PortMapTable D (pId, i32 v) = Some p"
  shows "find_brg_port D pId (i32 v) v = Some (pId, i32 v)"
    and "IsValidStpPort D pId" and "StpFindBridgeByIfIndex D (i32 v) = Some b"
proof -
  have b: "bridges_ok D" "ports_ok D" "brgs D v = Some b"
    using assms by (simp_all add: db_ok_def StpFindBridgeById_def)
  then have v: "bridge_ok v b" "v \<in> set (BridgeListTable D)"
    unfolding bridges_ok_def by auto
  let ?P = "\<lambda>v'. case StpFindBridgeById D v' of None \<Rightarrow> False
     | Some b \<Rightarrow> BrgIfIndex b = i32 v \<and> Vlan b = v \<and> PortMapTable D (pId, BrgIfIndex b) \<noteq> None"
  have "?P v"
    using v(1) assms(2,3) by (simp add: bridge_ok_def)
  then have "List.find ?P (BridgeListTable D) \<noteq> None"
    using v(2) unfolding find_None_iff by blast
  then show "find_brg_port D pId (i32 v) v = Some (pId, i32 v)"
    unfolding find_brg_port_def by (cases "List.find ?P (BridgeListTable D)") auto
  have "(pId, i32 v) \<in> set (PortListTable D)" "IfIndex p = pId"
    using b(2) assms(3) unfolding ports_ok_def port_ok_def by auto
  then show "IsValidStpPort D pId"
    using assms(3) by (force simp: IsValidStpPort_def list_ex_iff)
  show "StpFindBridgeByIfIndex D (i32 v) = Some b"
    using find_bridge_iff [OF b(1)] b(3) v(1) by (auto simp: bridge_ok_def)
qed

text \<open>A packet for a configured port that another station sent goes to validation.\<close>

lemma GetBrgPort_found:
  assumes "db_ok D" and "StpFindBridgeById D v = Some b" and "PortMapTable D (pId, i32 v) = Some p"
    and "length (HardwareAddr pId) = 6" and "isEthernet packet" and "isLLC packet"
    and "bpduLayer packet \<noteq> None \<or> pvstLayer packet \<noteq> None" and "rx_vlan R (pvstLayer packet) = Some v"
  shows "GetBrgPort HardwareAddr R D pId (i32 v) packet =
    Some (if mac_bytes (SrcMAC packet) = HardwareAddr pId then None else Some (pId, i32 v))"
proof -
  have "same_bytes (mac_bytes (SrcMAC packet)) (HardwareAddr pId) =
      Some (mac_bytes (SrcMAC packet) = HardwareAddr pId)"
    using assms(4) by (intro same_bytes_eq) (simp add: mac_bytes_def)
  then show ?thesis
    using assms(5-8) find_brg_port_ok [OF assms(1-3)] by (simp add: GetBrgPort_def)
qed

lemma BpduRxMain_found:
  assumes "GetBrgPort HardwareAddr R D pId (i32 v) packet = Some (Some (pId, i32 v))"
    and "db_ok D" and "StpFindBridgeById D v = Some b" and "PortMapTable D (pId, i32 v) = Some p"
  shows "BpduRxMain L R HardwareAddr pId (i32 v) packet D =
    map_option (\<lambda>t. if t = BPDURxTypeUnknown then (D, None) else ProcessBpduFrame (pId, i32 v) t packet D)
      (ValidateBPDUFrame L R b p packet)"
  using assms(1,4) find_brg_port_ok(3) [OF assms(2-4)]
  by (cases "ValidateBPDUFrame L R b p packet") (simp_all add: BpduRxMain_def)

text \<open>The headers that the transmit routines of \<open>tx.go\<close> put before a frame of the protocol; \<open>hw\<close>
  is the address of the sending interface.  The length is \<open>STPProtocolLength\<close> and the three
  bytes of the LLC header.\<close>

record TxHeaders =
  eth_SrcMAC :: Mac
  eth_DstMAC :: Mac
  eth_Length :: uint16
  llc_DSAP :: uint8
  llc_SSAP :: uint8
  llc_Control :: uint8

definition BuildRSTPEthernetLlcHeaders :: "RxLayers \<Rightarrow> Mac \<Rightarrow> TxHeaders" where
  "BuildRSTPEthernetLlcHeaders R hw =
     \<lparr>eth_SrcMAC = hw, eth_DstMAC = BpduDMAC R, eth_Length = word_of_nat (STPProtocolLength R + 3),
      llc_DSAP = 0x42, llc_SSAP = 0x42, llc_Control = 0x03\<rparr>"

text \<open>The protocol identifier that \<open>TxRSTP\<close>, \<open>TxTCN\<close> and \<open>TxConfig\<close> write.\<close>

definition tx_protocol_id :: "RxLayers \<Rightarrow> uint16" where
  "tx_protocol_id R = RSTPProtocolIdentifier R"

text \<open>The packet a receiver decodes from a transmitted frame: the addresses of the headers, a BPDU
  layer with the bytes \<open>cs\<close> of the frame and the struct that was serialised.\<close>

definition arrives :: "RxLayers \<Rightarrow> Mac \<Rightarrow> uint8 list \<Rightarrow> Pdu \<Rightarrow> Packet" where
  "arrives R src cs pdu =
     (let h = BuildRSTPEthernetLlcHeaders R src in
      \<lparr>SrcMAC = eth_SrcMAC h, DstMAC = eth_DstMAC h, isEthernet = True, isLLC = True,
       bpduLayer = Some \<lparr>Contents = cs, ProtocolId = tx_protocol_id R, layer_pdu = pdu\<rparr>,
       pvstLayer = None\<rparr>)"

lemma arrives_eq:
  "arrives R src cs pdu =
     \<lparr>SrcMAC = src, DstMAC = BpduDMAC R, isEthernet = True, isLLC = True,
      bpduLayer = Some \<lparr>Contents = cs, ProtocolId = RSTPProtocolIdentifier R, layer_pdu = pdu\<rparr>,
      pvstLayer = None\<rparr>"
  by (simp add: arrives_def BuildRSTPEthernetLlcHeaders_def tx_protocol_id_def)

text \<open>Concrete tables: the default bridge with port 5, created through the management
  interface, and the values of the standard.\<close>

definition rx_reqs :: "Request list" where
  "rx_reqs = [GlobalReq STP_GLOBAL_ENABLE, CreateBridgeReq (srv_bridge 0), CreatePortReq (srv_port\<lparr>t_pVlan := 0\<rparr>)]"

definition rx_tables :: StpDb where
  "rx_tables = db (the (handle_all srv_env (\<lambda>_. 5) rx_reqs srv_start))"

definition rx_layers :: RxLayers where
  "rx_layers = \<lparr>BpduDMAC = Mac 1 0x80 0xc2 0 0 0, BpduPVSTDMAC = Mac 1 0 0x0c 0xcc 0xcc 0xcd,
     RSTPProtocolIdentifier = 0, PVSTProtocolVersion = 2, BPDUTypePVST = 2, BPDUTopologyLength = 4,
     STPProtocolLength = 35, PVSTProtocolLength = 42\<rparr>"

definition rx_bytes :: "uint8 \<Rightarrow> uint8 list" where
  "rx_bytes t = [0, 0, 0, t] @ replicate 32 0"

definition rx_frame :: "uint8 \<Rightarrow> uint16 \<Rightarrow> Bpdu" where
  "rx_frame t portId = tx_bpdu 2 t 0 zero_bridge (zero_port\<lparr>PortId := portId\<rparr>)"

lemma rx_tables_ok: "db_ok rx_tables"
proof -
  have "list_all tame rx_reqs" by code_simp
  then show ?thesis
    using handle_all_ok [of rx_reqs srv_start srv_env "\<lambda>_. 5"] empty_db_ok
    by (auto simp: rx_tables_def srv_start_def)
qed

lemma rx_tables_found:
  "\<exists>b p. StpFindBridgeById rx_tables 0 = Some b \<and> PortMapTable rx_tables (5, 0) = Some p \<and> prx_live p
     \<and> wire_port_id p = 0x8005 \<and> DesignatedBridgeId (BridgePriority b) = BridgeId 0x80 0 0 1 2 3 4 5"
proof -
  have "map_option (\<lambda>b. DesignatedBridgeId (BridgePriority b)) (StpFindBridgeById rx_tables 0)
      = Some (BridgeId 0x80 0 0 1 2 3 4 5)"
    by code_simp
  moreover have "map_option (\<lambda>p. (prx_live p, wire_port_id p)) (PortMapTable rx_tables (5, 0)) = Some (True, 0x8005)"
    by code_simp
  ultimately show ?thesis by auto
qed

text \<open>C33: An RST frame that some bridge transmits with \<open>TxRSTP\<close> and that arrives on a
  configured port of the default bridge is classified as an RST frame whatever it says,
  marks the port and is handed unchanged to the receive machine of the port; a frame the
  port sent itself is dropped without a trace.\<close>

theorem Rx_delivers:
  assumes "db_ok D" and "StpFindBridgeById D 0 = Some b" and "PortMapTable D (pId, 0) = Some p"
    and "prx_live p" and "length (HardwareAddr pId) = 6"
    and "Vlan (brg c) = 0" and "portHandle (self c)" and "out (TxRSTP L True c) = out c @ [TxFrame i pdu]"
    and "max 4 (BPDUTopologyLength R) \<le> length cs" and "cs ! 3 = BPDUTypeRSTP L"
    and "BPDUTypeSTP L \<noteq> BPDUTypeRSTP L"
  shows "BpduRxMain L R HardwareAddr pId 0 (arrives R src cs pdu) D =
    Some (if mac_bytes src = HardwareAddr pId then (D, None)
          else (upd_dbport (pId, 0) (\<lambda>p. p\<lparr>RcvdBPDU := True\<rparr>) D,
                Some \<lparr>rx_pdu = pdu, rx_ptype = BPDURxTypeRSTP\<rparr>))"
proof -
  let ?pk = "arrives R src cs pdu"
  obtain f where f: "pdu = RSTP f" "BPDUType f = BPDUTypeRSTP L"
    using assms(6-8) by (auto simp: TxRSTP_def tx_bpdu_def emit_def)
  have v: "ValidateBPDUFrame L R b p ?pk = Some BPDURxTypeRSTP"
    using assms(9-11) f by (simp add: ValidateBPDUFrame_def validate_rstp_def arrives_eq)
  have g: "GetBrgPort HardwareAddr R D pId (i32 0) ?pk =
      Some (if mac_bytes src = HardwareAddr pId then None else Some (pId, i32 0))"
    using GetBrgPort_found [of D 0 b pId p HardwareAddr ?pk R] assms(1-3,5)
    by (simp add: arrives_eq rx_vlan_def)
  show ?thesis
  proof (cases "mac_bytes src = HardwareAddr pId")
    case True
    with g show ?thesis by (simp add: BpduRxMain_def)
  next
    case False
    with g have "BpduRxMain L R HardwareAddr pId (i32 0) ?pk D = Some (ProcessBpduFrame (pId, 0) BPDURxTypeRSTP ?pk D)"
      using BpduRxMain_found [of HardwareAddr R D pId 0 ?pk b p L] assms(1-3) v by simp
    with False show ?thesis
      using assms(3,4) by (simp add: ProcessBpduFrame_def upd_dbport_def arrives_eq)
  qed
qed

theorem Rx_delivers_witness:
  "\<exists>D pdu. out (TxRSTP ieee_layers True (solo zero_bridge (zero_port\<lparr>portHandle := True\<rparr>))) = [TxFrame 0 pdu]
    \<and> BpduRxMain ieee_layers rx_layers (\<lambda>_. [0, 1, 2, 3, 4, 5]) 5 0
        (arrives rx_layers (Mac 0 1 2 3 4 6) (rx_bytes 2) pdu) rx_tables
      = Some (D, Some \<lparr>rx_pdu = pdu, rx_ptype = BPDURxTypeRSTP\<rparr>)"
proof -
  let ?c = "solo zero_bridge (zero_port\<lparr>portHandle := True\<rparr>)"
  obtain b p where t: "StpFindBridgeById rx_tables 0 = Some b" "PortMapTable rx_tables (5, 0) = Some p" "prx_live p"
    using rx_tables_found by blast
  obtain pdu where pdu: "out (TxRSTP ieee_layers True ?c) = out ?c @ [TxFrame 0 pdu]"
    by (simp add: TxRSTP_def solo_def zero_port_def zero_bridge_def emit_def)
  show ?thesis
    using Rx_delivers [OF rx_tables_ok t, of "\<lambda>_. [0, 1, 2, 3, 4, 5]" ?c ieee_layers 0 pdu rx_layers "rx_bytes 2"
        "Mac 0 1 2 3 4 6"] pdu
    by (simp add: solo_def zero_port_def zero_bridge_def rx_layers_def rx_bytes_def ieee_layers_def mac_bytes_def)
qed

text \<open>C35: A configuration frame of the older protocol is discarded as soon as its port
  identifier equals the identifier of the receiving port, even when another bridge sent
  it: the loop back check of 9.3.4 a) 4) holds for frames that carry both the bridge and
  the port identifier of the receiver, the code asks for either.\<close>

theorem Rx_config_same_port_dropped:
  assumes "db_ok D" and "StpFindBridgeById D 0 = Some b" and "PortMapTable D (pId, 0) = Some p"
    and "length (HardwareAddr pId) = 6" and "mac_bytes src \<noteq> HardwareAddr pId"
    and "max 4 (BPDUTopologyLength R) \<le> length cs" and "cs ! 3 = BPDUTypeSTP L" and "BPDUType f = BPDUTypeSTP L"
    and "bpduBridgeId f \<noteq> DesignatedBridgeId (BridgePriority b)" and "bpduPortId f = wire_port_id p"
  shows "BpduRxMain L R HardwareAddr pId 0 (arrives R src cs (STP f)) D = Some (D, None)"
proof -
  let ?pk = "arrives R src cs (STP f)"
  have "ValidateBPDUFrame L R b p ?pk = Some BPDURxTypeUnknown"
    using assms(6-10) by (simp add: ValidateBPDUFrame_def validate_stp_def arrives_eq)
  moreover have "GetBrgPort HardwareAddr R D pId (i32 0) ?pk = Some (Some (pId, i32 0))"
    using GetBrgPort_found [of D 0 b pId p HardwareAddr ?pk R] assms(1-5)
    by (simp add: arrives_eq rx_vlan_def)
  ultimately show ?thesis
    using BpduRxMain_found [of HardwareAddr R D pId 0 ?pk b p L] assms(1-3) by simp
qed

theorem Rx_config_same_port_dropped_witness:
  "bpduBridgeId (rx_frame 0 0x8005) \<noteq> BridgeId 0x80 0 0 1 2 3 4 5
   \<and> BpduRxMain ieee_layers rx_layers (\<lambda>_. [0, 1, 2, 3, 4, 5]) 5 0
       (arrives rx_layers (Mac 0 1 2 3 4 6) (rx_bytes 0) (STP (rx_frame 0 0x8005))) rx_tables
     = Some (rx_tables, None)"
proof -
  obtain b p where t: "StpFindBridgeById rx_tables 0 = Some b" "PortMapTable rx_tables (5, 0) = Some p"
    "wire_port_id p = 0x8005" "DesignatedBridgeId (BridgePriority b) = BridgeId 0x80 0 0 1 2 3 4 5"
    using rx_tables_found by blast
  have f: "BPDUType (rx_frame 0 0x8005) = 0" "bpduBridgeId (rx_frame 0 0x8005) = zero_bid"
    "bpduPortId (rx_frame 0 0x8005) = 0x8005"
    by (simp_all add: rx_frame_def tx_bpdu_def zero_bridge_def zero_pv_def wire_port_id_def zero_port_def)
  show ?thesis
    using Rx_config_same_port_dropped [OF rx_tables_ok t(1,2), of "\<lambda>_. [0, 1, 2, 3, 4, 5]" "Mac 0 1 2 3 4 6"
        rx_layers "rx_bytes 0" ieee_layers "rx_frame 0 0x8005"] t(3,4) f
    by (simp add: rx_layers_def rx_bytes_def ieee_layers_def mac_bytes_def zero_bid_def)
qed

text \<open>What the decoder promises of the layers it returns.\<close>

definition decoded :: "Layers \<Rightarrow> Packet \<Rightarrow> bool" where
  "decoded L packet \<longleftrightarrow>
     (case bpduLayer packet of
        None \<Rightarrow> True
      | Some x \<Rightarrow> 3 < length (Contents x)
          \<and> (case layer_pdu x of
               STP f \<Rightarrow> Contents x ! 3 = BPDUTypeSTP L
             | RSTP f \<Rightarrow> Contents x ! 3 = BPDUTypeRSTP L
             | BPDUTopology v t \<Rightarrow> Contents x ! 3 = BPDUTypeTopoChange L
             | PVST f v \<Rightarrow> False))
     \<and> (case pvstLayer packet of None \<Rightarrow> True | Some x \<Rightarrow> \<exists>f v. layer_pdu x = PVST f v)"

text \<open>C34: On a frame that another station sends to a configured port the process panics
  exactly if the destination address and the layer disagree: a PVST frame sent to the
  bridge group address, or a BPDU sent to the PVST address.  The layer the address asks
  for is nil then.\<close>

theorem Rx_panics_iff:
  assumes "db_ok D" and "StpFindBridgeById D v = Some b" and "PortMapTable D (pId, i32 v) = Some p"
    and "length (HardwareAddr pId) = 6" and "mac_bytes (SrcMAC packet) \<noteq> HardwareAddr pId"
    and "isEthernet packet" and "isLLC packet" and "bpduLayer packet \<noteq> None \<or> pvstLayer packet \<noteq> None"
    and "rx_vlan R (pvstLayer packet) = Some v" and "decoded L packet"
    and "distinct [BPDUTypeSTP L, BPDUTypeRSTP L, BPDUTypeTopoChange L]" and "BpduDMAC R \<noteq> BpduPVSTDMAC R"
  shows "BpduRxMain L R HardwareAddr pId (i32 v) packet D = None \<longleftrightarrow>
    DstMAC packet = BpduDMAC R \<and> bpduLayer packet = None
    \<or> DstMAC packet = BpduPVSTDMAC R \<and> pvstLayer packet = None"
proof -
  have "GetBrgPort HardwareAddr R D pId (i32 v) packet = Some (Some (pId, i32 v))"
    using GetBrgPort_found [of D v b pId p HardwareAddr packet R] assms(1-9) by simp
  from BpduRxMain_found [OF this assms(1-3), of L]
  have "BpduRxMain L R HardwareAddr pId (i32 v) packet D = None \<longleftrightarrow> ValidateBPDUFrame L R b p packet = None"
    by simp
  also have "\<dots> \<longleftrightarrow> DstMAC packet = BpduDMAC R \<and> bpduLayer packet = None
    \<or> DstMAC packet = BpduPVSTDMAC R \<and> pvstLayer packet = None"
    using assms(10-12)
    by (auto simp: ValidateBPDUFrame_def validate_stp_def validate_rstp_def validate_topo_def validate_pvst_def
        decoded_def split: option.splits Pdu.splits)
  finally show ?thesis .
qed

theorem Rx_panics_iff_witness:
  "BpduRxMain ieee_layers rx_layers (\<lambda>_. [0, 1, 2, 3, 4, 5]) 5 0
     ((arrives rx_layers (Mac 0 1 2 3 4 6) (rx_bytes 2) (RSTP (rx_frame 2 1)))\<lparr>DstMAC := BpduPVSTDMAC rx_layers\<rparr>)
     rx_tables = None"
proof -
  let ?pk = "(arrives rx_layers (Mac 0 1 2 3 4 6) (rx_bytes 2) (RSTP (rx_frame 2 1)))\<lparr>DstMAC := BpduPVSTDMAC rx_layers\<rparr>"
  obtain b p where t: "StpFindBridgeById rx_tables 0 = Some b" "PortMapTable rx_tables (5, i32 0) = Some p"
    using rx_tables_found by auto
  have d: "decoded ieee_layers ?pk"
    by (simp add: decoded_def arrives_eq rx_bytes_def ieee_layers_def)
  have m: "BpduDMAC rx_layers \<noteq> BpduPVSTDMAC rx_layers" by (simp add: rx_layers_def)
  show ?thesis
    using Rx_panics_iff [OF rx_tables_ok t, of "\<lambda>_. [0, 1, 2, 3, 4, 5]" ?pk rx_layers ieee_layers] d m
    by (simp add: arrives_eq mac_bytes_def rx_vlan_def ieee_layers_def)
qed

end
