(* ===== verification/Stp_Quiet.thy ===== *)
theory Stp_Quiet
  imports Stp_Bdm Stp_Ppm Stp_Pst Stp_Timers Stp_Ptx Stp_Prx Stp_Pim Stp_Prt_Run Stp_Tcm Stp_Prs
begin

text \<open>
  Who may program the hardware.  Every handler of \<open>l2/stp/protocol\<close> except those of the state
  transition machine (\<open>Stp_Pst\<close>) leaves the hardware, the variables \<open>Learning\<close> and
  \<open>Forwarding\<close> and that machine's state alone on every port, and every handler except role
  selection leaves the selected roles alone.
\<close>

section \<open>Hardware commands\<close>

fun is_hw :: "StpOut \<Rightarrow> bool" where
  "is_hw (SetStgPortState _ _ _) \<longleftrightarrow> True"
| "is_hw _ \<longleftrightarrow> False"

definition hw_outs :: "Ctx \<Rightarrow> StpOut list" where
  "hw_outs c = filter is_hw (out c)"

definition no_hw :: "StpOut list \<Rightarrow> bool" where
  "no_hw xs \<longleftrightarrow> filter is_hw xs = []"

lemma no_hw_simps [simp]:
  "no_hw []" "no_hw (x # xs) \<longleftrightarrow> \<not> is_hw x \<and> no_hw xs" "no_hw (xs @ ys) \<longleftrightarrow> no_hw xs \<and> no_hw ys"
  "no_hw (if b then xs else ys) \<longleftrightarrow> (b \<longrightarrow> no_hw xs) \<and> (\<not> b \<longrightarrow> no_hw ys)"
  "no_hw (to_prt p e)" "no_hw (to_pim p e d)" "no_hw (to_bdm p e)" "no_hw (to_tc p e)" "no_hw (to_pst p e)"
  "no_hw (to_ptx p e)"
  by (simp_all add: no_hw_def to_prt_def to_pim_def to_bdm_def to_tc_def to_pst_def to_ptx_def)

lemma hw_outs_emit: "no_hw xs \<Longrightarrow> hw_outs (emit xs c) = hw_outs c"
  by (simp add: hw_outs_def no_hw_def)

lemma hw_outs_parts [simp]:
  "hw_outs (c\<lparr>self := p\<rparr>) = hw_outs c" "hw_outs (c\<lparr>brg := b\<rparr>) = hw_outs c"
  "hw_outs (c\<lparr>peers := ps\<rparr>) = hw_outs c" "hw_outs (panic c) = hw_outs c"
  "hw_outs (upd_port i f c) = hw_outs c" "hw_outs (fst (tree_loop d f ids c)) = hw_outs c"
  by (simp_all add: hw_outs_def panic_def)

lemma hw_outs_if [simp]:
  "hw_outs (if b then c else d) = (if b then hw_outs c else hw_outs d)"
  by simp

section \<open>Notifications\<close>

lemma notify_no_hw [simp]:
  "no_hw (snd (NotifyRcvdMsgChanged src p old new data))"
  "no_hw (NotifyUpdtInfoChanged src p old new)"
  "no_hw (NotifySyncedChanged c src p old new)"
  "no_hw (NotifySelectedRoleChanged p r r')"
  "no_hw (NotifyProposingChanged src p old new)"
  "no_hw (NotifyRcvdTcRcvdTcnRcvdTcAck p)"
  by (simp_all add: NotifyRcvdMsgChanged_def NotifyUpdtInfoChanged_def NotifySyncedChanged_def
      NotifySelectedRoleChanged_def NotifyProposingChanged_def NotifyRcvdTcRcvdTcnRcvdTcAck_def
      split: option.split)

lemma selected_no_hw [simp]:
  "no_hw (selected_DisablePort p)" "no_hw (selected_DisabledPort p)" "no_hw (selected_RootPort c p)"
  "no_hw (selected_DesignatedPort_forward p)" "no_hw (selected_AlternatePort c p)" "no_hw (selected_BlockPort p)"
  by (simp_all add: selected_DisablePort_def selected_DisabledPort_def selected_RootPort_def
      selected_DesignatedPort_forward_def selected_AlternatePort_def selected_BlockPort_def)

lemma selected_changed_no_hw [simp]:
  "no_hw (selected_DesignatedPort p)" "no_hw (NotifySelectedChanged c src p old new)"
  "no_hw (NotifyOperEdgeChanged_Prt src p)"
  by (simp_all add: selected_DesignatedPort_def NotifySelectedChanged_def NotifyOperEdgeChanged_Prt_def)

lemma oper_edge_no_hw [simp]: "no_hw (NotifyOperEdgeChanged src p old new)"
  by (simp add: NotifyOperEdgeChanged_def)

section \<open>The machines\<close>

text \<open>Bridge detection and protocol migration.\<close>

lemma BdmProcess_quiet: "keeps hw_outs (\<lambda>c. snd (BdmProcess e c))"
  unfolding BdmProcess_def AddRules_empty
  by (rule bdm_slot.process_keeps)
    (auto dest!: BdmRules_cases simp: bdm_upd_def BdmMachineEdge_def BdmMachineNotEdge_def Let_def hw_outs_emit)

lemma PpmmProcess_quiet: "keeps hw_outs (\<lambda>c. snd (PpmmProcess e c))"
  unfolding PpmmProcess_def AddRules_empty
  by (rule ppmm_slot.process_keeps)
    (auto dest!: PpmmRules_cases simp: ppmm_upd_def PpmmMachineCheckingRSTP_def PpmmMachineSelectingSTP_def
       PpmmMachineSensing_def InformPtxMachineSendRSTPChanged_def Let_def hw_outs_emit)

text \<open>Transmission.\<close>

lemma Tx_quiet [simp]:
  "hw_outs (TxPVST L wok c) = hw_outs c" "hw_outs (TxRSTP L wok c) = hw_outs c"
  "hw_outs (TxTCN L wok c) = hw_outs c" "hw_outs (TxConfig L wok c) = hw_outs c"
  by (simp_all add: TxPVST_def TxRSTP_def TxTCN_def TxConfig_def Let_def hw_outs_emit)

lemma PtxmProcess_quiet: "keeps hw_outs (\<lambda>c. snd (PtxmProcess L wok e c))"
  unfolding PtxmProcess_def AddRules_empty
  by (rule ptx_slot.process_keeps)
    (auto dest!: PtxmRules_cases simp: ptx_upd_def ptx_callbacks)

text \<open>Reception.\<close>

lemma rcvd_quiet [simp]:
  "hw_outs (rcvd_tc_flags f c) = hw_outs c" "hw_outs (inform_stp pdu c) = hw_outs c"
  "hw_outs (snd (rcvd_rst_version L b pdu c)) = hw_outs c"
  "hw_outs (notify_rcvd_msg old new data c) = hw_outs c"
  by (simp_all add: rcvd_tc_flags_def inform_stp_def rcvd_rst_version_def notify_rcvd_msg_def Let_def
      hw_outs_emit NotifyRcvdMsgChanged_def split: option.split)

lemma UpdtBPDUVersion_quiet [simp]: "hw_outs (snd (UpdtBPDUVersion L pdu c)) = hw_outs c"
  by (cases pdu) (simp_all add: UpdtBPDUVersion_def case_prod_beta Let_def hw_outs_emit)

lemma PrxmProcess_quiet: "keeps hw_outs (\<lambda>c. snd (PrxmProcess L d e c))"
  unfolding PrxmProcess_def AddRules_empty
  by (rule prx_slot.process_keeps)
    (auto dest!: PrxmRules_cases simp: prx_upd_def PrxmMachineDiscard_def PrxmMachineReceive_def Let_def
       case_prod_beta hw_outs_emit split: option.split)

text \<open>Received information.\<close>

lemma pim_events_no_hw [simp]:
  "no_hw (agreed_changed_events p)" "no_hw (agree_changed_events c p)" "no_hw (proposed_changed_events p)"
  "no_hw (newinfo_changed_events c p)" "no_hw (disputed_changed_events p)"
  by (simp_all add: agreed_changed_events_def agree_changed_events_def proposed_changed_events_def
      newinfo_changed_events_def disputed_changed_events_def)

lemma PimNotify_quiet [simp]:
  "hw_outs (PimNotifyAgreedChanged a b c) = hw_outs c" "hw_outs (PimNotifyAgreeChanged a b c) = hw_outs c"
  "hw_outs (PimNotifyProposedChanged a b c) = hw_outs c" "hw_outs (PimNotifyReselectChanged a b c) = hw_outs c"
  "hw_outs (PimNotifyNewInfoChange a b c) = hw_outs c" "hw_outs (PimNotifyDisputedChanged a b c) = hw_outs c"
  "hw_outs (notify_selected a b c) = hw_outs c" "hw_outs (notify_synced a b c) = hw_outs c"
  by (simp_all add: PimNotifyAgreedChanged_def PimNotifyAgreeChanged_def PimNotifyProposedChanged_def
      PimNotifyReselectChanged_def PimNotifyNewInfoChange_def PimNotifyDisputedChanged_def
      notify_selected_def notify_synced_def hw_outs_emit)

lemma record_quiet [simp]:
  "hw_outs (recordProposal L f c) = hw_outs c" "hw_outs (recordDispute L f c) = hw_outs c"
  "hw_outs (recordAgreement f c) = hw_outs c"
  by (simp_all add: recordProposal_def recordDispute_def recordAgreement_def Let_def hw_outs_emit)

lemma PimProcess_quiet: "keeps hw_outs (\<lambda>c. snd (PimProcess L d e c))"
  unfolding PimProcess_def AddRules_empty
proof (rule pim_slot.process_keeps)
  fix k f c
  assume "map_of (PimRules L d) k = Some f"
  from PimRules_cases [OF this] show "hw_outs (snd (f c)) = hw_outs c"
    by (elim disjE) (simp_all add: PimMachineDisabled_def PimMachineAged_def PimMachineUpdate_def
        PimMachineReceive_def PimMachineSuperiorDesignated_def PimMachineRepeatedDesignated_def
        PimMachineInferiorDesignated_def PimMachineNotDesignated_def PimMachineOther_def Let_def case_prod_beta)
qed (simp add: pim_upd_def)

text \<open>Role transitions.\<close>

lemma prt_events_no_hw [simp]:
  "no_hw (role_changed_events p)" "no_hw (forward_changed_events p)" "no_hw (learn_changed_events p)"
  "no_hw (reroot_changed_events p)" "no_hw (sync_changed_events p)"
  by (simp_all add: role_changed_events_def forward_changed_events_def learn_changed_events_def
      reroot_changed_events_def sync_changed_events_def)

lemma PrtNotify_quiet [simp]:
  "hw_outs (PrtNotifyRoleChanged r r' c) = hw_outs c" "hw_outs (PrtNotifyForwardChanged a b c) = hw_outs c"
  "hw_outs (PrtNotifyLearnChanged a b c) = hw_outs c" "hw_outs (notify_proposing a b c) = hw_outs c"
  "hw_outs (PrtNotifySyncChanged d b c) = hw_outs c" "hw_outs (PrtNotifyReRootChanged d b c) = hw_outs c"
  by (simp_all add: PrtNotifyRoleChanged_def PrtNotifyForwardChanged_def PrtNotifyLearnChanged_def
      notify_proposing_def PrtNotifySyncChanged_def PrtNotifyReRootChanged_def hw_outs_emit split: option.split)

lemma fold_quiet: "(\<And>x c. x \<in> set xs \<Longrightarrow> v (f x c) = v c) \<Longrightarrow> v (fold f xs c) = v c"
  by (induction xs arbitrary: c) simp_all

lemma tree_quiet [simp]:
  "hw_outs (setSyncTree i c) = hw_outs c" "hw_outs (setReRootTree i c) = hw_outs c"
  by (simp_all add: setSyncTree_def setReRootTree_def Let_def case_prod_beta fold_quiet)

lemma PrtMachineInitPort_quiet [simp]: "hw_outs (snd (PrtMachineInitPort c)) = hw_outs c"
  by (simp add: PrtMachineInitPort_def Let_def)

lemma prt_nested_quiet [simp]:
  "hw_outs (prt_nested c) = hw_outs c" "hw_outs (PrtNotifyNewInfoChanged prt_nested a b c) = hw_outs c"
  by (simp_all add: prt_nested_eq PrtNotifyNewInfoChanged_def Let_def prt_upd_def)

lemma PrtProcess_quiet: "keeps hw_outs (\<lambda>c. snd (PrtProcess e c))"
  unfolding PrtProcess_def AddRules_empty
proof (rule prt_slot.process_keeps)
  fix k f c
  assume "map_of (PrtRules prt_nested) k = Some f"
  from PrtRules_cases [OF this] show "hw_outs (snd (f c)) = hw_outs c"
    unfolding prt_rule_ok_def
    by (elim disjE conjE) (simp_all add: PrtMachineDisablePort_def PrtMachineDisabledPort_def
      PrtMachineRootForward_def PrtMachineRootLearn_def PrtMachineReRooted_def PrtMachineRootPort_def
      PrtMachineDesignatedSynced_def PrtMachineDesignatedRetired_def
      PrtMachineDesignatedForward_def PrtMachineDesignatedLearn_def PrtMachineDesignatedDiscard_def
      PrtMachineDesignatedPort_def PrtMachineBlockPort_def PrtMachineBackupPort_def
      PrtMachineAlternatePort_def PrtMachineRootProposed_def PrtMachineAlternateProposed_def PrtMachineReRoot_def
      PrtMachineRootAgreed_def PrtMachineAlternateAgreed_def PrtMachineDesignatedPropose_def Let_def)
qed (simp add: prt_upd_def)

text \<open>Topology change.\<close>

lemma tc_events_no_hw [simp]: "no_hw (tc_newinfo_events c p)" "no_hw (tcprop_changed_events p a b)"
  by (simp_all add: tc_newinfo_events_def tcprop_changed_events_def)

lemma TcNotify_quiet [simp]:
  "hw_outs (TcNotifyNewInfoChanged a b c) = hw_outs c" "hw_outs (NotifyFdbFlush c) = hw_outs c"
  "hw_outs (FlushFdb c) = hw_outs c" "hw_outs (NotifyTcWhileChanged v c) = hw_outs c"
  "hw_outs (NotifyTcPropChanged p a b c) = hw_outs c"
  by (simp_all add: TcNotifyNewInfoChanged_def NotifyFdbFlush_def FlushFdb_def NotifyTcWhileChanged_def
      NotifyTcPropChanged_def Let_def hw_outs_emit)

lemma newTcWhile_quiet [simp]:
  "hw_outs (snd (newTcWhile c)) = hw_outs c" "hw_outs (NotifyTcAckChanged v c) = hw_outs c"
  "hw_outs (setTcPropTree c) = hw_outs c"
  by (simp_all add: newTcWhile_def NotifyTcAckChanged_def setTcPropTree_def fold_quiet tcprop_port_def Let_def
      split: option.split)

lemma TcProcess_quiet: "keeps hw_outs (\<lambda>c. snd (TcProcess e c))"
  unfolding TcProcess_def AddRules_empty
proof (rule tc_slot.process_keeps)
  fix k f c
  assume "map_of TcRules k = Some f"
  from TcRules_cases [OF this] show "hw_outs (snd (f c)) = hw_outs c"
    by (elim insertE emptyE) (simp_all add: TcMachineInactive_def TcMachineLearning_def TcMachineDetected_def
      TcMachineActive_def TcMachineNotifiedTcn_def TcMachineNotifiedTc_def TcMachinePropagating_def
      TcMachineAcknowledged_def case_prod_beta Let_def)
qed (simp add: tc_upd_def)

text \<open>The timers.\<close>

lemma timer_events_no_hw [simp]:
  "no_hw (fdwhile_running_events c)" "no_hw (hellowhen_running_events c)" "no_hw (rrwhile_running_events c)"
  "no_hw (NotifyEdgeDelayWhileTimerExpired p)" "no_hw (NotifyFdWhileTimerExpired p)"
  "no_hw (NotifyHelloWhenTimerExpired p)" "no_hw (NotifyRbWhileTimerExpired c p)"
  "no_hw (NotifyRrWhileTimerExpired p)" "no_hw (NotifyRcvdInfoWhileTimerExpired p)"
  by (simp_all add: fdwhile_running_events_def hellowhen_running_events_def rrwhile_running_events_def
      NotifyEdgeDelayWhileTimerExpired_def NotifyFdWhileTimerExpired_def NotifyHelloWhenTimerExpired_def
      NotifyRbWhileTimerExpired_def NotifyRrWhileTimerExpired_def NotifyRcvdInfoWhileTimerExpired_def Let_def)

lemma dec_quiet [simp]:
  "hw_outs (fst (dec_EdgeDelayWhile x)) = hw_outs (fst x)" "hw_outs (fst (dec_FdWhile x)) = hw_outs (fst x)"
  "hw_outs (fst (dec_HelloWhen x)) = hw_outs (fst x)" "hw_outs (fst (dec_MdelayWhile x)) = hw_outs (fst x)"
  "hw_outs (fst (dec_RbWhile x)) = hw_outs (fst x)" "hw_outs (fst (dec_RcvdInfoWhile x)) = hw_outs (fst x)"
  "hw_outs (fst (dec_RrWhile x)) = hw_outs (fst x)" "hw_outs (fst (dec_TcWhile x)) = hw_outs (fst x)"
  by (cases x; simp add: dec_EdgeDelayWhile_def dec_FdWhile_def dec_HelloWhen_def dec_MdelayWhile_def
        dec_RbWhile_def dec_RcvdInfoWhile_def dec_RrWhile_def dec_TcWhile_def Let_def hw_outs_emit)+

lemma run_expired_quiet [simp]: "hw_outs (run_expired t c) = hw_outs c"
  by (cases t) (simp_all add: run_expired_def NotifyMdelayWhileTimerExpired_def Let_def hw_outs_emit)

lemma DecrementTimerCounters_quiet [simp]: "hw_outs (DecrementTimerCounters c) = hw_outs c"
  by (simp add: DecrementTimerCounters_def case_prod_beta fold_quiet dec_BPDUGuard_def dec_BAWhile_def
      dec_timers_def dec_TxCount_def Let_def hw_outs_emit)

lemma PtmRules_cases:
  "map_of PtmRules k = Some f \<Longrightarrow> f = PtmMachineOneSecond \<or> f = PtmMachineTick"
  by (drule table_all [where P = "\<lambda>k f. f = PtmMachineOneSecond \<or> f = PtmMachineTick"])
    (simp_all add: PtmRules_def)

lemma PtmProcess_quiet: "keeps hw_outs (\<lambda>c. snd (PtmProcess e c))"
  unfolding PtmProcess_def AddRules_empty
  by (rule ptm_slot.process_keeps)
    (auto dest!: PtmRules_cases simp: ptm_upd_def PtmMachineOneSecond_def PtmMachineTick_def)

text \<open>Role selection.\<close>

lemma prs_notify_no_hw [simp]: "no_hw (prs_notify d c p)"
  by (cases d) simp_all

lemma run_defers_quiet [simp]: "hw_outs (run_defers ds c) = hw_outs c"
  by (rule fold_quiet) (simp add: run_defer_def hw_outs_emit split: option.split)

lemma PrsProcess_quiet: "keeps hw_outs (\<lambda>c. snd (PrsProcess e c))"
  unfolding PrsProcess_def AddRules_empty
proof (rule prs.process_keeps)
  have r: "hw_outs (updtRolesTree c) = hw_outs c" for c
    by (simp add: updtRolesTree_def Let_def case_prod_beta) (simp add: hw_outs_def)
  fix k f c
  assume "map_of PrsRules k = Some f"
  then have "f = PrsMachineInitBridge \<or> f = PrsMachineRoleSelection"
    by (drule_tac table_all [where P = "\<lambda>k f. f = PrsMachineInitBridge \<or> f = PrsMachineRoleSelection"])
      (simp_all add: PrsRules_def)
  then show "hw_outs (snd (f c)) = hw_outs c"
    by (elim disjE) (simp_all add: PrsMachineInitBridge_def PrsMachineRoleSelection_def r
        updtRoleDisabledTree_def clearReselectTree_def setSelectedTree_def Let_def case_prod_beta)
qed (simp add: prs_upd_def)

section \<open>The variables of the state transition machine\<close>

text \<open>What that machine owns of a port, and of all ports of a context.\<close>

definition pst_part :: "StpPort \<Rightarrow> int32 \<times> bool \<times> bool \<times> FsmMachine" where
  "pst_part p = (IfIndex p, Learning p, Forwarding p, PstMachineFsm p)"

definition pst_ports :: "Ctx \<Rightarrow> int32 \<times> (int32 \<Rightarrow> (int32 \<times> bool \<times> bool \<times> FsmMachine) option)" where
  "pst_ports c = (IfIndex (self c), \<lambda>i. map_option pst_part (StpFindPortByIfIndex c i))"

lemma pst_part_upd [simp]:
  "pst_part (p\<lparr>RcvdRSTP := y0\<rparr>) = pst_part p" "pst_part (p\<lparr>PrxmMachineFsm := m\<rparr>) = pst_part p"
  "pst_part (p\<lparr>PimMachineFsm := m\<rparr>) = pst_part p" "pst_part (p\<lparr>PtmMachineFsm := m\<rparr>) = pst_part p"
  "pst_part (p\<lparr>PtmTick := y1\<rparr>) = pst_part p" "pst_part (p\<lparr>RcvdInfo := y2\<rparr>) = pst_part p"
  "pst_part (p\<lparr>BAWhileTimer := y3\<rparr>) = pst_part p" "pst_part (p\<lparr>BridgeAssuranceInconsistant := y4\<rparr>) = pst_part p"
  "pst_part (p\<lparr>RcvdMsg := x0\<rparr>) = pst_part p" "pst_part (p\<lparr>Agree := x1\<rparr>) = pst_part p"
  "pst_part (p\<lparr>Agreed := x2\<rparr>) = pst_part p" "pst_part (p\<lparr>Proposing := x3\<rparr>) = pst_part p"
  "pst_part (p\<lparr>Proposed := x4\<rparr>) = pst_part p" "pst_part (p\<lparr>InfoIs := x5\<rparr>) = pst_part p"
  "pst_part (p\<lparr>Selected := x6\<rparr>) = pst_part p" "pst_part (p\<lparr>Reselect := x7\<rparr>) = pst_part p"
  "pst_part (p\<lparr>UpdtInfo := x8\<rparr>) = pst_part p" "pst_part (p\<lparr>NewInfo := x9\<rparr>) = pst_part p"
  "pst_part (p\<lparr>Synced := x10\<rparr>) = pst_part p" "pst_part (p\<lparr>PortTimes := x11\<rparr>) = pst_part p"
  "pst_part (p\<lparr>PortPriority := x12\<rparr>) = pst_part p" "pst_part (p\<lparr>RcvdInfoWhiletimer := x13\<rparr>) = pst_part p"
  "pst_part (p\<lparr>MsgPriority := x14\<rparr>) = pst_part p" "pst_part (p\<lparr>MsgTimes := x15\<rparr>) = pst_part p"
  "pst_part (p\<lparr>RcvdSTP := x16\<rparr>) = pst_part p" "pst_part (p\<lparr>RcvdTc := x17\<rparr>) = pst_part p"
  "pst_part (p\<lparr>RcvdTcn := x18\<rparr>) = pst_part p" "pst_part (p\<lparr>RcvdTcAck := x19\<rparr>) = pst_part p"
  "pst_part (p\<lparr>RcvdBPDU := x20\<rparr>) = pst_part p" "pst_part (p\<lparr>EdgeDelayWhileTimer := x21\<rparr>) = pst_part p"
  "pst_part (p\<lparr>OperEdge := x22\<rparr>) = pst_part p" "pst_part (p\<lparr>SelectedRole := x23\<rparr>) = pst_part p"
  "pst_part (p\<lparr>TcProp := x24\<rparr>) = pst_part p" "pst_part (p\<lparr>FdbFlush := x25\<rparr>) = pst_part p"
  "pst_part (p\<lparr>BPDUGuardTimer := x26\<rparr>) = pst_part p"
  by (simp_all add: pst_part_def)

lemma pst_part_IfIndex: "pst_part p = pst_part q \<Longrightarrow> IfIndex p = IfIndex q"
  by (simp add: pst_part_def)

lemma pst_ports_self:
  assumes "pst_part (self d) = pst_part (self c)" and "peers d = peers c"
  shows "pst_ports d = pst_ports c"
  using assms pst_part_IfIndex [OF assms(1)] by (auto simp: pst_ports_def StpFindPortByIfIndex_def fun_eq_iff)

lemma pst_ports_peers:
  assumes "pst_part (self d) = pst_part (self c)"
    and "\<And>i. i \<noteq> IfIndex (self c) \<Longrightarrow> map_option pst_part (peers d i) = map_option pst_part (peers c i)"
  shows "pst_ports d = pst_ports c"
  using assms pst_part_IfIndex [OF assms(1)] by (auto simp: pst_ports_def StpFindPortByIfIndex_def fun_eq_iff)

lemma pst_ports_parts [simp]:
  "pst_ports (c\<lparr>brg := b\<rparr>) = pst_ports c" "pst_ports (emit xs c) = pst_ports c" "pst_ports (panic c) = pst_ports c"
  by (rule pst_ports_self; simp add: panic_def)+

lemma pst_ports_upd_port:
  assumes "\<And>p. pst_part (f p) = pst_part p"
  shows "pst_ports (upd_port i f c) = pst_ports c"
  by (rule pst_ports_peers) (simp_all add: upd_port_def assms option.map_comp comp_def)

lemma pst_ports_tree_loop:
  assumes "\<And>p. pst_part (f p) = pst_part p"
  shows "pst_ports (fst (tree_loop d f ids c)) = pst_ports c"
  by (rule tree_loop_inv [where P = "\<lambda>x. pst_ports x = pst_ports c"]) (simp_all add: pst_ports_upd_port assms)

text \<open>The views of the machines determine these variables.\<close>

lemma bdm_view_pst: "bdm_view d = bdm_view c \<Longrightarrow> pst_ports d = pst_ports c"
  by (rule pst_ports_self)
    (drule arg_cong [of _ _ "\<lambda>v. pst_part (fst (snd v))"], simp add: bdm_view_def pst_part_def, simp add: bdm_view_def)

lemma ppmm_view_pst: "ppmm_view d = ppmm_view c \<Longrightarrow> pst_ports d = pst_ports c"
  by (rule pst_ports_self)
    (drule arg_cong [of _ _ "\<lambda>v. pst_part (fst (snd v))"], simp add: ppmm_view_def pst_part_def, simp add: ppmm_view_def)

lemma ptx_view_pst: "ptx_view d = ptx_view c \<Longrightarrow> pst_ports d = pst_ports c"
  by (rule pst_ports_self)
    (drule arg_cong [of _ _ "\<lambda>v. pst_part (fst (snd v))"],
      simp add: ptx_view_def ptx_mask_def tx_view_def pst_part_def, simp add: ptx_view_def)

lemma prt_view_pst:
  assumes "prt_view d = prt_view c"
  shows "pst_ports d = pst_ports c"
proof (rule pst_ports_peers)
  show self: "pst_part (self d) = pst_part (self c)"
    using arg_cong [OF assms, of "\<lambda>v. pst_part (fst (snd v))"] by (simp add: prt_view_def prt_mask_def pst_part_def)
  fix i assume "i \<noteq> IfIndex (self c)"
  then show "map_option pst_part (peers d i) = map_option pst_part (peers c i)"
    using arg_cong [OF assms, of "\<lambda>v. map_option pst_part (snd (snd v) i)"] pst_part_IfIndex [OF self]
    by (simp add: prt_view_def prt_peers_def option.map_comp comp_def pst_part_def [abs_def])
qed

lemma tc_view_pst:
  assumes "tc_view d = tc_view c"
  shows "pst_ports d = pst_ports c"
proof (rule pst_ports_peers)
  show self: "pst_part (self d) = pst_part (self c)"
    using arg_cong [OF assms, of "\<lambda>v. pst_part (fst (snd v))"] by (simp add: tc_view_def tc_mask_def pst_part_def)
  fix i assume "i \<noteq> IfIndex (self c)"
  then show "map_option pst_part (peers d i) = map_option pst_part (peers c i)"
    using arg_cong [OF assms, of "\<lambda>v. map_option pst_part (snd (snd v) i)"] pst_part_IfIndex [OF self]
    by (simp add: tc_view_def tc_peers_def option.map_comp comp_def pst_part_def [abs_def])
qed

text \<open>The other machines.\<close>

lemma counted_down_pst [simp]:
  "pst_part (counted_down p) = pst_part p" "pst_part (ba_down p) = pst_part p" "pst_part (guard_down p) = pst_part p"
  by (simp_all add: counted_down_def ba_down_def guard_down_def pst_part_def)

lemma PtmProcess_pst: "keeps pst_ports (\<lambda>c. snd (PtmProcess e c))"
  unfolding PtmProcess_def AddRules_empty
  by (rule ptm_slot.process_keeps; rule pst_ports_self)
    (auto dest!: PtmRules_cases simp: ptm_upd_def PtmMachineOneSecond_def PtmMachineTick_def
      DecrementTimerCounters_self)

lemma SetRxPortCounters_pst [simp]: "pst_part (SetRxPortCounters t p) = pst_part p"
  by (cases t) (simp_all add: SetRxPortCounters_def pst_part_def)

lemma rcvd_pst [simp]:
  "pst_part (self (rcvd_tc_flags f c)) = pst_part (self c)" "peers (rcvd_tc_flags f c) = peers c"
  "pst_part (self (snd (rcvd_rst_version L b pdu c))) = pst_part (self c)"
  "peers (snd (rcvd_rst_version L b pdu c)) = peers c"
  "self (inform_stp pdu c) = self c" "peers (inform_stp pdu c) = peers c"
  "self (notify_rcvd_msg old new d c) = self c" "peers (notify_rcvd_msg old new d c) = peers c"
  "pst_part (SaveMsgRcvInfo pdu p) = pst_part p"
  by (simp_all add: rcvd_tc_flags_def rcvd_rst_version_def inform_stp_def notify_rcvd_msg_def Let_def panic_def
      SaveMsgRcvInfo_def case_prod_beta, simp_all add: pst_part_def panic_def split: option.split bool.split)

lemma UpdtBPDUVersion_pst [simp]:
  "pst_part (self (snd (UpdtBPDUVersion L pdu c))) = pst_part (self c)"
  "peers (snd (UpdtBPDUVersion L pdu c)) = peers c"
  by (cases pdu; simp add: UpdtBPDUVersion_def case_prod_beta Let_def)+

lemma PrxmMachine_pst [simp]:
  "pst_part (self (snd (PrxmMachineDiscard d c))) = pst_part (self c)" "peers (snd (PrxmMachineDiscard d c)) = peers c"
  "pst_part (self (snd (PrxmMachineReceive L d c))) = pst_part (self c)" "peers (snd (PrxmMachineReceive L d c)) = peers c"
  by (cases d; simp add: PrxmMachineDiscard_def PrxmMachineReceive_def Let_def case_prod_beta panic_def)+

lemma PrxmProcess_pst: "keeps pst_ports (\<lambda>c. snd (PrxmProcess L d e c))"
  unfolding PrxmProcess_def AddRules_empty
  by (rule prx_slot.process_keeps; rule pst_ports_self)
    (auto dest!: PrxmRules_cases simp: prx_upd_def)

lemma pim_port_pst [simp]:
  "pst_part (setTcFlags f d p) = pst_part p" "pst_part (snd (recordPriority v b p)) = pst_part p"
  "pst_part (recordTimes t p) = pst_part p" "pst_part (updtRcvdInfoWhile p) = pst_part p"
  "pst_part (disputed_port L f p) = pst_part p" "pst_part (agreed_port f p) = pst_part p"
  by (simp_all add: setTcFlags_def recordPriority_def recordTimes_def updtRcvdInfoWhile_def disputed_port_def
      agreed_port_def Let_def pst_part_def)

lemma PimRules_pst:
  assumes "map_of (PimRules L d) k = Some f"
  shows "pst_part (self (snd (f c))) = pst_part (self c)"
  using PimRules_cases [OF assms]
  by (elim disjE) (simp_all add: PimMachineDisabled_def PimMachineAged_def PimMachineUpdate_def
        PimMachineReceive_def PimMachineSuperiorDesignated_def PimMachineRepeatedDesignated_def
        PimMachineInferiorDesignated_def PimMachineNotDesignated_def PimMachineOther_def Let_def case_prod_beta)

lemma PimProcess_pst: "keeps pst_ports (\<lambda>c. snd (PimProcess L d e c))"
  unfolding PimProcess_def AddRules_empty
  by (rule pim_slot.process_keeps; rule pst_ports_self)
    (simp_all add: PimRules_pst PimRules_keep, simp_all add: pim_upd_def pst_part_def)

lemma assign_role_pst [simp]: "pst_part (fst (assign_role my rp b i p)) = pst_part p"
  using role_case_keeps [where v = pst_part, of my rp]
  by (simp add: assign_role_def Let_def case_prod_beta)

lemma roles_port_pst: "pst_ports (fst (roles_port my rp i x)) = pst_ports (fst x)"
  by (simp add: roles_port_def Let_def pst_ports_upd_port split: option.split)

lemma roles_fold_pst: "pst_ports (fst (fold (roles_port my rp) ids x)) = pst_ports (fst x)"
  by (rule fold_quiet [where v = "\<lambda>x. pst_ports (fst x)"]) (rule roles_port_pst)

lemma run_defers_pst [simp]: "pst_ports (run_defers ds c) = pst_ports c"
  by (rule fold_quiet) (simp add: run_defer_def split: option.split)

lemma PrsProcess_pst: "keeps pst_ports (\<lambda>c. snd (PrsProcess e c))"
  unfolding PrsProcess_def AddRules_empty
proof (rule prs.process_keeps)
  have t: "pst_ports (fst (tree_loop d (\<lambda>p. p\<lparr>Reselect := a\<rparr>) ids c)) = pst_ports c"
    "pst_ports (fst (tree_loop d (\<lambda>p. p\<lparr>SelectedRole := r\<rparr>) ids c)) = pst_ports c"
    "pst_ports (fst (tree_loop d (\<lambda>p. p\<lparr>Selected := a\<rparr>) ids c)) = pst_ports c"
    for d :: "int32 \<Rightarrow> StpPort \<Rightarrow> PrsDefer list" and a r ids c
    by (rule pst_ports_tree_loop; simp)+
  fix k f c
  assume "map_of PrsRules k = Some f"
  then have "f = PrsMachineInitBridge \<or> f = PrsMachineRoleSelection"
    by (drule_tac table_all [where P = "\<lambda>k f. f = PrsMachineInitBridge \<or> f = PrsMachineRoleSelection"])
      (simp_all add: PrsRules_def)
  then show "pst_ports (snd (f c)) = pst_ports c"
    by (elim disjE) (simp_all add: PrsMachineInitBridge_def PrsMachineRoleSelection_def updtRolesTree_def
        updtRoleDisabledTree_def clearReselectTree_def setSelectedTree_def Let_def case_prod_beta t roles_fold_pst)
qed (simp add: prs_upd_def)

section \<open>Handlers\<close>

definition hw_view :: "Ctx \<Rightarrow> (int32 \<times> (int32 \<Rightarrow> (int32 \<times> bool \<times> bool \<times> FsmMachine) option)) \<times> StpOut list" where
  "hw_view c = (pst_ports c, hw_outs c)"

lemma keeps_hw_view: "keeps pst_ports f \<Longrightarrow> keeps hw_outs f \<Longrightarrow> keeps hw_view f"
  by (simp add: keeps_def hw_view_def)

lemma keeps_pst:
  assumes "keeps v f" and "\<And>c d. v d = v c \<Longrightarrow> pst_ports d = pst_ports c"
  shows "keeps pst_ports f"
  using assms unfolding keeps_def by blast

lemmas process_hw_view =
  keeps_hw_view [OF keeps_pst [OF BdmProcess_keeps bdm_view_pst] BdmProcess_quiet]
  keeps_hw_view [OF keeps_pst [OF PpmmProcess_keeps ppmm_view_pst] PpmmProcess_quiet]
  keeps_hw_view [OF keeps_pst [OF PtxmProcess_keeps ptx_view_pst] PtxmProcess_quiet]
  keeps_hw_view [OF PrxmProcess_pst PrxmProcess_quiet]
  keeps_hw_view [OF PimProcess_pst PimProcess_quiet]
  keeps_hw_view [OF keeps_pst [OF PrtProcess_keeps prt_view_pst] PrtProcess_quiet]
  keeps_hw_view [OF keeps_pst [OF TcProcess_keeps tc_view_pst] TcProcess_quiet]
  keeps_hw_view [OF PtmProcess_pst PtmProcess_quiet]
  keeps_hw_view [OF PrsProcess_pst PrsProcess_quiet]

lemma hw_view_emit: "no_hw xs \<Longrightarrow> hw_view (emit xs c) = hw_view c"
  by (simp add: hw_view_def hw_outs_emit)

lemma hw_view_self: "pst_part p = pst_part (self c) \<Longrightarrow> hw_view (c\<lparr>self := p\<rparr>) = hw_view c"
  using pst_ports_self [of "c\<lparr>self := p\<rparr>" c] by (simp add: hw_view_def)

lemma main_hw_view:
  assumes "(if b then Some (emit xs c) else ProcessAndPost pe hs n e c) = Some d"
    and "\<And>e. keeps hw_view (\<lambda>c. snd (pe e c))" and "no_hw xs"
  shows "hw_view d = hw_view c"
proof (cases b)
  case True
  then show ?thesis using assms(1) hw_view_emit [OF assms(3), of c] by simp
next
  case False
  then show ?thesis using assms(1) ProcessAndPost_keeps [OF assms(2)] by simp
qed

lemma PpmmMachineMain_hw_view: "PpmmMachineMain n e c = Some d \<Longrightarrow> hw_view d = hw_view c"
  unfolding PpmmMachineMain_def by (erule main_hw_view [OF _ process_hw_view(2)]) simp_all

lemma PtxmMachineMain_hw_view: "PtxmMachineMain L wok n e c = Some d \<Longrightarrow> hw_view d = hw_view c"
  unfolding PtxmMachineMain_def by (erule main_hw_view [OF _ process_hw_view(3)]) simp_all

lemma PrxmMachineMain_hw_view: "PrxmMachineMain L n e c = Some d \<Longrightarrow> hw_view d = hw_view c"
  unfolding PrxmMachineMain_def by (erule main_hw_view [OF _ process_hw_view(4)]) simp_all

lemma PimMachineMain_hw_view: "PimMachineMain L n e x c = Some d \<Longrightarrow> hw_view d = hw_view c"
  unfolding PimMachineMain_def by (erule main_hw_view [OF _ process_hw_view(5)]) simp_all

lemma PrtMachineMain_hw_view: "PrtMachineMain n e c = Some d \<Longrightarrow> hw_view d = hw_view c"
  unfolding PrtMachineMain_def by (erule main_hw_view [OF _ process_hw_view(6)]) simp_all

lemma TcMachineMain_hw_view: "TcMachineMain n e c = Some d \<Longrightarrow> hw_view d = hw_view c"
  unfolding TcMachineMain_def by (erule main_hw_view [OF _ process_hw_view(7)]) simp_all

lemma BdmMachineMain_hw_view: "hw_view (BdmMachineMain e c) = hw_view c"
  using keepsD [OF process_hw_view(1), of e c] hw_view_emit [of "to_bdm (self c) e" c]
  by (simp only: BdmMachineMain_def no_hw_simps simp_thms split: if_split)

lemma PtmMachineMain_hw_view: "hw_view (PtmMachineMain e c) = hw_view c"
  unfolding PtmMachineMain_def by (rule keepsD [OF process_hw_view(8)])

lemma PrsMachineMain_hw_view: "hw_view (PrsMachineMain e c) = hw_view c"
proof -
  have k: "hw_view (snd (PrsProcess e c)) = hw_view c" for e c
    by (rule keepsD [OF process_hw_view(9)])
  obtain r c' where p: "PrsProcess e c = (r, c')" by fastforce
  then have "hw_view c' = hw_view c" using k [of e c] by simp
  then show ?thesis using p k by (cases r) (simp_all add: PrsMachineMain_def)
qed

lemma tick_hw_view: "hw_view (PtmMachineMain_tick c) = hw_view c"
proof -
  have k: "hw_view (snd (PtmProcess e c)) = hw_view c" for e c
    by (rule keepsD [OF process_hw_view(8)])
  have "hw_view (c\<lparr>self := (self c)\<lparr>PtmTick := True\<rparr>\<rparr>) = hw_view c"
    by (rule hw_view_self) simp
  then show ?thesis by (simp only: PtmMachineMain_tick_def Let_def k split: if_split) simp
qed

lemma frame_hw_view:
  assumes "PrxmRxFrame L n rx c = Some d"
  shows "hw_view d = hw_view c"
proof -
  have g: "hw_view (bpdu_guard_frame c) = hw_view c"
    by (simp add: bpdu_guard_frame_def Let_def hw_view_emit hw_view_self)
  have k: "hw_view d = hw_view c" if "ProcessAndPost (PrxmProcess L x) PrxmPosts n e c = Some d" for x e d
    by (rule ProcessAndPost_keeps [OF process_hw_view(4) that])
  have "hw_view (x\<lparr>self := SetRxPortCounters t (self x)\<rparr>) = hw_view x" for x t
    by (rule hw_view_self) simp
  then show ?thesis
    using assms g by (auto simp: PrxmRxFrame_def Let_def split: if_splits option.splits dest!: k)
qed

lemma flush_hw_view: "hw_view (FlushFdb c) = hw_view c"
proof -
  have "pst_ports (FlushFdb c) = pst_ports c"
    by (rule pst_ports_self) (simp_all add: FlushFdb_def Let_def)
  then show ?thesis by (simp add: hw_view_def)
qed

end
