(* ===== verification/Stp_System.thy ===== *)
theory Stp_System
  imports Stp_Quiet
begin

text \<open>
  The machines of a bridge running together.  Every machine is a goroutine reading its
  channel, the timers tick, frames arrive and \<open>FlushFdb\<close> runs in goroutines of its own
  (\<open>l2/stp/protocol\<close>, the \<open>...MachineMain\<close> functions): here these are the steps of a transition
  system in which any enabled handler may run next.  What the hardware is told about a
  port is compared with an automaton that knows nothing of the protocol.
\<close>

section \<open>Refinement\<close>

text \<open>A concrete system whose every step is a sequence of steps of an abstract one.\<close>

locale step_refinement =
  fixes cstep :: "'c \<Rightarrow> 'c \<Rightarrow> bool" and astep :: "'a \<Rightarrow> 'a \<Rightarrow> bool"
    and abs :: "'c \<Rightarrow> 'a" and inv :: "'c \<Rightarrow> bool"
  assumes simulates: "inv s \<Longrightarrow> cstep s s' \<Longrightarrow> inv s' \<and> astep\<^sup>*\<^sup>* (abs s) (abs s')"
begin

lemma runs: "cstep\<^sup>*\<^sup>* s s' \<Longrightarrow> inv s \<Longrightarrow> inv s' \<and> astep\<^sup>*\<^sup>* (abs s) (abs s')"
proof (induction rule: rtranclp_induct)
  case (step y z)
  then show ?case using simulates [of y z] by (meson rtranclp_trans)
qed simp

end

section \<open>The automaton of a port\<close>

text \<open>A port is first blocked; it may learn when it is blocked, forward when it is learning,
  and be blocked again at any time.  The state is what the hardware was told last.\<close>

fun hw_next :: "HwState option \<Rightarrow> HwState \<Rightarrow> bool" where
  "hw_next h STP_PORT_STATE_BLOCKING \<longleftrightarrow> True"
| "hw_next h STP_PORT_STATE_LEARNING \<longleftrightarrow> h = Some STP_PORT_STATE_BLOCKING"
| "hw_next h STP_PORT_STATE_FORWARDING \<longleftrightarrow> h = Some STP_PORT_STATE_LEARNING"

fun hw_end :: "HwState option \<Rightarrow> HwState list \<Rightarrow> HwState option" where
  "hw_end h [] = h"
| "hw_end h (x # xs) = hw_end (Some x) xs"

fun hw_path :: "HwState option \<Rightarrow> HwState list \<Rightarrow> bool" where
  "hw_path h [] \<longleftrightarrow> True"
| "hw_path h (x # xs) \<longleftrightarrow> hw_next h x \<and> hw_path (Some x) xs"

text \<open>All ports: one more command for one port.\<close>

inductive hw_spec :: "(int32 \<Rightarrow> HwState list) \<Rightarrow> (int32 \<Rightarrow> HwState list) \<Rightarrow> bool" where
  command: "hw_next (hw_end None (l i)) h \<Longrightarrow> hw_spec l (l(i := l i @ [h]))"

lemma hw_end_append [simp]: "hw_end h (xs @ ys) = hw_end (hw_end h xs) ys"
  by (induction xs arbitrary: h) simp_all

lemma hw_path_append [simp]: "hw_path h (xs @ ys) \<longleftrightarrow> hw_path h xs \<and> hw_path (hw_end h xs) ys"
  by (induction xs arbitrary: h) simp_all

lemma hw_spec_path:
  "hw_path (hw_end None (l i)) xs \<Longrightarrow> hw_spec\<^sup>*\<^sup>* l (l(i := l i @ xs))"
proof (induction xs arbitrary: l)
  case (Cons x xs)
  let ?l = "l(i := l i @ [x])"
  have "hw_spec l ?l" using Cons.prems by (intro command) simp
  moreover have "hw_spec\<^sup>*\<^sup>* ?l (?l(i := ?l i @ xs))"
    using Cons.prems by (intro Cons.IH) simp
  ultimately have "hw_spec\<^sup>*\<^sup>* l (?l(i := ?l i @ xs))" by (rule converse_rtranclp_into_rtranclp)
  moreover have "?l(i := ?l i @ xs) = l(i := l i @ x # xs)" by simp
  ultimately show ?case by (simp only:)
qed simp

lemma hw_spec_paths:
  assumes "hw_spec\<^sup>*\<^sup>* l l'" and "\<And>i. hw_path None (l i)"
  shows "hw_path None (l' i)"
  using assms(1)
proof (induction arbitrary: i rule: rtranclp_induct)
  case (step y z)
  then show ?case by (auto elim!: hw_spec.cases)
qed (rule assms(2))

section \<open>The system\<close>

record Sys =
  bridge :: Bridge
  ports :: "int32 \<Rightarrow> StpPort option"
  queue :: "Chan \<times> int32 \<Rightarrow> (Event \<times> Pdu option) list"
  hwlog :: "int32 \<Rightarrow> HwState list"
  flushes :: "int32 list"
  wire :: "(int32 \<times> Pdu) list"
  dead :: bool

definition ctx :: "Sys \<Rightarrow> StpPort \<Rightarrow> Ctx" where
  "ctx s p = \<lparr>brg = bridge s, self = p, peers = ports s, out = [], panicked = False\<rparr>"

text \<open>What a handler sent takes effect in order.\<close>

fun deliver :: "StpOut \<Rightarrow> Sys \<Rightarrow> Sys" where
  "deliver (Send ch i e d) s = s\<lparr>queue := (queue s)((ch, i) := queue s (ch, i) @ [(e, d)])\<rparr>"
| "deliver (SetStgPortState stg i h) s = s\<lparr>hwlog := (hwlog s)(i := hwlog s i @ [h])\<rparr>"
| "deliver (FlushStgFdb stg i) s = s"
| "deliver (GoFlushFdb i) s = s\<lparr>flushes := flushes s @ [i]\<rparr>"
| "deliver (BPDUGuardDetected i b) s = s"
| "deliver (TxFrame i pdu) s = s\<lparr>wire := wire s @ [(i, pdu)]\<rparr>"

definition commit :: "Ctx \<Rightarrow> Sys \<Rightarrow> Sys" where
  "commit c s = fold deliver (out c) (s\<lparr>bridge := brg c, ports := StpFindPortByIfIndex c, dead := panicked c\<rparr>)"

text \<open>One event of a channel, handled by the goroutine of its machine.\<close>

fun run_handler :: "Layers \<Rightarrow> bool \<Rightarrow> nat \<Rightarrow> Chan \<Rightarrow> Event \<Rightarrow> Pdu option \<Rightarrow> Ctx \<Rightarrow> Ctx option" where
  "run_handler L wok n PrxmEvents e d c = PrxmMachineMain L n e c"
| "run_handler L wok n PtmEvents e d c = Some (PtmMachineMain e c)"
| "run_handler L wok n PpmmEvents e d c = PpmmMachineMain n e c"
| "run_handler L wok n PtxmEvents e d c = PtxmMachineMain L wok n e c"
| "run_handler L wok n PimEvents e d c = PimMachineMain L n e d c"
| "run_handler L wok n BdmEvents e d c = Some (BdmMachineMain e c)"
| "run_handler L wok n PrtEvents e d c = PrtMachineMain n e c"
| "run_handler L wok n TcEvents e d c = TcMachineMain n e c"
| "run_handler L wok n PstEvents e d c = PstMachineMain n e c"
| "run_handler L wok n PrsEvents e d c = Some (PrsMachineMain e c)"

text \<open>The machine of a channel has been built.\<close>

fun chan_live :: "Chan \<Rightarrow> Bridge \<Rightarrow> StpPort \<Rightarrow> bool" where
  "chan_live PrxmEvents b p \<longleftrightarrow> mlive (PrxmMachineFsm p)"
| "chan_live PtmEvents b p \<longleftrightarrow> mlive (PtmMachineFsm p)"
| "chan_live PpmmEvents b p \<longleftrightarrow> mlive (PpmmMachineFsm p)"
| "chan_live PtxmEvents b p \<longleftrightarrow> mlive (PtxmMachineFsm p)"
| "chan_live PimEvents b p \<longleftrightarrow> mlive (PimMachineFsm p)"
| "chan_live BdmEvents b p \<longleftrightarrow> mlive (BdmMachineFsm p)"
| "chan_live PrtEvents b p \<longleftrightarrow> mlive (PrtMachineFsm p)"
| "chan_live TcEvents b p \<longleftrightarrow> mlive (TcMachineFsm p)"
| "chan_live PstEvents b p \<longleftrightarrow> mlive (PstMachineFsm p)"
| "chan_live PrsEvents b p \<longleftrightarrow> mlive (PrsMachineFsm b)"

text \<open>A step: any channel with an event, a tick of any port, a frame on any port, any
  pending flush.  The machine of the bridge reads ports only through their index; its
  context is that of some port.  A handler whose loop does not end never finishes its
  step, and nothing runs after a panic.\<close>

inductive sys_step :: "Layers \<Rightarrow> Sys \<Rightarrow> Sys \<Rightarrow> bool" for L where
  event: "\<not> dead s \<Longrightarrow> queue s (ch, k) = (e, d) # q \<Longrightarrow> ports s i = Some p
    \<Longrightarrow> ch = PrsEvents \<or> k = i \<Longrightarrow> chan_live ch (bridge s) p
    \<Longrightarrow> run_handler L wok n ch e d (ctx s p) = Some c
    \<Longrightarrow> sys_step L s (commit c (s\<lparr>queue := (queue s)((ch, k) := q)\<rparr>))"
| tick: "\<not> dead s \<Longrightarrow> ports s i = Some p \<Longrightarrow> chan_live PtmEvents (bridge s) p
    \<Longrightarrow> sys_step L s (commit (PtmMachineMain_tick (ctx s p)) s)"
| frame: "\<not> dead s \<Longrightarrow> ports s i = Some p \<Longrightarrow> chan_live PrxmEvents (bridge s) p
    \<Longrightarrow> PrxmRxFrame L n rx (ctx s (p\<lparr>RcvdBPDU := True\<rparr>)) = Some c \<Longrightarrow> sys_step L s (commit c s)"
| flush: "\<not> dead s \<Longrightarrow> flushes s = fs @ i # gs \<Longrightarrow> ports s i = Some p
    \<Longrightarrow> sys_step L s (commit (FlushFdb (ctx s p)) (s\<lparr>flushes := fs @ gs\<rparr>))"

section \<open>Effects on the hardware\<close>

fun hw_for :: "int32 \<Rightarrow> StpOut \<Rightarrow> HwState list" where
  "hw_for i (SetStgPortState stg j h) = (if i = j then [h] else [])"
| "hw_for i x = []"

definition hw_of :: "int32 \<Rightarrow> StpOut list \<Rightarrow> HwState list" where
  "hw_of i xs = concat (map (hw_for i) xs)"

lemma hw_of_simps [simp]:
  "hw_of i [] = []" "hw_of i (x # xs) = hw_for i x @ hw_of i xs" "hw_of i (xs @ ys) = hw_of i xs @ hw_of i ys"
  by (simp_all add: hw_of_def)

lemma hw_of_filter: "hw_of i (filter is_hw xs) = hw_of i xs"
proof (induction xs)
  case (Cons x xs)
  then show ?case by (cases x) simp_all
qed simp

lemma hw_of_quiet: "hw_outs c = [] \<Longrightarrow> hw_of i (out c) = []"
  using hw_of_filter [of i "out c"] by (simp add: hw_outs_def)

lemma hw_of_no_hw: "no_hw xs \<Longrightarrow> hw_of i xs = []"
  using hw_of_filter [of i xs] by (simp add: no_hw_def)

lemma deliver_rest [simp]:
  "ports (deliver x s) = ports s" "dead (deliver x s) = dead s" "bridge (deliver x s) = bridge s"
  "hwlog (deliver x s) i = hwlog s i @ hw_for i x"
  by (cases x; simp)+

lemma delivers_rest [simp]:
  "ports (fold deliver xs s) = ports s" "dead (fold deliver xs s) = dead s"
  "hwlog (fold deliver xs s) i = hwlog s i @ hw_of i xs"
  by (induction xs arbitrary: s) simp_all

lemma commit_rest [simp]:
  "ports (commit c s) = StpFindPortByIfIndex c" "dead (commit c s) = panicked c"
  "hwlog (commit c s) i = hwlog s i @ hw_of i (out c)"
  by (simp_all add: commit_def)

lemma hwlog_commit: "hwlog (commit c s) = (\<lambda>i. hwlog s i @ hw_of i (out c))"
  by (rule ext) simp

section \<open>The state transition machine\<close>

text \<open>What the hardware should have been told, and the variables, in each state.\<close>

definition hw_state :: "State \<Rightarrow> HwState option" where
  "hw_state s =
     (if s = PstStateDiscarding then Some STP_PORT_STATE_BLOCKING
      else if s = PstStateLearning then Some STP_PORT_STATE_LEARNING
      else if s = PstStateForwarding then Some STP_PORT_STATE_FORWARDING
      else None)"

definition pst_port_ok :: "StpPort \<Rightarrow> HwState option \<Rightarrow> bool" where
  "pst_port_ok p h \<longleftrightarrow>
     pst_state p \<in> {PstStateNone, PstStateDiscarding, PstStateLearning, PstStateForwarding}
     \<and> h = hw_state (pst_state p)
     \<and> (Learning p \<longleftrightarrow> pst_state p \<in> {PstStateLearning, PstStateForwarding})
     \<and> (Forwarding p \<longleftrightarrow> pst_state p = PstStateForwarding)"

lemma pst_port_ok_cong:
  "pst_part p = pst_part q \<Longrightarrow> pst_port_ok p h = pst_port_ok q h"
  by (simp add: pst_part_def pst_port_ok_def)

lemma PstNotify_hw [simp]:
  "hw_of i (out (PstNotifyLearningChanged a b c)) = hw_of i (out c)"
  "hw_of i (out (PstNotifyForwardingChanged a b c)) = hw_of i (out c)"
  by (simp_all add: PstNotifyLearningChanged_def PstNotifyForwardingChanged_def panic_def hw_of_no_hw
      learning_changed_events_def forwarding_changed_events_def)

lemma PstMachine_hw [simp]:
  "hw_of i (out (snd (PstMachineDiscarding c))) = hw_of i (out c) @
     (if i = IfIndex (self c) then [STP_PORT_STATE_BLOCKING, STP_PORT_STATE_BLOCKING] else [])"
  "hw_of i (out (snd (PstMachineLearning c))) = hw_of i (out c) @
     (if i = IfIndex (self c) then [STP_PORT_STATE_LEARNING] else [])"
  "hw_of i (out (snd (PstMachineForwarding c))) = hw_of i (out c) @
     (if i = IfIndex (self c) then [STP_PORT_STATE_FORWARDING] else [])"
  by (simp_all add: PstMachineDiscarding_def PstMachineLearning_def PstMachineForwarding_def
      disableLearning_def disableForwarding_def enableLearning_def enableForwarding_def set_hw_def Let_def)

text \<open>While the machine handles an event of port \<open>i\<close>, the hardware having been in state \<open>h\<close>.\<close>

definition pst_run_ok :: "int32 \<Rightarrow> HwState option \<Rightarrow> Ctx \<Rightarrow> bool" where
  "pst_run_ok i h c \<longleftrightarrow>
     IfIndex (self c) = i \<and> hw_path h (hw_of i (out c)) \<and> pst_port_ok (self c) (hw_end h (hw_of i (out c)))
     \<and> (\<forall>j. j \<noteq> i \<longrightarrow> hw_of j (out c) = [])"

lemma PstProcess_run_ok:
  assumes "pst_run_ok i h c"
  shows "pst_run_ok i h (snd (PstProcess e c))"
  unfolding PstProcess_def AddRules_empty
proof (rule pst_slot.invariant)
  fix f
  assume "map_of PstRules (cur_s (pst_get c), e) = Some f"
  then consider "f = PstMachineDiscarding"
    | "f = PstMachineLearning" "pst_state (self c) = PstStateDiscarding"
    | "f = PstMachineForwarding" "pst_state (self c) = PstStateLearning"
    by (auto dest!: PstRules_cases simp: pst_get_def)
  then show "pst_run_ok i h (pst_upd (SetState (fst (f (pst_upd (SetEvent e) c)))) (snd (f (pst_upd (SetEvent e) c))))"
    using assms by cases (simp_all add: pst_run_ok_def pst_port_ok_def hw_state_def pst_upd_def)
qed (rule assms)

lemma PstMachineMain_run_ok:
  assumes "PstMachineMain n e c = Some d" and "pst_run_ok i h c"
  shows "pst_run_ok i h d \<and> peers d = peers c"
proof (cases "pst_state (self c) = PstStateNone \<and> e \<noteq> PstEventBegin")
  case True
  then have "d = emit (to_pst (self c) e) c" using assms(1) by (simp add: PstMachineMain_def)
  then show ?thesis using assms(2) by (simp add: pst_run_ok_def hw_of_no_hw)
next
  case False
  then have m: "ProcessAndPost PstProcess PstPosts n e c = Some d"
    using assms(1) by (auto simp: PstMachineMain_def)
  have "pst_run_ok i h d"
    by (rule ProcessAndPost_inv [OF m]) (simp_all add: PstProcess_run_ok assms(2))
  then show ?thesis
    using ProcessAndPost_keeps [OF PstProcess_keeps m] by (simp add: pst_view_def)
qed

section \<open>All interleavings\<close>

definition sys_inv :: "Sys \<Rightarrow> bool" where
  "sys_inv s \<longleftrightarrow> (\<forall>i p. ports s i = Some p \<longrightarrow> IfIndex p = i \<and> pst_port_ok p (hw_end None (hwlog s i)))"

lemma pst_ports_ctx:
  assumes "ports s i = Some p0" and "IfIndex p0 = i" and "pst_part p = pst_part p0"
  shows "pst_ports (ctx s p) = (i, \<lambda>j. map_option pst_part (ports s j))"
  using assms pst_part_IfIndex [OF assms(3)]
  by (auto simp: pst_ports_def ctx_def StpFindPortByIfIndex_def fun_eq_iff)

text \<open>A handler of any other machine changes neither the log nor what it is compared with.\<close>

lemma quiet_step:
  assumes inv: "sys_inv s" and p0: "ports s i = Some p0" and p: "pst_part p = pst_part p0"
    and c: "hw_view c = hw_view (ctx s p)" and s': "hwlog s' = hwlog s"
  shows "sys_inv (commit c s') \<and> hwlog (commit c s') = hwlog s"
proof -
  have i: "IfIndex p0 = i" using inv p0 by (simp add: sys_inv_def)
  have "hw_outs c = []" using c by (simp add: hw_view_def hw_outs_def ctx_def)
  then have log: "hwlog (commit c s') = hwlog s"
    by (simp add: hwlog_commit hw_of_quiet s')
  have look: "map_option pst_part (StpFindPortByIfIndex c j) = map_option pst_part (ports s j)" for j
    using c pst_ports_ctx [OF p0 i p] by (simp add: hw_view_def) (simp add: pst_ports_def fun_eq_iff)
  have "sys_inv (commit c s')"
    unfolding sys_inv_def
  proof (intro allI impI)
    fix j q
    assume "ports (commit c s') j = Some q"
    then have "map_option pst_part (ports s j) = Some (pst_part q)"
      using look [of j] by simp
    then obtain q0 where q0: "ports s j = Some q0" "pst_part q = pst_part q0" by auto
    then show "IfIndex q = j \<and> pst_port_ok q (hw_end None (hwlog (commit c s') j))"
      using inv pst_part_IfIndex [OF q0(2)] pst_port_ok_cong [OF q0(2)] by (simp add: log sys_inv_def)
  qed
  with log show ?thesis by simp
qed

lemma pst_step:
  assumes inv: "sys_inv s" and p: "ports s i = Some p"
    and c: "PstMachineMain n e (ctx s p) = Some c" and s': "hwlog s' = hwlog s"
  shows "sys_inv (commit c s') \<and> hw_spec\<^sup>*\<^sup>* (hwlog s) (hwlog (commit c s'))"
proof -
  have ip: "IfIndex p = i" "pst_port_ok p (hw_end None (hwlog s i))"
    using inv p by (simp_all add: sys_inv_def)
  then have "pst_run_ok i (hw_end None (hwlog s i)) (ctx s p)"
    by (simp add: pst_run_ok_def ctx_def)
  from PstMachineMain_run_ok [OF c this]
  have d: "pst_run_ok i (hw_end None (hwlog s i)) c" "peers c = ports s"
    by (simp_all add: ctx_def)
  have log: "hwlog (commit c s') = (hwlog s)(i := hwlog s i @ hw_of i (out c))"
    using d(1) by (auto simp: hwlog_commit pst_run_ok_def s')
  have "hw_spec\<^sup>*\<^sup>* (hwlog s) (hwlog (commit c s'))"
    unfolding log using d(1) by (intro hw_spec_path) (simp add: pst_run_ok_def)
  moreover have "sys_inv (commit c s')"
    using inv d by (auto simp: sys_inv_def log pst_run_ok_def StpFindPortByIfIndex_def)
  ultimately show ?thesis by simp
qed

lemma run_handler_quiet:
  assumes "run_handler L wok n ch e d c = Some c'" and "ch \<noteq> PstEvents"
  shows "hw_view c' = hw_view c"
  using assms
  by (cases ch) (auto simp: BdmMachineMain_hw_view PtmMachineMain_hw_view PrsMachineMain_hw_view
      intro: PpmmMachineMain_hw_view PtxmMachineMain_hw_view PrxmMachineMain_hw_view PimMachineMain_hw_view
        PrtMachineMain_hw_view TcMachineMain_hw_view)

lemma sys_step_refines:
  assumes "sys_inv s" and "sys_step L s s'"
  shows "sys_inv s' \<and> hw_spec\<^sup>*\<^sup>* (hwlog s) (hwlog s')"
  using assms(2)
proof cases
  case (event ch k e d q i p wok n c)
  show ?thesis
  proof (cases "ch = PstEvents")
    case True
    then show ?thesis using pst_step [OF assms(1) event(4), of n e c] event by simp
  next
    case False
    then show ?thesis
      using quiet_step [OF assms(1) event(4) refl, of c] run_handler_quiet [OF event(7)] event(1) by simp
  qed
next
  case (tick i p)
  then show ?thesis
    using quiet_step [OF assms(1) tick(3) refl, of "PtmMachineMain_tick (ctx s p)" s] tick_hw_view by simp
next
  case (frame i p n rx c)
  then show ?thesis
    using quiet_step [OF assms(1) frame(3), of "p\<lparr>RcvdBPDU := True\<rparr>" c s] frame_hw_view [OF frame(5)] by simp
next
  case (flush fs i gs p)
  then show ?thesis
    using quiet_step [OF assms(1) flush(4) refl, of "FlushFdb (ctx s p)"] flush_hw_view by simp
qed

interpretation stp_hw: step_refinement "sys_step L" hw_spec hwlog sys_inv
  by unfold_locales (rule sys_step_refines)

text \<open>The start: the state transition machines have not seen their first event and no port
  learns or forwards; everything else is arbitrary.\<close>

definition sys_start :: "Sys \<Rightarrow> bool" where
  "sys_start s \<longleftrightarrow>
     hwlog s = (\<lambda>i. [])
     \<and> (\<forall>i p. ports s i = Some p \<longrightarrow>
          IfIndex p = i \<and> pst_state p = PstStateNone \<and> \<not> Learning p \<and> \<not> Forwarding p)"

lemma sys_start_inv: "sys_start s \<Longrightarrow> sys_inv s"
  by (auto simp: sys_start_def sys_inv_def pst_port_ok_def hw_state_def)

text \<open>C29: In every interleaving of the machines of all ports, role selection, ticks, received
  frames and flushes, the commands the hardware gets for each port are a run of the port
  automaton: blocked first, learning only from blocked, forwarding only from learning.
  In every state reached, the last command for a port is the one its variables show:
  forwarding if \<open>Forwarding\<close>, learning if only \<open>Learning\<close>, otherwise blocking, and none
  before the port's machine has begun.\<close>

theorem Sys_refines_hw:
  assumes "sys_start s" and "(sys_step L)\<^sup>*\<^sup>* s s'"
  shows "hw_spec\<^sup>*\<^sup>* (\<lambda>i. []) (hwlog s') \<and> hw_path None (hwlog s' i)
    \<and> (\<forall>p. ports s' i = Some p \<longrightarrow>
         hw_end None (hwlog s' i) =
           (if Forwarding p then Some STP_PORT_STATE_FORWARDING
            else if Learning p then Some STP_PORT_STATE_LEARNING
            else if pst_state p = PstStateNone then None
            else Some STP_PORT_STATE_BLOCKING)
         \<and> (Forwarding p \<longrightarrow> Learning p))"
proof -
  have start: "hwlog s = (\<lambda>i. [])" using assms(1) by (simp add: sys_start_def)
  have r: "sys_inv s'" "hw_spec\<^sup>*\<^sup>* (\<lambda>i. []) (hwlog s')"
    using stp_hw.runs [OF assms(2) sys_start_inv [OF assms(1)]] start by simp_all
  then have "hw_path None (hwlog s' i)" by (intro hw_spec_paths [OF r(2)]) simp
  with r show ?thesis by (auto simp: sys_inv_def pst_port_ok_def hw_state_def)
qed

text \<open>One port that is to learn, with the first event of its state transition machine queued.\<close>

definition sys_port :: StpPort where
  "sys_port = zero_port\<lparr>Learn := True, PstMachineFsm := Start PstStateNone (new_machine PstStateNone),
     PrtMachineFsm := new_machine PrtStateNone, TcMachineFsm := new_machine TcStateNone\<rparr>"

definition sys_one :: Sys where
  "sys_one = \<lparr>bridge = zero_bridge, ports = [0 \<mapsto> sys_port],
     queue = (\<lambda>x. if x = (PstEvents, 0) then [(PstEventBegin, None)] else []),
     hwlog = (\<lambda>i. []), flushes = [], wire = [], dead = False\<rparr>"

theorem Sys_refines_hw_witness:
  "sys_start sys_one
   \<and> (\<exists>s' p. (sys_step ieee_layers)\<^sup>*\<^sup>* sys_one s' \<and> ports s' 0 = Some p \<and> Learning p \<and> \<not> Forwarding p
        \<and> hw_path None (hwlog s' 0) \<and> hw_end None (hwlog s' 0) = Some STP_PORT_STATE_LEARNING)"
proof -
  let ?c = "ctx sys_one sys_port"
  have start: "sys_start sys_one"
    by (simp add: sys_start_def sys_one_def sys_port_def zero_port_def)
  have "pst_ok ?c"
    by (simp add: pst_ok_def ctx_def sys_port_def zero_port_def pst_agrees_def hw_agrees_def)
  then obtain c where c: "PstMachineMain 4 PstEventBegin ?c = Some c"
    using PstMachineMain_returns by blast
  then have l: "Learning (self c) \<and> \<not> Forwarding (self c) \<and> IfIndex (self c) = 0"
    by (auto simp: ctx_def sys_port_def sys_one_def zero_port_def PstMachineMain_def ProcessAndPost_def PstProcess_def
        AddRules_empty ProcessEvent_def PstRules_def pst_get_def pst_upd_def case_prod_beta Let_def
        eval_nat_numeral PstPosts_def PstPostStateDiscarding_def PstPostStateLearning_def
        PstPostStateForwarding_def)
  define s' where "s' = commit c (sys_one\<lparr>queue := (queue sys_one)((PstEvents, 0) := [])\<rparr>)"
  have "sys_step ieee_layers sys_one s'"
    unfolding s'_def
    by (rule sys_step.event [where i = 0 and p = sys_port and e = PstEventBegin and d = None and n = 4])
      (simp_all add: c, simp_all add: sys_one_def sys_port_def new_machine_def)
  then have r: "(sys_step ieee_layers)\<^sup>*\<^sup>* sys_one s'" by (rule r_into_rtranclp)
  have p: "ports s' 0 = Some (self c)" using l by (simp add: s'_def StpFindPortByIfIndex_def)
  show ?thesis
    using Sys_refines_hw [OF start r, of 0] start r p l by auto
qed

end
