(* ===== verification/Op_Refinement.thy ===== *)
theory Op_Refinement
  imports Main
begin

text \<open>
  Data refinement for the container libraries: a sequence of operations that may panic is run
  beside the same sequence of the total operations of an abstract data type.  The locale has the
  obligation for one operation and derives the statement about all sequences.  \<open>Ring_Buffer\<close> and
  \<open>Patricia\<close> interpret it.
\<close>

section \<open>Refinement of operations\<close>

text \<open>A run of operations that may fail, and the run of their total specification.\<close>

fun op_run :: "('o \<Rightarrow> 'c \<Rightarrow> ('r \<times> 'c) option) \<Rightarrow> 'o list \<Rightarrow> 'c \<Rightarrow> ('r list \<times> 'c) option" where
  "op_run f [] c = Some ([], c)"
| "op_run f (x # xs) c =
     (case f x c of
        None \<Rightarrow> None
      | Some (r, c') \<Rightarrow> map_option (\<lambda>(rs, d). (r # rs, d)) (op_run f xs c'))"

fun spec_run :: "('o \<Rightarrow> 'a \<Rightarrow> 'r \<times> 'a) \<Rightarrow> 'o list \<Rightarrow> 'a \<Rightarrow> 'r list \<times> 'a" where
  "spec_run g [] a = ([], a)"
| "spec_run g (x # xs) a = (let (r, a') = g x a; (rs, b) = spec_run g xs a' in (r # rs, b))"

locale op_refinement =
  fixes cop :: "'o \<Rightarrow> 'c \<Rightarrow> ('r \<times> 'c) option" and aop :: "'o \<Rightarrow> 'a \<Rightarrow> 'r \<times> 'a"
    and abs :: "'c \<Rightarrow> 'a" and inv :: "'c \<Rightarrow> bool"
  assumes refines: "inv c \<Longrightarrow> \<exists>r c'. cop x c = Some (r, c') \<and> inv c' \<and> aop x (abs c) = (r, abs c')"
begin

lemma runs:
  assumes "inv c"
  shows "\<exists>rs c'. op_run cop xs c = Some (rs, c') \<and> inv c' \<and> spec_run aop xs (abs c) = (rs, abs c')"
  using assms
proof (induction xs arbitrary: c)
  case (Cons x xs)
  from refines [OF Cons.prems, of x]
  obtain r c1 where "cop x c = Some (r, c1)" "inv c1" "aop x (abs c) = (r, abs c1)" by blast
  moreover from Cons.IH [OF \<open>inv c1\<close>]
  obtain rs c2 where "op_run cop xs c1 = Some (rs, c2)" "inv c2" "spec_run aop xs (abs c1) = (rs, abs c2)" by blast
  ultimately show ?case by simp
qed simp

end

end
