(* ===== verification/Ring_Buffer.thy ===== *)
theory Ring_Buffer
  imports Op_Refinement
begin

text \<open>
  The ring buffer of \<open>utils/ringBuffer/ringBuffer.go\<close>, which holds the last events of a daemon.
  An element is \<open>interface{}\<close>, so possibly nil: the buffer is a list of options.  The buffer
  itself is nil until the first operation that initialises it.  \<open>None\<close> as a result is a run
  time panic (division by zero, index or slice bounds).  The abstract view is a queue of
  bounded length that loses its oldest element when it is full.
\<close>

section \<open>The code\<close>

record 'a RingBuffer =
  wPtr :: int
  rPtr :: int
  buffer :: "'a option list option"

text \<open>Go's zero value.\<close>

definition zero_rb :: "'a RingBuffer" where
  "zero_rb = \<lparr>wPtr = 0, rPtr = 0, buffer = None\<rparr>"

abbreviation (input) DefCapacity :: nat where "DefCapacity \<equiv> 10"

definition slots :: "'a RingBuffer \<Rightarrow> 'a option list" where
  "slots rB = (case buffer rB of None \<Rightarrow> [] | Some bs \<Rightarrow> bs)"

definition verifyInit :: "'a RingBuffer \<Rightarrow> 'a RingBuffer" where
  "verifyInit rB =
     (if buffer rB = None then \<lparr>wPtr = -1, rPtr = 0, buffer = Some (replicate DefCapacity None)\<rparr> else rB)"

definition GetRingBufferCapacity :: "'a RingBuffer \<Rightarrow> int" where
  "GetRingBufferCapacity rB = int (length (slots rB))"

definition IncCapacity :: "int \<Rightarrow> 'a RingBuffer \<Rightarrow> 'a RingBuffer option" where
  "IncCapacity sz rB =
     (if sz = GetRingBufferCapacity rB then Some rB
      else if sz < GetRingBufferCapacity rB then
        if sz < 0 then None else Some (rB\<lparr>buffer := Some (take (nat sz) (slots rB))\<rparr>)
      else Some (rB\<lparr>buffer := Some (slots rB @ replicate (nat (sz - GetRingBufferCapacity rB)) None)\<rparr>))"

definition SetRingBufferCapacity :: "int \<Rightarrow> 'a RingBuffer \<Rightarrow> 'a RingBuffer option" where
  "SetRingBufferCapacity sz rB = IncCapacity sz (verifyInit rB)"

text \<open>Go's remainder has the sign of the dividend.\<close>

definition Modulo :: "int \<Rightarrow> 'a RingBuffer \<Rightarrow> int option" where
  "Modulo idx rB =
     (if slots rB = [] then None else Some (sgn idx * (\<bar>idx\<bar> mod GetRingBufferCapacity rB)))"

definition Set :: "int \<Rightarrow> 'a option \<Rightarrow> 'a RingBuffer \<Rightarrow> 'a RingBuffer option" where
  "Set ptr intf rB =
     (case Modulo ptr rB of
        None \<Rightarrow> None
      | Some p \<Rightarrow> if p < 0 then None else Some (rB\<lparr>buffer := Some ((slots rB)[nat p := intf])\<rparr>))"

definition Get :: "int \<Rightarrow> 'a RingBuffer \<Rightarrow> 'a option option" where
  "Get ptr rB =
     (case Modulo ptr rB of None \<Rightarrow> None | Some p \<Rightarrow> if p < 0 then None else Some (slots rB ! nat p))"

definition InsertIntoRingBuffer :: "'a option \<Rightarrow> 'a RingBuffer \<Rightarrow> ((int \<times> 'a option) \<times> 'a RingBuffer) option" where
  "InsertIntoRingBuffer intf rB =
     (let rB = verifyInit rB in
      case Get (wPtr rB + 1) rB of
        None \<Rightarrow> None
      | Some oldVal \<Rightarrow>
          (case Set (wPtr rB + 1) intf rB of
             None \<Rightarrow> None
           | Some rB1 \<Rightarrow>
               (let old = wPtr rB1 in
                case Modulo (wPtr rB1 + 1) rB1 of
                  None \<Rightarrow> None
                | Some w \<Rightarrow>
                    (let rB2 = rB1\<lparr>wPtr := w\<rparr> in
                     if old \<noteq> -1 \<and> wPtr rB2 = rPtr rB2 then
                       case Modulo (rPtr rB2 + 1) rB2 of
                         None \<Rightarrow> None
                       | Some r \<Rightarrow> Some ((wPtr rB2, oldVal), rB2\<lparr>rPtr := r\<rparr>)
                     else Some ((wPtr rB2, oldVal), rB2)))))"

definition DeleteFromRingBuffer :: "'a RingBuffer \<Rightarrow> ('a option \<times> 'a RingBuffer) option" where
  "DeleteFromRingBuffer rB =
     (let rB = verifyInit rB in
      if wPtr rB = -1 then Some (None, rB)
      else
        case Get (rPtr rB) rB of
          None \<Rightarrow> None
        | Some intf \<Rightarrow>
            if wPtr rB = rPtr rB then Some (intf, rB\<lparr>wPtr := -1, rPtr := 0\<rparr>)
            else map_option (\<lambda>r. (intf, rB\<lparr>rPtr := r\<rparr>)) (Modulo (rPtr rB + 1) rB))"

definition PeekIntoRingBuffer :: "'a RingBuffer \<Rightarrow> ('a option \<times> 'a RingBuffer) option" where
  "PeekIntoRingBuffer rB =
     (let rB = verifyInit rB in
      if wPtr rB = -1 then Some (None, rB) else map_option (\<lambda>intf. (intf, rB)) (Get (rPtr rB) rB))"

text \<open>The loop over at most all slots, \<open>n\<close> of them left.\<close>

fun list_loop :: "nat \<Rightarrow> int \<Rightarrow> 'a RingBuffer \<Rightarrow> 'a option list option" where
  "list_loop 0 idx rB = Some []"
| "list_loop (Suc n) idx rB =
     (case Modulo (rPtr rB + idx) rB of
        None \<Rightarrow> None
      | Some ptr \<Rightarrow>
          if ptr < 0 then None
          else if ptr = wPtr rB then Some [slots rB ! nat ptr]
          else map_option ((#) (slots rB ! nat ptr)) (list_loop n (idx + 1) rB))"

definition GetListOfEntriesFromRingBuffer :: "'a RingBuffer \<Rightarrow> 'a option list option" where
  "GetListOfEntriesFromRingBuffer rB =
     (if wPtr rB = -1 then Some [] else list_loop (nat (GetRingBufferCapacity rB)) 0 rB)"

definition UpdateEntryInRingBuffer :: "'a option \<Rightarrow> int \<Rightarrow> 'a RingBuffer \<Rightarrow> 'a RingBuffer option" where
  "UpdateEntryInRingBuffer intf idx rB = Set idx intf rB"

definition GetEntryFromRingBuffer :: "int \<Rightarrow> 'a RingBuffer \<Rightarrow> 'a option option" where
  "GetEntryFromRingBuffer idx rB = Get idx rB"

definition FlushRingBuffer :: "'a RingBuffer \<Rightarrow> 'a RingBuffer" where
  "FlushRingBuffer rB =
     (let rB = verifyInit rB in if wPtr rB = -1 then rB else rB\<lparr>wPtr := -1, rPtr := 0\<rparr>)"

section \<open>The bounded queue\<close>

datatype 'a RbOp = RbInsert "'a option" | RbDelete | RbPeek | RbList | RbFlush

datatype 'a RbResult = Done | Value "'a option" | Values "'a option list"

fun rb_op :: "'a RbOp \<Rightarrow> 'a RingBuffer \<Rightarrow> ('a RbResult \<times> 'a RingBuffer) option" where
  "rb_op (RbInsert x) rB = map_option (\<lambda>(r, rB). (Done, rB)) (InsertIntoRingBuffer x rB)"
| "rb_op RbDelete rB = map_option (\<lambda>(v, rB). (Value v, rB)) (DeleteFromRingBuffer rB)"
| "rb_op RbPeek rB = map_option (\<lambda>(v, rB). (Value v, rB)) (PeekIntoRingBuffer rB)"
| "rb_op RbList rB = map_option (\<lambda>vs. (Values vs, rB)) (GetListOfEntriesFromRingBuffer rB)"
| "rb_op RbFlush rB = Some (Done, FlushRingBuffer rB)"

text \<open>A queue with at most \<open>n\<close> elements, oldest first.\<close>

fun queue_op :: "'a RbOp \<Rightarrow> nat \<times> 'a option list \<Rightarrow> 'a RbResult \<times> (nat \<times> 'a option list)" where
  "queue_op (RbInsert x) (n, q) = (Done, (n, (if length q < n then q else tl q) @ [x]))"
| "queue_op RbDelete (n, q) = (Value (if q = [] then None else hd q), (n, tl q))"
| "queue_op RbPeek (n, q) = (Value (if q = [] then None else hd q), (n, q))"
| "queue_op RbList (n, q) = (Values q, (n, q))"
| "queue_op RbFlush (n, q) = (Done, (n, []))"

section \<open>Abstraction\<close>

text \<open>The slots in use, from the read pointer to the write pointer.\<close>

definition rb_len :: "'a RingBuffer \<Rightarrow> nat" where
  "rb_len rB = (if wPtr rB = -1 then 0 else nat ((wPtr rB - rPtr rB) mod GetRingBufferCapacity rB) + 1)"

definition rb_slot :: "'a RingBuffer \<Rightarrow> nat \<Rightarrow> nat" where
  "rb_slot rB k = (nat (rPtr rB) + k) mod length (slots rB)"

definition contents :: "'a RingBuffer \<Rightarrow> 'a option list" where
  "contents rB = map (\<lambda>k. slots rB ! rb_slot rB k) [0..<rb_len rB]"

definition rb_ok :: "'a RingBuffer \<Rightarrow> bool" where
  "rb_ok rB \<longleftrightarrow>
     buffer rB \<noteq> None \<and> slots rB \<noteq> []
     \<and> (wPtr rB = -1 \<and> rPtr rB = 0
        \<or> 0 \<le> wPtr rB \<and> wPtr rB < GetRingBufferCapacity rB \<and> 0 \<le> rPtr rB \<and> rPtr rB < GetRingBufferCapacity rB)"

text \<open>An initialised buffer is empty, or its write pointer is \<open>l\<close> slots after its read
  pointer.\<close>

definition rb_at :: "'a option list \<Rightarrow> nat \<Rightarrow> nat \<Rightarrow> 'a RingBuffer" where
  "rb_at bs r l = \<lparr>wPtr = int ((r + l) mod length bs), rPtr = int r, buffer = Some bs\<rparr>"

definition rb_empty :: "'a option list \<Rightarrow> 'a RingBuffer" where
  "rb_empty bs = \<lparr>wPtr = -1, rPtr = 0, buffer = Some bs\<rparr>"

lemma wrap_inj:
  fixes a b n r :: nat
  assumes "a < n" and "b < n" and "(r + a) mod n = (r + b) mod n"
  shows "a = b"
proof -
  have "a = b" if "a \<le> b" "b < n" "(r + a) mod n = (r + b) mod n" for a b
  proof -
    have "n dvd b - a" using that mod_eq_dvd_iff_nat [of "r + a" "r + b" n] by simp
    moreover have "b - a < n" using that by linarith
    ultimately have "b - a = 0" using nat_dvd_not_less [of "b - a" n] by (cases "b - a = 0") simp_all
    then show ?thesis using that by linarith
  qed
  then show ?thesis using assms by (metis nat_le_linear)
qed

lemma rb_cases:
  assumes "rb_ok rB"
  obtains (empty) bs where "rB = rb_empty bs" "bs \<noteq> []"
  | (used) bs r l where "rB = rb_at bs r l" "r < length bs" "l < length bs"
proof -
  obtain bs where bs: "buffer rB = Some bs" "bs \<noteq> []" "slots rB = bs"
    using assms by (auto simp: rb_ok_def slots_def)
  show thesis
  proof (cases "wPtr rB = -1")
    case True
    then have "rB = rb_empty bs" using assms bs by (cases rB) (auto simp: rb_ok_def rb_empty_def)
    then show thesis using bs(2) by (rule empty)
  next
    case False
    define n where "n = length bs"
    define w where "w = nat (wPtr rB)"
    define r where "r = nat (rPtr rB)"
    have wr: "wPtr rB = int w" "rPtr rB = int r" "w < n" "r < n"
      using assms bs False by (auto simp: rb_ok_def GetRingBufferCapacity_def w_def r_def n_def)
    have "(r + (w + n - r) mod n) mod n = w"
      using wr(3,4) by (simp add: mod_add_right_eq)
    then have "rB = rb_at bs r ((w + n - r) mod n)"
      using wr bs by (cases rB) (simp add: rb_at_def n_def)
    moreover have "(w + n - r) mod n < length bs" using wr(3) by (simp add: n_def [symmetric])
    ultimately show thesis using used [of bs r "(w + n - r) mod n"] wr(4) by (simp add: n_def)
  qed
qed

lemma rb_parts [simp]:
  "slots (rb_at bs r l) = bs" "slots (rb_empty bs) = bs" "rPtr (rb_at bs r l) = int r"
  "wPtr (rb_at bs r l) = int ((r + l) mod length bs)" "wPtr (rb_empty bs) = -1" "rPtr (rb_empty bs) = 0"
  "GetRingBufferCapacity (rb_at bs r l) = int (length bs)" "GetRingBufferCapacity (rb_empty bs) = int (length bs)"
  "verifyInit (rb_at bs r l) = rb_at bs r l" "verifyInit (rb_empty bs) = rb_empty bs"
  by (simp_all add: rb_at_def rb_empty_def slots_def GetRingBufferCapacity_def verifyInit_def)

lemma rb_ok_at:
  assumes "r < length bs"
  shows "rb_ok (rb_at bs r l)"
proof -
  have "bs \<noteq> []" using assms by auto
  then have "(r + l) mod length bs < length bs" by simp
  then show ?thesis using assms \<open>bs \<noteq> []\<close> by (simp add: rb_ok_def) (simp add: rb_at_def)
qed

lemma rb_ok_empty: "bs \<noteq> [] \<Longrightarrow> rb_ok (rb_empty bs)"
  by (auto simp: rb_ok_def) (simp add: rb_empty_def)

lemma contents_empty [simp]: "contents (rb_empty bs) = []"
  by (simp add: contents_def rb_len_def)

lemma contents_at:
  assumes "r < length bs" and "l < length bs"
  shows "contents (rb_at bs r l) = map (\<lambda>k. bs ! ((r + k) mod length bs)) [0..<Suc l]"
proof -
  have "(int ((r + l) mod length bs) - int r) mod int (length bs) = int l"
    using assms(2) by (simp add: zmod_int mod_diff_left_eq)
  then have "rb_len (rb_at bs r l) = Suc l"
    by (simp add: rb_len_def)
  then show ?thesis by (simp add: contents_def rb_slot_def del: upt_Suc)
qed

lemma Modulo_nat: "slots rB \<noteq> [] \<Longrightarrow> Modulo (int k) rB = Some (int (k mod length (slots rB)))"
  by (cases "k = 0") (simp_all add: Modulo_def GetRingBufferCapacity_def zmod_int)

lemma Modulo_Suc: "slots rB \<noteq> [] \<Longrightarrow> Modulo (int k + 1) rB = Some (int (Suc k mod length (slots rB)))"
  using Modulo_nat [of rB "Suc k"] by (simp add: add.commute)

section \<open>The operations\<close>

lemma Insert_empty:
  assumes "bs \<noteq> []"
  shows "InsertIntoRingBuffer x (rb_empty bs) = Some ((0, bs ! 0), rb_at (bs[0 := x]) 0 0)"
proof -
  have m: "Modulo 0 rB = Some 0" if "slots rB \<noteq> []" for rB :: "'a RingBuffer"
    using Modulo_nat [OF that, of 0] by simp
  show ?thesis
    using assms by (simp add: InsertIntoRingBuffer_def Get_def Set_def m Let_def)
      (simp add: m slots_def rb_empty_def rb_at_def)
qed

lemma Insert_room:
  assumes "r < length bs" and "Suc l < length bs"
  shows "InsertIntoRingBuffer x (rb_at bs r l) =
    Some ((int ((r + Suc l) mod length bs), bs ! ((r + Suc l) mod length bs)),
      rb_at (bs[(r + Suc l) mod length bs := x]) r (Suc l))"
proof -
  let ?n = "length bs"
  have w: "Suc ((r + l) mod ?n) mod ?n = (r + Suc l) mod ?n" by (simp add: mod_Suc_eq)
  have bs: "bs \<noteq> []" using assms by auto
  then have "(r + Suc l) mod ?n \<noteq> r"
    using wrap_inj [of "Suc l" ?n 0 r] assms by auto
  with bs show ?thesis
    by (simp add: InsertIntoRingBuffer_def Get_def Set_def Let_def Modulo_Suc w)
      (simp add: Modulo_Suc w slots_def rb_at_def)
qed

lemma Insert_full:
  assumes "r < length bs" and "Suc l = length bs"
  shows "InsertIntoRingBuffer x (rb_at bs r l) =
    Some ((int r, bs ! r), rb_at (bs[r := x]) (Suc r mod length bs) l)"
proof -
  let ?n = "length bs"
  have w: "Suc ((r + l) mod ?n) mod ?n = r"
    using assms by (simp add: mod_Suc_eq) (simp add: add_Suc_right [symmetric] del: add_Suc_right)
  have w': "(Suc r mod ?n + l) mod ?n = r"
    using w by (simp add: mod_simps)
  have bs: "bs \<noteq> []" using assms by auto
  show ?thesis
    using bs w' by (simp add: InsertIntoRingBuffer_def Get_def Set_def Let_def Modulo_Suc w)
      (simp add: Modulo_Suc w slots_def rb_at_def)
qed

lemma Delete_at:
  assumes "r < length bs" and "l < length bs"
  shows "DeleteFromRingBuffer (rb_at bs r l) =
    Some (bs ! r, if l = 0 then rb_empty bs else rb_at bs (Suc r mod length bs) (l - 1))"
proof -
  let ?n = "length bs"
  have bs: "bs \<noteq> []" using assms by auto
  have e: "(r + l) mod ?n = r \<longleftrightarrow> l = 0"
    using wrap_inj [of l ?n 0 r] assms bs by auto
  have w: "(Suc r mod ?n + (l - 1)) mod ?n = (r + l) mod ?n" if "l \<noteq> 0"
    using that by (cases l) (simp_all add: mod_simps)
  have g: "Get (int r) (rb_at bs r l) = Some (bs ! r)"
    using bs assms(1) by (simp add: Get_def Modulo_nat)
  show ?thesis
    using bs w e by (simp add: DeleteFromRingBuffer_def g Let_def Modulo_Suc) (simp add: rb_at_def rb_empty_def)
qed

lemma Peek_at:
  assumes "r < length bs" and "l < length bs"
  shows "PeekIntoRingBuffer (rb_at bs r l) = Some (bs ! r, rb_at bs r l)"
proof -
  have "bs \<noteq> []" using assms by auto
  then show ?thesis using assms(1) by (simp add: PeekIntoRingBuffer_def Let_def Get_def Modulo_nat)
qed

lemma list_loop_at:
  assumes "r < length bs" and "l < length bs" and "k \<le> l" and "l - k < m"
  shows "list_loop m (int k) (rb_at bs r l) = Some (map (\<lambda>j. bs ! ((r + j) mod length bs)) [k..<Suc l])"
  using assms(3,4)
proof (induction m arbitrary: k)
  case (Suc m)
  have bs: "bs \<noteq> []" using assms by auto
  have m: "Modulo (int r + int k) (rb_at bs r l) = Some (int ((r + k) mod length bs))"
    using Modulo_nat [of "rb_at bs r l" "r + k"] bs by simp
  have e: "(r + k) mod length bs = (r + l) mod length bs \<longleftrightarrow> k = l"
    using wrap_inj [of k "length bs" l r] Suc.prems(1) assms(2) by auto
  show ?case
  proof (cases "k = l")
    case True
    then show ?thesis using m by simp
  next
    case False
    then have "list_loop m (int (Suc k)) (rb_at bs r l)
        = Some (map (\<lambda>j. bs ! ((r + j) mod length bs)) [Suc k..<Suc l])"
      using Suc.prems by (intro Suc.IH) simp_all
    moreover have "[k..<Suc l] = k # [Suc k..<Suc l]" using Suc.prems(1) by (simp add: upt_conv_Cons)
    ultimately show ?thesis using m e False by (simp add: add.commute del: upt_Suc)
  qed
qed simp

lemma List_at:
  assumes "r < length bs" and "l < length bs"
  shows "GetListOfEntriesFromRingBuffer (rb_at bs r l) = Some (contents (rb_at bs r l))"
  using list_loop_at [OF assms, of 0 "length bs"] assms
  by (simp add: GetListOfEntriesFromRingBuffer_def contents_at del: upt_Suc)

section \<open>Refinement\<close>

text \<open>The contents after each operation.\<close>

lemma contents_room:
  assumes "r < length bs" and "Suc l < length bs"
  shows "contents (rb_at (bs[(r + Suc l) mod length bs := x]) r (Suc l)) = contents (rb_at bs r l) @ [x]"
proof -
  let ?n = "length bs" and ?j = "(r + Suc l) mod length bs"
  have "bs \<noteq> []" using assms by auto
  then have j: "?j < ?n" by simp
  have "bs[?j := x] ! ((r + k) mod ?n) = bs ! ((r + k) mod ?n)" if "k \<le> l" for k
  proof -
    have "(r + k) mod ?n \<noteq> ?j"
      using wrap_inj [of k ?n "Suc l" r] that assms(2) by auto
    then show ?thesis by simp
  qed
  then show ?thesis
    using assms j by (simp add: contents_at)
qed

lemma tl_map_upt: "tl (map f [0..<Suc l]) = map (\<lambda>k. f (Suc k)) [0..<l]"
  by (simp add: upt_conv_Cons map_Suc_upt [symmetric] comp_def del: upt_Suc)

lemma Suc_wrap: "(Suc r mod n + k) mod n = (r + Suc k) mod n"
  by (simp add: mod_simps)

lemma contents_next:
  assumes "r < length bs" and "l < length bs"
  shows "contents (rb_at bs (Suc r mod length bs) l) = map (\<lambda>k. bs ! ((r + Suc k) mod length bs)) [0..<Suc l]"
proof -
  have "bs \<noteq> []" using assms by auto
  then have "Suc r mod length bs < length bs" by simp
  then show ?thesis using assms by (simp only: contents_at Suc_wrap)
qed

lemma contents_full:
  assumes "r < length bs" and "Suc l = length bs"
  shows "contents (rb_at (bs[r := x]) (Suc r mod length bs) l) = tl (contents (rb_at bs r l)) @ [x]"
proof -
  let ?n = "length bs"
  have l: "l < ?n" using assms(2) by linarith
  have "bs[r := x] ! ((r + Suc k) mod ?n) = bs ! ((r + Suc k) mod ?n)" if "k < l" for k
  proof -
    have "(r + Suc k) mod ?n \<noteq> (r + 0) mod ?n"
      using wrap_inj [of "Suc k" ?n 0 r] that assms l by linarith
    then show ?thesis using assms(1) by simp
  qed
  then have "map (\<lambda>k. bs[r := x] ! ((r + Suc k) mod ?n)) [0..<l] = map (\<lambda>k. bs ! ((r + Suc k) mod ?n)) [0..<l]"
    by simp
  moreover have "(r + Suc l) mod ?n = r" using assms by simp
  ultimately have "map (\<lambda>k. bs[r := x] ! ((r + Suc k) mod ?n)) [0..<Suc l] = map (\<lambda>k. bs ! ((r + Suc k) mod ?n)) [0..<l] @ [x]"
    using assms(1) by (simp del: add_Suc_right)
  moreover have "contents (rb_at (bs[r := x]) (Suc r mod ?n) l) = map (\<lambda>k. bs[r := x] ! ((r + Suc k) mod ?n)) [0..<Suc l]"
    using contents_next [of r "bs[r := x]" l] assms(1) l by simp
  ultimately show ?thesis
    by (simp only: contents_at [OF assms(1) l] tl_map_upt)
qed

lemma contents_tl:
  assumes "r < length bs" and "l < length bs" and "l \<noteq> 0"
  shows "contents (rb_at bs (Suc r mod length bs) (l - 1)) = tl (contents (rb_at bs r l))"
proof -
  have "l - 1 < length bs" "Suc (l - 1) = l" using assms by simp_all
  then show ?thesis using assms by (simp only: contents_next contents_at tl_map_upt)
qed

text \<open>The abstract queue of a buffer; the zero value stands for the empty buffer that its first
  operation makes of it.\<close>

definition rb_abs :: "'a RingBuffer \<Rightarrow> nat \<times> 'a option list" where
  "rb_abs rB = (length (slots (verifyInit rB)), contents (verifyInit rB))"

definition rb_inv :: "'a RingBuffer \<Rightarrow> bool" where
  "rb_inv rB \<longleftrightarrow> rB = zero_rb \<or> rb_ok rB"

lemma rb_abs_parts [simp]:
  "rb_abs (rb_at bs r l) = (length bs, contents (rb_at bs r l))" "rb_abs (rb_empty bs) = (length bs, [])"
  by (simp_all add: rb_abs_def)

lemma verifyInit_zero: "verifyInit zero_rb = rb_empty (replicate DefCapacity None)"
  by (simp add: verifyInit_def zero_rb_def rb_empty_def)

lemma rb_op_empty:
  assumes "bs \<noteq> []"
  shows "\<exists>r rB'. rb_op x (rb_empty bs) = Some (r, rB') \<and> rb_ok rB' \<and> queue_op x (length bs, []) = (r, rb_abs rB')"
proof (cases x)
  case (RbInsert v)
  have "rb_ok (rb_at (bs[0 := v]) 0 0)" using assms by (intro rb_ok_at) simp
  moreover have "contents (rb_at (bs[0 := v]) 0 0) = [v]" using assms by (simp add: contents_at)
  ultimately show ?thesis using RbInsert assms by (simp add: Insert_empty)
qed (use assms rb_ok_empty [of bs] in \<open>simp_all add: DeleteFromRingBuffer_def PeekIntoRingBuffer_def
      GetListOfEntriesFromRingBuffer_def FlushRingBuffer_def\<close>)

lemma contents_hd:
  assumes "r < length bs" and "l < length bs"
  shows "contents (rb_at bs r l) \<noteq> []" "hd (contents (rb_at bs r l)) = bs ! r"
    "length (contents (rb_at bs r l)) = Suc l"
  using assms by (simp_all add: contents_at hd_map del: upt_Suc)

lemma rb_op_at:
  assumes "r < length bs" and "l < length bs"
  shows "\<exists>v rB'. rb_op x (rb_at bs r l) = Some (v, rB') \<and> rb_ok rB'
    \<and> queue_op x (length bs, contents (rb_at bs r l)) = (v, rb_abs rB')"
proof -
  have bs: "bs \<noteq> []" using assms by auto
  have s: "Suc r mod length bs < length bs" using bs by simp
  note c = contents_hd [OF assms]
  show ?thesis
  proof (cases x)
    case (RbInsert v)
    show ?thesis
    proof (cases "Suc l < length bs")
      case True
      have "rb_ok (rb_at (bs[(r + Suc l) mod length bs := v]) r (Suc l))" using assms by (intro rb_ok_at) simp
      then show ?thesis
        using RbInsert True assms c contents_room [OF assms(1) True, of v] by (simp add: Insert_room)
    next
      case False
      then have l: "Suc l = length bs" using assms(2) by simp
      have "rb_ok (rb_at (bs[r := v]) (Suc r mod length bs) l)" using s by (intro rb_ok_at) simp
      then show ?thesis
        using RbInsert assms c contents_full [OF assms(1) l, of v] l by (simp add: Insert_full)
    qed
  next
    case RbDelete
    show ?thesis
    proof (cases "l = 0")
      case True
      then have "tl (contents (rb_at bs r l)) = []" using assms by (simp add: contents_at)
      then show ?thesis using RbDelete True assms c bs by (simp add: Delete_at rb_ok_empty)
    next
      case False
      then show ?thesis
        using RbDelete assms c contents_tl [OF assms False] s by (simp add: Delete_at rb_ok_at)
    qed
  next
    case RbPeek
    then show ?thesis using assms c by (simp add: Peek_at rb_ok_at)
  next
    case RbList
    then show ?thesis using assms by (simp add: List_at rb_ok_at)
  next
    case RbFlush
    have "FlushRingBuffer (rb_at bs r l) = rb_empty bs"
      by (simp add: FlushRingBuffer_def) (simp add: rb_at_def rb_empty_def)
    then show ?thesis using RbFlush bs by (simp add: rb_ok_empty)
  qed
qed

lemma rb_op_refines:
  assumes "rb_inv rB"
  shows "\<exists>r rB'. rb_op x rB = Some (r, rB') \<and> rb_inv rB' \<and> queue_op x (rb_abs rB) = (r, rb_abs rB')"
proof -
  have ok: "\<exists>r rB'. rb_op x rB = Some (r, rB') \<and> rb_ok rB' \<and> queue_op x (rb_abs rB) = (r, rb_abs rB')"
    if "rb_ok rB" for rB :: "'a RingBuffer"
    using that by (cases rule: rb_cases) (simp_all add: rb_op_empty rb_op_at)
  show ?thesis
  proof (cases "rB = zero_rb")
    case True
    let ?b = "replicate DefCapacity (None :: 'a option)"
    have abs: "rb_abs (zero_rb :: 'a RingBuffer) = rb_abs (rb_empty ?b)"
      by (simp add: rb_abs_def verifyInit_zero)
    have ex: "\<exists>r rB'. rb_op x (rb_empty ?b) = Some (r, rB') \<and> rb_ok rB' \<and> queue_op x (rb_abs (rb_empty ?b)) = (r, rb_abs rB')"
      by (intro ok rb_ok_empty) simp
    show ?thesis
    proof (cases "x = RbList")
      case True
      then show ?thesis using \<open>rB = zero_rb\<close> abs
        by (simp add: rb_inv_def GetListOfEntriesFromRingBuffer_def) (simp add: zero_rb_def GetRingBufferCapacity_def slots_def)
    next
      case False
      then have "rb_op x (zero_rb :: 'a RingBuffer) = rb_op x (rb_empty ?b)"
        by (cases x) (simp_all add: InsertIntoRingBuffer_def DeleteFromRingBuffer_def PeekIntoRingBuffer_def
            FlushRingBuffer_def verifyInit_zero)
      then show ?thesis using ex abs \<open>rB = zero_rb\<close> by (metis rb_inv_def)
    qed
  next
    case False
    then have "rb_ok rB" using assms by (simp add: rb_inv_def)
    from ok [OF this] show ?thesis unfolding rb_inv_def by blast
  qed
qed

interpretation ring: op_refinement rb_op queue_op rb_abs rb_inv
  by unfold_locales (rule rb_op_refines)

section \<open>Capacity\<close>

text \<open>Setting the capacity of a fresh buffer.\<close>

lemma SetRingBufferCapacity_fresh:
  assumes "0 < n"
  shows "SetRingBufferCapacity n (zero_rb :: 'a RingBuffer) = Some (rb_empty (replicate (nat n) None))"
proof -
  have "take (nat n) (replicate 10 None) = replicate (nat n) (None :: 'a option)" if "n < 10"
    using that by (simp add: min_def take_replicate)
  moreover have "replicate 10 None @ replicate (nat (n - 10)) None = replicate (nat n) (None :: 'a option)" if "10 \<le> n"
    using that by (simp add: replicate_add [symmetric] nat_diff_distrib)
  ultimately show ?thesis
    using assms unfolding SetRingBufferCapacity_def IncCapacity_def verifyInit_zero
    by (cases "n = 10") (auto simp add: rb_empty_def slots_def GetRingBufferCapacity_def)
qed

text \<open>Growing a buffer that has wrapped puts the new slots between the oldest and the newest
  entry: the pointers are not adjusted.\<close>

lemma SetRingBufferCapacity_wrapped:
  "\<exists>rB rs rB1 rB2. SetRingBufferCapacity 2 (zero_rb :: nat RingBuffer) = Some rB
     \<and> op_run rb_op [RbInsert (Some 1), RbInsert (Some 2), RbInsert (Some 3)] rB = Some (rs, rB1)
     \<and> GetListOfEntriesFromRingBuffer rB1 = Some [Some 2, Some 3]
     \<and> SetRingBufferCapacity 4 rB1 = Some rB2
     \<and> GetListOfEntriesFromRingBuffer rB2 = Some [Some 2, None, None, Some 3]"
proof -
  let ?r = "rb_at [Some 3, Some 2 :: nat option] 1 1"
  have "op_run rb_op [RbInsert (Some 1), RbInsert (Some 2), RbInsert (Some 3)] (rb_empty [None, None :: nat option])
      = Some ([Done, Done, Done], ?r)"
    by code_simp
  moreover have "GetListOfEntriesFromRingBuffer ?r = Some [Some 2, Some 3]"
    "SetRingBufferCapacity 4 ?r = Some \<lparr>wPtr = 0, rPtr = 1, buffer = Some [Some 3, Some 2, None, None]\<rparr>"
    "GetListOfEntriesFromRingBuffer \<lparr>wPtr = 0, rPtr = 1, buffer = Some [Some 3, Some 2, None, None :: nat option]\<rparr>
      = Some [Some 2, None, None, Some 3]"
    by code_simp+
  ultimately show ?thesis
    using SetRingBufferCapacity_fresh [of 2, where ?'a = nat] by (auto simp: numeral_2_eq_2)
qed

section \<open>Correctness\<close>

text \<open>C40: a ring buffer that was given a positive capacity runs every sequence of insertions,
  deletions, peeks, listings and flushes without a panic, and every deletion, peek and listing
  returns what the queue bounded by that capacity returns, which drops its oldest element when it
  is full.  The slot number and the old content of the slot that an insertion returns have no
  counterpart in the queue.\<close>

theorem RingBuffer_refines_queue:
  assumes "0 < n"
  shows "\<exists>rB rs rB'. SetRingBufferCapacity n (zero_rb :: 'a RingBuffer) = Some rB
    \<and> op_run rb_op xs rB = Some (rs, rB')
    \<and> spec_run queue_op xs (nat n, []) = (rs, rb_abs rB')"
proof -
  let ?b = "rb_empty (replicate (nat n) (None :: 'a option))"
  have "rb_inv ?b" using assms by (simp add: rb_inv_def rb_ok_empty)
  from ring.runs [OF this, of xs] show ?thesis
    using SetRingBufferCapacity_fresh [OF assms, where ?'a = 'a] by auto
qed

text \<open>Capacity 2, and a sequence that overflows and then empties the buffer.\<close>

theorem RingBuffer_refines_queue_witness:
  "\<exists>rB rB'. SetRingBufferCapacity 2 (zero_rb :: nat RingBuffer) = Some rB
    \<and> op_run rb_op [RbInsert (Some 1), RbInsert (Some 2), RbInsert (Some 3), RbList, RbDelete, RbPeek, RbDelete, RbDelete] rB
      = Some ([Done, Done, Done, Values [Some 2, Some 3], Value (Some 2), Value (Some 3), Value (Some 3), Value None], rB')
    \<and> rb_abs rB' = (2, [])"
  using RingBuffer_refines_queue [of 2, where ?'a = nat, of "[RbInsert (Some 1), RbInsert (Some 2),
      RbInsert (Some 3), RbList, RbDelete, RbPeek, RbDelete, RbDelete]"]
  by auto

end
