(* ===== verification/Patricia.thy ===== *)
theory Patricia
  imports Op_Refinement "HOL-Library.Word" "HOL-Library.Sublist" "HOL-Library.Multiset" "HOL-Library.List_Lexorder"
begin

text \<open>
  The Patricia trie of \<open>utils/patriciaDB\<close> (\<open>patricia.go\<close>, and the sparse child list of
  \<open>children.go\<close>, the only one the trie creates), which holds the routes of the RIB and of BGP.
  A pointer to a node is the path of child indices that leads to it from the root, a nil slice or
  interface is \<open>None\<close>, and \<open>None\<close> as a result is a panic.  Prefixes are immutable byte lists.
  In the code they are slices of the arrays of the inserted keys, and \<open>compact\<close> may append to such
  a slice in place; the model is that of callers that pass every key in an array of its own and
  do not use it afterwards.
\<close>

section \<open>Nodes and child lists\<close>

type_synonym byte = "8 word"

datatype 'a Trie = Trie (nprefix: "byte list option") (nitem: "'a option") (nchildren: "'a Trie list")

abbreviation (input) DefaultMaxPrefixPerNode :: nat where "DefaultMaxPrefixPerNode \<equiv> 4"

definition NewTrie :: "'a Trie" where
  "NewTrie = Trie None None []"

text \<open>The bytes of a prefix; a nil slice has none.\<close>

definition pfx :: "'a Trie \<Rightarrow> byte list" where
  "pfx t = (case nprefix t of None \<Rightarrow> [] | Some p \<Rightarrow> p)"

fun longestCommonPrefixLength :: "byte list \<Rightarrow> byte list \<Rightarrow> nat" where
  "longestCommonPrefixLength (x # xs) (y # ys) = (if x = y then Suc (longestCommonPrefixLength xs ys) else 0)"
| "longestCommonPrefixLength _ _ = 0"

text \<open>The first child whose prefix starts with the byte; reading the first byte of an empty
  prefix panics.\<close>

fun next_child :: "byte \<Rightarrow> 'a Trie list \<Rightarrow> nat option option" where
  "next_child b [] = Some None"
| "next_child b (c # cs) =
     (case pfx c of
        [] \<Rightarrow> None
      | x # _ \<Rightarrow> if x = b then Some (Some 0) else map_option (map_option Suc) (next_child b cs))"

definition replace_child :: "byte \<Rightarrow> 'a Trie \<Rightarrow> 'a Trie list \<Rightarrow> 'a Trie list option" where
  "replace_child b child cs =
     map_option (\<lambda>j. case j of None \<Rightarrow> cs | Some i \<Rightarrow> cs[i := child]) (next_child b cs)"

definition remove_child :: "byte \<Rightarrow> 'a Trie list \<Rightarrow> 'a Trie list option" where
  "remove_child b cs =
     (case next_child b cs of
        None \<Rightarrow> None
      | Some None \<Rightarrow> None
      | Some (Some i) \<Rightarrow> Some (take i cs @ drop (Suc i) cs))"

lemma next_child_nth:
  "next_child b cs = Some (Some i) \<Longrightarrow> i < length cs \<and> pfx (cs ! i) \<noteq> [] \<and> hd (pfx (cs ! i)) = b"
  by (induction b cs arbitrary: i rule: next_child.induct) (auto split: list.splits if_splits)

section \<open>Search\<close>

text \<open>The node a path leads to, and the tree with that node replaced.\<close>

fun node_at :: "nat list \<Rightarrow> 'a Trie \<Rightarrow> 'a Trie" where
  "node_at [] t = t"
| "node_at (i # is) t = node_at is (nchildren t ! i)"

fun put_at :: "nat list \<Rightarrow> 'a Trie \<Rightarrow> 'a Trie \<Rightarrow> 'a Trie" where
  "put_at [] s t = s"
| "put_at (i # is) s t = Trie (nprefix t) (nitem t) ((nchildren t)[i := put_at is s (nchildren t ! i)])"

text \<open>The loop of \<open>findSubtree\<close> from a node on: the path to the node where it stops, whether it
  was found, and the part of that node's prefix that is left over.  The parent is the node one
  step before.\<close>

function findSubtree :: "'a Trie \<Rightarrow> byte list \<Rightarrow> (nat list \<times> bool \<times> byte list) option" where
  "findSubtree t key =
     (let common = longestCommonPrefixLength key (pfx t);
          key = drop common key
      in if key = [] then Some ([], True, drop common (pfx t))
         else if common < length (pfx t) then Some ([], False, drop common (pfx t))
         else
           (case next_child (hd key) (nchildren t) of
              None \<Rightarrow> None
            | Some None \<Rightarrow> Some ([], False, [])
            | Some (Some i) \<Rightarrow>
                map_option (\<lambda>(path, found, leftover). (i # path, found, leftover))
                  (findSubtree (nchildren t ! i) key)))"
  by pat_completeness auto

lemma size_child: "i < length (nchildren t) \<Longrightarrow> size (nchildren t ! i) < size t"
proof (cases t)
  case (Trie p item cs)
  moreover assume "i < length (nchildren t)"
  ultimately have "size (cs ! i) \<le> size_list size cs" by (intro size_list_estimation' [of "cs ! i"]) simp_all
  then show ?thesis using Trie by simp
qed

termination findSubtree
  by (relation "measure (\<lambda>(t, key). size t)") (auto dest: next_child_nth intro: size_child)

declare findSubtree.simps [simp del]

definition Get :: "'a Trie \<Rightarrow> byte list \<Rightarrow> 'a option option" where
  "Get t key =
     (case findSubtree t key of
        None \<Rightarrow> None
      | Some (node, found, leftover) \<Rightarrow>
          Some (if \<not> found \<or> leftover \<noteq> [] then None else nitem (node_at node t)))"

definition Match :: "'a Trie \<Rightarrow> byte list \<Rightarrow> bool option" where
  "Match t key = map_option (\<lambda>item. item \<noteq> None) (Get t key)"

text \<open>\<open>nextWithLongestPrefixMatch\<close>: the first child that starts with the byte, or else the child with
  the largest smaller first byte.\<close>

fun next_match :: "byte \<Rightarrow> 'a Trie list \<Rightarrow> 'a Trie option \<Rightarrow> 'a Trie option" where
  "next_match b [] longestPrefixChild = longestPrefixChild"
| "next_match b (child # cs) longestPrefixChild =
     (if pfx child \<noteq> [] \<and> hd (pfx child) = b then Some child
      else if pfx child \<noteq> [] \<and> hd (pfx child) < b
        \<and> (case longestPrefixChild of None \<Rightarrow> True | Some c \<Rightarrow> hd (pfx c) < hd (pfx child))
      then next_match b cs (Some child)
      else next_match b cs longestPrefixChild)"

text \<open>The loop of \<open>GetLongestPrefixNode\<close> at the node \<open>root\<close>: it breaks with the length of the longest
  stored prefix so far (\<open>Inr\<close>), or returns an item at once (\<open>Inl\<close>).\<close>

function longest_loop :: "'a Trie \<Rightarrow> byte list \<Rightarrow> 'a Trie \<Rightarrow> byte list \<Rightarrow> nat \<Rightarrow> nat \<Rightarrow> ('a option + nat) option" where
  "longest_loop trie inpPrefix root key prefixlen lastNonNilPrefix =
     (if length key < length (pfx root) then Some (Inr lastNonNilPrefix)
      else
        let common = longestCommonPrefixLength key (pfx root);
            prefixlen = prefixlen + common
        in case Get trie (take prefixlen inpPrefix) of
             None \<Rightarrow> None
           | Some node \<Rightarrow>
               (let lastNonNilPrefix = (if node \<noteq> None then prefixlen else lastNonNilPrefix);
                    key = drop common key;
                    leftover = drop common (pfx root);
                    prefixLeftover = drop prefixlen inpPrefix
                in if key = [] then Some (Inr lastNonNilPrefix)
                   else if common < length (pfx root) \<and> common = 0 \<and> prefixlen = 0 then Some (Inr lastNonNilPrefix)
                   else if common < length (pfx root) \<and> length prefixLeftover \<noteq> length leftover
                   then Some (Inr lastNonNilPrefix)
                   else if common < length (pfx root) \<and> list_all2 (\<le>) leftover prefixLeftover
                   then Some (Inl (nitem root))
                   else
                     (case next_match (hd key) (nchildren root) None of
                        None \<Rightarrow> Some (Inr lastNonNilPrefix)
                      | Some child \<Rightarrow> longest_loop trie inpPrefix child key prefixlen lastNonNilPrefix)))"
  by pat_completeness auto

lemma next_match_member: "next_match b cs l = Some c \<Longrightarrow> c \<in> set cs \<or> l = Some c"
  by (induction b cs l rule: next_match.induct) (auto split: if_splits)

lemma size_member: "c \<in> set (nchildren t) \<Longrightarrow> size c < size t"
  using size_child by (metis in_set_conv_nth)

termination longest_loop
  by (relation "measure (\<lambda>(trie, inpPrefix, root, key, prefixlen, lastNonNilPrefix). size root)")
    (auto dest: next_match_member intro: size_member)

declare longest_loop.simps [simp del]

definition GetLongestPrefixNode :: "'a Trie \<Rightarrow> byte list \<Rightarrow> 'a option option" where
  "GetLongestPrefixNode t key =
     (case longest_loop t key t key 0 0 of
        None \<Rightarrow> None
      | Some (Inl item) \<Rightarrow> Some item
      | Some (Inr lastNonNilPrefix) \<Rightarrow> Get t (take lastNonNilPrefix key))"

section \<open>Insertion\<close>

definition compact :: "'a Trie \<Rightarrow> 'a Trie" where
  "compact t =
     (case nchildren t of
        [child] \<Rightarrow>
          if nitem t \<noteq> None \<or> nitem child \<noteq> None then t
          else if length (pfx t) + length (pfx child) > DefaultMaxPrefixPerNode then t
          else Trie (Some (pfx t @ pfx child)) (nitem child) (nchildren child)
      | _ \<Rightarrow> t)"

text \<open>The nodes that the loop at \<open>AppendChild\<close> adds below a node, the item in the last one.\<close>

function append_child :: "byte list \<Rightarrow> 'a option \<Rightarrow> 'a Trie" where
  "append_child key item =
     (if length key \<le> DefaultMaxPrefixPerNode then Trie (Some key) item []
      else Trie (Some (take DefaultMaxPrefixPerNode key)) None
             [append_child (drop DefaultMaxPrefixPerNode key) item])"
  by pat_completeness auto

termination append_child
  by (relation "measure (\<lambda>(key, item). length key)") auto

declare append_child.simps [simp del]

text \<open>The labels \<open>InsertItem\<close>, \<open>AppendChild\<close> and \<open>SplitPrefix\<close> of \<open>put\<close>.\<close>

definition insert_item :: "'a Trie \<Rightarrow> 'a option \<Rightarrow> bool \<Rightarrow> bool \<times> 'a Trie" where
  "insert_item t item replace =
     (if replace \<or> nitem t = None then (True, Trie (nprefix t) item (nchildren t)) else (False, t))"

definition append_key :: "'a Trie \<Rightarrow> byte list \<Rightarrow> 'a option \<Rightarrow> bool \<Rightarrow> bool \<times> 'a Trie" where
  "append_key t key item replace =
     (if key = [] then insert_item t item replace
      else (True, Trie (nprefix t) (nitem t) (nchildren t @ [append_child key item])))"

definition split_prefix :: "nat \<Rightarrow> 'a Trie \<Rightarrow> 'a Trie" where
  "split_prefix common t =
     Trie (Some (take common (pfx t))) None
       [compact (Trie (Some (drop common (pfx t))) (nitem t) (nchildren t))]"

function put_loop :: "'a Trie \<Rightarrow> byte list \<Rightarrow> 'a option \<Rightarrow> bool \<Rightarrow> (bool \<times> 'a Trie) option" where
  "put_loop t key item replace =
     (let common = longestCommonPrefixLength key (pfx t);
          key = drop common key
      in if common < length (pfx t) then Some (append_key (split_prefix common t) key item replace)
         else if key = [] then Some (insert_item t item replace)
         else
           (case next_child (hd key) (nchildren t) of
              None \<Rightarrow> None
            | Some None \<Rightarrow> Some (append_key t key item replace)
            | Some (Some i) \<Rightarrow>
                map_option (\<lambda>(inserted, child). (inserted, Trie (nprefix t) (nitem t) ((nchildren t)[i := child])))
                  (put_loop (nchildren t ! i) key item replace)))"
  by pat_completeness auto

termination put_loop
  by (relation "measure (\<lambda>(t, key, item, replace). size t)") (auto dest: next_child_nth intro: size_child)

declare put_loop.simps [simp del]

definition put :: "'a Trie \<Rightarrow> byte list option \<Rightarrow> 'a option \<Rightarrow> bool \<Rightarrow> (bool \<times> 'a Trie) option" where
  "put t key item replace =
     (case key of
        None \<Rightarrow> None
      | Some key \<Rightarrow>
          if nprefix t = None then
            if length key \<le> DefaultMaxPrefixPerNode then
              Some (insert_item (Trie (Some key) (nitem t) (nchildren t)) item replace)
            else
              Some (append_key (Trie (Some (take DefaultMaxPrefixPerNode key)) (nitem t) (nchildren t))
                      (drop DefaultMaxPrefixPerNode key) item replace)
          else put_loop t key item replace)"

definition Insert :: "'a Trie \<Rightarrow> byte list option \<Rightarrow> 'a option \<Rightarrow> (bool \<times> 'a Trie) option" where
  "Insert t key item = put t key item False"

definition Set :: "'a Trie \<Rightarrow> byte list option \<Rightarrow> 'a option \<Rightarrow> 'a Trie option" where
  "Set t key item = map_option snd (put t key item True)"

section \<open>Traversal\<close>

text \<open>The error a visitor returns, nil for none, and the value that skips a subtree.  A visitor
  has a state of its own and leaves the trie as it is; visitors that delete nodes are the subject
  of \<open>VisitAndUpdate\<close>, which is not modelled.\<close>

datatype 'e VisitorError = SkipSubtree | VisitorError 'e

type_synonym ('a, 's, 'e) VisitorFunc = "byte list \<Rightarrow> 'a \<Rightarrow> 's \<Rightarrow> 's \<times> 'e VisitorError option"

text \<open>The order of \<open>sort.Sort\<close> on a child list, whose prefixes start with different bytes.\<close>

definition sort_children :: "'a Trie list \<Rightarrow> 'a Trie list" where
  "sort_children cs = sort_key pfx cs"

text \<open>The loop over a child list that was sorted: the state of the visitor, the error the walk
  returns, and the list afterwards.  The sorting of the lists below stays when the walk is over.\<close>

function walk_children :: "('a, 's, 'e) VisitorFunc \<Rightarrow> byte list \<Rightarrow> 'a Trie list \<Rightarrow> 's
    \<Rightarrow> 's \<times> 'e VisitorError option \<times> 'a Trie list" where
  "walk_children visitor pre [] s = (s, None, [])"
| "walk_children visitor pre (child # cs) s =
     (let pre1 = pre @ pfx child;
          (s, err) = (case nitem child of None \<Rightarrow> (s, None) | Some item \<Rightarrow> visitor pre1 item s)
      in case err of
           Some SkipSubtree \<Rightarrow>
             (let (s, err, cs) = walk_children visitor pre cs s in (s, err, child # cs))
         | Some (VisitorError e) \<Rightarrow> (s, Some (VisitorError e), child # cs)
         | None \<Rightarrow>
             (let (s, err, below) = walk_children visitor pre1 (sort_children (nchildren child)) s;
                  child = Trie (nprefix child) (nitem child) below
              in if err \<noteq> None then (s, err, child # cs)
                 else let (s, err, cs) = walk_children visitor pre cs s in (s, err, child # cs)))"
  by pat_completeness auto

lemma size_sort_children: "size_list size (sort_children cs) = size_list size cs"
proof -
  have "sum_list (map size (sort_key pfx cs)) = sum_list (map size cs)"
    by (metis mset_map mset_sort sum_mset_sum_list)
  then show ?thesis by (simp add: sort_children_def size_list_conv_sum_list)
qed

lemma size_sorted_below: "size_list size (sort_children (nchildren child)) < Suc (size child + n)"
  by (cases child) (simp add: size_sort_children)

termination walk_children
  by (relation "measure (\<lambda>(visitor, pre, cs, s). size_list size cs)") (auto simp: size_sorted_below)

definition walk :: "byte list option \<Rightarrow> ('a, 's, 'e) VisitorFunc \<Rightarrow> 'a Trie \<Rightarrow> 's
    \<Rightarrow> 's \<times> 'e VisitorError option \<times> 'a Trie" where
  "walk actualRootPrefix visitor t s =
     (let pre = (case actualRootPrefix of None \<Rightarrow> pfx t | Some p \<Rightarrow> p);
          (s, err) = (case nitem t of None \<Rightarrow> (s, None) | Some item \<Rightarrow> visitor pre item s)
      in case err of
           Some SkipSubtree \<Rightarrow> (s, None, t)
         | Some (VisitorError e) \<Rightarrow> (s, Some (VisitorError e), t)
         | None \<Rightarrow>
             (let (s, err, cs) = walk_children visitor pre (sort_children (nchildren t)) s
              in (s, err, Trie (nprefix t) (nitem t) cs)))"

definition Visit :: "('a, 's, 'e) VisitorFunc \<Rightarrow> 'a Trie \<Rightarrow> 's \<Rightarrow> 's \<times> 'e VisitorError option \<times> 'a Trie" where
  "Visit visitor t s = walk None visitor t s"

section \<open>Deletion\<close>

text \<open>Whether the tree has no item, and the tree with the child lists sorted that the walk came
  through.\<close>

definition empty_trie :: "'a Trie \<Rightarrow> bool \<times> 'a Trie" where
  "empty_trie t =
     (let visitor = (\<lambda>pre item isEmpty. (False, Some SkipSubtree)) :: ('a, bool, unit) VisitorFunc;
          (isEmpty, err, t) = walk None visitor t True
      in (isEmpty, t))"

definition reset :: "'a Trie \<Rightarrow> 'a Trie" where
  "reset t = Trie None (nitem t) []"

text \<open>The rest of \<open>Delete\<close> when the node is the root, and when it is child \<open>i\<close> of its parent.  In
  the second case the pointer to the node still has the node from before the compaction; what
  \<open>empty\<close> sorts below it are the lists of the compacted node, which shares them.  The first byte
  of the node's prefix is read when the node is replaced or removed.\<close>

definition delete_root :: "'a Trie \<Rightarrow> 'a Trie" where
  "delete_root node =
     (let node = Trie (nprefix node) None (nchildren node);
          (isEmpty, node) = empty_trie (compact node)
      in if isEmpty then reset node else node)"

definition delete_child :: "'a Trie \<Rightarrow> nat \<Rightarrow> 'a Trie option" where
  "delete_child parent i =
     (let node = nchildren parent ! i;
          (isEmpty, node) = empty_trie (Trie (nprefix node) None (nchildren node));
          parent = Trie (nprefix parent) (nitem parent) ((nchildren parent)[i := node]);
          compacted = compact node;
          b = hd (pfx node);
          parent' =
            (if compacted \<noteq> node then
               map_option (\<lambda>cs. compact (Trie (nprefix parent) (nitem parent) cs))
                 (replace_child b compacted (nchildren parent))
             else Some parent)
      in if pfx node = [] \<and> (compacted \<noteq> node \<or> isEmpty) then None
         else if isEmpty then
           Option.bind parent' (\<lambda>parent.
             map_option (Trie (nprefix parent) (nitem parent)) (remove_child b (nchildren parent)))
         else parent')"

definition Delete :: "'a Trie \<Rightarrow> byte list option \<Rightarrow> (bool \<times> 'a Trie) option" where
  "Delete t key =
     (case key of
        None \<Rightarrow> None
      | Some key \<Rightarrow>
          if nprefix t = None then Some (False, t)
          else
            (case findSubtree t key of
               None \<Rightarrow> None
             | Some (path, found, leftover) \<Rightarrow>
                 if leftover \<noteq> [] then Some (False, t)
                 else if nitem (node_at path t) = None then Some (False, t)
                 else if path = [] then Some (True, delete_root t)
                 else
                   map_option (\<lambda>parent. (True, put_at (butlast path) parent t))
                     (delete_child (node_at (butlast path) t) (last path))))"

section \<open>The map a trie stands for\<close>

text \<open>Every child has a prefix of one to four bytes, and the children of a node start with
  different bytes.\<close>

fun trie_ok :: "'a Trie \<Rightarrow> bool" where
  "trie_ok (Trie p item cs) \<longleftrightarrow>
     distinct (map (\<lambda>c. hd (pfx c)) cs)
     \<and> (\<forall>c\<in>set cs. pfx c \<noteq> [] \<and> length (pfx c) \<le> DefaultMaxPrefixPerNode \<and> trie_ok c)"

definition root_ok :: "'a Trie \<Rightarrow> bool" where
  "root_ok t \<longleftrightarrow> trie_ok t \<and> length (pfx t) \<le> DefaultMaxPrefixPerNode
     \<and> (nprefix t = None \<longrightarrow> nitem t = None \<and> nchildren t = [])"

definition child_for :: "byte \<Rightarrow> 'a Trie list \<Rightarrow> 'a Trie option" where
  "child_for b cs = List.find (\<lambda>c. hd (pfx c) = b) cs"

lemma child_for_Some: "child_for b cs = Some c \<Longrightarrow> c \<in> set cs \<and> hd (pfx c) = b"
  by (auto simp: child_for_def find_Some_iff)

text \<open>The item stored under a key.\<close>

function look :: "'a Trie \<Rightarrow> byte list \<Rightarrow> 'a option" where
  "look t key =
     (if prefix (pfx t) key then
        let r = drop (length (pfx t)) key in
        if r = [] then nitem t
        else (case child_for (hd r) (nchildren t) of None \<Rightarrow> None | Some c \<Rightarrow> look c r)
      else None)"
  by pat_completeness auto

termination look
  by (relation "measure (\<lambda>(t, key). size t)") (auto dest: child_for_Some intro: size_member)

declare look.simps [simp del]

lemma pfx_Trie [simp]: "pfx (Trie (Some p) item cs) = p" "pfx (Trie None item cs) = []"
  by (simp_all add: pfx_def)

lemma pfx_eta [simp]: "pfx (Trie (nprefix t) item cs) = pfx t"
  by (simp add: pfx_def)

lemma ok_child:
  assumes "trie_ok t" and "c \<in> set (nchildren t)"
  shows "pfx c \<noteq> []" "length (pfx c) \<le> DefaultMaxPrefixPerNode" "trie_ok c"
  using assms by (cases t; simp)+

lemma ok_distinct: "trie_ok t \<Longrightarrow> distinct (map (\<lambda>c. hd (pfx c)) (nchildren t))"
  by (cases t) simp

lemma look_not_prefix: "\<not> prefix (pfx t) key \<Longrightarrow> look t key = None"
  by (simp add: look.simps)

lemma look_here: "look t (pfx t) = nitem t"
  by (simp add: look.simps)

lemma look_below:
  "r \<noteq> [] \<Longrightarrow> look t (pfx t @ r) = (case child_for (hd r) (nchildren t) of None \<Rightarrow> None | Some c \<Rightarrow> look c r)"
  by (subst look.simps) simp

lemma look_cases:
  obtains (no) "\<not> prefix (pfx t) key" | (here) "key = pfx t" | (below) r where "key = pfx t @ r" "r \<noteq> []"
  by (metis append_Nil2 prefixE)

lemma look_hd: "look t key \<noteq> None \<Longrightarrow> pfx t \<noteq> [] \<Longrightarrow> key \<noteq> [] \<and> hd key = hd (pfx t)"
  by (metis look_not_prefix prefixE hd_append2 append_is_Nil_conv)

section \<open>Search\<close>

lemma lcp_le: "longestCommonPrefixLength xs ys \<le> length xs" "longestCommonPrefixLength xs ys \<le> length ys"
  by (induction xs ys rule: longestCommonPrefixLength.induct) auto

lemma lcp_take: "take (longestCommonPrefixLength xs ys) xs = take (longestCommonPrefixLength xs ys) ys"
  by (induction xs ys rule: longestCommonPrefixLength.induct) auto

lemma lcp_prefix: "longestCommonPrefixLength xs ys < length ys \<longleftrightarrow> \<not> prefix ys xs"
  by (induction xs ys rule: longestCommonPrefixLength.induct) auto

lemma lcp_Nil [simp]: "longestCommonPrefixLength xs [] = 0"
  by (cases xs) simp_all

lemma lcp_append [simp]: "longestCommonPrefixLength (ys @ xs) ys = length ys"
  by (induction ys) simp_all

lemma lcp_differ:
  "drop (longestCommonPrefixLength xs ys) xs \<noteq> [] \<Longrightarrow> drop (longestCommonPrefixLength xs ys) ys \<noteq> []
   \<Longrightarrow> hd (drop (longestCommonPrefixLength xs ys) xs) \<noteq> hd (drop (longestCommonPrefixLength xs ys) ys)"
  by (induction xs ys rule: longestCommonPrefixLength.induct) auto

lemma next_child_for:
  "\<forall>c\<in>set cs. pfx c \<noteq> [] \<Longrightarrow>
   \<exists>j. next_child b cs = Some j \<and> child_for b cs = map_option ((!) cs) j"
proof (induction cs)
  case (Cons c cs)
  then obtain j where "next_child b cs = Some j" "child_for b cs = map_option ((!) cs) j" by auto
  then show ?case using Cons.prems by (cases j) (auto simp: child_for_def split: list.split)
qed (simp add: child_for_def)

lemma next_child_cases:
  assumes "trie_ok t"
  obtains (none) "next_child b (nchildren t) = Some None" "child_for b (nchildren t) = None"
  | (child) i where "next_child b (nchildren t) = Some (Some i)" "i < length (nchildren t)"
      "child_for b (nchildren t) = Some (nchildren t ! i)" "hd (pfx (nchildren t ! i)) = b"
      "pfx (nchildren t ! i) \<noteq> []" "trie_ok (nchildren t ! i)" "length (pfx (nchildren t ! i)) \<le> 4"
proof -
  have ne: "\<forall>c\<in>set (nchildren t). pfx c \<noteq> []" and w: "\<forall>c\<in>set (nchildren t). trie_ok c \<and> length (pfx c) \<le> 4"
    using ok_child [OF assms] by blast+
  from next_child_for [OF ne] obtain j where
    j: "next_child b (nchildren t) = Some j" "child_for b (nchildren t) = map_option ((!) (nchildren t)) j" by blast
  show thesis
  proof (cases j)
    case None
    show thesis by (rule none) (simp_all add: j None)
  next
    case (Some i)
    note n = next_child_nth [OF j(1) [unfolded Some]]
    then have "nchildren t ! i \<in> set (nchildren t)" by simp
    then show thesis using w n by (intro child [of i]) (simp_all add: j Some)
  qed
qed

fun path_ok :: "nat list \<Rightarrow> 'a Trie \<Rightarrow> bool" where
  "path_ok [] t \<longleftrightarrow> True"
| "path_ok (i # is) t \<longleftrightarrow> i < length (nchildren t) \<and> path_ok is (nchildren t ! i)"

fun path_key :: "nat list \<Rightarrow> 'a Trie \<Rightarrow> byte list" where
  "path_key [] t = pfx t"
| "path_key (i # is) t = pfx t @ path_key is (nchildren t ! i)"

lemma findSubtree_look:
  assumes "trie_ok t"
  shows "\<exists>path found leftover. findSubtree t key = Some (path, found, leftover) \<and> path_ok path t
    \<and> (leftover = [] \<longrightarrow> prefix (path_key path t) key) \<and> (found \<and> leftover = [] \<longrightarrow> path_key path t = key)
    \<and> look t key = (if found \<and> leftover = [] then nitem (node_at path t) else None)"
  using assms
proof (induction t key rule: findSubtree.induct)
  case (1 t key)
  show ?case
  proof (cases rule: look_cases [of t key])
    case no
    then have "longestCommonPrefixLength key (pfx t) < length (pfx t)" by (simp add: lcp_prefix)
    then show ?thesis using no by (subst findSubtree.simps) (auto simp: Let_def look_not_prefix)
  next
    case here
    have "longestCommonPrefixLength (pfx t) (pfx t) = length (pfx t)" using lcp_append [of "pfx t" "[]"] by simp
    then show ?thesis using here by (subst findSubtree.simps) (auto simp: Let_def look_here)
  next
    case (below r)
    from 1(2) show ?thesis
    proof (cases rule: next_child_cases [where b = "hd r"])
      case none
      then show ?thesis using below by (subst findSubtree.simps) (auto simp: Let_def look_below)
    next
      case (child i)
      have "\<exists>path found leftover. findSubtree (nchildren t ! i) r = Some (path, found, leftover) \<and> path_ok path (nchildren t ! i)
        \<and> (leftover = [] \<longrightarrow> prefix (path_key path (nchildren t ! i)) r)
        \<and> (found \<and> leftover = [] \<longrightarrow> path_key path (nchildren t ! i) = r)
        \<and> look (nchildren t ! i) r = (if found \<and> leftover = [] then nitem (node_at path (nchildren t ! i)) else None)"
        using 1(1) [OF refl refl, of "Some i" i] below child by simp
      then obtain path found leftover where
        f: "findSubtree (nchildren t ! i) r = Some (path, found, leftover)" "path_ok path (nchildren t ! i)"
          "leftover = [] \<longrightarrow> prefix (path_key path (nchildren t ! i)) r"
          "found \<and> leftover = [] \<longrightarrow> path_key path (nchildren t ! i) = r"
          "look (nchildren t ! i) r = (if found \<and> leftover = [] then nitem (node_at path (nchildren t ! i)) else None)"
        by blast
      have "findSubtree t key = Some (i # path, found, leftover)"
        using below child f(1) by (subst findSubtree.simps) (simp add: Let_def)
      moreover have "look t key = look (nchildren t ! i) r" using below child by (simp add: look_below)
      ultimately show ?thesis using below child f(2-5) by (intro exI [of _ "i # path"] exI [of _ found] exI [of _ leftover]) simp
    qed
  qed
qed

lemma Get_look:
  assumes "trie_ok t"
  shows "Get t key = Some (look t key)"
proof -
  from findSubtree_look [OF assms, of key] obtain path found leftover where
    "findSubtree t key = Some (path, found, leftover)"
    "look t key = (if found \<and> leftover = [] then nitem (node_at path t) else None)" by blast
  then show ?thesis by (simp add: Get_def)
qed

text \<open>The longest match of a stored key is the key itself.\<close>

lemma next_match_exact:
  "child_for b cs = Some c \<Longrightarrow> \<forall>c\<in>set cs. pfx c \<noteq> [] \<Longrightarrow> next_match b cs l = Some c"
  by (induction b cs l rule: next_match.induct) (auto simp: child_for_def split: if_splits)

lemma longest_loop_exact:
  assumes "trie_ok t" and "look t inp \<noteq> None" and "trie_ok root" and "inp = pre @ key" and "look root key = look t inp"
  shows "longest_loop t inp root key (length pre) l = Some (Inr (length inp))"
  using assms(3-5)
proof (induction root arbitrary: key pre l rule: measure_induct_rule [of size])
  case (less root)
  have g: "Get t k = Some (look t k)" for k by (rule Get_look [OF assms(1)])
  have "prefix (pfx root) key" using less.prems(3) assms(2) look_not_prefix by metis
  then obtain r where r: "key = pfx root @ r" by (rule prefixE)
  show ?case
  proof (cases "r = []")
    case True
    then show ?thesis using r less.prems(2) assms(2) lcp_append [of "pfx root" "[]"]
      by (subst longest_loop.simps) (simp add: g Let_def)
  next
    case False
    obtain c where c: "child_for (hd r) (nchildren root) = Some c" "look c r = look t inp"
      using less.prems(3) assms(2) r look_below [OF False, of root] by (auto split: option.splits)
    have m: "c \<in> set (nchildren root)" using child_for_Some [OF c(1)] by simp
    have n: "next_match (hd r) (nchildren root) None = Some c"
      using ok_child(1) [OF less.prems(1)] by (intro next_match_exact [OF c(1)]) blast
    have "longest_loop t inp c r (length (pre @ pfx root)) l' = Some (Inr (length inp))" for l'
      using less.IH [OF size_member [OF m] ok_child(3) [OF less.prems(1) m], of "pre @ pfx root" r] less.prems(2) r c(2)
      by simp
    then show ?thesis using r False n by (subst longest_loop.simps) (simp add: g Let_def)
  qed
qed

lemma GetLongestPrefixNode_stored:
  assumes "trie_ok t" and "look t key \<noteq> None"
  shows "GetLongestPrefixNode t key = Some (look t key)"
  using longest_loop_exact [OF assms assms(1), of "[]" key 0] Get_look [OF assms(1)]
  by (simp add: GetLongestPrefixNode_def)

section \<open>Insertion\<close>

lemma child_for_iff:
  assumes "distinct (map (\<lambda>c. hd (pfx c)) cs)"
  shows "child_for b cs = Some c \<longleftrightarrow> c \<in> set cs \<and> hd (pfx c) = b"
  using assms by (induction cs) (auto simp: child_for_def)

lemma child_for_None: "child_for b cs = None \<longleftrightarrow> (\<forall>c\<in>set cs. hd (pfx c) \<noteq> b)"
  by (auto simp: child_for_def find_None_iff)

lemma child_for_append:
  "child_for b (cs @ [c]) = (case child_for b cs of None \<Rightarrow> if hd (pfx c) = b then Some c else None | Some d \<Rightarrow> Some d)"
  by (induction cs) (simp_all add: child_for_def)

lemma heads_update:
  "i < length cs \<Longrightarrow> hd (pfx c) = hd (pfx (cs ! i)) \<Longrightarrow> map (\<lambda>c. hd (pfx c)) (cs[i := c]) = map (\<lambda>c. hd (pfx c)) cs"
  by (simp add: map_update) (metis length_map list_update_id nth_map)

lemma child_for_update:
  assumes "distinct (map (\<lambda>c. hd (pfx c)) cs)" and "i < length cs" and "hd (pfx c) = hd (pfx (cs ! i))"
  shows "child_for b (cs[i := c]) = (if b = hd (pfx c) then Some c else child_for b cs)"
proof (cases "b = hd (pfx c)")
  case True
  have "distinct (map (\<lambda>c. hd (pfx c)) (cs[i := c]))" using assms by (simp add: heads_update)
  then show ?thesis using True child_for_iff assms(2) set_update_memI by fastforce
next
  case False
  then show ?thesis using assms(2,3)
  proof (induction cs arbitrary: i)
    case (Cons d cs)
    then show ?case by (cases i) (auto simp: child_for_def)
  qed simp
qed

lemma look_cong: "pfx t = pfx u \<Longrightarrow> nitem t = nitem u \<Longrightarrow> nchildren t = nchildren u \<Longrightarrow> look t key = look u key"
  by (simp add: look.simps [of t] look.simps [of u] Let_def)

lemma look_append:
  "look (Trie (Some (a @ b)) item cs) (a @ r) = look (Trie (Some b) item cs) r"
  by (simp add: look.simps [of "Trie (Some (a @ b)) item cs"] look.simps [of "Trie (Some b) item cs"] Let_def)

lemma look_join:
  assumes "b \<noteq> []"
  shows "look (Trie (Some a) None [Trie (Some b) item cs]) key = look (Trie (Some (a @ b)) item cs) key"
proof (cases rule: look_cases [of "Trie (Some a) None [Trie (Some b) item cs]" key])
  case no
  then have "\<not> prefix (a @ b) key" by (auto dest: append_prefixD)
  then show ?thesis using no by (simp add: look_not_prefix)
next
  case here
  then show ?thesis using assms look_here [of "Trie (Some a) None [Trie (Some b) item cs]"]
    by (simp add: look_not_prefix)
next
  case (below r)
  have "look (Trie (Some b) item cs) r = None" if "hd b \<noteq> hd r"
    using that assms look_hd [of "Trie (Some b) item cs" r] by fastforce
  then show ?thesis
    using below look_below [OF below(2), of "Trie (Some a) None [Trie (Some b) item cs]"]
    by (simp add: look_append child_for_def)
qed

lemma compact_cases:
  obtains (same) "compact t = t"
  | (join) child where "nchildren t = [child]" "nitem t = None" "nitem child = None"
      "length (pfx t @ pfx child) \<le> DefaultMaxPrefixPerNode"
      "compact t = Trie (Some (pfx t @ pfx child)) None (nchildren child)"
proof (cases "\<exists>child. nchildren t = [child] \<and> nitem t = None \<and> nitem child = None
    \<and> length (pfx t) + length (pfx child) \<le> DefaultMaxPrefixPerNode")
  case True
  then show thesis using join by (auto simp: compact_def)
next
  case False
  then have "compact t = t" unfolding compact_def by (auto split: list.split)
  then show thesis by (rule same)
qed

lemma compact_look:
  assumes "trie_ok t"
  shows "look (compact t) key = look t key"
proof (cases rule: compact_cases [of t])
  case (join child)
  have "pfx child \<noteq> []" using ok_child [OF assms] join(1) by simp
  then obtain q where q: "child = Trie (Some q) None (nchildren child)" "q \<noteq> []"
    using join(3) by (cases child) (auto simp: pfx_def split: option.splits)
  have "look t key = look (Trie (Some (pfx t)) None [Trie (Some q) None (nchildren child)]) key"
    using join q by (intro look_cong) simp_all
  then show ?thesis using join(5) q look_join by (metis pfx_Trie(1))
qed simp

lemma compact_ok:
  assumes "trie_ok t" and "length (pfx t) \<le> DefaultMaxPrefixPerNode"
  shows "trie_ok (compact t)" "length (pfx (compact t)) \<le> DefaultMaxPrefixPerNode"
    "pfx t \<noteq> [] \<Longrightarrow> pfx (compact t) \<noteq> [] \<and> hd (pfx (compact t)) = hd (pfx t)"
proof -
  have "trie_ok (compact t) \<and> length (pfx (compact t)) \<le> DefaultMaxPrefixPerNode
      \<and> (pfx t \<noteq> [] \<longrightarrow> pfx (compact t) \<noteq> [] \<and> hd (pfx (compact t)) = hd (pfx t))"
  proof (cases rule: compact_cases [of t])
    case (join child)
    then have "trie_ok child" using ok_child [OF assms(1)] by simp
    then have "trie_ok (Trie (Some (pfx t @ pfx child)) None (nchildren child))" by (cases child) simp
    then show ?thesis using join by simp
  qed (simp add: assms)
  then show "trie_ok (compact t)" "length (pfx (compact t)) \<le> DefaultMaxPrefixPerNode"
    "pfx t \<noteq> [] \<Longrightarrow> pfx (compact t) \<noteq> [] \<and> hd (pfx (compact t)) = hd (pfx t)" by blast+
qed

lemma look_set_item: "look (Trie (nprefix t) item (nchildren t)) = (look t)(pfx t := item)"
proof
  fix key
  show "look (Trie (nprefix t) item (nchildren t)) key = ((look t)(pfx t := item)) key"
    by (cases rule: look_cases [of t key])
      (use look_here [of "Trie (nprefix t) item (nchildren t)"]
        look_below [where t = "Trie (nprefix t) item (nchildren t)"] in \<open>auto simp: look_not_prefix look_below\<close>)
qed

lemma append_child_ok:
  assumes "key \<noteq> []"
  shows "trie_ok (append_child key item) \<and> pfx (append_child key item) \<noteq> [] \<and> hd (pfx (append_child key item)) = hd key
    \<and> length (pfx (append_child key item)) \<le> DefaultMaxPrefixPerNode
    \<and> (\<forall>k. look (append_child key item) k = (if k = key then item else None))"
  using assms
proof (induction key item rule: append_child.induct)
  case (1 key item)
  have leaf: "look (Trie (Some p) i []) k = (if k = p then i else None)" for p k and i :: "'a option"
    by (cases rule: look_cases [of "Trie (Some p) i []" k])
      (use look_here [of "Trie (Some p) i []"] in \<open>auto simp: look_not_prefix child_for_def
        look_below [where t = "Trie (Some p) i []", simplified]\<close>)
  show ?case
  proof (cases "length key \<le> DefaultMaxPrefixPerNode")
    case True
    then show ?thesis using 1(2) by (simp add: append_child.simps leaf)
  next
    case False
    let ?p = "take 4 key" and ?r = "drop 4 key"
    let ?t = "Trie (Some ?p) None [append_child ?r item]"
    have IH: "trie_ok (append_child ?r item)" "pfx (append_child ?r item) \<noteq> []" "hd (pfx (append_child ?r item)) = hd ?r"
      "length (pfx (append_child ?r item)) \<le> 4" "\<And>k. look (append_child ?r item) k = (if k = ?r then item else None)"
      using 1(1) [OF False] False by simp_all
    have eq: "append_child key item = ?t" using False by (subst append_child.simps) simp
    have "look ?t k = (if k = key then item else None)" for k
    proof (cases rule: look_cases [of ?t k])
      case no
      then show ?thesis by (auto simp: look_not_prefix take_is_prefix)
    next
      case here
      then have "k \<noteq> key" using False by (metis append_take_drop_id append_self_conv pfx_Trie(1) drop_eq_Nil)
      then show ?thesis using here look_here [of ?t] by simp
    next
      case (below r)
      have "k = key \<longleftrightarrow> r = ?r" using below(1) by (metis append_take_drop_id pfx_Trie(1) same_append_eq)
      moreover have "look ?t k = (if hd ?r = hd r then look (append_child ?r item) r else None)"
        using below IH(3) look_below [of r ?t] by (simp add: child_for_def)
      ultimately show ?thesis using IH(5) by auto
    qed
    then show ?thesis using IH False 1(2) eq by simp
  qed
qed

lemma append_new:
  assumes "trie_ok t" and "r \<noteq> []" and "child_for (hd r) (nchildren t) = None"
  shows "look (Trie (nprefix t) (nitem t) (nchildren t @ [append_child r item])) = (look t)(pfx t @ r := item)"
    "trie_ok (Trie (nprefix t) (nitem t) (nchildren t @ [append_child r item]))" "look t (pfx t @ r) = None"
proof -
  let ?t = "Trie (nprefix t) (nitem t) (nchildren t @ [append_child r item])"
  note a = append_child_ok [OF assms(2), of item]
  show "look t (pfx t @ r) = None" using assms(2,3) by (simp add: look_below)
  show "look ?t = (look t)(pfx t @ r := item)"
  proof
    fix key
    show "look ?t key = ((look t)(pfx t @ r := item)) key"
    proof (cases rule: look_cases [of t key])
      case no
      then show ?thesis by (auto simp: look_not_prefix)
    next
      case here
      then show ?thesis using look_here [of ?t] assms(2) by (simp add: look_here)
    next
      case (below q)
      have l: "look ?t key = (case child_for (hd q) (nchildren t @ [append_child r item]) of None \<Rightarrow> None | Some c \<Rightarrow> look c q)"
        using below look_below [of q ?t] by simp
      show ?thesis
        using below a assms(3) unfolding l by (auto simp: look_below child_for_append split: option.splits)
    qed
  qed
  have "hd (pfx (append_child r item)) \<notin> (\<lambda>c. hd (pfx c)) ` set (nchildren t)"
    using a assms(3) by (auto simp: child_for_None)
  then show "trie_ok ?t" using a ok_child [OF assms(1)] ok_distinct [OF assms(1)] by auto
qed

lemma split_ok:
  assumes "trie_ok t" and "n < length (pfx t)" and "length (pfx t) \<le> DefaultMaxPrefixPerNode"
  shows "look (split_prefix n t) = look t" "trie_ok (split_prefix n t)" "nitem (split_prefix n t) = None"
    "pfx (split_prefix n t) = take n (pfx t)" "nprefix (split_prefix n t) \<noteq> None"
    "child_for b (nchildren (split_prefix n t)) = None \<longleftrightarrow> b \<noteq> hd (drop n (pfx t))"
proof -
  let ?c = "Trie (Some (drop n (pfx t))) (nitem t) (nchildren t)"
  have c: "trie_ok ?c" using assms(1) by (cases t) simp
  have ne: "drop n (pfx t) \<noteq> []" using assms(2) by simp
  note k = compact_ok [OF c] ne assms(3)
  show "look (split_prefix n t) = look t"
  proof
    fix key
    let ?s = "Trie (Some (take n (pfx t))) None"
    have child: "child_for b [compact ?c] = (if hd (drop n (pfx t)) = b then Some (compact ?c) else None)"
      "child_for b [?c] = (if hd (drop n (pfx t)) = b then Some ?c else None)" for b
      using k by (simp_all add: child_for_def)
    have "look (?s [compact ?c]) key = look (?s [?c]) key"
      by (simp add: look.simps [of "?s [compact ?c]"] look.simps [of "?s [?c]"] Let_def child compact_look [OF c])
    also have "\<dots> = look (Trie (Some (pfx t)) (nitem t) (nchildren t)) key"
      using look_join [OF ne, of "take n (pfx t)" "nitem t" "nchildren t" key] by simp
    also have "\<dots> = look t key" by (intro look_cong) simp_all
    finally show "look (split_prefix n t) key = look t key" by (simp add: split_prefix_def)
  qed
qed (use compact_ok [of "Trie (Some (drop n (pfx t))) (nitem t) (nchildren t)"] assms in
    \<open>cases t; simp add: split_prefix_def child_for_def; fail\<close>)+

text \<open>A child replaced by one that starts with the same byte.\<close>

definition set_child :: "'a Trie \<Rightarrow> nat \<Rightarrow> 'a Trie \<Rightarrow> 'a Trie" where
  "set_child t i c = Trie (nprefix t) (nitem t) ((nchildren t)[i := c])"

lemma set_child_ok:
  assumes "trie_ok t" and "i < length (nchildren t)" and "hd (pfx c) = hd (pfx (nchildren t ! i))"
    and "trie_ok c" and "pfx c \<noteq> []" and "length (pfx c) \<le> DefaultMaxPrefixPerNode"
  shows "trie_ok (set_child t i c)"
proof -
  have "\<forall>d\<in>set ((nchildren t)[i := c]). pfx d \<noteq> [] \<and> length (pfx d) \<le> 4 \<and> trie_ok d"
    using ok_child [OF assms(1)] assms(4-6) set_update_subset_insert [of "nchildren t" i c] by blast
  then show ?thesis using ok_distinct [OF assms(1)] assms(2,3) by (simp add: set_child_def heads_update)
qed

lemma look_set_child:
  assumes "trie_ok t" and "i < length (nchildren t)" and "hd (pfx c) = hd (pfx (nchildren t ! i))"
    and "q \<noteq> []"
  shows "look (set_child t i c) (pfx t @ q) = (if hd q = hd (pfx c) then look c q else look t (pfx t @ q))"
  using look_below [OF assms(4), of "set_child t i c"] look_below [OF assms(4), of t]
    child_for_update [OF ok_distinct [OF assms(1)] assms(2,3), of "hd q"]
  by (simp add: set_child_def)

lemma look_child:
  assumes "trie_ok t" and "i < length (nchildren t)" and "q \<noteq> []" and "hd q = hd (pfx (nchildren t ! i))"
  shows "look t (pfx t @ q) = look (nchildren t ! i) q"
proof -
  have "child_for (hd q) (nchildren t) = Some (nchildren t ! i)"
    using assms by (simp add: child_for_iff ok_distinct)
  then show ?thesis using assms(3) by (simp add: look_below)
qed

lemma set_child_update:
  assumes "trie_ok t" and "i < length (nchildren t)" and "hd (pfx c) = hd (pfx (nchildren t ! i))"
    and "r \<noteq> []" and "hd r = hd (pfx c)" and "look c = (look (nchildren t ! i))(r := v)"
  shows "look (set_child t i c) = (look t)(pfx t @ r := v)"
proof
  fix key
  show "look (set_child t i c) key = ((look t)(pfx t @ r := v)) key"
  proof (cases rule: look_cases [of t key])
    case no
    then show ?thesis by (auto simp: look_not_prefix set_child_def)
  next
    case here
    then show ?thesis using look_here [of "set_child t i c"] assms(4) by (simp add: look_here set_child_def)
  next
    case (below q)
    then show ?thesis using look_set_child [OF assms(1-3) below(2)] look_child [OF assms(1,2) below(2)] assms(3-6) by auto
  qed
qed

lemma set_child_same:
  assumes "trie_ok t" and "i < length (nchildren t)" and "hd (pfx c) = hd (pfx (nchildren t ! i))"
    and "pfx c \<noteq> []" and "look c = look (nchildren t ! i)"
  shows "look (set_child t i c) = look t"
proof -
  have "look c = (look (nchildren t ! i))(pfx c := look (nchildren t ! i) (pfx c))" using assms(5) by simp
  from set_child_update [OF assms(1-4) refl this] show ?thesis
    using look_child [OF assms(1,2,4,3)] by (simp add: fun_upd_idem_iff)
qed

text \<open>What an insertion does to a well-formed tree: the result says whether the item was stored.\<close>

definition stored :: "'a Trie \<Rightarrow> byte list \<Rightarrow> 'a option \<Rightarrow> bool \<Rightarrow> bool \<times> 'a Trie \<Rightarrow> bool" where
  "stored t key item repl = (\<lambda>(inserted, t').
     trie_ok t' \<and> length (pfx t') \<le> DefaultMaxPrefixPerNode \<and> (nprefix t \<noteq> None \<longrightarrow> nprefix t' \<noteq> None)
     \<and> (pfx t \<noteq> [] \<and> key \<noteq> [] \<and> hd key = hd (pfx t) \<longrightarrow> pfx t' \<noteq> [] \<and> hd (pfx t') = hd (pfx t))
     \<and> (inserted \<longleftrightarrow> repl \<or> look t key = None)
     \<and> look t' = (if inserted then (look t)(key := item) else look t))"

lemma stored_here:
  assumes "trie_ok t" and "length (pfx t) \<le> DefaultMaxPrefixPerNode" and "key = pfx t"
  shows "stored t key item repl (insert_item t item repl)"
proof -
  have "trie_ok (Trie (nprefix t) item (nchildren t))" using assms(1) by (cases t) simp
  then show ?thesis using assms by (simp add: stored_def insert_item_def look_set_item look_here)
qed

lemma stored_append:
  assumes "trie_ok t" and "length (pfx t) \<le> DefaultMaxPrefixPerNode" and "key = pfx t @ r"
    and "r \<noteq> [] \<Longrightarrow> child_for (hd r) (nchildren t) = None"
  shows "stored t key item repl (append_key t r item repl)"
proof (cases "r = []")
  case True
  then show ?thesis using assms stored_here [of t key item repl] by (simp add: append_key_def)
next
  case False
  then show ?thesis using append_new [OF assms(1) False assms(4) [OF False]] assms(2,3)
    by (simp add: stored_def append_key_def)
qed

lemma stored_child:
  assumes "trie_ok t" and "length (pfx t) \<le> DefaultMaxPrefixPerNode" and "i < length (nchildren t)"
    and "stored (nchildren t ! i) r item repl (inserted, c)"
    and "r \<noteq> []" and "hd r = hd (pfx (nchildren t ! i))"
  shows "stored t (pfx t @ r) item repl (inserted, set_child t i c)"
proof -
  have ne: "pfx (nchildren t ! i) \<noteq> []" using ok_child(1) [OF assms(1)] assms(3) by simp
  have c: "trie_ok c" "length (pfx c) \<le> 4" "pfx c \<noteq> []" "hd (pfx c) = hd (pfx (nchildren t ! i))"
    and i: "inserted \<longleftrightarrow> repl \<or> look t (pfx t @ r) = None"
    and l: "look c = (if inserted then (look (nchildren t ! i))(r := item) else look (nchildren t ! i))"
    using assms(4-6) ne look_child [OF assms(1,3,5,6)] by (simp_all add: stored_def)
  have "look (set_child t i c) = (if inserted then (look t)(pfx t @ r := item) else look t)"
    using l set_child_update [OF assms(1,3) c(4) assms(5), of item] set_child_same [OF assms(1,3) c(4,3)] assms(6) c(4)
    by simp
  moreover have "trie_ok (set_child t i c)" using set_child_ok [OF assms(1,3) c(4,1,3,2)] .
  ultimately show ?thesis using i assms(2) by (simp add: stored_def) (simp add: set_child_def)
qed

lemma put_loop_stored:
  assumes "trie_ok t" and "length (pfx t) \<le> DefaultMaxPrefixPerNode"
  shows "\<exists>r. put_loop t key item repl = Some r \<and> stored t key item repl r"
  using assms
proof (induction t key item repl rule: put_loop.induct)
  case (1 t key item repl)
  let ?n = "longestCommonPrefixLength key (pfx t)"
  show ?case
  proof (cases "?n < length (pfx t)")
    case True
    let ?s = "split_prefix ?n t"
    note s = split_ok [OF 1(2) True 1(3)]
    have k: "key = pfx ?s @ drop ?n key" using lcp_take [of key "pfx t"] s(4) by (metis append_take_drop_id)
    have "stored ?s key item repl (append_key ?s (drop ?n key) item repl)"
      using 1(3) s True lcp_differ [of key "pfx t"] by (intro stored_append k) auto
    moreover have "hd (pfx ?s) = hd (pfx t) \<and> pfx ?s \<noteq> []" if "pfx t \<noteq> []" "key \<noteq> []" "hd key = hd (pfx t)"
      using that s(4) by (cases key; cases "pfx t") simp_all
    ultimately have "stored t key item repl (append_key ?s (drop ?n key) item repl)"
      using s(1,5) by (auto simp: stored_def)
    then show ?thesis using True by (subst put_loop.simps) (simp add: Let_def)
  next
    case False
    then have "prefix (pfx t) key" by (simp add: lcp_prefix)
    then obtain r where r: "key = pfx t @ r" by (rule prefixE)
    show ?thesis
    proof (cases "r = []")
      case True
      then show ?thesis using r False stored_here [OF 1(2,3), of key item repl] by (subst put_loop.simps) (simp add: Let_def)
    next
      case r': False
      from 1(2) show ?thesis
      proof (cases rule: next_child_cases [where b = "hd r"])
        case none
        then show ?thesis using r r' stored_append [OF 1(2,3) r, of item repl] by (subst put_loop.simps) (simp add: Let_def)
      next
        case (child i)
        obtain inserted c where p: "put_loop (nchildren t ! i) r item repl = Some (inserted, c)"
          and c: "stored (nchildren t ! i) r item repl (inserted, c)"
          using 1(1) [OF refl refl, of "Some i" i] r r' child by auto
        have "put_loop t key item repl = Some (inserted, set_child t i c)"
          using r r' child p by (subst put_loop.simps) (simp add: Let_def set_child_def)
        moreover have "stored t key item repl (inserted, set_child t i c)"
          using stored_child [OF 1(2,3) child(2) c r'] child r by simp
        ultimately show ?thesis by blast
      qed
    qed
  qed
qed

lemma put_stored:
  assumes "root_ok t"
  shows "\<exists>inserted t'. put t (Some key) item repl = Some (inserted, t') \<and> root_ok t' \<and> nprefix t' \<noteq> None
    \<and> (inserted \<longleftrightarrow> repl \<or> look t key = None)
    \<and> look t' = (if inserted then (look t)(key := item) else look t)"
proof (cases "nprefix t")
  case None
  then have t: "t = Trie None None []" using assms by (cases t) (simp add: root_ok_def)
  have l: "look t = (\<lambda>k. None)"
    unfolding t by (rule ext) (simp add: look.simps [of "Trie None None []"] child_for_def Let_def)
  let ?t = "append_child key item"
  have p: "put t (Some key) item repl = Some (True, ?t)"
    by (simp add: t put_def insert_item_def append_key_def append_child.simps [of key])
  show ?thesis
  proof (cases "key = []")
    case True
    then have a: "?t = Trie (Some []) item []" by (simp add: append_child.simps)
    have "look (Trie (Some []) item []) = (\<lambda>k. None)([] := item)"
      by (rule ext) (simp add: look.simps [of "Trie (Some []) item []"] child_for_def Let_def)
    then show ?thesis using True p l a by (intro exI [of _ True] exI [of _ ?t]) (simp add: root_ok_def)
  next
    case False
    have "nprefix ?t = Some (take DefaultMaxPrefixPerNode key)" by (simp add: append_child.simps [of key])
    moreover have "look ?t = (look t)(key := item)" using append_child_ok [OF False, of item] l by auto
    ultimately show ?thesis using append_child_ok [OF False, of item] p l
      by (intro exI [of _ True] exI [of _ ?t]) (simp add: root_ok_def)
  qed
next
  case (Some p)
  then have "put t (Some key) item repl = put_loop t key item repl" by (simp add: put_def)
  moreover have "trie_ok t" "length (pfx t) \<le> DefaultMaxPrefixPerNode" using assms by (simp_all add: root_ok_def)
  from put_loop_stored [OF this] obtain inserted t' where
    "put_loop t key item repl = Some (inserted, t')" "stored t key item repl (inserted, t')" by (metis prod.collapse)
  moreover from this(2) obtain q where "nprefix t' = Some q" using Some by (auto simp: stored_def)
  ultimately show ?thesis by (intro exI [of _ inserted] exI [of _ t']) (simp add: stored_def root_ok_def)
qed

section \<open>Traversal\<close>

lemma look_empty_iff:
  assumes "trie_ok t"
  shows "(\<forall>key. look t key = None) \<longleftrightarrow> nitem t = None \<and> (\<forall>c\<in>set (nchildren t). \<forall>key. look c key = None)"
proof (intro iffI conjI ballI allI)
  fix key
  assume a: "nitem t = None \<and> (\<forall>c\<in>set (nchildren t). \<forall>key. look c key = None)"
  show "look t key = None"
  proof (cases rule: look_cases [of t key])
    case no
    then show ?thesis by (rule look_not_prefix)
  next
    case here
    then show ?thesis using a by (simp only: look_here)
  next
    case (below r)
    show ?thesis
    proof (cases "child_for (hd r) (nchildren t)")
      case None
      then show ?thesis using below by (simp add: look_below)
    next
      case (Some c)
      then have "c \<in> set (nchildren t)" by (simp add: child_for_Some)
      then have "look c r = None" using a by blast
      then show ?thesis using below Some by (simp add: look_below)
    qed
  qed
next
  assume a: "\<forall>key. look t key = None"
  then show "nitem t = None" using look_here [of t] by simp
  fix c key
  assume c: "c \<in> set (nchildren t)"
  then obtain i where i: "i < length (nchildren t)" "c = nchildren t ! i" by (metis in_set_conv_nth)
  show "look c key = None"
  proof (rule ccontr)
    assume n: "look c key \<noteq> None"
    from look_hd [OF this ok_child(1) [OF assms c]] have "look t (pfx t @ key) = look c key"
      using look_child [OF assms i(1), of key] i(2) by simp
    moreover have "look t (pfx t @ key) = None" using a by blast
    ultimately show False using n by simp
  qed
qed

text \<open>What a walk leaves of a node: only the order of children changes.\<close>

definition similar :: "'a Trie \<Rightarrow> 'a Trie \<Rightarrow> bool" where
  "similar t u \<longleftrightarrow> nprefix u = nprefix t \<and> nitem u = nitem t \<and> trie_ok u \<and> look u = look t"

lemma similar_pfx: "similar t u \<Longrightarrow> pfx u = pfx t"
  by (simp add: similar_def pfx_def)

lemma child_for_similar:
  "list_all2 similar cs ds \<Longrightarrow> rel_option similar (child_for b cs) (child_for b ds)"
proof (induction cs ds rule: list_all2_induct)
  case (Cons c cs d ds)
  then show ?case using similar_pfx [of c d] by (simp add: child_for_def)
qed (simp add: child_for_def)

lemma similar_children:
  assumes "trie_ok t" and "list_all2 similar (nchildren t) cs"
  shows "similar t (Trie (nprefix t) (nitem t) cs)"
proof -
  let ?u = "Trie (nprefix t) (nitem t) cs"
  have m: "map pfx cs = map pfx (nchildren t)"
    using assms(2) by (induction rule: list_all2_induct) (simp_all add: similar_pfx)
  then have h: "map (\<lambda>c. hd (pfx c)) cs = map (\<lambda>c. hd (pfx c)) (nchildren t)"
    by (metis (no_types, lifting) comp_apply list.map_comp map_eq_conv)
  have "\<forall>d\<in>set cs. pfx d \<noteq> [] \<and> length (pfx d) \<le> 4 \<and> trie_ok d"
  proof
    fix d
    assume "d \<in> set cs"
    then obtain c where "c \<in> set (nchildren t)" "similar c d"
      using assms(2) by (metis in_set_conv_nth list_all2_conv_all_nth)
    then show "pfx d \<noteq> [] \<and> length (pfx d) \<le> 4 \<and> trie_ok d"
      using ok_child [OF assms(1)] by (simp add: similar_pfx) (simp add: similar_def)
  qed
  then have "trie_ok ?u" using ok_distinct [OF assms(1)] h by simp
  moreover have "look ?u = look t"
  proof
    fix key
    have e: "(case child_for b cs of None \<Rightarrow> None | Some c \<Rightarrow> look c r)
        = (case child_for b (nchildren t) of None \<Rightarrow> None | Some c \<Rightarrow> look c r)" for b r
      using child_for_similar [OF assms(2), of b] by (auto simp: similar_def split: option.splits)
    show "look ?u key = look t key"
      by (simp add: look.simps [of ?u] look.simps [of t] Let_def e)
  qed
  ultimately show ?thesis by (simp add: similar_def)
qed

lemma similar_sorted:
  assumes "trie_ok t"
  shows "similar t (Trie (nprefix t) (nitem t) (sort_children (nchildren t)))"
proof -
  let ?cs = "sort_children (nchildren t)"
  have "mset (map (\<lambda>c. hd (pfx c)) ?cs) = mset (map (\<lambda>c. hd (pfx c)) (nchildren t))"
    by (simp add: sort_children_def)
  then have d: "distinct (map (\<lambda>c. hd (pfx c)) ?cs)"
    using ok_distinct [OF assms] by (metis mset_eq_imp_distinct_iff)
  have s: "set ?cs = set (nchildren t)" by (simp add: sort_children_def)
  have c: "child_for b ?cs = child_for b (nchildren t)" for b
    using child_for_iff [OF d, of b] child_for_iff [OF ok_distinct [OF assms], of b] s
    by (metis not_Some_eq)
  have "trie_ok (Trie (nprefix t) (nitem t) ?cs)" using d s ok_child [OF assms] by simp
  moreover have "look (Trie (nprefix t) (nitem t) ?cs) key = look t key" for key
    by (simp add: look.simps [of "Trie (nprefix t) (nitem t) ?cs"] look.simps [of t] Let_def c)
  ultimately show ?thesis by (auto simp: similar_def)
qed

lemma similar_trans: "similar t u \<Longrightarrow> similar u w \<Longrightarrow> similar t w"
  by (simp add: similar_def)

lemma similar_refl: "trie_ok t \<Longrightarrow> similar t t"
  by (simp add: similar_def)

lemma walk_children_similar:
  assumes "\<forall>c\<in>set cs. trie_ok c"
  shows "list_all2 similar cs (snd (snd (walk_children visitor pre cs s)))"
  using assms
proof (induction visitor pre cs s rule: walk_children.induct)
  case (2 visitor pre child cs s)
  have same: "list_all2 similar cs cs" using 2(4) by (simp add: list_all2_same similar_refl)
  have child: "trie_ok child" "similar child child" using 2(4) by (simp_all add: similar_refl)
  obtain s1 err where e: "(s1, err) = (case nitem child of None \<Rightarrow> (s, None) | Some item \<Rightarrow> visitor (pre @ pfx child) item s)"
    by (metis prod.collapse)
  show ?case
  proof (cases err)
    case None
    let ?sorted = "Trie (nprefix child) (nitem child) (sort_children (nchildren child))"
    obtain s2 err2 below where b: "(s2, err2, below) = walk_children visitor (pre @ pfx child) (sort_children (nchildren child)) s1"
      by (metis prod_cases3)
    have "trie_ok ?sorted" using similar_sorted [OF child(1)] by (simp add: similar_def)
    moreover have "list_all2 similar (nchildren ?sorted) below"
      using 2(1) [OF refl refl e None] b [symmetric] child(1) by (simp add: sort_children_def ok_child)
    ultimately have "similar ?sorted (Trie (nprefix child) (nitem child) below)"
      using similar_children [of ?sorted below] by simp
    with similar_sorted [OF child(1)] have c: "similar child (Trie (nprefix child) (nitem child) below)"
      by (rule similar_trans)
    show ?thesis
    proof (cases "err2 = None")
      case True
      have "list_all2 similar cs (snd (snd (walk_children visitor pre cs s2)))"
        using 2(2) [OF refl refl e None b refl] True 2(4) by simp
      then show ?thesis using e [symmetric] b [symmetric] None True c by (simp add: split_def Let_def)
    next
      case False
      then show ?thesis using e [symmetric] b [symmetric] None c same by simp
    qed
  next
    case (Some a)
    then show ?thesis using e [symmetric] child same 2(3) [OF refl refl e] 2(4) by (cases a) (simp_all add: split_def Let_def)
  qed
qed simp

lemma walk_similar:
  assumes "trie_ok t"
  shows "similar t (snd (snd (walk pre visitor t s)))"
proof -
  let ?u = "Trie (nprefix t) (nitem t) (sort_children (nchildren t))"
  have ok: "trie_ok ?u" using similar_sorted [OF assms] by (simp add: similar_def)
  have "similar t (Trie (nprefix t) (nitem t) (snd (snd (walk_children visitor p (sort_children (nchildren t)) s'))))" for p s'
  proof -
    have "list_all2 similar (sort_children (nchildren t)) (snd (snd (walk_children visitor p (sort_children (nchildren t)) s')))"
      using ok_child(3) [OF assms] by (intro walk_children_similar) (simp add: sort_children_def)
    then show ?thesis using similar_sorted [OF assms] similar_children [OF ok] similar_trans by fastforce
  qed
  then show ?thesis using similar_refl [OF assms]
    by (auto simp: walk_def Let_def split_def split: option.split VisitorError.split)
qed

lemma walk_children_empty:
  fixes visitor :: "('a, bool, unit) VisitorFunc"
  assumes "\<forall>c\<in>set cs. trie_ok c" and "visitor = (\<lambda>pre item isEmpty. (False, Some SkipSubtree))"
  shows "\<exists>ds. walk_children visitor pre cs s = (s \<and> (\<forall>c\<in>set cs. \<forall>key. look c key = None), None, ds)"
  using assms
proof (induction visitor pre cs s rule: walk_children.induct)
  case (2 visitor pre child cs s)
  note ok = look_empty_iff [of child]
  show ?case
  proof (cases "nitem child")
    case None
    let ?s = "s \<and> (\<forall>c\<in>set (nchildren child). \<forall>key. look c key = None)"
    have e: "(s, None) = (case nitem child of None \<Rightarrow> (s, None) | Some item \<Rightarrow> visitor (pre @ pfx child) item s)"
      using None by simp
    obtain below where b: "(?s, None, below) = walk_children visitor (pre @ pfx child) (sort_children (nchildren child)) s"
      using 2(1) [OF refl refl e refl] 2(4,5) ok_child(3) [of child] by (fastforce simp: sort_children_def)
    obtain ds where "walk_children visitor pre cs ?s = (?s \<and> (\<forall>c\<in>set cs. \<forall>key. look c key = None), None, ds)"
      using 2(2) [OF refl refl e refl b refl refl refl] 2(4,5) by auto
    then show ?thesis using None b [symmetric] ok 2(4) by simp
  next
    case (Some item)
    have e: "(False, Some SkipSubtree) = (case nitem child of None \<Rightarrow> (s, None) | Some item \<Rightarrow> visitor (pre @ pfx child) item s)"
      using Some 2(5) by simp
    obtain ds where "walk_children visitor pre cs False = (False, None, ds)"
      using 2(3) [OF refl refl e refl refl] 2(4,5) by auto
    moreover have "\<exists>key. look child key \<noteq> None" using Some look_here [of child] by auto
    ultimately show ?thesis using Some 2(5) by auto
  qed
qed simp

lemma empty_trie_ok:
  assumes "trie_ok t" and "empty_trie t = (isEmpty, u)"
  shows "similar t u" "isEmpty \<longleftrightarrow> (\<forall>key. look t key = None)"
proof -
  let ?v = "(\<lambda>pre item isEmpty. (False, Some SkipSubtree)) :: ('a, bool, unit) VisitorFunc"
  show "similar t u" using walk_similar [OF assms(1), of None ?v True] assms(2)
    by (auto simp: empty_trie_def Let_def split: prod.splits)
  obtain ds where "walk_children ?v (pfx t) (sort_children (nchildren t)) True
      = ((\<forall>c\<in>set (nchildren t). \<forall>key. look c key = None), None, ds)"
    using walk_children_empty [of "sort_children (nchildren t)" ?v "pfx t" True] ok_child(3) [OF assms(1)]
    by (auto simp: sort_children_def)
  then show "isEmpty \<longleftrightarrow> (\<forall>key. look t key = None)"
    using assms(2) look_empty_iff [OF assms(1)]
    by (auto simp: empty_trie_def walk_def split: option.splits)
qed

section \<open>Deletion\<close>

lemma cleared_ok:
  assumes "trie_ok t"
  shows "trie_ok (Trie (nprefix t) None (nchildren t))"
    "look (Trie (nprefix t) None (nchildren t)) = (look t)(pfx t := None)"
  using assms by (cases t; simp) (rule look_set_item)

lemma look_fresh: "look (Trie None None []) = (\<lambda>key. None)"
  by (rule ext) (simp add: look.simps [of "Trie None None []"] child_for_def Let_def)

lemma compact_item: "nitem t = None \<Longrightarrow> nitem (compact t) = None"
  by (cases rule: compact_cases [of t]) simp_all

lemma compact_nprefix: "nprefix t \<noteq> None \<Longrightarrow> nprefix (compact t) \<noteq> None"
  by (cases rule: compact_cases [of t]) simp_all

lemma delete_root_ok:
  assumes "root_ok t" and "nprefix t \<noteq> None"
  shows "root_ok (delete_root t)" "look (delete_root t) = (look t)(pfx t := None)"
proof -
  let ?u = "Trie (nprefix t) None (nchildren t)"
  have t: "trie_ok t" "length (pfx t) \<le> DefaultMaxPrefixPerNode" using assms(1) by (simp_all add: root_ok_def)
  note u = cleared_ok [OF t(1)]
  have k: "trie_ok (compact ?u)" "length (pfx (compact ?u)) \<le> DefaultMaxPrefixPerNode" "look (compact ?u) = (look t)(pfx t := None)"
    using compact_ok(1,2) [OF u(1)] compact_look [OF u(1)] t(2) u(2) by auto
  obtain isEmpty w where e: "empty_trie (compact ?u) = (isEmpty, w)" by fastforce
  note w = empty_trie_ok [OF k(1) e]
  have i: "nitem w = None" using w(1) compact_item [of ?u] by (simp add: similar_def)
  obtain q where p: "nprefix w = Some q" using w(1) compact_nprefix [of ?u] assms(2) by (auto simp: similar_def)
  have d: "delete_root t = (if isEmpty then Trie None None [] else w)"
    using e i by (simp add: delete_root_def reset_def)
  show "root_ok (delete_root t)"
    using w(1) k(2) i p similar_pfx [OF w(1)] by (auto simp: d root_ok_def similar_def)
  have "(look t)(pfx t := None) = (\<lambda>key. None)" if isEmpty
    using that w(2) k(3) by (simp add: fun_eq_iff)
  then show "look (delete_root t) = (look t)(pfx t := None)"
    using w(1) k(3) by (simp add: d similar_def look_fresh)
qed

lemma next_child_head:
  assumes "trie_ok t" and "i < length (nchildren t)"
  shows "next_child (hd (pfx (nchildren t ! i))) (nchildren t) = Some (Some i)"
  using assms(1)
proof (cases rule: next_child_cases [where b = "hd (pfx (nchildren t ! i))"])
  case none
  then show ?thesis using nth_mem [OF assms(2)] by (auto simp: child_for_None)
next
  case (child j)
  then have "j = i"
    using ok_distinct [OF assms(1)] assms(2) by (metis (mono_tags, lifting) length_map nth_eq_iff_index_eq nth_map)
  then show ?thesis using child(1) by simp
qed

lemma take_drop_child:
  assumes "trie_ok t" and "i < length (nchildren t)"
  defines "u \<equiv> Trie (nprefix t) (nitem t) (take i (nchildren t) @ drop (Suc i) (nchildren t))"
  assumes "\<forall>key. look (nchildren t ! i) key = None"
  shows "trie_ok u" "look u = look t"
proof -
  let ?cs = "take i (nchildren t) @ drop (Suc i) (nchildren t)" and ?c = "nchildren t ! i"
  have split: "nchildren t = take i (nchildren t) @ ?c # drop (Suc i) (nchildren t)"
    using assms(2) by (rule id_take_nth_drop)
  have d: "distinct (map (\<lambda>c. hd (pfx c)) (take i (nchildren t) @ ?c # drop (Suc i) (nchildren t)))"
    using ok_distinct [OF assms(1)] split by simp
  have s: "set ?cs \<subseteq> set (nchildren t)" by (auto dest: in_set_takeD in_set_dropD)
  show "trie_ok u" using d s ok_child [OF assms(1)] by (auto simp: u_def)
  have c: "child_for b ?cs = (if b = hd (pfx ?c) then None else child_for b (nchildren t))" for b
  proof (cases "b = hd (pfx ?c)")
    case True
    then have "b \<notin> (\<lambda>c. hd (pfx c)) ` set ?cs" using d by (simp add: image_Un)
    then have "child_for b ?cs = None" unfolding child_for_None by blast
    then show ?thesis using True by simp
  next
    case False
    have "child_for b (xs @ ?c # ys) = child_for b (xs @ ys)" for xs ys
      using False by (induction xs) (simp_all add: child_for_def)
    then have "child_for b ?cs = child_for b (take i (nchildren t) @ ?c # drop (Suc i) (nchildren t))" by simp
    also have "\<dots> = child_for b (nchildren t)" by (rule arg_cong [OF split [symmetric]])
    finally show ?thesis using False by simp
  qed
  show "look u = look t"
  proof
    fix key
    show "look u key = look t key"
    proof (cases rule: look_cases [of t key])
      case (below r)
      have "child_for (hd (pfx ?c)) (nchildren t) = Some ?c"
        using assms(1,2) by (simp add: child_for_iff ok_distinct)
      then show ?thesis using below look_below [of r u] assms(4) c [of "hd r"] by (auto simp: look_below u_def)
    qed (use look_here [of u] in \<open>simp_all add: u_def look_not_prefix look_here\<close>)
  qed
qed

text \<open>The subtree of a parent after the deletion in one of its children.\<close>

definition deleted :: "'a Trie \<Rightarrow> byte list \<Rightarrow> 'a Trie \<Rightarrow> bool" where
  "deleted t key t' \<longleftrightarrow> trie_ok t' \<and> length (pfx t') \<le> DefaultMaxPrefixPerNode
     \<and> (nprefix t \<noteq> None \<longrightarrow> nprefix t' \<noteq> None)
     \<and> (pfx t \<noteq> [] \<longrightarrow> pfx t' \<noteq> [] \<and> hd (pfx t') = hd (pfx t)) \<and> look t' = (look t)(key := None)"

lemma compact_similar_hd: "trie_ok t \<Longrightarrow> pfx t \<noteq> [] \<Longrightarrow> pfx (compact t) \<noteq> [] \<and> hd (pfx (compact t)) = hd (pfx t)"
  by (cases rule: compact_cases [of t]) simp_all

lemma deleted_remove:
  assumes "deleted t key u" and "trie_ok u" and "remove_child b (nchildren u) = Some cs"
    and "\<And>c. c \<in> set (nchildren u) \<Longrightarrow> hd (pfx c) = b \<Longrightarrow> \<forall>key. look c key = None"
  shows "deleted t key (Trie (nprefix u) (nitem u) cs)"
proof -
  obtain j where j: "next_child b (nchildren u) = Some (Some j)" "cs = take j (nchildren u) @ drop (Suc j) (nchildren u)"
    using assms(3) by (auto simp: remove_child_def split: option.splits)
  have "j < length (nchildren u)" "hd (pfx (nchildren u ! j)) = b" using next_child_nth [OF j(1)] by simp_all
  then show ?thesis using take_drop_child [OF assms(2), of j] assms(1,4) j(2) by (simp add: deleted_def)
qed

text \<open>A child of the node whose first byte is that of an empty child.\<close>

lemma empty_child:
  assumes "trie_ok t" and "i < length (nchildren t)" and "\<forall>key. look (nchildren t ! i) key = None"
    and "c \<in> set (nchildren t)" and "hd (pfx c) = hd (pfx (nchildren t ! i))"
  shows "\<forall>key. look c key = None"
proof -
  have "child_for (hd (pfx c)) (nchildren t) = Some c"
    "child_for (hd (pfx c)) (nchildren t) = Some (nchildren t ! i)"
    using assms(2,4,5) by (simp_all add: child_for_iff ok_distinct [OF assms(1)])
  then show ?thesis using assms(3) by simp
qed

lemma empty_child_compact:
  assumes "trie_ok t" and "length (pfx t) \<le> DefaultMaxPrefixPerNode"
    and "i < length (nchildren t)" and "\<forall>key. look (nchildren t ! i) key = None"
    and "c \<in> set (nchildren (compact t))" and "hd (pfx c) = hd (pfx (nchildren t ! i))"
  shows "\<forall>key. look c key = None"
proof (cases rule: compact_cases [of t])
  case same
  then show ?thesis using empty_child [OF assms(1,3,4)] assms(5,6) by simp
next
  case (join child)
  then have "\<forall>d\<in>set (nchildren t). \<forall>key. look d key = None" using assms(3,4) by simp
  then have "\<forall>key. look (compact t) key = None"
    using look_empty_iff [OF assms(1)] join(2) compact_look [OF assms(1)] by simp
  then show ?thesis using look_empty_iff [OF compact_ok(1) [OF assms(1,2)]] assms(5) by blast
qed

lemma delete_child_ok:
  assumes "trie_ok t" and "length (pfx t) \<le> DefaultMaxPrefixPerNode" and "i < length (nchildren t)"
    and "delete_child t i = Some t'"
  shows "deleted t (pfx t @ pfx (nchildren t ! i)) t'"
proof -
  let ?n = "nchildren t ! i" and ?b = "hd (pfx (nchildren t ! i))" and ?key = "pfx t @ pfx (nchildren t ! i)"
  have n: "trie_ok ?n" "pfx ?n \<noteq> []" "length (pfx ?n) \<le> 4" using ok_child [OF assms(1)] assms(3) by simp_all
  obtain isEmpty w where e: "empty_trie (Trie (nprefix ?n) None (nchildren ?n)) = (isEmpty, w)" by fastforce
  note w = empty_trie_ok [OF cleared_ok(1) [OF n(1)] e]
  have wl: "look w = look (Trie (nprefix ?n) None (nchildren ?n))" using w(1) by (simp only: similar_def)
  have wn: "trie_ok w" "nitem w = None" using w(1) by (simp_all only: similar_def Trie.sel)
  have wp: "pfx w = pfx ?n" using similar_pfx [OF w(1)] by (simp only: pfx_eta)
  have wd: "look w = (look ?n)(pfx ?n := None)" using cleared_ok(2) [OF n(1)] by (simp only: wl)
  have em: "isEmpty \<longleftrightarrow> (\<forall>key. look w key = None)" using w(2) by (simp only: wl)
  let ?t1 = "set_child t i w"
  have hd: "hd (pfx w) = ?b" using wp by simp
  have t1: "trie_ok ?t1" "look ?t1 = (look t)(?key := None)"
    using set_child_ok [OF assms(1,3) hd wn(1)] set_child_update [OF assms(1,3) hd n(2) _ wd] n wp by simp_all
  have t1': "pfx ?t1 = pfx t" "nprefix ?t1 = nprefix t" "i < length (nchildren ?t1)" "nchildren ?t1 ! i = w"
    using assms(3) by (simp_all add: set_child_def)
  note t1 = t1 t1'
  have d1: "deleted t ?key ?t1" using t1 assms(2) by (simp add: deleted_def)
  let ?rm = "\<lambda>u. map_option (Trie (nprefix u) (nitem u)) (remove_child ?b (nchildren u))"
  have eq: "delete_child t i = (if isEmpty then Option.bind p ?rm else p)"
    if "p = (if compact w \<noteq> w then map_option (\<lambda>cs. compact (Trie (nprefix t) (nitem t) cs)) (replace_child ?b (compact w) (nchildren ?t1))
          else Some ?t1)" for p
    unfolding delete_child_def Let_def e prod.case that hd
    by (simp only: set_child_def Trie.sel wp n(2) simp_thms if_False)
  show ?thesis
  proof (cases "compact w = w")
    case True
    then have "t' = ?t1 \<and> \<not> isEmpty \<or> isEmpty \<and> ?rm ?t1 = Some t'"
      using assms(4) eq [of "Some ?t1"] by (cases isEmpty) simp_all
    moreover have "\<forall>key. look c key = None" if isEmpty "c \<in> set (nchildren ?t1)" "hd (pfx c) = ?b" for c
      using that empty_child [OF t1(1,5)] t1(6) wp em by simp
    ultimately show ?thesis using d1 deleted_remove [OF d1 t1(1), of ?b] by fastforce
  next
    case False
    let ?c = "compact w"
    have c: "trie_ok ?c" "pfx ?c \<noteq> []" "hd (pfx ?c) = ?b" "length (pfx ?c) \<le> 4" "look ?c = look w"
      using compact_ok [OF wn(1)] compact_look [OF wn(1)] wp n by auto
    let ?t2 = "set_child ?t1 i ?c"
    have rep: "replace_child ?b ?c (nchildren ?t1) = Some (nchildren ?t2)"
      using next_child_head [OF t1(1,5)] t1(6) wp by (simp add: replace_child_def set_child_def)
    have t2: "trie_ok ?t2" "look ?t2 = look ?t1" "pfx ?t2 = pfx t" "nprefix ?t2 = nprefix t" "i < length (nchildren ?t2)" "nchildren ?t2 ! i = ?c"
      using set_child_ok [OF t1(1,5), of ?c] set_child_same [OF t1(1,5), of ?c] c t1 wp by (simp_all add: set_child_def)
    note k = compact_ok [OF t2(1)] compact_look [OF t2(1)] compact_nprefix [of ?t2]
    have d2: "deleted t ?key (compact ?t2)" using k t1(2) t2(2-4) assms(2) by (auto simp: deleted_def)
    have "Trie (nprefix t) (nitem t) (nchildren ?t2) = ?t2" by (simp add: set_child_def)
    then have "t' = compact ?t2 \<and> \<not> isEmpty \<or> isEmpty \<and> ?rm (compact ?t2) = Some t'"
      using assms(4) eq [of "Some (compact ?t2)"] False rep by (cases isEmpty) simp_all
    moreover have "\<forall>key. look c key = None" if isEmpty "c \<in> set (nchildren (compact ?t2))" "hd (pfx c) = ?b" for c
      using that empty_child_compact [OF t2(1) _ t2(5)] t2(3,6) assms(2) c(3,5) em by simp
    ultimately show ?thesis using d2 deleted_remove [OF d2, of ?b] k(1) t2(3) assms(2) by fastforce
  qed
qed

fun path_prefix :: "nat list \<Rightarrow> 'a Trie \<Rightarrow> byte list" where
  "path_prefix [] t = []"
| "path_prefix (i # is) t = pfx t @ path_prefix is (nchildren t ! i)"

lemma path_snoc:
  "path_ok (path @ [i]) t \<longleftrightarrow> path_ok path t \<and> i < length (nchildren (node_at path t))"
  "node_at (path @ [i]) t = nchildren (node_at path t) ! i"
  "path_key (path @ [i]) t = path_prefix path t @ pfx (node_at path t) @ pfx (nchildren (node_at path t) ! i)"
  by (induction path arbitrary: t) simp_all

lemma node_at_ok:
  assumes "trie_ok t" and "length (pfx t) \<le> DefaultMaxPrefixPerNode" and "path_ok path t"
  shows "trie_ok (node_at path t) \<and> length (pfx (node_at path t)) \<le> DefaultMaxPrefixPerNode"
  using assms
proof (induction path arbitrary: t)
  case (Cons i path)
  then have "nchildren t ! i \<in> set (nchildren t)" by simp
  with Cons ok_child [OF Cons.prems(1)] show ?case by simp
qed simp

lemma path_prefix_hd:
  assumes "pfx t \<noteq> []"
  shows "path_prefix path t @ pfx (node_at path t) @ r \<noteq> [] \<and> hd (path_prefix path t @ pfx (node_at path t) @ r) = hd (pfx t)"
  using assms by (cases path) simp_all

lemma put_at_deleted:
  assumes "trie_ok t" and "length (pfx t) \<le> DefaultMaxPrefixPerNode" and "path_ok path t"
    and "deleted (node_at path t) (pfx (node_at path t) @ r) s"
  shows "deleted t (path_prefix path t @ pfx (node_at path t) @ r) (put_at path s t)"
  using assms
proof (induction path arbitrary: t)
  case (Cons i path)
  let ?c = "nchildren t ! i" and ?u = "put_at path s (nchildren t ! i)"
  let ?k = "path_prefix path (nchildren t ! i) @ pfx (node_at path (nchildren t ! i)) @ r"
  have i: "i < length (nchildren t)" using Cons.prems(3) by simp
  then have c: "trie_ok ?c" "length (pfx ?c) \<le> 4" "pfx ?c \<noteq> []" using ok_child [OF Cons.prems(1)] by simp_all
  have "deleted ?c ?k ?u" using Cons.IH [OF c(1,2)] Cons.prems(3,4) by simp
  then have u: "trie_ok ?u" "length (pfx ?u) \<le> 4" "pfx ?u \<noteq> []" "hd (pfx ?u) = hd (pfx ?c)" "look ?u = (look ?c)(?k := None)"
    using c(3) unfolding deleted_def by blast+
  have k: "?k \<noteq> []" "hd ?k = hd (pfx ?u)" using path_prefix_hd [OF c(3), of path r] u(4) by metis+
  have "look (set_child t i ?u) = (look t)(pfx t @ ?k := None)"
    by (rule set_child_update [OF Cons.prems(1) i u(4) k(1,2) u(5)])
  moreover have "trie_ok (set_child t i ?u)"
    by (rule set_child_ok [OF Cons.prems(1) i u(4,1,3,2)])
  moreover have "pfx (set_child t i ?u) = pfx t" "nprefix (set_child t i ?u) = nprefix t" by (simp_all add: set_child_def)
  ultimately have "deleted t (pfx t @ ?k) (set_child t i ?u)"
    using Cons.prems(2) by (simp only: deleted_def simp_thms)
  then show ?case by (simp only: set_child_def put_at.simps path_prefix.simps node_at.simps append_assoc)
qed simp

lemma path_key_hd:
  assumes "pfx t \<noteq> []"
  shows "path_key path t @ q \<noteq> [] \<and> hd (path_key path t @ q) = hd (pfx t)"
  using assms by (cases path) simp_all

lemma look_path_append:
  assumes "trie_ok t" and "path_ok path t"
  shows "look t (path_key path t @ q) = look (node_at path t) (pfx (node_at path t) @ q)"
  using assms
proof (induction path arbitrary: t)
  case (Cons i path)
  let ?c = "nchildren t ! i"
  have i: "i < length (nchildren t)" "path_ok path ?c" using Cons.prems(2) by simp_all
  then have c: "trie_ok ?c" "pfx ?c \<noteq> []" using ok_child [OF Cons.prems(1)] by simp_all
  have "look t (pfx t @ path_key path ?c @ q) = look ?c (path_key path ?c @ q)"
    using path_key_hd [OF c(2), of path q] by (intro look_child [OF Cons.prems(1) i(1)]) simp_all
  then show ?case using Cons.IH [OF c(1) i(2)] by simp
qed simp

lemma look_path:
  assumes "trie_ok t" and "path_ok path t"
  shows "look t (path_key path t) = nitem (node_at path t)"
  using look_path_append [OF assms, of "[]"] by (simp add: look_here)

lemma Delete_ok:
  assumes "root_ok t" and "Delete t (Some key) = Some (True, t')"
  shows "root_ok t' \<and> (\<exists>k. prefix k key \<and> look t k \<noteq> None \<and> (look t key \<noteq> None \<longrightarrow> k = key) \<and> look t' = (look t)(k := None))"
proof -
  have t: "trie_ok t" "length (pfx t) \<le> DefaultMaxPrefixPerNode" using assms(1) by (simp_all add: root_ok_def)
  obtain path found leftover where f: "findSubtree t key = Some (path, found, leftover)" "path_ok path t"
      "leftover = [] \<longrightarrow> prefix (path_key path t) key" "found \<and> leftover = [] \<longrightarrow> path_key path t = key"
      "look t key = (if found \<and> leftover = [] then nitem (node_at path t) else None)"
    using findSubtree_look [OF t(1), of key] by blast
  have g: "nprefix t \<noteq> None" "leftover = []" "nitem (node_at path t) \<noteq> None"
    using assms(2) f(1) by (auto simp: Delete_def split: if_splits)
  have key: "prefix (path_key path t) key" "look t key \<noteq> None \<longrightarrow> path_key path t = key"
    using f(3-5) g(2) by (auto split: if_splits)
  show ?thesis
  proof (cases path rule: rev_cases)
    case Nil
    then have "t' = delete_root t" using assms(2) f(1) g by (auto simp: Delete_def)
    then show ?thesis using delete_root_ok [OF assms(1) g(1)] key Nil g(3) look_here [of t] by auto
  next
    case (snoc p i)
    let ?P = "node_at p t"
    have p: "path_ok p t" "i < length (nchildren ?P)" using f(2) snoc by (simp_all add: path_snoc)
    note ok = node_at_ok [OF t p(1)]
    obtain u where u: "delete_child ?P i = Some u" "t' = put_at p u t"
      using assms(2) f(1) g snoc by (auto simp: Delete_def)
    have "deleted t (path_prefix p t @ pfx ?P @ pfx (nchildren ?P ! i)) t'"
      using put_at_deleted [OF t p(1)] delete_child_ok [OF _ _ p(2) u(1)] ok u(2) by blast
    then have d: "deleted t (path_key path t) t'" using snoc by (simp add: path_snoc)
    moreover have "look t (path_key path t) \<noteq> None"
      using look_path [OF t(1) f(2)] g(3) by simp
    ultimately show ?thesis
      using key g(1) unfolding deleted_def root_ok_def by blast
  qed
qed

text \<open>A tree in which every node below the root has an item in its subtree: insertion builds
  such trees, deletion may leave a node without.\<close>

fun has_item :: "'a Trie \<Rightarrow> bool" where
  "has_item (Trie p item cs) \<longleftrightarrow> item \<noteq> None \<or> (\<exists>c\<in>set cs. has_item c)"

fun live :: "'a Trie \<Rightarrow> bool" where
  "live (Trie p item cs) \<longleftrightarrow> (\<forall>c\<in>set cs. has_item c \<and> live c)"

lemma live_child: "live t \<Longrightarrow> c \<in> set (nchildren t) \<Longrightarrow> has_item c \<and> live c"
  by (cases t) simp

lemma has_item_look: "trie_ok t \<Longrightarrow> has_item t \<longleftrightarrow> (\<exists>key. look t key \<noteq> None)"
proof (induction t)
  case (Trie p item cs)
  then have "\<And>c. c \<in> set cs \<Longrightarrow> has_item c \<longleftrightarrow> (\<exists>key. look c key \<noteq> None)" by simp
  then show ?case using look_empty_iff [OF Trie.prems] by auto
qed

lemma node_at_live: "live t \<Longrightarrow> path_ok path t \<Longrightarrow> live (node_at path t)"
  by (induction path arbitrary: t) (auto dest: live_child [OF _ nth_mem])

lemma empty_trie_leaf: "empty_trie (Trie p None []) = (True, Trie p None [])"
  by (simp add: empty_trie_def walk_def sort_children_def)

lemma delete_child_returns:
  assumes "trie_ok t" and "i < length (nchildren t)" and "live (nchildren t ! i)"
  shows "\<exists>t'. delete_child t i = Some t'"
proof -
  let ?n = "nchildren t ! i" and ?b = "hd (pfx (nchildren t ! i))"
  have n: "trie_ok ?n" "pfx ?n \<noteq> []" "length (pfx ?n) \<le> 4" using ok_child [OF assms(1)] assms(2) by simp_all
  obtain isEmpty w where e: "empty_trie (Trie (nprefix ?n) None (nchildren ?n)) = (isEmpty, w)" by fastforce
  note w = empty_trie_ok [OF cleared_ok(1) [OF n(1)] e]
  have wp: "pfx w = pfx ?n" using similar_pfx [OF w(1)] by (simp only: pfx_eta)
  have wo: "trie_ok w" using w(1) by (simp only: similar_def)
  let ?t1 = "set_child t i w"
  have hd: "hd (pfx w) = ?b" using wp by simp
  have t1: "trie_ok ?t1" using set_child_ok [OF assms(1,2) hd wo] n wp by simp
  have t1': "i < length (nchildren ?t1)" "nchildren ?t1 ! i = w" using assms(2) by (simp_all add: set_child_def)
  have nx: "next_child ?b (nchildren ?t1) = Some (Some i)"
    using next_child_head [OF t1 t1'(1)] t1'(2) hd by simp
  let ?rm = "\<lambda>u. map_option (Trie (nprefix u) (nitem u)) (remove_child ?b (nchildren u))"
  have eq: "delete_child t i = (if isEmpty then Option.bind p ?rm else p)"
    if "p = (if compact w \<noteq> w then map_option (\<lambda>cs. compact (Trie (nprefix t) (nitem t) cs)) (replace_child ?b (compact w) (nchildren ?t1))
          else Some ?t1)" for p
    unfolding delete_child_def Let_def e prod.case that hd
    by (simp only: set_child_def Trie.sel wp n(2) simp_thms if_False)
  show ?thesis
  proof (cases isEmpty)
    case True
    then have "\<forall>c\<in>set (nchildren ?n). \<forall>key. look c key = None"
      using w(2) look_empty_iff [OF cleared_ok(1) [OF n(1)]] by simp
    then have "\<forall>c\<in>set (nchildren ?n). \<not> has_item c" using ok_child(3) [OF n(1)] by (simp add: has_item_look)
    then have "nchildren ?n = []" using live_child [OF assms(3)] by (cases "nchildren ?n") auto
    then have "w = Trie (nprefix ?n) None []" using e empty_trie_leaf by (metis prod.inject)
    then have "compact w = w" by (simp add: compact_def)
    then show ?thesis using True eq [of "Some ?t1"] nx by (simp add: remove_child_def)
  next
    case False
    show ?thesis
    proof (cases "compact w = w")
      case True
      then show ?thesis using False eq [of "Some ?t1"] by simp
    next
      case c: False
      have "replace_child ?b (compact w) (nchildren ?t1) = Some ((nchildren ?t1)[i := compact w])"
        using nx by (simp add: replace_child_def)
      then show ?thesis using False c eq [of "Some (compact (Trie (nprefix t) (nitem t) ((nchildren ?t1)[i := compact w])))"] by simp
    qed
  qed
qed

lemma Delete_returns:
  assumes "root_ok t" and "live t" and "look t key \<noteq> None"
  shows "\<exists>t'. Delete t (Some key) = Some (True, t')"
proof -
  have t: "trie_ok t" "length (pfx t) \<le> DefaultMaxPrefixPerNode" using assms(1) by (simp_all add: root_ok_def)
  have np: "nprefix t \<noteq> None" using assms(1,3) look_empty_iff [OF t(1)] by (auto simp: root_ok_def)
  obtain path found leftover where f: "findSubtree t key = Some (path, found, leftover)" "path_ok path t"
      "look t key = (if found \<and> leftover = [] then nitem (node_at path t) else None)"
    using findSubtree_look [OF t(1), of key] by blast
  have g: "leftover = []" "nitem (node_at path t) \<noteq> None" using f(3) assms(3) by (auto split: if_splits)
  show ?thesis
  proof (cases path rule: rev_cases)
    case Nil
    then show ?thesis using f(1) g np by (simp add: Delete_def)
  next
    case (snoc p i)
    let ?P = "node_at p t"
    have p: "path_ok p t" "i < length (nchildren ?P)" using f(2) snoc by (simp_all add: path_snoc)
    have "live (nchildren ?P ! i)" using node_at_live [OF assms(2) f(2)] snoc by (simp add: path_snoc)
    then obtain u where "delete_child ?P i = Some u"
      using delete_child_returns [OF _ p(2)] node_at_ok [OF t p(1)] by blast
    then show ?thesis using f(1) g np snoc by (simp add: Delete_def)
  qed
qed

lemma live_Trie: "live t \<longleftrightarrow> (\<forall>c\<in>set (nchildren t). has_item c \<and> live c)"
  "has_item t \<longleftrightarrow> nitem t \<noteq> None \<or> (\<exists>c\<in>set (nchildren t). has_item c)"
  by (cases t; simp)+

lemma append_child_live: "live (append_child key (Some v)) \<and> has_item (append_child key (Some v))"
proof (induction key "Some v" rule: append_child.induct)
  case (1 key)
  show ?case
  proof (cases "length key \<le> DefaultMaxPrefixPerNode")
    case True
    then show ?thesis by (simp add: append_child.simps)
  next
    case False
    then show ?thesis using 1 [OF False] by (simp add: append_child.simps [of key])
  qed
qed

lemma compact_live: "live t \<Longrightarrow> live (compact t) \<and> has_item (compact t) = has_item t"
proof (cases rule: compact_cases [of t])
  case (join child)
  assume "live t"
  then have "live child" using join(1) live_child [of t child] by simp
  then show ?thesis
    using join live_Trie(1) [of child] live_Trie(2) [of child] live_Trie(2) [of t] by simp
qed simp

lemma split_live: "live t \<Longrightarrow> has_item t \<Longrightarrow> live (split_prefix n t)"
proof -
  let ?c = "Trie (Some (drop n (pfx t))) (nitem t) (nchildren t)"
  assume "live t" "has_item t"
  then have "live ?c" "has_item ?c" by (cases t; simp)+
  then show ?thesis using compact_live [of ?c] by (simp add: split_prefix_def)
qed

lemma insert_item_live: "live t \<Longrightarrow> live (snd (insert_item t (Some v) repl)) \<and> has_item (snd (insert_item t (Some v) repl))"
  by (cases t) (auto simp: insert_item_def)

lemma append_key_live: "live t \<Longrightarrow> live (snd (append_key t key (Some v) repl)) \<and> has_item (snd (append_key t key (Some v) repl))"
  using append_child_live [of key v] insert_item_live [of t v repl] live_Trie(1) [of t]
  by (auto simp: append_key_def)

lemma put_loop_live:
  assumes "live t" and "has_item t" and "put_loop t key (Some v) repl = Some r"
  shows "live (snd r) \<and> has_item (snd r)"
  using assms
proof (induction t key "Some v" repl arbitrary: r rule: put_loop.induct)
  case (1 t key repl)
  let ?n = "longestCommonPrefixLength key (pfx t)" and ?r = "drop (longestCommonPrefixLength key (pfx t)) key"
  note p = 1(4) [unfolded put_loop.simps [of t key] Let_def]
  consider (split) "r = append_key (split_prefix ?n t) ?r (Some v) repl"
    | (here) "r = insert_item t (Some v) repl"
    | (new) "r = append_key t ?r (Some v) repl"
    | (child) i q where "\<not> ?n < length (pfx t)" "?r \<noteq> []" "next_child (hd ?r) (nchildren t) = Some (Some i)"
        "put_loop (nchildren t ! i) ?r (Some v) repl = Some q"
        "snd r = Trie (nprefix t) (nitem t) ((nchildren t)[i := snd q])"
    using p by (auto split: if_splits option.splits)
  then show ?case
  proof cases
    case split
    then show ?thesis using append_key_live [OF split_live [OF 1(2,3)]] by simp
  next
    case here
    then show ?thesis using insert_item_live [OF 1(2)] by simp
  next
    case new
    then show ?thesis using append_key_live [OF 1(2)] by simp
  next
    case (child i q)
    have i: "i < length (nchildren t)" using next_child_nth [OF child(3)] by simp
    then have "live (nchildren t ! i)" "has_item (nchildren t ! i)" using live_child [OF 1(2)] by simp_all
    then have q: "live (snd q) \<and> has_item (snd q)"
      using 1(1) [OF refl refl child(1,2,3) refl _ _ child(4)] by simp
    have "\<forall>c\<in>set ((nchildren t)[i := snd q]). has_item c \<and> live c"
      using q live_child [OF 1(2)] set_update_subset_insert [of "nchildren t" i "snd q"] by blast
    moreover have "snd q \<in> set ((nchildren t)[i := snd q])" using i by (rule set_update_memI)
    ultimately show ?thesis using child(5) q by auto
  qed
qed

text \<open>Insertions keep a tree in this form, from the new trie on.\<close>

definition live_root :: "'a Trie \<Rightarrow> bool" where
  "live_root t \<longleftrightarrow> live t \<and> (nprefix t = None \<or> has_item t)"

lemma put_live:
  assumes "root_ok t" and "live_root t" and "put t (Some key) (Some v) repl = Some r"
  shows "live_root (snd r)"
proof (cases "nprefix t")
  case None
  then have "live (snd r) \<and> has_item (snd r)"
    using assms append_key_live [of "Trie (Some (take 4 key)) (nitem t) (nchildren t)" "drop 4 key" v repl]
      insert_item_live [of "Trie (Some key) (nitem t) (nchildren t)" v repl]
    by (auto simp: put_def root_ok_def split: if_splits)
  then show ?thesis by (simp add: live_root_def)
next
  case (Some p)
  then show ?thesis using assms put_loop_live [of t key v repl r] by (auto simp: put_def live_root_def)
qed

section \<open>Order of a visit\<close>

text \<open>The visitor that collects the keys and items it is called with.  It keeps a copy of the
  prefix: the walk reuses the array.\<close>

definition collect :: "('a, (byte list \<times> 'a) list, unit) VisitorFunc" where
  "collect = (\<lambda>pre item s. (s @ [(pre, item)], None))"

lemma less_append: "q \<noteq> [] \<Longrightarrow> (p :: byte list) < p @ q"
  by (induction p) (cases q, simp_all)

lemma append_less [simp]: "(p :: byte list) @ x < p @ y \<longleftrightarrow> x < y"
  by (induction p) simp_all

lemma hd_less: "x \<noteq> [] \<Longrightarrow> y \<noteq> [] \<Longrightarrow> hd x < hd y \<Longrightarrow> (x :: byte list) < y"
  by (cases x; cases y) simp_all

lemma le_hd: "(x :: byte list) \<le> y \<Longrightarrow> x \<noteq> [] \<Longrightarrow> y \<noteq> [] \<Longrightarrow> hd x \<le> hd y"
  by (cases x; cases y) (auto simp: less_imp_le)

text \<open>The keys and items stored below a prefix in a list of children.\<close>

definition entries :: "byte list \<Rightarrow> 'a Trie list \<Rightarrow> (byte list \<times> 'a) set" where
  "entries p cs = {(p @ k, v) | k v. \<exists>c\<in>set cs. look c k = Some v}"

lemma entries_Cons: "entries p (c # cs) = {(p @ k, v) | k v. look c k = Some v} \<union> entries p cs"
  by (auto simp: entries_def)

lemma entries_sort: "entries p (sort_children cs) = entries p cs"
  by (simp add: entries_def sort_children_def)

lemma look_Some_iff:
  assumes "trie_ok t"
  shows "look t k = Some v \<longleftrightarrow> k = pfx t \<and> nitem t = Some v \<or> (\<exists>q. k = pfx t @ q \<and> (\<exists>c\<in>set (nchildren t). look c q = Some v))"
proof (cases rule: look_cases [of t k])
  case no
  then show ?thesis using look_not_prefix [OF no] by auto
next
  case here
  have "\<not> (\<exists>c\<in>set (nchildren t). look c [] = Some v)"
    using ok_child(1) [OF assms] look_hd by fastforce
  then show ?thesis using here by (auto simp: look_here)
next
  case (below r)
  have "look t k = Some v \<longleftrightarrow> (\<exists>c\<in>set (nchildren t). look c r = Some v)"
  proof
    assume "look t k = Some v"
    then show "\<exists>c\<in>set (nchildren t). look c r = Some v"
      using below by (auto simp: look_below dest: child_for_Some split: option.splits)
  next
    assume "\<exists>c\<in>set (nchildren t). look c r = Some v"
    then obtain i where i: "i < length (nchildren t)" "look (nchildren t ! i) r = Some v" by (metis in_set_conv_nth)
    then have "hd r = hd (pfx (nchildren t ! i))" using look_hd [of "nchildren t ! i" r] ok_child(1) [OF assms] by simp
    then show "look t k = Some v" using look_child [OF assms i(1) below(2)] below(1) i(2) by simp
  qed
  then show ?thesis using below by auto
qed

lemma sorted_heads:
  assumes "sorted (map pfx cs)" and "distinct (map (\<lambda>c. hd (pfx c)) cs)" and "\<forall>c\<in>set cs. pfx c \<noteq> []"
  shows "sorted_wrt (<) (map (\<lambda>c. hd (pfx c)) cs)"
  using assms
proof (induction cs)
  case (Cons c cs)
  have "hd (pfx c) < hd (pfx d)" if "d \<in> set cs" for d
  proof -
    have "hd (pfx c) \<le> hd (pfx d)" using Cons.prems(1,3) that by (intro le_hd) auto
    moreover have "hd (pfx c) \<noteq> hd (pfx d)" using Cons.prems(2) that by auto
    ultimately show ?thesis by simp
  qed
  then show ?case using Cons by simp
qed simp

lemma sorted_children:
  assumes "trie_ok t"
  shows "sorted_wrt (<) (map (\<lambda>c. hd (pfx c)) (sort_children (nchildren t)))"
proof (rule sorted_heads)
  show "sorted (map pfx (sort_children (nchildren t)))" by (simp add: sort_children_def)
  show "distinct (map (\<lambda>c. hd (pfx c)) (sort_children (nchildren t)))"
    using similar_sorted [OF assms] by (auto simp: similar_def)
  show "\<forall>c\<in>set (sort_children (nchildren t)). pfx c \<noteq> []" using ok_child(1) [OF assms] by (simp add: sort_children_def)
qed

lemma sorted_fst_append:
  assumes "sorted_wrt (<) (map fst xs)" and "sorted_wrt (<) (map fst ys)"
    and "\<And>x y. x \<in> set xs \<Longrightarrow> y \<in> set ys \<Longrightarrow> fst x < fst y"
  shows "sorted_wrt (<) (map fst (xs @ ys))"
  using assms by (simp add: sorted_wrt_append)

lemma walk_children_collect:
  assumes "\<forall>c\<in>set cs. trie_ok c \<and> pfx c \<noteq> []" and "sorted_wrt (<) (map (\<lambda>c. hd (pfx c)) cs)"
  shows "\<exists>L ds. walk_children collect p cs s = (s @ L, None, ds) \<and> sorted_wrt (<) (map fst L) \<and> set L = entries p cs"
  using assms
proof (induction "collect :: ('a, (byte list \<times> 'a) list, unit) VisitorFunc" p cs s rule: walk_children.induct)
  case (1 p s)
  then show ?case by (simp add: entries_def)
next
  case (2 p child cs s)
  have ok: "trie_ok child" "pfx child \<noteq> []" using 2(4) by simp_all
  define I where "I = (case nitem child of None \<Rightarrow> [] | Some item \<Rightarrow> [(p @ pfx child, item)])"
  have e: "(s @ I, None) = (case nitem child of None \<Rightarrow> (s, None) | Some item \<Rightarrow> collect (p @ pfx child) item s)"
    by (simp add: I_def collect_def split: option.split)
  let ?ch = "sort_children (nchildren child)"
  have ch: "\<forall>c\<in>set ?ch. trie_ok c \<and> pfx c \<noteq> []" using ok_child [OF ok(1)] by (simp add: sort_children_def)
  note srt = sorted_children [OF ok(1)]
  obtain B ds where b: "walk_children collect (p @ pfx child) ?ch (s @ I) = ((s @ I) @ B, None, ds)"
      "sorted_wrt (<) (map fst B)" "set B = entries (p @ pfx child) ?ch"
    using 2(1) [OF refl refl e refl ch srt] by blast
  obtain R ds' where r: "walk_children collect p cs (s @ I @ B) = ((s @ I @ B) @ R, None, ds')"
      "sorted_wrt (<) (map fst R)" "set R = entries p cs"
    using 2(2) [OF refl refl e refl] b(1) 2(4,5) by fastforce
  have Ik: "k = p @ pfx child" if "(k, v) \<in> set I" for k v
    using that by (auto simp: I_def split: option.splits)
  have Bk: "\<exists>q. q \<noteq> [] \<and> k = p @ pfx child @ q" if "(k, v) \<in> set B" for k v
    using that b(3) ch look_hd unfolding entries_def by fastforce
  have Rk: "\<exists>q. q \<noteq> [] \<and> hd (pfx child) < hd q \<and> k = p @ q" if kR: "(k, v) \<in> set R" for k v
  proof -
    obtain q c where q: "k = p @ q" "c \<in> set cs" "look c q = Some v" using kR r(3) by (auto simp: entries_def)
    then have "q \<noteq> [] \<and> hd q = hd (pfx c)" using look_hd [of c q] 2(4) by simp
    moreover have "hd (pfx child) < hd (pfx c)" using 2(5) q(2) by simp
    ultimately show ?thesis using q(1) by auto
  qed
  have IB: "fst x < fst y" if "x \<in> set I" "y \<in> set B" for x y
    using Ik [of "fst x" "snd x"] Bk [of "fst y" "snd y"] that less_append [of _ "p @ pfx child"] by auto
  have BR: "fst x < fst y" if xIB: "x \<in> set I \<union> set B" and yR: "y \<in> set R" for x y
  proof -
    obtain k where k: "fst x = p @ pfx child @ k"
      using Ik [of "fst x" "snd x"] Bk [of "fst x" "snd x"] xIB by (metis Un_iff append_Nil2 prod.collapse)
    obtain q where q: "q \<noteq> []" "hd (pfx child) < hd q" "fst y = p @ q" using Rk [of "fst y" "snd y"] yR by auto
    then have "pfx child @ k < q" using ok(2) by (intro hd_less) simp_all
    then show ?thesis using k q(3) by simp
  qed
  have "sorted_wrt (<) (map fst I)" by (simp add: I_def split: option.split)
  then have "sorted_wrt (<) (map fst ((I @ B) @ R))"
    using b(2) r(2) by (intro sorted_fst_append IB BR) simp_all
  then have "sorted_wrt (<) (map fst (I @ B @ R))" by simp
  moreover have "set (I @ B @ R) = entries p (child # cs)"
  proof -
    have "set I \<union> set B = {(p @ k, v) | k v. look child k = Some v}"
      unfolding look_Some_iff [OF ok(1)] b(3) entries_sort unfolding entries_def
      by (auto simp: I_def split: option.splits)
    then show ?thesis using r(3) by (auto simp: entries_Cons)
  qed
  moreover have "\<exists>ds. walk_children collect p (child # cs) s = (s @ I @ B @ R, None, ds)"
    using e [symmetric] b(1) r(1) by simp
  ultimately show ?case by blast
qed

lemma Visit_collect:
  assumes "trie_ok t"
  shows "\<exists>L t'. Visit collect t [] = (L, None, t') \<and> sorted_wrt (<) (map fst L) \<and> set L = {(k, v). look t k = Some v}"
proof -
  define I where "I = (case nitem t of None \<Rightarrow> [] | Some item \<Rightarrow> [(pfx t, item)])"
  let ?ch = "sort_children (nchildren t)"
  have ch: "\<forall>c\<in>set ?ch. trie_ok c \<and> pfx c \<noteq> []" using ok_child [OF assms] by (simp add: sort_children_def)
  obtain B ds where b: "walk_children collect (pfx t) ?ch I = (I @ B, None, ds)"
      "sorted_wrt (<) (map fst B)" "set B = entries (pfx t) ?ch"
    using walk_children_collect [OF ch sorted_children [OF assms], of "pfx t" I] by blast
  have "Visit collect t [] = (I @ B, None, Trie (nprefix t) (nitem t) ds)"
    using b(1) by (simp add: Visit_def walk_def collect_def I_def Let_def split: option.splits)
  moreover have IB: "fst x < fst y" if xI: "x \<in> set I" and yB: "y \<in> set B" for x y
  proof -
    have "fst x = pfx t" using xI by (auto simp: I_def split: option.splits)
    moreover obtain q where "q \<noteq> []" "fst y = pfx t @ q" using yB b(3) ch look_hd unfolding entries_def by fastforce
    ultimately show ?thesis by (simp add: less_append)
  qed
  have "sorted_wrt (<) (map fst I)" by (simp add: I_def split: option.split)
  then have "sorted_wrt (<) (map fst (I @ B))" using b(2) IB by (rule sorted_fst_append)
  moreover have "set (I @ B) = {(k, v). look t k = Some v}"
    unfolding look_Some_iff [OF assms] set_append b(3) entries_sort unfolding entries_def
    by (auto simp: I_def split: option.splits)
  ultimately show ?thesis by blast
qed

section \<open>Refinement\<close>

datatype 'a TrieOp = TrieInsert "byte list" "'a option" | TrieSet "byte list" "'a option" | TrieGet "byte list"
  | TrieMatch "byte list"

datatype 'a TrieResult = Flag bool | Item "'a option" | NoResult

fun trie_op :: "'a TrieOp \<Rightarrow> 'a Trie \<Rightarrow> ('a TrieResult \<times> 'a Trie) option" where
  "trie_op (TrieInsert key item) t = map_option (\<lambda>(inserted, t). (Flag inserted, t)) (Insert t (Some key) item)"
| "trie_op (TrieSet key item) t = map_option (\<lambda>t. (NoResult, t)) (Set t (Some key) item)"
| "trie_op (TrieGet key) t = map_option (\<lambda>item. (Item item, t)) (Get t key)"
| "trie_op (TrieMatch key) t = map_option (\<lambda>found. (Flag found, t)) (Match t key)"

text \<open>The operations of a map from keys to items.\<close>

fun map_op :: "'a TrieOp \<Rightarrow> (byte list \<rightharpoonup> 'a) \<Rightarrow> 'a TrieResult \<times> (byte list \<rightharpoonup> 'a)" where
  "map_op (TrieInsert key item) m = (Flag (m key = None), if m key = None then m(key := item) else m)"
| "map_op (TrieSet key item) m = (NoResult, m(key := item))"
| "map_op (TrieGet key) m = (Item (m key), m)"
| "map_op (TrieMatch key) m = (Flag (m key \<noteq> None), m)"

lemma trie_op_refines:
  assumes "root_ok t"
  shows "\<exists>r t'. trie_op x t = Some (r, t') \<and> root_ok t' \<and> map_op x (look t) = (r, look t')"
proof (cases x)
  case (TrieInsert key item)
  obtain i t' where "put t (Some key) item False = Some (i, t')" "root_ok t'" "i \<longleftrightarrow> look t key = None"
      "look t' = (if i then (look t)(key := item) else look t)"
    using put_stored [OF assms, of key item False] by blast
  then show ?thesis using TrieInsert by (simp add: Insert_def)
next
  case (TrieSet key item)
  obtain i t' where "put t (Some key) item True = Some (i, t')" "root_ok t'" "i"
      "look t' = (if i then (look t)(key := item) else look t)"
    using put_stored [OF assms, of key item True] by blast
  then show ?thesis using TrieSet by (simp add: Set_def)
next
  case (TrieGet key)
  then show ?thesis using assms by (simp add: Get_look root_ok_def)
next
  case (TrieMatch key)
  then show ?thesis using assms by (simp add: Match_def Get_look root_ok_def)
qed

interpretation trie: op_refinement trie_op map_op look root_ok
  by unfold_locales (rule trie_op_refines)

lemma root_ok_NewTrie: "root_ok NewTrie" "live_root NewTrie" "look NewTrie = Map.empty"
  by (simp_all add: root_ok_def NewTrie_def live_root_def look_fresh)

text \<open>C37: from an empty trie on, every sequence of \<open>Insert\<close>, \<open>Set\<close>, \<open>Get\<close> and \<open>Match\<close> with keys that
  are not nil runs without a panic, and every operation returns what the same operation on a
  map from keys to items returns: an insertion into a used key is refused, a lookup finds the
  item stored last and nothing else.  A visit of the trie reached then calls the visitor for
  exactly the stored keys with their items, in ascending order of the keys.\<close>

theorem Trie_refines_map:
  "\<exists>rs t L t'. op_run trie_op xs NewTrie = Some (rs, t) \<and> spec_run map_op xs Map.empty = (rs, look t)
     \<and> Visit collect t [] = (L, None, t') \<and> sorted_wrt (<) (map fst L) \<and> set L = {(k, v). look t k = Some v}"
proof -
  obtain rs t where r: "op_run trie_op xs NewTrie = Some (rs, t)" "root_ok t" "spec_run map_op xs Map.empty = (rs, look t)"
    using trie.runs [OF root_ok_NewTrie(1), of xs] by (auto simp: root_ok_NewTrie(3))
  then show ?thesis using Visit_collect [of t] by (auto simp: root_ok_def)
qed

section \<open>Deletion and lookup\<close>

lemma Get_root: "root_ok t \<Longrightarrow> Get t key = Some (look t key)"
  by (simp add: Get_look root_ok_def)

text \<open>C38: in a trie in which every node below the root has an item in its subtree, as insertions
  build it, the deletion of a stored key does not panic, reports success, and removes that key
  and no other.\<close>

theorem Trie_delete:
  assumes "root_ok t" and "live t" and "Get t key = Some (Some v)"
  shows "\<exists>t'. Delete t (Some key) = Some (True, t') \<and> root_ok t'
    \<and> (\<forall>k. Get t' k = (if k = key then Some None else Get t k))"
proof -
  have l: "look t key \<noteq> None" using assms(1,3) by (simp add: Get_root)
  obtain t' where d: "Delete t (Some key) = Some (True, t')" using Delete_returns [OF assms(1,2) l] by blast
  from Delete_ok [OF assms(1) d] l have "root_ok t'" "look t' = (look t)(key := None)" by auto
  then show ?thesis using d assms(1) by (simp add: Get_root)
qed

text \<open>Three keys, one a prefix of another.\<close>

definition trie3_ops :: "nat TrieOp list" where
  "trie3_ops = [TrieSet [1, 2] (Some 10), TrieSet [1, 2, 3, 4, 5, 6] (Some 20), TrieSet [1, 7] (Some 30)]"

definition trie3 :: "nat Trie" where
  "trie3 = snd (the (op_run trie_op trie3_ops NewTrie))"

lemma trie3_ok: "root_ok trie3" "live trie3" "Get trie3 [1, 2] = Some (Some 10)"
    "Get trie3 [1, 2, 3, 4, 5, 6] = Some (Some 20)" "Get trie3 [1, 7] = Some (Some 30)"
  by code_simp+

lemma trie3_look: "look trie3 = [[1, 2] \<mapsto> 10, [1, 2, 3, 4, 5, 6] \<mapsto> 20, [1, 7] \<mapsto> 30]"
proof -
  obtain rs t where "op_run trie_op trie3_ops NewTrie = Some (rs, t)"
    "spec_run map_op trie3_ops (look NewTrie) = (rs, look t)"
    using trie.runs [OF root_ok_NewTrie(1), of trie3_ops] by blast
  then show ?thesis by (simp add: trie3_def root_ok_NewTrie(3)) (simp add: trie3_ops_def)
qed

theorem Trie_delete_witness:
  "\<exists>t'. Delete trie3 (Some [1, 2]) = Some (True, t') \<and> Get t' [1, 2] = Some None
     \<and> Get t' [1, 2, 3, 4, 5, 6] = Some (Some 20) \<and> Get t' [1, 7] = Some (Some 30)"
  using Trie_delete [OF trie3_ok(1-3)] trie3_ok(4,5) by auto

text \<open>The search does not report where it stops: \<open>Delete\<close> ignores whether the key was found.\<close>

lemma findSubtree_longer:
  assumes "findSubtree t key = Some (path, True, [])" and "nchildren (node_at path t) = []" and "r \<noteq> []"
  shows "findSubtree t (key @ r) = Some (path, False, [])"
  using assms
proof (induction t key arbitrary: path rule: findSubtree.induct)
  case (1 t key)
  let ?n = "longestCommonPrefixLength key (pfx t)"
  note f = 1(2) [unfolded findSubtree.simps [of t key] Let_def]
  show ?case
  proof (cases path)
    case Nil
    then have k: "drop ?n key = []" "drop ?n (pfx t) = []"
      using f by (auto split: if_splits option.splits)
    have "key = pfx t" using lcp_take [of key "pfx t"] k by (metis append_Nil2 append_take_drop_id)
    then show ?thesis using Nil 1(3,4) by (subst findSubtree.simps) (simp add: Let_def)
  next
    case (Cons i p)
    then have c: "drop ?n key \<noteq> []" "\<not> ?n < length (pfx t)" "next_child (hd (drop ?n key)) (nchildren t) = Some (Some i)"
        "findSubtree (nchildren t ! i) (drop ?n key) = Some (p, True, [])"
      using f by (auto split: if_splits option.splits)
    then obtain q where q: "key = pfx t @ q" by (metis lcp_prefix prefixE)
    then have q': "q \<noteq> []" "next_child (hd q) (nchildren t) = Some (Some i)" "findSubtree (nchildren t ! i) q = Some (p, True, [])"
      using c by simp_all
    have "findSubtree (nchildren t ! i) (q @ r) = Some (p, False, [])"
      using 1(1) [OF refl refl c(1,2,3) refl] c(4) 1(3,4) Cons q by simp
    then show ?thesis using q q' Cons by (subst findSubtree.simps) (simp add: Let_def)
  qed
qed

lemma Delete_longer:
  assumes "root_ok t" and "live t" and "look t key \<noteq> None" and "\<forall>q. q \<noteq> [] \<longrightarrow> look t (key @ q) = None" and "r \<noteq> []"
  shows "Delete t (Some (key @ r)) = Delete t (Some key)"
proof -
  have t: "trie_ok t" "length (pfx t) \<le> DefaultMaxPrefixPerNode" using assms(1) by (simp_all add: root_ok_def)
  obtain path found leftover where f: "findSubtree t key = Some (path, found, leftover)" "path_ok path t"
      "found \<and> leftover = [] \<longrightarrow> path_key path t = key"
      "look t key = (if found \<and> leftover = [] then nitem (node_at path t) else None)"
    using findSubtree_look [OF t(1), of key] by blast
  have g: "found" "leftover = []" "path_key path t = key" using f(3,4) assms(3) by (auto split: if_splits)
  let ?n = "node_at path t"
  have n: "trie_ok ?n" "live ?n" using node_at_ok [OF t f(2)] node_at_live [OF assms(2) f(2)] by simp_all
  have "nchildren ?n = []"
  proof (rule ccontr)
    assume "nchildren ?n \<noteq> []"
    then have i: "0 < length (nchildren ?n)" by simp
    let ?c = "nchildren ?n ! 0"
    have c: "has_item ?c" "trie_ok ?c" "pfx ?c \<noteq> []"
      using live_child [OF n(2) nth_mem [OF i]] ok_child [OF n(1) nth_mem [OF i]] by simp_all
    then obtain q where q: "look ?c q \<noteq> None" by (auto simp: has_item_look)
    from look_hd [OF q c(3)] have "look ?n (pfx ?n @ q) = look ?c q" "q \<noteq> []"
      using look_child [OF n(1) i, of q] by simp_all
    then show False using look_path_append [OF t(1) f(2), of q] q assms(4) g(3) by simp
  qed
  then have "findSubtree t (key @ r) = Some (path, False, [])"
    using findSubtree_longer [of t key path r] f(1) g(1,2) assms(5) by simp
  then show ?thesis using f(1) g(1,2) by (simp add: Delete_def)
qed

text \<open>C39: deleting a key that is not stored deletes another one.  If a stored key has no stored
  extension, then deleting any longer key that begins with it reports success and removes the
  item of the shorter key, though the longer one was not stored.\<close>

theorem Trie_delete_other:
  assumes "root_ok t" and "live t" and "Get t key = Some (Some v)" and "\<forall>q. q \<noteq> [] \<longrightarrow> Get t (key @ q) = Some None"
    and "r \<noteq> []"
  shows "Get t (key @ r) = Some None \<and> (\<exists>t'. Delete t (Some (key @ r)) = Some (True, t') \<and> Get t' key = Some None)"
proof -
  have l: "look t key \<noteq> None" "\<forall>q. q \<noteq> [] \<longrightarrow> look t (key @ q) = None" using assms(1,3,4) by (simp_all add: Get_root)
  obtain t' where d: "Delete t (Some key) = Some (True, t')" using Delete_returns [OF assms(1,2) l(1)] by blast
  from Delete_ok [OF assms(1) d] l(1) have "root_ok t'" "look t' = (look t)(key := None)" by auto
  then show ?thesis using Delete_longer [OF assms(1,2) l assms(5)] d assms(4,5) by (simp add: Get_root)
qed

theorem Trie_delete_other_witness:
  "Get trie3 [1, 7, 9] = Some None \<and> (\<exists>t'. Delete trie3 (Some [1, 7, 9]) = Some (True, t') \<and> Get t' [1, 7] = Some None)"
proof -
  have "Get trie3 ([1, 7] @ q) = Some None" if "q \<noteq> []" for q
    using that trie3_ok(1) by (simp add: Get_root trie3_look)
  then show ?thesis using Trie_delete_other [OF trie3_ok(1,2,5), of "[9]"] by simp
qed

text \<open>Six more operations that end in a panic: the parent of the deleted node is compacted with
  it, and then the node is removed from the children of its former child.\<close>

definition then_op :: "(bool \<times> 'a Trie) option \<Rightarrow> ('a Trie \<Rightarrow> (bool \<times> 'a Trie) option) \<Rightarrow> (bool \<times> 'a Trie) option" where
  "then_op r f = Option.bind r (\<lambda>(b, t). f t)"

lemma Delete_panics:
  "\<exists>t. then_op (then_op (then_op (then_op (then_op (then_op (Insert NewTrie (Some [1, 2]) (Some (10 :: nat)))
       (\<lambda>t. Insert t (Some [1, 2, 3, 4]) (Some 20))) (\<lambda>t. Insert t (Some [1, 2, 3, 5]) (Some 30)))
       (\<lambda>t. Delete t (Some [1, 2, 3, 4]))) (\<lambda>t. Delete t (Some [1, 2, 3, 5])))
       (\<lambda>t. Insert t (Some [1, 6]) (Some 40))) (\<lambda>t. Delete t (Some [1, 6])) = Some (True, t)
     \<and> Get t [1, 2] = Some (Some 10) \<and> Delete t (Some [1, 2]) = None"
proof -
  let ?t = "Trie (Some [1]) None [Trie (Some [2]) (Some (10 :: nat)) [Trie (Some [3]) None []]]"
  have "then_op (then_op (then_op (then_op (then_op (then_op (Insert NewTrie (Some [1, 2]) (Some (10 :: nat)))
       (\<lambda>t. Insert t (Some [1, 2, 3, 4]) (Some 20))) (\<lambda>t. Insert t (Some [1, 2, 3, 5]) (Some 30)))
       (\<lambda>t. Delete t (Some [1, 2, 3, 4]))) (\<lambda>t. Delete t (Some [1, 2, 3, 5])))
       (\<lambda>t. Insert t (Some [1, 6]) (Some 40))) (\<lambda>t. Delete t (Some [1, 6])) = Some (True, ?t)"
    by code_simp
  moreover have "Get ?t [1, 2] = Some (Some 10)" "Delete ?t (Some [1, 2]) = None" by code_simp+
  ultimately show ?thesis by blast
qed

end
