(* ===== verification/Spec2Isabelle.thy ===== *)
theory Spec2Isabelle
  imports Stp_Bdm Stp_Ppm Stp_Pst Stp_Timers Stp_Ptx Stp_Prx Stp_Pim Stp_Prt_Run Stp_Tcm Stp_Server Stp_Rx Stp_System Ring_Buffer Patricia
begin

text \<open>
  A verification of the rapid spanning tree protocol of FlexSwitch,
  \<open>src/l2/stp/protocol\<close>, of its management server, \<open>src/l2/stp/server\<close> and
  \<open>src/l2/stp/rpc\<close>, of the state machine engine it runs on, \<open>src/utils/fsm\<close>, and of two
  containers the daemons share: the ring buffer \<open>src/utils/ringBuffer\<close> and the Patricia trie
  \<open>src/utils/patriciaDB\<close>.

  \<^bold>\<open>The program.\<close>  A bridge owns a list of ports.  Every port runs nine machines of
  802.1D-2004 (receive, timers, protocol migration, transmit, information, bridge
  detection, role transitions, topology change, state transition), the bridge runs
  one more (role selection).  Each machine is a goroutine that takes an event from
  its channel, looks the pair of state and event up in a rule table, runs the
  callback found there and then, in most machines, posts further events to itself
  until no condition of its current state holds.  Callbacks write the port and the
  bridge, send events to other machines, program the forwarding hardware and
  transmit frames.  A management server creates, changes and deletes bridges and ports
  in global tables, and a receiver goroutine per port validates captured frames and hands
  them to the receive machine.

  \<^bold>\<open>The model.\<close>  A handler is a function on a context \<open>Ctx\<close> (theory \<open>Stp_Port\<close>): the
  bridge, the port the machine belongs to, the other ports, the list of everything
  sent so far, and a flag for a run time panic.  One event is handled atomically, as
  the source assumes: ports and bridge are shared between goroutines without locks.
  Likewise the requests to the management server are handled one after the other.
  A loop that gives the same command to every registered hardware plugin is one output.
  A panic ends the process, so a context whose flag is set stands for that end only: the
  handler computes on, and what the context holds besides the flag has no meaning.
  Integers keep their width, so counters and sums wrap as in Go.  Deferred calls run
  when the function returns, last in, first out, with the arguments they had when
  they were deferred.  A loop that may not end takes fuel and returns \<open>None\<close> when it
  runs out; the theorems on these machines state the fuel that is enough, or that no
  fuel is.

  \<^bold>\<open>The theories.\<close>
  \<^item> \<open>Stp_Prelude\<close>: integer types of Go, shared lemmas on words, folds and views.
  \<^item> \<open>Fsm\<close> (\<open>utils/fsm/fsm.go\<close>, \<open>def.go\<close>): rule tables, machines, \<open>ProcessEvent\<close>, and the
    post processing recursion.  Locale \<open>machine_slot\<close>: a machine inside a larger state,
    interpreted for all ten machines.  Locale \<open>post_terminates\<close>: post processing with
    an invariant and a rank that every self-posted event lowers; it gives that the
    recursion returns, keeps the invariant and stops where no condition holds.
    Interpreted by protocol migration, state transition, transmit, information, role
    transitions and topology change.
  \<^item> \<open>Stp_Bridge\<close>, \<open>Stp_Bpdu\<close> (\<open>bridge.go\<close>, \<open>def.go\<close>, \<open>enum.go\<close>): identifiers, priority
    vectors, flags octet.  Comparison cascades are lexicographic orders; identifiers
    and flags round trip.
  \<^item> \<open>Stp_Events\<close>: the state and event constants of all machines.
  \<^item> \<open>Stp_Port\<close>, \<open>Stp_Notify\<close>, \<open>Stp_Tree\<close> (\<open>port.go\<close>, \<open>bridge.go\<close>): the port record, scans
    over all ports, the change notifications, and loops that write to every port.
    Locale \<open>port_table\<close>: lookup and update of ports, interpreted by the context.
  \<^item> \<open>Stp_Frames\<close> (\<open>tx.go\<close>, \<open>port.go\<close>): the content of transmitted frames and what a receiver
    reads from them.
  \<^item> \<open>Stp_Bdm\<close> (\<open>bdmfsm.go\<close>): edge ports.  \<open>Stp_Ppm\<close> (\<open>ppmfsm.go\<close>): protocol migration.
    \<open>Stp_Pst\<close> (\<open>pstfsm.go\<close>): learning and forwarding agree with the hardware.
    \<open>Stp_Timers\<close> (\<open>timers.go\<close>, \<open>ptifsm.go\<close>): one tick.  \<open>Stp_Ptx\<close> (\<open>ptxfsm.go\<close>): transmission.
    \<open>Stp_Prx\<close> (\<open>prxfsm.go\<close>): reception.  \<open>Stp_Pim\<close> (\<open>pimfsm.go\<close>): received information.
    \<open>Stp_Prt\<close>, \<open>Stp_Prt_Run\<close> (\<open>prtfsm.go\<close>): role transitions, definitions and runs.
    \<open>Stp_Tcm\<close> (\<open>tcmfsm.go\<close>): topology changes.  \<open>Stp_Prs\<close> (\<open>prsfsm.go\<close>): role selection.
  \<^item> \<open>Stp_Config\<close> (\<open>config.go\<close>, \<open>bridge.go\<close>, \<open>port.go\<close>): the global tables \<open>StpDb\<close>, the parameter
    checks and every entry point that creates, changes or deletes a bridge or a port; an
    entry point returns \<open>Ok\<close>, an error or \<open>Panic\<close> with the new tables.  The surroundings
    (plugins, capture handles, interface numbers) are the record \<open>Env\<close>.
  \<^item> \<open>Stp_Server\<close> (\<open>server/server.go\<close>, \<open>rpc/stphandler.go\<close>): requests, their conversion, the
    messages to the server and their dispatch.
  \<^item> \<open>Stp_Rx\<close> (\<open>rx.go\<close>, headers of \<open>tx.go\<close>): from a decoded packet to the channel of the receive
    machine.
  \<^item> \<open>Stp_Quiet\<close>: no machine but the state transition machine commands the hardware.
    \<open>Stp_System\<close>: all machines of a bridge in every interleaving.  Locale \<open>step_refinement\<close>: a
    transition system simulated by an automaton, interpreted by the system and the automaton
    of hardware states.
  \<^item> \<open>Op_Refinement\<close>: locale \<open>op_refinement\<close>, sequences of operations beside the same sequences
    of an abstract data type.  \<open>Ring_Buffer\<close> (\<open>utils/ringBuffer/ringBuffer.go\<close>) interprets it with
    a bounded queue, \<open>Patricia\<close> (\<open>utils/patriciaDB/patricia.go\<close>, \<open>children.go\<close>) with a map from byte
    strings to items.  In both a panic is the result \<open>None\<close>; a pointer to a trie node is the path
    to it, and the bytes of a key are immutable (every key has an array of its own).

  \<^bold>\<open>What is shown.\<close>  For every machine that posts events to itself: it returns from
  every event (with the fuel its rank bounds: 128 for role transitions, 31 for topology
  change) and where it rests, or, for a role transition machine whose two maximum ages
  differ and a transmit machine with a zero hello time, that it never returns.  Beyond
  termination: the hardware state agrees with the port flags; a guarded role transition
  machine requests neither learning nor forwarding in the disabled, alternate and backup
  states; an agreed root port reaches forwarding at once; received messages are classified by the order on priority
  vectors; the root the bridge selects is the minimum of all vectors it knows, and every
  port gets the role the standard prescribes and is told about it; topology changes
  reach every other active or learning port.  The management server keeps the tables
  well formed and does not panic, whatever the requests, as long as no single port is
  deleted; that deletion always panics, and updates of bridges and ports miss their
  target.  A received frame panics the process exactly when its destination address and
  its decoded layer disagree.  In every interleaving of the machines of a bridge the commands
  each port's hardware gets are a run of the automaton blocked, learning, forwarding.  The ring
  buffer is a bounded queue.  The trie is a map for insertions and lookups, and a visit lists it
  in order; deletion is correct for stored keys of a trie built by insertions, but the deletion of
  a longer key that is not stored removes a stored one, and after some deletions another panics.

  \<^bold>\<open>Not modelled.\<close>  Packet capture and decoding (a library; the fields of a decoded
  frame are the data types \<open>Pdu\<close> and \<open>Packet\<close>, constants of the library are the parameters
  \<open>Layers\<close> and \<open>RxLayers\<close>), logging, creation and termination of goroutines and channels,
  the state queries of the server and the replay of the object database at start: they
  are I/O.  Of the trie, \<open>VisitAndUpdate\<close>, whose visitor changes the trie, the printing, and the
  dense child list, which is never created.  The other daemons of the repository are programs of
  their own.
\<close>

end
